(* ===== verification/Prelude.thy ===== *)
theory Prelude
  imports Main "HOL-Library.Word" "HOL-Library.Char_ord" "HOL-Library.List_Lexorder"
begin

section \<open>Shared vocabulary: Go values, results, and lemma collections\<close>

text \<open>
  This theory holds what every component of the development shares:
  machine integers as words, Go slices and Go maps with their nil value, the outcome of a
  Go function that returns an error or panics, and the lemma collections that the component
  theories fill.
\<close>

subsection \<open>Machine integers\<close>

text \<open>
  Go's \<open>uint64\<close> and \<open>int64\<close> are 64-bit words whose addition wraps around.
  \<open>u64\<close> is read with \<open>unat\<close>, \<open>i64\<close> with \<open>sint\<close>.
\<close>

type_synonym u64 = "64 word"
type_synonym i64 = "64 word"

lemma unat_u64_plus_1:
  "unat (w :: u64) < 2 ^ 64 - 1 \<Longrightarrow> unat (w + 1) = unat w + 1"
  by (simp add: unat_word_ariths)

lemma u64_wraps: "(2 ^ 64 - 1 :: u64) + 1 = 0"
  by simp

lemma sint_i64_plus_1:
  assumes "sint (w :: i64) < 2 ^ 63 - 1"
  shows "sint (w + 1) = sint w + 1"
proof -
  have lo: "- (2 ^ 63) \<le> sint w"
    using sint_greater_eq [of w] by simp
  have "sint (w + 1) = signed_take_bit 63 (sint w + 1)"
    by (simp add: sint_word_ariths)
  also have "\<dots> = sint w + 1"
    using assms lo by (intro signed_take_bit_int_eq_self) auto
  finally show ?thesis .
qed

lemma i64_wraps: "sint ((2 ^ 63 - 1 :: i64) + 1) = - (2 ^ 63)"
  by simp

subsection \<open>Slices and maps with a nil value\<close>

text \<open>
  A Go slice is \<open>nil\<close> or a sequence; ranging over \<open>nil\<close> and taking its length behave as for
  the empty slice, but the two values differ (JSON encoding and \<open>reflect.DeepEqual\<close> tell
  them apart). A Go map is treated alike.
\<close>

type_synonym 'a slice = "'a list option"
type_synonym ('k, 'v) gomap = "('k \<rightharpoonup> 'v) option"

definition elems :: "'a slice \<Rightarrow> 'a list" where
  "elems s = (case s of None \<Rightarrow> [] | Some xs \<Rightarrow> xs)"

lemma elems_simps [simp]: "elems None = []" "elems (Some xs) = xs"
  by (simp_all add: elems_def)

definition gomap_lookup :: "('k, 'v) gomap \<Rightarrow> 'k \<Rightarrow> 'v option" where
  "gomap_lookup m k = (case m of None \<Rightarrow> None | Some f \<Rightarrow> f k)"

lemma gomap_lookup_simps [simp]: "gomap_lookup None k = None" "gomap_lookup (Some f) k = f k"
  by (simp_all add: gomap_lookup_def)

subsection \<open>Outcomes\<close>

text \<open>
  A Go function with results \<open>(T, error)\<close> returns a value, returns an error, or panics.
\<close>

datatype ('e, 'a) outcome = Ok (the_ok: 'a) | Err (the_err: 'e) | Panic string

fun is_ok :: "('e, 'a) outcome \<Rightarrow> bool" where
  "is_ok (Ok _) = True"
| "is_ok _ = False"

fun and_then :: "('e, 'a) outcome \<Rightarrow> ('a \<Rightarrow> ('e, 'b) outcome) \<Rightarrow> ('e, 'b) outcome" where
  "and_then (Ok x) f = f x"
| "and_then (Err e) f = Err e"
| "and_then (Panic m) f = Panic m"

lemma is_ok_iff: "is_ok r \<longleftrightarrow> (\<exists>x. r = Ok x)"
  by (cases r) auto

lemma and_then_eq_Ok [simp]: "and_then r f = Ok y \<longleftrightarrow> (\<exists>x. r = Ok x \<and> f x = Ok y)"
  by (cases r) auto

lemma and_then_Ok_right [simp]: "and_then r Ok = r"
  by (cases r) auto

lemma and_then_assoc: "and_then (and_then r f) g = and_then r (\<lambda>x. and_then (f x) g)"
  by (cases r) auto

subsection \<open>Collections of lemmas\<close>

named_theorems store_rules \<open>equations of the store's operations\<close>
named_theorems strategy_rules \<open>equations of the strategies' hooks\<close>
named_theorems registry_rules \<open>equations of the REST handlers' helper functions\<close>

subsection \<open>Maps and lists\<close>

lemma finite_dom_upd [simp]: "finite (dom m) \<Longrightarrow> finite (dom (m(k := v)))"
  by (cases v) auto

lemma map_upd_fresh_ran: "m k = None \<Longrightarrow> ran (m(k \<mapsto> v)) = insert v (ran m)"
  by simp


end
