(* ===== verification/MetaTypes.thy ===== *)
theory MetaTypes
  imports Prelude
begin

section \<open>Kubernetes metadata and API errors\<close>

text \<open>
  The data of \<open>k8s.io/apimachinery\<close> that the program embeds in its own types, with the
  fields its generated OpenAPI document (\<open>pkg/generated/openapi\<close>) lists for them, and the
  errors its code constructs. Timestamps are instants counted from Go's zero time.
\<close>

subsection \<open>Metadata\<close>

type_synonym go_time = int

record TypeMeta =
  tm_Kind :: string
  tm_APIVersion :: string

record OwnerReference =
  or_APIVersion :: string
  or_Kind :: string
  or_Name :: string
  or_UID :: string
  or_Controller :: "bool option"
  or_BlockOwnerDeletion :: "bool option"

record ManagedFieldsEntry =
  mf_Manager :: string
  mf_Operation :: string
  mf_APIVersion :: string
  mf_Time :: "go_time option"
  mf_FieldsType :: string
  mf_FieldsV1 :: "string option"
  mf_Subresource :: string

record ObjectMeta =
  om_Name :: string
  om_GenerateName :: string
  om_Namespace :: string
  om_SelfLink :: string
  om_UID :: string
  om_ResourceVersion :: string
  om_Generation :: i64
  om_CreationTimestamp :: go_time
  om_DeletionTimestamp :: "go_time option"
  om_DeletionGracePeriodSeconds :: "i64 option"
  om_Labels :: "(string, string) gomap"
  om_Annotations :: "(string, string) gomap"
  om_OwnerReferences :: "OwnerReference slice"
  om_Finalizers :: "string slice"
  om_ManagedFields :: "ManagedFieldsEntry slice"

definition zero_TypeMeta :: TypeMeta where
  "zero_TypeMeta = \<lparr>tm_Kind = [], tm_APIVersion = []\<rparr>"

definition zero_ObjectMeta :: ObjectMeta where
  "zero_ObjectMeta =
     \<lparr>om_Name = [], om_GenerateName = [], om_Namespace = [], om_SelfLink = [], om_UID = [],
      om_ResourceVersion = [], om_Generation = 0, om_CreationTimestamp = 0,
      om_DeletionTimestamp = None, om_DeletionGracePeriodSeconds = None, om_Labels = None,
      om_Annotations = None, om_OwnerReferences = None, om_Finalizers = None,
      om_ManagedFields = None\<rparr>"

record ShardInfo =
  si_Selector :: string

record ListMeta =
  lm_SelfLink :: string
  lm_ResourceVersion :: string
  lm_Continue :: string
  lm_RemainingItemCount :: "i64 option"
  lm_ShardInfo :: "ShardInfo option"

definition zero_ListMeta :: ListMeta where
  "zero_ListMeta =
     \<lparr>lm_SelfLink = [], lm_ResourceVersion = [], lm_Continue = [],
      lm_RemainingItemCount = None, lm_ShardInfo = None\<rparr>"

record Condition =
  c_Type :: string
  c_Status :: string
  c_ObservedGeneration :: i64
  c_LastTransitionTime :: go_time
  c_Reason :: string
  c_Message :: string

subsection \<open>Request options\<close>

record Preconditions =
  pre_UID :: "string option"
  pre_ResourceVersion :: "string option"

record GetOptions =
  go_ResourceVersion :: string

record CreateOptions =
  co_DryRun :: "string slice"
  co_FieldManager :: string
  co_FieldValidation :: string

record UpdateOptions =
  uo_DryRun :: "string slice"
  uo_FieldManager :: string
  uo_FieldValidation :: string

record DeleteOptions =
  do_GracePeriodSeconds :: "i64 option"
  do_Preconditions :: "Preconditions option"
  do_OrphanDependents :: "bool option"
  do_PropagationPolicy :: "string option"
  do_DryRun :: "string slice"
  do_IgnoreStoreReadErrorWithClusterBreakingPotential :: "bool option"

subsection \<open>Names of API resources\<close>

record GroupResource =
  gr_Group :: string
  gr_Resource :: string

record GroupKind =
  gk_Group :: string
  gk_Kind :: string

record GroupVersion =
  gv_Group :: string
  gv_Version :: string

record GroupVersionKind =
  gvk_Group :: string
  gvk_Version :: string
  gvk_Kind :: string

subsection \<open>Errors\<close>

text \<open>
  A formatted message is kept as its format string with its arguments: the text is a
  function of the two, and the code never inspects it.
\<close>

datatype fmt_arg = FStr string | FInt i64 | FGR GroupResource

datatype message = Sprintf string "fmt_arg list"

text \<open>
  The typed errors the source constructs, plain \<open>fmt.Errorf\<close> errors with and without
  \<open>%w\<close>, the error of \<open>meta.Accessor\<close>, and \<open>APIStatus reason text\<close> for the errors that
  libraries and admission callbacks return; \<open>Aggregate\<close> is the error of several errors that
  \<open>utilerrors.NewAggregate\<close> makes.
\<close>

datatype go_error =
    NotFound GroupResource string
  | AlreadyExists GroupResource string
  | Conflict GroupResource string go_error
  | BadRequest message
  | InternalError go_error
  | MethodNotSupported GroupResource string
  | Errorf message
  | ErrorfWrap string go_error
  | NotAnObject
  | APIStatus string string
  | Aggregate "go_error list"

text \<open>\<open>apierrors.IsNotFound\<close>: the reason of the error, looking through wrapping.\<close>

fun IsNotFound :: "go_error \<Rightarrow> bool" where
  "IsNotFound (NotFound _ _) = True"
| "IsNotFound (ErrorfWrap _ e) = IsNotFound e"
| "IsNotFound (APIStatus reason _) = (reason = ''NotFound'')"
| "IsNotFound _ = False"

end
