(* ===== verification/TaskTypes.thy ===== *)
theory TaskTypes
  imports MetaTypes
begin

section \<open>The Task API: \<open>pkg/apis/tasks/v1alpha1\<close>\<close>

text \<open>
  The types of \<open>types.go\<close>, the group and version of \<open>register.go\<close>, and the values of the
  interface \<open>runtime.Object\<close> that flow through store and registry: Tasks, TaskLists, and
  objects of other dynamic types, of which the code only sees the type's name and, if
  they embed it, the object metadata.
\<close>

subsection \<open>\<open>types.go\<close>\<close>

type_synonym TaskPhase = string

definition TaskPhasePending :: TaskPhase where "TaskPhasePending = ''Pending''"
definition TaskPhaseRunning :: TaskPhase where "TaskPhaseRunning = ''Running''"
definition TaskPhaseSucceeded :: TaskPhase where "TaskPhaseSucceeded = ''Succeeded''"
definition TaskPhaseFailed :: TaskPhase where "TaskPhaseFailed = ''Failed''"

definition TaskConditionReady :: string where "TaskConditionReady = ''Ready''"
definition TaskConditionFinished :: string where "TaskConditionFinished = ''Finished''"

record TaskSpec =
  ts_Image :: string
  ts_Command :: "string slice"
  ts_Args :: "string slice"

record TaskStatus =
  st_Phase :: TaskPhase
  st_Conditions :: "Condition slice"
  st_ObservedGeneration :: i64

record Task =
  t_TypeMeta :: TypeMeta
  t_ObjectMeta :: ObjectMeta
  t_Spec :: TaskSpec
  t_Status :: TaskStatus

record TaskList =
  tl_TypeMeta :: TypeMeta
  tl_ListMeta :: ListMeta
  tl_Items :: "Task slice"

text \<open>Go's zero values, written \<open>TaskStatus{}\<close> and \<open>&Task{}\<close> in the source.\<close>

definition zero_TaskSpec :: TaskSpec where
  "zero_TaskSpec = \<lparr>ts_Image = [], ts_Command = None, ts_Args = None\<rparr>"

definition zero_TaskStatus :: TaskStatus where
  "zero_TaskStatus = \<lparr>st_Phase = [], st_Conditions = None, st_ObservedGeneration = 0\<rparr>"

definition zero_Task :: Task where
  "zero_Task = \<lparr>t_TypeMeta = zero_TypeMeta, t_ObjectMeta = zero_ObjectMeta,
                t_Spec = zero_TaskSpec, t_Status = zero_TaskStatus\<rparr>"

definition zero_TaskList :: TaskList where
  "zero_TaskList = \<lparr>tl_TypeMeta = zero_TypeMeta, tl_ListMeta = zero_ListMeta, tl_Items = None\<rparr>"

subsection \<open>\<open>register.go\<close>\<close>

definition GroupName :: string where
  "GroupName = ''tasks.example.com''"

definition SchemeGroupVersion :: GroupVersion where
  "SchemeGroupVersion = \<lparr>gv_Group = GroupName, gv_Version = ''v1alpha1''\<rparr>"

definition Resource :: "string \<Rightarrow> GroupResource" where
  "Resource resource = \<lparr>gr_Group = gv_Group SchemeGroupVersion, gr_Resource = resource\<rparr>"

definition Kind :: "string \<Rightarrow> GroupKind" where
  "Kind kind = \<lparr>gk_Group = gv_Group SchemeGroupVersion, gk_Kind = kind\<rparr>"

subsection \<open>Objects\<close>

text \<open>
  \<open>ForeignObj t m\<close> is an object of another dynamic type \<open>t\<close> (as \<open>%T\<close> prints it), with
  the metadata that \<open>meta.Accessor\<close> would give access to, if any.
\<close>

datatype runtime_object =
    TaskObj Task
  | TaskListObj TaskList
  | ForeignObj string "ObjectMeta option"

fun dynamic_type :: "runtime_object \<Rightarrow> string" where
  "dynamic_type (TaskObj _) = ''*v1alpha1.Task''"
| "dynamic_type (TaskListObj _) = ''*v1alpha1.TaskList''"
| "dynamic_type (ForeignObj t _) = t"

text \<open>
  \<open>meta.Accessor\<close> succeeds on objects that have the methods of \<open>metav1.Object\<close>: a Task gets
  them from the \<open>ObjectMeta\<close> it embeds, a TaskList embeds \<open>ListMeta\<close> and has none of them.
\<close>

fun object_meta :: "runtime_object \<Rightarrow> ObjectMeta option" where
  "object_meta (TaskObj t) = Some (t_ObjectMeta t)"
| "object_meta (TaskListObj _) = None"
| "object_meta (ForeignObj _ m) = m"

definition Accessor :: "runtime_object \<Rightarrow> (go_error, ObjectMeta) outcome" where
  "Accessor obj = (case object_meta obj of None \<Rightarrow> Err NotAnObject | Some m \<Rightarrow> Ok m)"

text \<open>Writing through an accessor: \<open>set_object_meta\<close> is only called on objects that have one.\<close>

fun set_object_meta :: "ObjectMeta \<Rightarrow> runtime_object \<Rightarrow> runtime_object" where
  "set_object_meta m (TaskObj t) = TaskObj (t\<lparr>t_ObjectMeta := m\<rparr>)"
| "set_object_meta m (TaskListObj l) = TaskListObj l"
| "set_object_meta m (ForeignObj t m0) = ForeignObj t (case m0 of None \<Rightarrow> None | Some _ \<Rightarrow> Some m)"

text \<open>The type assertion \<open>obj.(*v1alpha1.Task)\<close>, in its two-valued form.\<close>

fun as_Task :: "runtime_object \<Rightarrow> Task option" where
  "as_Task (TaskObj t) = Some t"
| "as_Task _ = None"

text \<open>The one-valued form panics on any other dynamic type.\<close>

definition assert_Task :: "runtime_object \<Rightarrow> ('e, Task) outcome" where
  "assert_Task obj =
     (case as_Task obj of Some t \<Rightarrow> Ok t | None \<Rightarrow> Panic (''interface conversion: '' @ dynamic_type obj))"

lemma Accessor_simps [simp]:
  "Accessor (TaskObj t) = Ok (t_ObjectMeta t)"
  "Accessor (TaskListObj l) = Err NotAnObject"
  "Accessor obj \<noteq> Panic p"
  by (simp_all add: Accessor_def split: option.split)

lemma Accessor_Ok_iff: "Accessor obj = Ok m \<longleftrightarrow> object_meta obj = Some m"
  by (simp add: Accessor_def split: option.split)

lemma Accessor_Err_iff: "Accessor obj = Err e \<longleftrightarrow> object_meta obj = None \<and> e = NotAnObject"
  by (auto simp add: Accessor_def split: option.split)

lemma object_meta_set [simp]:
  "object_meta (set_object_meta m obj) = map_option (\<lambda>_. m) (object_meta obj)"
  by (cases obj) (auto split: option.split)

lemma as_Task_Some_iff [simp]: "as_Task obj = Some t \<longleftrightarrow> obj = TaskObj t"
  by (cases obj) auto

lemma assert_Task_simps [simp]:
  "assert_Task (TaskObj t) = Ok t"
  "assert_Task obj = Ok t \<longleftrightarrow> obj = TaskObj t"
  "assert_Task obj \<noteq> Err e"
  by (cases obj; simp add: assert_Task_def)+

lemma set_object_meta_self [simp]: "object_meta obj = Some m \<Longrightarrow> set_object_meta m obj = obj"
  by (cases obj) auto

lemma set_object_meta_twice [simp]:
  "set_object_meta m (set_object_meta m' obj) = set_object_meta m obj"
  by (cases obj) (auto split: option.split)

lemma dynamic_type_set [simp]: "dynamic_type (set_object_meta m obj) = dynamic_type obj"
  by (cases obj) auto

end
