(* ===== verification/Strconv.thy ===== *)
theory Strconv
  imports Prelude
begin

section \<open>Resource versions as strings: \<open>strconv\<close> and \<open>helpers.go\<close>\<close>

text \<open>
  The store counts writes in a \<open>uint64\<close> and stamps the count on objects as a decimal
  string; the registry's list operation parses the stamps back. Modelled are the two
  \<open>strconv\<close> functions the source calls (base 10, 64 bits), with the cutoff tests that
  the library makes on machine words, and the two helpers of
  \<open>pkg/registry/tasks/task/helpers.go\<close>.
\<close>

subsection \<open>Formatting\<close>

definition digit_char :: "nat \<Rightarrow> char" where
  "digit_char d = char_of (48 + d)"

fun format_nat :: "nat \<Rightarrow> string" where
  "format_nat n =
     (if n < 10 then [digit_char n] else format_nat (n div 10) @ [digit_char (n mod 10)])"

declare format_nat.simps [simp del]

definition FormatUint :: "u64 \<Rightarrow> string" where
  "FormatUint w = format_nat (unat w)"

subsection \<open>Parsing\<close>

datatype num_error = ErrSyntax | ErrRange

definition is_digit :: "char \<Rightarrow> bool" where
  "is_digit c \<longleftrightarrow> 48 \<le> (of_char c :: nat) \<and> (of_char c :: nat) \<le> 57"

definition digit_val :: "char \<Rightarrow> nat" where
  "digit_val c = of_char c - 48"

text \<open>
  The loop of \<open>strconv.ParseUint(s, 10, 64)\<close>: \<open>cutoff\<close> is the least number whose tenfold
  exceeds the largest \<open>uint64\<close>, and the sum is tested for wrap-around after the fact.
\<close>

definition cutoff :: u64 where
  "cutoff = 1844674407370955162"

fun ParseUint_loop :: "string \<Rightarrow> u64 \<Rightarrow> (num_error, u64) outcome" where
  "ParseUint_loop [] n = Ok n"
| "ParseUint_loop (c # cs) n =
     (if \<not> is_digit c then Err ErrSyntax
      else if cutoff \<le> n then Err ErrRange
      else let m = n * 10; n1 = m + of_nat (digit_val c)
           in if n1 < m then Err ErrRange else ParseUint_loop cs n1)"

definition ParseUint :: "string \<Rightarrow> (num_error, u64) outcome" where
  "ParseUint s = (if s = [] then Err ErrSyntax else ParseUint_loop s 0)"

subsection \<open>The helpers of the registry package\<close>

definition parseRVOrZero :: "string \<Rightarrow> u64" where
  "parseRVOrZero s = (case ParseUint s of Ok v \<Rightarrow> v | _ \<Rightarrow> 0)"

definition formatRV :: "u64 \<Rightarrow> string" where
  "formatRV rv = FormatUint rv"

subsection \<open>The numeric value of a decimal string\<close>

definition dec_value :: "nat \<Rightarrow> string \<Rightarrow> nat" where
  "dec_value n s = foldl (\<lambda>a c. a * 10 + digit_val c) n s"

lemma dec_value_simps [simp]:
  "dec_value n [] = n"
  "dec_value n (c # cs) = dec_value (n * 10 + digit_val c) cs"
  "dec_value n (xs @ ys) = dec_value (dec_value n xs) ys"
  by (simp_all add: dec_value_def)

lemma dec_value_ge: "n \<le> dec_value n s"
proof (induction s arbitrary: n)
  case (Cons c cs)
  have "n \<le> n * 10 + digit_val c" by simp
  also have "\<dots> \<le> dec_value (n * 10 + digit_val c) cs" by (rule Cons.IH)
  finally show ?case by simp
qed simp

lemma digit_char_props:
  assumes "d < 10"
  shows "is_digit (digit_char d)" "digit_val (digit_char d) = d"
  using assms by (simp_all add: is_digit_def digit_val_def digit_char_def)

lemma is_digit_val: "is_digit c \<Longrightarrow> digit_val c < 10"
  unfolding is_digit_def digit_val_def by linarith

lemma format_nat_digits: "list_all is_digit (format_nat n)"
  by (induction n rule: format_nat.induct)
    (subst format_nat.simps, auto simp: digit_char_props)

lemma format_nat_value: "dec_value 0 (format_nat n) = n"
  by (induction n rule: format_nat.induct)
    (subst format_nat.simps, auto simp: digit_char_props)

lemma format_nat_nonempty: "format_nat n \<noteq> []"
  by (subst format_nat.simps) simp

lemma format_nat_inj: "format_nat m = format_nat n \<longleftrightarrow> m = n"
  by (metis format_nat_value)

subsection \<open>The word-level loop computes the numeric value\<close>

lemma cutoff_unat: "unat cutoff = 1844674407370955162"
  by (simp add: cutoff_def)

lemma loop_step_value:
  assumes "is_digit c" "n < cutoff"
  shows "n * 10 + of_nat (digit_val c) < n * 10
           \<longleftrightarrow> 2 ^ 64 \<le> unat n * 10 + digit_val c"
    and "unat n * 10 + digit_val c < 2 ^ 64
           \<Longrightarrow> unat (n * 10 + of_nat (digit_val c)) = unat n * 10 + digit_val c"
proof -
  have d: "digit_val c < 10" using assms(1) by (rule is_digit_val)
  have n: "unat n < 1844674407370955162"
    using assms(2) by (simp add: word_less_nat_alt cutoff_unat)
  have m: "unat (n * 10) = unat n * 10"
    using n by (simp add: unat_word_ariths)
  have dv: "unat (of_nat (digit_val c) :: u64) = digit_val c"
    using d by (simp add: unat_of_nat)
  have s: "unat (n * 10 + of_nat (digit_val c)) = (unat n * 10 + digit_val c) mod 2 ^ 64"
    using n by (simp add: unat_word_ariths m dv)
  show "n * 10 + of_nat (digit_val c) < n * 10 \<longleftrightarrow> 2 ^ 64 \<le> unat n * 10 + digit_val c"
    using n d by (simp add: word_less_nat_alt s m mod_if) linarith
  show "unat n * 10 + digit_val c < 2 ^ 64
           \<Longrightarrow> unat (n * 10 + of_nat (digit_val c)) = unat n * 10 + digit_val c"
    by (simp add: s)
qed

lemma ParseUint_loop_Ok:
  "list_all is_digit s \<Longrightarrow> dec_value (unat n) s < 2 ^ 64
     \<Longrightarrow> ParseUint_loop s n = Ok (of_nat (dec_value (unat n) s))"
proof (induction s arbitrary: n)
  case (Cons c cs)
  let ?v = "unat n * 10 + digit_val c"
  have c: "is_digit c" using Cons.prems(1) by simp
  have v: "?v < 2 ^ 64"
    using Cons.prems(2) dec_value_ge [of ?v cs] by simp
  then have n: "n < cutoff" by (simp add: word_less_nat_alt cutoff_unat)
  note step = loop_step_value [OF c n]
  have "unat (n * 10 + of_nat (digit_val c)) = ?v" using step(2) v by simp
  then show ?case
    using Cons c n v step(1) by (simp add: Let_def not_le)
qed simp

lemma ParseUint_loop_OkD:
  "ParseUint_loop s n = Ok v
     \<Longrightarrow> list_all is_digit s \<and> dec_value (unat n) s < 2 ^ 64 \<and> unat v = dec_value (unat n) s"
proof (induction s arbitrary: n)
  case (Cons c cs)
  from Cons.prems have c: "is_digit c" and n: "n < cutoff"
    and nw: "\<not> n * 10 + of_nat (digit_val c) < n * 10"
    and rest: "ParseUint_loop cs (n * 10 + of_nat (digit_val c)) = Ok v"
    by (auto simp: Let_def not_le split: if_splits)
  note step = loop_step_value [OF c n]
  from nw step(1) have "unat n * 10 + digit_val c < 2 ^ 64" by simp
  then have "unat (n * 10 + of_nat (digit_val c)) = unat n * 10 + digit_val c"
    by (rule step(2))
  then show ?case using Cons.IH [OF rest] c by simp
next
  case Nil
  then show ?case using unsigned_less [of n] by simp
qed

subsection \<open>Parsing undoes formatting\<close>

lemma ParseUint_FormatUint [simp]: "ParseUint (FormatUint w) = Ok w"
proof -
  have "dec_value (unat (0 :: u64)) (format_nat (unat w)) = unat w"
    by (simp add: format_nat_value)
  then show ?thesis
    using ParseUint_loop_Ok [of "format_nat (unat w)" 0] format_nat_digits [of "unat w"]
      unsigned_less [of w]
    by (simp add: ParseUint_def FormatUint_def format_nat_nonempty)
qed

lemma parseRVOrZero_FormatUint [simp]: "parseRVOrZero (FormatUint w) = w"
  by (simp add: parseRVOrZero_def)

lemma FormatUint_inject [simp]: "FormatUint v = FormatUint w \<longleftrightarrow> v = w"
  by (metis parseRVOrZero_FormatUint)

lemma FormatUint_nonempty [simp]: "FormatUint w \<noteq> []"
  by (simp add: FormatUint_def format_nat_nonempty)

text \<open>Evaluation on words that are literals.\<close>

lemma format_nat_small [simp]: "n < 10 \<Longrightarrow> format_nat n = [digit_char n]"
  by (subst format_nat.simps) simp

lemma format_nat_large: "10 \<le> n \<Longrightarrow> format_nat n = format_nat (n div 10) @ [digit_char (n mod 10)]"
  by (subst format_nat.simps) simp

subsection \<open>Properties\<close>

text \<open>C38. A resource version survives the trip through its string form: for every 64-bit
  counter value, parsing what the store stamps gives the value back, so the registry's
  fallback value 0 stands for no stamp but that of 0, and distinct counters have distinct stamps.\<close>

theorem resource_version_roundtrip:
  "ParseUint (formatRV rv) = Ok rv \<and> parseRVOrZero (formatRV rv) = rv
     \<and> (formatRV rv = formatRV rv' \<longleftrightarrow> rv = rv')"
  by (simp add: formatRV_def)

text \<open>What \<open>ParseUint\<close> accepts, on arbitrary input: exactly the non-empty strings of
  decimal digits whose value fits 64 bits, and the result is that value. So the word-level
  cutoff and wrap-around tests of the loop neither accept an overflowing number nor reject a
  representable one, and \<open>parseRVOrZero\<close> maps everything else to 0.\<close>

lemma ParseUint_accepts_exactly:
  "ParseUint s = Ok v \<longleftrightarrow>
     s \<noteq> [] \<and> list_all is_digit s \<and> dec_value 0 s < 2 ^ 64 \<and> v = of_nat (dec_value 0 s)"
proof
  assume "ParseUint s = Ok v"
  then have "s \<noteq> []" and "ParseUint_loop s 0 = Ok v"
    by (auto simp: ParseUint_def split: if_splits)
  moreover have "of_nat (unat v) = v" by simp
  ultimately show "s \<noteq> [] \<and> list_all is_digit s \<and> dec_value 0 s < 2 ^ 64
      \<and> v = of_nat (dec_value 0 s)"
    using ParseUint_loop_OkD [of s 0 v] by auto
next
  assume "s \<noteq> [] \<and> list_all is_digit s \<and> dec_value 0 s < 2 ^ 64 \<and> v = of_nat (dec_value 0 s)"
  with ParseUint_loop_Ok [of s 0] show "ParseUint s = Ok v"
    by (simp add: ParseUint_def)
qed

end
