(* ===== verification/Versioned.thy ===== *)
theory Versioned
  imports Prelude
begin

section \<open>Interface: a store whose objects carry the version of their last write\<close>

text \<open>
  Several parts of the program drive the same store: its own methods, a sequence of REST
  requests, and requests whose store calls interleave. What their users rely on is one
  contract: a write advances a counter by one and stamps the new count on the object it
  writes, and nothing else changes. The locale states it for an arbitrary step relation; its
  lemmas hold for runs of any length that do not exhaust the counter.
\<close>

text \<open>Every stored version has been issued, and no two keys hold the same one.\<close>

definition version_ok :: "('k \<Rightarrow> 'o option) \<Rightarrow> nat \<Rightarrow> ('o \<Rightarrow> nat) \<Rightarrow> bool" where
  "version_ok m n version \<longleftrightarrow>
     (\<forall>k obj. m k = Some obj \<longrightarrow> 0 < version obj \<and> version obj \<le> n) \<and>
     (\<forall>k1 k2 o1 o2. m k1 = Some o1 \<longrightarrow> m k2 = Some o2 \<longrightarrow> version o1 = version o2 \<longrightarrow> k1 = k2)"

lemma version_ok_empty [simp]: "version_ok Map.empty n version"
  by (simp add: version_ok_def)

lemma version_ok_bounds:
  "version_ok m n version \<Longrightarrow> m k = Some obj \<Longrightarrow> 0 < version obj \<and> version obj \<le> n"
  by (simp add: version_ok_def)

lemma version_ok_inj:
  "version_ok m n version \<Longrightarrow> m k1 = Some o1 \<Longrightarrow> m k2 = Some o2
     \<Longrightarrow> version o1 = version o2 \<Longrightarrow> k1 = k2"
  unfolding version_ok_def by blast

locale versioned_store =
  fixes lookup :: "'s \<Rightarrow> 'k \<Rightarrow> 'o option"
    and counter :: "'s \<Rightarrow> nat"
    and version :: "'o \<Rightarrow> nat"
    and bound :: nat
    and step :: "'s \<Rightarrow> 's \<Rightarrow> bool"
  assumes step_counter:
      "step s s' \<Longrightarrow> counter s < bound \<Longrightarrow>
         counter s' = counter s \<and> lookup s' = lookup s \<or> counter s' = Suc (counter s)"
    and step_lookup:
      "step s s' \<Longrightarrow> counter s < bound \<Longrightarrow> lookup s' k = Some obj' \<Longrightarrow>
         lookup s k = Some obj'
         \<or> counter s' = Suc (counter s) \<and> version obj' = Suc (counter s)
           \<and> (\<forall>k'. k' \<noteq> k \<longrightarrow> lookup s' k' = lookup s k')"
begin

lemma step_version_ok:
  assumes st: "step s s'" and b: "counter s < bound"
    and ok: "version_ok (lookup s) (counter s) version"
  shows "version_ok (lookup s') (counter s') version"
proof -
  have le: "counter s \<le> counter s'" using step_counter [OF st b] by auto
  have bounds: "0 < version obj \<and> version obj \<le> counter s'" if "lookup s' k = Some obj" for k obj
    using step_lookup [OF st b that] version_ok_bounds [OF ok] le by fastforce
  have "k1 = k2"
    if l1: "lookup s' k1 = Some o1" and l2: "lookup s' k2 = Some o2"
      and v: "version o1 = version o2" for k1 k2 o1 o2
  proof (rule ccontr)
    assume ne: "k1 \<noteq> k2"
    have old: "lookup s k = Some obj"
      if "lookup s' k = Some obj" "lookup s' k' = Some obj'" "k \<noteq> k'" "version obj = version obj'"
      for k k' obj obj'
    proof (rule ccontr)
      assume "lookup s k \<noteq> Some obj"
      with step_lookup [OF st b that(1)] that(3)
      have "version obj = Suc (counter s)" "lookup s k' = lookup s' k'" by auto
      with that(2,4) version_ok_bounds [OF ok, of k' obj'] show False by simp
    qed
    from old [OF l1 l2 ne v] old [OF l2 l1 _ v [symmetric]] ne
    have "lookup s k1 = Some o1" "lookup s k2 = Some o2" by auto
    with version_ok_inj [OF ok _ _ v] ne show False by blast
  qed
  with bounds show ?thesis unfolding version_ok_def by blast
qed

lemma steps_counter:
  "(step ^^ n) s s' \<Longrightarrow> counter s + n \<le> bound \<Longrightarrow>
     counter s \<le> counter s' \<and> counter s' \<le> counter s + n"
proof (induction n arbitrary: s')
  case (Suc n)
  then obtain t where t: "(step ^^ n) s t" "step t s'" by (auto elim: relpowp_Suc_E)
  with Suc have "counter s \<le> counter t" "counter t \<le> counter s + n" by auto
  with step_counter [OF t(2)] Suc.prems(2) show ?case by fastforce
qed simp

lemma steps_version_ok:
  "(step ^^ n) s s' \<Longrightarrow> counter s + n \<le> bound
     \<Longrightarrow> version_ok (lookup s) (counter s) version
     \<Longrightarrow> version_ok (lookup s') (counter s') version"
proof (induction n arbitrary: s')
  case (Suc n)
  then obtain t where t: "(step ^^ n) s t" "step t s'" by (auto elim: relpowp_Suc_E)
  with Suc have "version_ok (lookup t) (counter t) version" by simp
  moreover have "counter t < bound"
    using steps_counter [OF t(1)] Suc.prems(2) by simp
  ultimately show ?case using step_version_ok [OF t(2)] by blast
qed simp

text \<open>An object found later was there before, or is newer than everything before.\<close>

lemma steps_lookup:
  "(step ^^ n) s s' \<Longrightarrow> counter s + n \<le> bound \<Longrightarrow> lookup s' k = Some obj'
     \<Longrightarrow> lookup s k = Some obj' \<or> counter s < version obj'"
proof (induction n arbitrary: s' obj')
  case (Suc n)
  then obtain t where t: "(step ^^ n) s t" "step t s'" by (auto elim: relpowp_Suc_E)
  have ct: "counter s \<le> counter t" "counter t < bound"
    using steps_counter [OF t(1)] Suc.prems(2) by auto
  from step_lookup [OF t(2) ct(2) Suc.prems(3)]
  consider "lookup t k = Some obj'" | "version obj' = Suc (counter t)" by blast
  then show ?case
  proof cases
    case 1
    with Suc.IH [OF t(1) _ 1] Suc.prems(2) show ?thesis by simp
  next
    case 2
    with ct(1) show ?thesis by simp
  qed
qed simp

text \<open>A version names one object at one key, for good.\<close>

lemma version_identifies:
  assumes "(step ^^ n) s s'" "counter s + n \<le> bound" "version_ok (lookup s) (counter s) version"
    and "lookup s k = Some obj" "lookup s' k' = Some obj'" "version obj' = version obj"
  shows "k' = k \<and> obj' = obj"
proof -
  have "version obj \<le> counter s" using version_ok_bounds [OF assms(3,4)] by simp
  with steps_lookup [OF assms(1,2,5)] assms(6) have "lookup s k' = Some obj'" by auto
  with version_ok_inj [OF assms(3) _ assms(4) assms(6)] assms(4) show ?thesis by auto
qed

text \<open>While the counter stands still, so do the contents.\<close>

lemma steps_quiescent:
  "(step ^^ n) s s' \<Longrightarrow> counter s + n \<le> bound \<Longrightarrow> counter s' = counter s \<Longrightarrow> lookup s' = lookup s"
proof (induction n arbitrary: s')
  case (Suc n)
  then obtain t where t: "(step ^^ n) s t" "step t s'" by (auto elim: relpowp_Suc_E)
  have ct: "counter s \<le> counter t" "counter t < bound"
    using steps_counter [OF t(1)] Suc.prems(2) by auto
  from step_counter [OF t(2) ct(2)] ct(1) Suc.prems(3)
  have "counter t = counter s" "lookup s' = lookup t" by auto
  with Suc.IH [OF t(1)] Suc.prems(2) show ?case by simp
next
  case 0
  from "0.prems"(1) have "s' = s" by simp
  then show ?case by (rule arg_cong)
qed

end

end
