(* ===== verification/Store.thy ===== *)
theory Store
  imports TaskTypes Strconv Versioned "HOL-Library.Multiset"
begin

section \<open>The in-memory store: \<open>pkg/storage/inmemory/store.go\<close>\<close>

text \<open>
  A store is a map from keys to objects with a counter of writes. Every exported method
  runs under the store's lock, so here each is one function from the state to its results
  and the next state. Objects are values in this theory, so the deep copies on the way in and out
  are identities. Go ranges over a map in an order of the runtime's choice: \<open>Store_List\<close>
  takes the order of the keys as an argument.
\<close>

subsection \<open>State\<close>

datatype Key = Key (k_Namespace: string) (k_Name: string)

definition Key_String :: "Key \<Rightarrow> string" where
  "Key_String k = (if k_Namespace k = [] then k_Name k else k_Namespace k @ ''/'' @ k_Name k)"

instantiation Key :: linorder
begin

definition less_eq_Key :: "Key \<Rightarrow> Key \<Rightarrow> bool" where
  "less_eq_Key a b \<longleftrightarrow> k_Namespace a < k_Namespace b
     \<or> k_Namespace a = k_Namespace b \<and> k_Name a \<le> k_Name b"

definition less_Key :: "Key \<Rightarrow> Key \<Rightarrow> bool" where
  "less_Key a b \<longleftrightarrow> k_Namespace a < k_Namespace b
     \<or> k_Namespace a = k_Namespace b \<and> k_Name a < k_Name b"

instance
  by standard (auto simp: less_eq_Key_def less_Key_def intro: Key.expand)

end

record store =
  s_items :: "Key \<rightharpoonup> runtime_object"
  s_rv :: u64
  s_gr :: GroupResource

definition Store_New :: "GroupResource \<Rightarrow> store" where
  "Store_New gr = \<lparr>s_items = Map.empty, s_rv = 0, s_gr = gr\<rparr>"

subsection \<open>Operations\<close>

definition SetResourceVersion :: "string \<Rightarrow> runtime_object \<Rightarrow> runtime_object" where
  "SetResourceVersion v obj =
     (case object_meta obj of
        None \<Rightarrow> obj
      | Some m \<Rightarrow> set_object_meta (m\<lparr>om_ResourceVersion := v\<rparr>) obj)"

text \<open>The counter is advanced before the accessor is asked for, and stays so on an error.\<close>

definition bumpAndStampLocked ::
    "store \<Rightarrow> runtime_object \<Rightarrow> (go_error, runtime_object) outcome \<times> store" where
  "bumpAndStampLocked s obj =
     (let s' = s\<lparr>s_rv := s_rv s + 1\<rparr>
      in case Accessor obj of
           Err e \<Rightarrow> (Err (ErrorfWrap ''inmemory: cannot stamp resourceVersion: '' e), s')
         | Panic p \<Rightarrow> (Panic p, s')
         | Ok _ \<Rightarrow> (Ok (SetResourceVersion (FormatUint (s_rv s')) obj), s'))"

definition Store_Create ::
    "Key \<Rightarrow> runtime_object \<Rightarrow> store \<Rightarrow> (go_error, runtime_object) outcome \<times> store" where
  "Store_Create key obj s =
     (if s_items s key \<noteq> None then (Err (AlreadyExists (s_gr s) (k_Name key)), s)
      else case bumpAndStampLocked s obj of
             (Ok stored, s') \<Rightarrow> (Ok stored, s'\<lparr>s_items := (s_items s')(key \<mapsto> stored)\<rparr>)
           | (r, s') \<Rightarrow> (r, s'))"

definition Store_Get :: "Key \<Rightarrow> store \<Rightarrow> (go_error, runtime_object) outcome" where
  "Store_Get key s =
     (case s_items s key of
        None \<Rightarrow> Err (NotFound (s_gr s) (k_Name key))
      | Some obj \<Rightarrow> Ok obj)"

fun list_loop :: "string \<Rightarrow> (Key \<rightharpoonup> runtime_object) \<Rightarrow> Key list \<Rightarrow> runtime_object list" where
  "list_loop ns m [] = []"
| "list_loop ns m (k # ks) =
     (case m k of
        None \<Rightarrow> list_loop ns m ks
      | Some v \<Rightarrow> if ns \<noteq> [] \<and> k_Namespace k \<noteq> ns then list_loop ns m ks
                  else v # list_loop ns m ks)"

definition Store_List ::
    "Key list \<Rightarrow> string \<Rightarrow> store \<Rightarrow> (go_error, runtime_object list) outcome" where
  "Store_List order ns s = Ok (list_loop ns (s_items s) order)"

definition Store_Update ::
    "Key \<Rightarrow> runtime_object \<Rightarrow> store \<Rightarrow> (go_error, runtime_object) outcome \<times> store" where
  "Store_Update key obj s =
     (if s_items s key = None then (Err (NotFound (s_gr s) (k_Name key)), s)
      else case bumpAndStampLocked s obj of
             (Ok stored, s') \<Rightarrow> (Ok stored, s'\<lparr>s_items := (s_items s')(key \<mapsto> stored)\<rparr>)
           | (r, s') \<Rightarrow> (r, s'))"

definition Store_Delete ::
    "Key \<Rightarrow> store \<Rightarrow> (go_error, runtime_object) outcome \<times> store" where
  "Store_Delete key s =
     (case s_items s key of
        None \<Rightarrow> (Err (NotFound (s_gr s) (k_Name key)), s)
      | Some obj \<Rightarrow> (Ok obj, s\<lparr>s_items := (s_items s)(key := None), s_rv := s_rv s + 1\<rparr>))"

definition CurrentResourceVersion :: "store \<Rightarrow> u64" where
  "CurrentResourceVersion s = s_rv s"

definition Store_Len :: "store \<Rightarrow> nat" where
  "Store_Len s = card (dom (s_items s))"

text \<open>The orders in which Go may range over the map of a store.\<close>

definition range_order :: "store \<Rightarrow> Key list \<Rightarrow> bool" where
  "range_order s ks \<longleftrightarrow> distinct ks \<and> set ks = dom (s_items s)"

text \<open>One of them, for evaluation: the keys in increasing order.\<close>

definition sorted_order :: "store \<Rightarrow> Key list" where
  "sorted_order s = sorted_list_of_set (dom (s_items s))"

lemma range_order_sorted: "finite (dom (s_items s)) \<Longrightarrow> range_order s (sorted_order s)"
  by (simp add: range_order_def sorted_order_def)

subsection \<open>Stamping\<close>

lemma object_meta_SetRV [simp]:
  "object_meta (SetResourceVersion v obj)
     = map_option (\<lambda>m. m\<lparr>om_ResourceVersion := v\<rparr>) (object_meta obj)"
  by (auto simp: SetResourceVersion_def split: option.split)

lemma SetRV_TaskObj [simp]:
  "SetResourceVersion v (TaskObj t)
     = TaskObj (t\<lparr>t_ObjectMeta := (t_ObjectMeta t)\<lparr>om_ResourceVersion := v\<rparr>\<rparr>)"
  by (simp add: SetResourceVersion_def)

lemma SetRV_eq_TaskObj:
  "SetResourceVersion v obj = TaskObj t \<Longrightarrow> \<exists>t0. obj = TaskObj t0"
  by (cases obj) (auto simp: SetResourceVersion_def split: option.splits)

text \<open>The object that a successful write leaves in the store.\<close>

definition stamped :: "store \<Rightarrow> runtime_object \<Rightarrow> runtime_object" where
  "stamped s obj = SetResourceVersion (FormatUint (s_rv s + 1)) obj"

lemma stamped_TaskObj [simp]:
  "stamped s (TaskObj t)
     = TaskObj (t\<lparr>t_ObjectMeta := (t_ObjectMeta t)\<lparr>om_ResourceVersion := FormatUint (s_rv s + 1)\<rparr>\<rparr>)"
  by (simp add: stamped_def)

text \<open>Each operation on every branch.\<close>

lemma Store_Create_simps [store_rules]:
  "s_items s key = Some old \<Longrightarrow>
     Store_Create key obj s = (Err (AlreadyExists (s_gr s) (k_Name key)), s)"
  "s_items s key = None \<Longrightarrow> object_meta obj = None \<Longrightarrow>
     Store_Create key obj s =
       (Err (ErrorfWrap ''inmemory: cannot stamp resourceVersion: '' NotAnObject),
        s\<lparr>s_rv := s_rv s + 1\<rparr>)"
  "s_items s key = None \<Longrightarrow> object_meta obj = Some m \<Longrightarrow>
     Store_Create key obj s =
       (Ok (stamped s obj),
        s\<lparr>s_items := (s_items s)(key \<mapsto> stamped s obj), s_rv := s_rv s + 1\<rparr>)"
  by (simp_all add: Store_Create_def bumpAndStampLocked_def Let_def Accessor_def stamped_def)

lemma Store_Update_simps [store_rules]:
  "s_items s key = None \<Longrightarrow>
     Store_Update key obj s = (Err (NotFound (s_gr s) (k_Name key)), s)"
  "s_items s key = Some old \<Longrightarrow> object_meta obj = None \<Longrightarrow>
     Store_Update key obj s =
       (Err (ErrorfWrap ''inmemory: cannot stamp resourceVersion: '' NotAnObject),
        s\<lparr>s_rv := s_rv s + 1\<rparr>)"
  "s_items s key = Some old \<Longrightarrow> object_meta obj = Some m \<Longrightarrow>
     Store_Update key obj s =
       (Ok (stamped s obj),
        s\<lparr>s_items := (s_items s)(key \<mapsto> stamped s obj), s_rv := s_rv s + 1\<rparr>)"
  by (simp_all add: Store_Update_def bumpAndStampLocked_def Let_def Accessor_def stamped_def)

lemma Store_Delete_simps [store_rules]:
  "s_items s key = None \<Longrightarrow> Store_Delete key s = (Err (NotFound (s_gr s) (k_Name key)), s)"
  "s_items s key = Some obj \<Longrightarrow>
     Store_Delete key s = (Ok obj, s\<lparr>s_items := (s_items s)(key := None), s_rv := s_rv s + 1\<rparr>)"
  by (simp_all add: Store_Delete_def)

lemma Store_Get_simps [store_rules]:
  "s_items s key = None \<Longrightarrow> Store_Get key s = Err (NotFound (s_gr s) (k_Name key))"
  "s_items s key = Some obj \<Longrightarrow> Store_Get key s = Ok obj"
  by (simp_all add: Store_Get_def)

lemma Store_Get_Ok_iff [simp]: "Store_Get key s = Ok obj \<longleftrightarrow> s_items s key = Some obj"
  by (simp add: Store_Get_def split: option.split)

lemma Store_Get_Err_iff [simp]:
  "Store_Get key s = Err e \<longleftrightarrow> s_items s key = None \<and> e = NotFound (s_gr s) (k_Name key)"
  by (auto simp add: Store_Get_def split: option.split)

lemma Store_Get_no_panic [simp]: "Store_Get key s \<noteq> Panic p"
  by (simp add: Store_Get_def split: option.split)


subsection \<open>Listing\<close>

definition ns_selects :: "string \<Rightarrow> Key \<Rightarrow> bool" where
  "ns_selects ns k \<longleftrightarrow> ns = [] \<or> k_Namespace k = ns"

lemma list_loop_eq:
  "list_loop ns m ks = List.map_filter (\<lambda>k. if ns_selects ns k then m k else None) ks"
  by (induction ks) (auto simp: ns_selects_def map_filter_simps split: option.split)

lemma set_list_loop:
  "set (list_loop ns m ks) = {v. \<exists>k \<in> set ks. ns_selects ns k \<and> m k = Some v}"
  by (induction ks) (auto simp: ns_selects_def split: option.split)

lemma length_list_loop:
  assumes "distinct ks" "set ks = dom m"
  shows "length (list_loop ns m ks) = card {k \<in> dom m. ns_selects ns k}"
proof -
  have "length (list_loop ns m ks) = length (filter (ns_selects ns) ks)"
    if "set ks \<subseteq> dom m" for ks
    using that by (induction ks) (auto simp: ns_selects_def)
  then have "length (list_loop ns m ks) = length (filter (ns_selects ns) ks)"
    using assms(2) by simp
  also have "\<dots> = card (set (filter (ns_selects ns) ks))"
    using assms(1) by (metis distinct_card distinct_filter)
  also have "set (filter (ns_selects ns) ks) = {k \<in> dom m. ns_selects ns k}"
    using assms(2) by auto
  finally show ?thesis .
qed

text \<open>Two orders of the same keys give the same objects up to their order.\<close>

lemma mset_list_loop:
  assumes "mset ks = mset ks'"
  shows "mset (list_loop ns m ks) = mset (list_loop ns m ks')"
proof -
  have "mset (list_loop ns m xs)
      = sum_mset (image_mset (\<lambda>k. case (if ns_selects ns k then m k else None) of
                                 None \<Rightarrow> {#} | Some v \<Rightarrow> {#v#}) (mset xs))" for xs
    by (induction xs) (auto simp: ns_selects_def split: option.split)
  then show ?thesis using assms by simp
qed


subsection \<open>The store as a sequence of operations\<close>

datatype store_op =
    OpCreate Key runtime_object
  | OpUpdate Key runtime_object
  | OpDelete Key
  | OpGet Key
  | OpList "Key list" string

fun apply_op :: "store_op \<Rightarrow> store \<Rightarrow> store" where
  "apply_op (OpCreate k obj) s = snd (Store_Create k obj s)"
| "apply_op (OpUpdate k obj) s = snd (Store_Update k obj s)"
| "apply_op (OpDelete k) s = snd (Store_Delete k s)"
| "apply_op (OpGet k) s = s"
| "apply_op (OpList ks ns) s = s"

definition store_step :: "store \<Rightarrow> store \<Rightarrow> bool" where
  "store_step s s' \<longleftrightarrow> (\<exists>opn. s' = apply_op opn s)"

definition run_ops :: "store_op list \<Rightarrow> store \<Rightarrow> store" where
  "run_ops ops s = fold apply_op ops s"

lemma run_ops_simps [simp]:
  "run_ops [] s = s"
  "run_ops (x # xs) s = run_ops xs (apply_op x s)"
  by (simp_all add: run_ops_def)

lemma run_ops_steps: "(store_step ^^ length ops) s (run_ops ops s)"
proof (induction ops arbitrary: s)
  case (Cons x xs)
  have "store_step s (apply_op x s)" by (auto simp: store_step_def)
  with Cons.IH [of "apply_op x s"] show ?case
    by (auto intro: relpowp_Suc_I2 simp del: relpowp.simps)
qed simp

text \<open>What one operation can do to the contents and the counter.\<close>

definition tick_of :: "store \<Rightarrow> store \<Rightarrow> bool" where
  "tick_of s s' \<longleftrightarrow> s_rv s' = s_rv s + 1 \<and> s_gr s' = s_gr s \<and>
     (s_items s' = s_items s
      \<or> (\<exists>k. s_items s' = (s_items s)(k := None))
      \<or> (\<exists>k obj. object_meta obj \<noteq> None \<and> s_items s' = (s_items s)(k \<mapsto> stamped s obj)))"

lemma Store_Create_tick: "snd (Store_Create k obj s) = s \<or> tick_of s (snd (Store_Create k obj s))"
  by (cases "s_items s k"; cases "object_meta obj") (auto simp: store_rules tick_of_def)

lemma Store_Update_tick: "snd (Store_Update k obj s) = s \<or> tick_of s (snd (Store_Update k obj s))"
  by (cases "s_items s k"; cases "object_meta obj") (auto simp: store_rules tick_of_def)

lemma Store_Delete_tick: "snd (Store_Delete k s) = s \<or> tick_of s (snd (Store_Delete k s))"
  by (cases "s_items s k") (auto simp: store_rules tick_of_def)

lemma apply_op_tick: "apply_op opn s = s \<or> tick_of s (apply_op opn s)"
  by (cases opn)
    (use Store_Create_tick Store_Update_tick Store_Delete_tick in auto)

lemma store_step_cases:
  assumes "store_step s s'"
  obtains "s' = s" | "tick_of s s'"
  using assms apply_op_tick by (auto simp: store_step_def)

subsection \<open>The store is a versioned store\<close>

definition obj_version :: "runtime_object \<Rightarrow> nat" where
  "obj_version obj =
     (case object_meta obj of
        None \<Rightarrow> 0
      | Some m \<Rightarrow> unat (parseRVOrZero (om_ResourceVersion m)))"

definition store_counter :: "store \<Rightarrow> nat" where
  "store_counter s = unat (s_rv s)"

definition max_rv :: nat where
  "max_rv = 2 ^ 64 - 1"

lemma obj_version_stamped:
  "object_meta obj \<noteq> None \<Longrightarrow> obj_version (stamped s obj) = unat (s_rv s + 1)"
  by (auto simp: obj_version_def stamped_def split: option.split)

lemma tick_counter:
  "tick_of s s' \<Longrightarrow> store_counter s < max_rv \<Longrightarrow> store_counter s' = Suc (store_counter s)"
  by (simp add: tick_of_def store_counter_def max_rv_def unat_u64_plus_1)

lemma tick_lookup:
  assumes "tick_of s s'" "store_counter s < max_rv" "s_items s' k = Some obj'"
  shows "s_items s k = Some obj'
    \<or> (obj_version obj' = Suc (store_counter s) \<and> (\<forall>k'. k' \<noteq> k \<longrightarrow> s_items s' k' = s_items s k'))"
proof -
  have tick: "unat (s_rv s + 1) = Suc (store_counter s)"
    using assms(2) by (simp add: store_counter_def max_rv_def unat_u64_plus_1)
  show ?thesis
    using assms(1,3) by (auto simp: tick_of_def obj_version_stamped tick split: if_splits)
qed

interpretation vst: versioned_store s_items store_counter obj_version max_rv store_step
proof unfold_locales
  fix s s'
  assume st: "store_step s s'" and b: "store_counter s < max_rv"
  show "store_counter s' = store_counter s \<and> s_items s' = s_items s
      \<or> store_counter s' = Suc (store_counter s)"
    using st by (cases rule: store_step_cases) (auto simp: tick_counter b)
  fix k obj'
  assume l: "s_items s' k = Some obj'"
  show "s_items s k = Some obj'
      \<or> store_counter s' = Suc (store_counter s) \<and> obj_version obj' = Suc (store_counter s)
        \<and> (\<forall>k'. k' \<noteq> k \<longrightarrow> s_items s' k' = s_items s k')"
    using st
  proof (cases rule: store_step_cases)
    case 1
    with l show ?thesis by simp
  next
    case 2
    with tick_lookup [OF 2 b l] tick_counter [OF 2 b] show ?thesis by simp
  qed
qed

end
