(* ===== verification/StoreSpec.thy ===== *)
theory StoreSpec
  imports Store
begin

section \<open>What the store promises: an event log, and the properties of \<open>store.go\<close>\<close>

text \<open>
  The abstract specification of the store is a log of write events. The contents are what
  replaying the log gives, and an event's resource version is its position: this is the
  order that the package comment wants for a later watch. The first part states the
  specification's operations on the log and shows that the store of \<open>store.go\<close> refines them;
  the second part states the properties of the store itself.
\<close>

subsection \<open>The log\<close>

text \<open>\<open>Tick\<close> is a version that was consumed by a write that could not be stamped.\<close>

datatype event = Put Key runtime_object | Remove Key | Tick

fun apply_event :: "nat \<times> (Key \<rightharpoonup> runtime_object) \<Rightarrow> event \<Rightarrow> nat \<times> (Key \<rightharpoonup> runtime_object)" where
  "apply_event (n, m) (Put k obj) = (Suc n, m(k \<mapsto> SetResourceVersion (format_nat (Suc n)) obj))"
| "apply_event (n, m) (Remove k) = (Suc n, m(k := None))"
| "apply_event (n, m) Tick = (Suc n, m)"

definition replay :: "event list \<Rightarrow> nat \<times> (Key \<rightharpoonup> runtime_object)" where
  "replay log = foldl apply_event (0, Map.empty) log"

definition log_items :: "event list \<Rightarrow> Key \<rightharpoonup> runtime_object" where
  "log_items log = snd (replay log)"

lemma replay_length: "fst (replay log) = length log"
proof (induction log rule: rev_induct)
  case (snoc e log)
  then show ?case by (cases e; cases "replay log") (simp_all add: replay_def)
qed (simp add: replay_def)

lemma log_items_simps [simp]:
  "log_items [] = Map.empty"
  "log_items (log @ [Put k obj])
     = (log_items log)(k \<mapsto> SetResourceVersion (format_nat (Suc (length log))) obj)"
  "log_items (log @ [Remove k]) = (log_items log)(k := None)"
  "log_items (log @ [Tick]) = log_items log"
  using replay_length [of log]
  by (cases "replay log"; simp add: log_items_def replay_def)+

subsection \<open>The specification's operations\<close>

text \<open>An operation of the specification returns its result and the events it appends.\<close>

fun spec_create ::
    "GroupResource \<Rightarrow> Key \<Rightarrow> runtime_object \<Rightarrow> event list
       \<Rightarrow> (go_error, runtime_object) outcome \<times> event list" where
  "spec_create gr k obj log =
     (if log_items log k \<noteq> None then (Err (AlreadyExists gr (k_Name k)), [])
      else if object_meta obj = None
           then (Err (ErrorfWrap ''inmemory: cannot stamp resourceVersion: '' NotAnObject), [Tick])
      else (Ok (SetResourceVersion (format_nat (Suc (length log))) obj), [Put k obj]))"

fun spec_update ::
    "GroupResource \<Rightarrow> Key \<Rightarrow> runtime_object \<Rightarrow> event list
       \<Rightarrow> (go_error, runtime_object) outcome \<times> event list" where
  "spec_update gr k obj log =
     (if log_items log k = None then (Err (NotFound gr (k_Name k)), [])
      else if object_meta obj = None
           then (Err (ErrorfWrap ''inmemory: cannot stamp resourceVersion: '' NotAnObject), [Tick])
      else (Ok (SetResourceVersion (format_nat (Suc (length log))) obj), [Put k obj]))"

fun spec_delete ::
    "GroupResource \<Rightarrow> Key \<Rightarrow> event list \<Rightarrow> (go_error, runtime_object) outcome \<times> event list" where
  "spec_delete gr k log =
     (case log_items log k of
        None \<Rightarrow> (Err (NotFound gr (k_Name k)), [])
      | Some obj \<Rightarrow> (Ok obj, [Remove k]))"

text \<open>A store represents a log if it holds the replayed contents at the log's length.\<close>

definition represents :: "store \<Rightarrow> event list \<Rightarrow> bool" where
  "represents s log \<longleftrightarrow> s_items s = log_items log \<and> s_rv s = of_nat (length log)"

lemma stamped_represents:
  assumes "represents s log" "Suc (length log) \<le> max_rv"
  shows "stamped s obj = SetResourceVersion (format_nat (Suc (length log))) obj"
proof -
  have "unat (s_rv s + 1) = Suc (length log)"
    using assms by (simp add: represents_def max_rv_def unat_word_ariths unat_of_nat)
  then show ?thesis by (simp add: stamped_def FormatUint_def)
qed

lemma Store_Create_refines:
  assumes R: "represents s log" and b: "Suc (length log) \<le> max_rv"
  shows "fst (Store_Create k obj s) = fst (spec_create (s_gr s) k obj log)
       \<and> represents (snd (Store_Create k obj s)) (log @ snd (spec_create (s_gr s) k obj log))"
proof -
  have i: "s_items s = log_items log" and c: "s_rv s = of_nat (length log)"
    using R by (simp_all add: represents_def)
  show ?thesis
    using stamped_represents [OF R b]
    by (cases "s_items s k"; cases "object_meta obj")
      (auto simp: store_rules i c represents_def)
qed

lemma Store_Update_refines:
  assumes R: "represents s log" and b: "Suc (length log) \<le> max_rv"
  shows "fst (Store_Update k obj s) = fst (spec_update (s_gr s) k obj log)
       \<and> represents (snd (Store_Update k obj s)) (log @ snd (spec_update (s_gr s) k obj log))"
proof -
  have i: "s_items s = log_items log" and c: "s_rv s = of_nat (length log)"
    using R by (simp_all add: represents_def)
  show ?thesis
    using stamped_represents [OF R b]
    by (cases "s_items s k"; cases "object_meta obj")
      (auto simp: store_rules i c represents_def)
qed

lemma Store_Delete_refines:
  assumes R: "represents s log"
  shows "fst (Store_Delete k s) = fst (spec_delete (s_gr s) k log)
       \<and> represents (snd (Store_Delete k s)) (log @ snd (spec_delete (s_gr s) k log))"
proof -
  have i: "s_items s = log_items log" and c: "s_rv s = of_nat (length log)"
    using R by (simp_all add: represents_def)
  show ?thesis
    by (cases "s_items s k") (auto simp: store_rules i c represents_def)
qed

text \<open>The log that a sequence of store operations writes.\<close>

fun spec_events :: "GroupResource \<Rightarrow> store_op \<Rightarrow> event list \<Rightarrow> event list" where
  "spec_events gr (OpCreate k obj) log = snd (spec_create gr k obj log)"
| "spec_events gr (OpUpdate k obj) log = snd (spec_update gr k obj log)"
| "spec_events gr (OpDelete k) log = snd (spec_delete gr k log)"
| "spec_events gr (OpGet k) log = []"
| "spec_events gr (OpList ks ns) log = []"

fun spec_log :: "GroupResource \<Rightarrow> store_op list \<Rightarrow> event list \<Rightarrow> event list" where
  "spec_log gr [] log = log"
| "spec_log gr (x # xs) log = spec_log gr xs (log @ spec_events gr x log)"

lemma length_spec_events: "length (spec_events gr x log) \<le> 1"
  by (cases x) (auto split: option.split)

lemma apply_op_gr [simp]: "s_gr (apply_op x s) = s_gr s"
  using apply_op_tick [of x s] by (auto simp: tick_of_def)

lemma apply_op_refines:
  "represents s log \<Longrightarrow> Suc (length log) \<le> max_rv
     \<Longrightarrow> represents (apply_op x s) (log @ spec_events (s_gr s) x log)"
  using Store_Create_refines Store_Update_refines Store_Delete_refines by (cases x) auto

lemma run_ops_refines:
  "represents s log \<Longrightarrow> length log + length ops \<le> max_rv
     \<Longrightarrow> represents (run_ops ops s) (spec_log (s_gr s) ops log)"
proof (induction ops arbitrary: s log)
  case (Cons x xs)
  have "represents (apply_op x s) (log @ spec_events (s_gr s) x log)"
    using Cons.prems by (intro apply_op_refines) auto
  moreover have "length (log @ spec_events (s_gr s) x log) + length xs \<le> max_rv"
    using Cons.prems(2) length_spec_events [of "s_gr s" x log] by simp
  ultimately show ?case using Cons.IH [of "apply_op x s"] by simp
qed simp

lemma represents_New: "represents (Store_New gr) []"
  by (simp add: represents_def Store_New_def)


subsection \<open>A task to evaluate with, as in \<open>store_test.go\<close>\<close>

definition newTask :: "string \<Rightarrow> string \<Rightarrow> string \<Rightarrow> runtime_object" where
  "newTask ns name img =
     TaskObj (zero_Task\<lparr>t_ObjectMeta := zero_ObjectMeta\<lparr>om_Name := name, om_Namespace := ns\<rparr>,
                        t_Spec := zero_TaskSpec\<lparr>ts_Image := img\<rparr>\<rparr>)"

lemma object_meta_newTask [simp]: "object_meta (newTask ns name img) \<noteq> None"
  by (simp add: newTask_def)

lemma object_meta_newTask_Some:
  "object_meta (newTask ns name img)
     = Some (zero_ObjectMeta\<lparr>om_Name := name, om_Namespace := ns\<rparr>)"
  by (simp add: newTask_def)

subsection \<open>Properties\<close>

text \<open>C3. The store refines the event log: after any sequence of operations on a new store,
  its contents are the replay of the log the specification writes and its counter is the
  log's length, and the next create, update, delete and get return what the specification
  returns. Deletions have a position of their own in the log, so a later watch can order
  them, and the stamp of every object is the position of the event that wrote it.\<close>

theorem store_refines_event_log:
  assumes "length ops < max_rv"
    and s_def: "s = run_ops ops (Store_New gr)" and log_def: "log = spec_log gr ops []"
  shows "represents s log
    \<and> fst (Store_Create k obj s) = fst (spec_create gr k obj log)
    \<and> fst (Store_Update k obj s) = fst (spec_update gr k obj log)
    \<and> fst (Store_Delete k s) = fst (spec_delete gr k log)
    \<and> Store_Get k s = (case log_items log k of None \<Rightarrow> Err (NotFound gr (k_Name k)) | Some v \<Rightarrow> Ok v)"
proof -
  have gr: "s_gr s = gr"
  proof -
    have "s_gr (run_ops xs t) = s_gr t" for xs t by (induction xs arbitrary: t) auto
    then show ?thesis by (simp add: s_def Store_New_def)
  qed
  have len: "length (spec_log gr xs l) \<le> length l + length xs" for xs l
  proof (induction xs arbitrary: l)
    case (Cons x xs)
    from Cons.IH [of "l @ spec_events gr x l"] length_spec_events [of gr x l]
    show ?case by simp
  qed simp
  have R: "represents s log"
    using run_ops_refines [OF represents_New, of ops gr] assms(1)
    by (simp add: s_def log_def Store_New_def)
  have b: "Suc (length log) \<le> max_rv"
    using len [of ops "[]"] assms(1) by (simp add: log_def)
  have "Store_Get k s = (case log_items log k of None \<Rightarrow> Err (NotFound gr (k_Name k)) | Some v \<Rightarrow> Ok v)"
    using R by (simp add: gr Store_Get_def represents_def split: option.split)
  with R Store_Create_refines [OF R b, of k obj] Store_Update_refines [OF R b, of k obj]
    Store_Delete_refines [OF R, of k]
  show ?thesis unfolding gr by blast
qed

theorem store_refines_event_log_witness:
  "represents (run_ops [OpCreate (Key ''ns'' ''a'') (newTask ''ns'' ''a'' ''alpine''),
                        OpDelete (Key ''ns'' ''a'')] (Store_New (Resource ''tasks'')))
     [Put (Key ''ns'' ''a'') (newTask ''ns'' ''a'' ''alpine''), Remove (Key ''ns'' ''a'')]"
proof -
  let ?ops = "[OpCreate (Key ''ns'' ''a'') (newTask ''ns'' ''a'' ''alpine''), OpDelete (Key ''ns'' ''a'')]"
  have "length ?ops < max_rv" by (simp add: max_rv_def)
  from store_refines_event_log [OF this refl refl, THEN conjunct1]
  have "represents (run_ops ?ops (Store_New (Resource ''tasks'')))
          (spec_log (Resource ''tasks'') ?ops [])" .
  then show ?thesis
    using log_items_simps(2) [of "[]" "Key ''ns'' ''a''" "newTask ''ns'' ''a'' ''alpine''"]
    by (simp add: object_meta_newTask_Some)
qed

text \<open>A resource version names one write: if an object found at some time and an object
  found at any later time (after arbitrary further writes and deletions, at any key) carry
  the same version, they are the same object at the same key. Comparing versions is
  therefore enough to detect any intervening modification, deletion or re-creation.\<close>

lemma store_version_identifies_write:
  assumes "length ops1 + length ops2 \<le> max_rv"
    and "s_items (run_ops ops1 (Store_New gr)) k = Some obj"
    and "s_items (run_ops ops2 (run_ops ops1 (Store_New gr))) k' = Some obj'"
    and "obj_version obj' = obj_version obj"
  shows "k' = k \<and> obj' = obj"
proof -
  let ?s0 = "Store_New gr" and ?s1 = "run_ops ops1 (Store_New gr)"
  have c0: "store_counter ?s0 = 0" by (simp add: Store_New_def store_counter_def)
  have ok: "version_ok (s_items ?s1) (store_counter ?s1) obj_version"
    using vst.steps_version_ok [OF run_ops_steps, of ?s0 ops1] assms(1) c0
    by (simp add: Store_New_def)
  have "store_counter ?s1 + length ops2 \<le> max_rv"
    using vst.steps_counter [OF run_ops_steps, of ?s0 ops1] assms(1) c0 by simp
  from vst.version_identifies [OF run_ops_steps this ok assms(2,3,4)] show ?thesis .
qed

text \<open>Every successful write, deletion included, takes the next resource version: the
  counter grows by one, a created or updated object is returned and stored with exactly that
  version (newer than everything the store held), and a deleted object is returned as it
  was stored.\<close>

lemma store_writes_advance:
  assumes "store_counter s < max_rv"
  shows "(fst (Store_Create k obj s) = Ok r \<longrightarrow>
      s_items s k = None \<and> s_items (snd (Store_Create k obj s)) = (s_items s)(k \<mapsto> r)
      \<and> store_counter (snd (Store_Create k obj s)) = Suc (store_counter s)
      \<and> obj_version r = Suc (store_counter s))
    \<and> (fst (Store_Update k obj s) = Ok r \<longrightarrow>
      s_items s k \<noteq> None \<and> s_items (snd (Store_Update k obj s)) = (s_items s)(k \<mapsto> r)
      \<and> store_counter (snd (Store_Update k obj s)) = Suc (store_counter s)
      \<and> obj_version r = Suc (store_counter s))
    \<and> (fst (Store_Delete k s) = Ok r \<longrightarrow>
      s_items s k = Some r \<and> s_items (snd (Store_Delete k s)) = (s_items s)(k := None)
      \<and> store_counter (snd (Store_Delete k s)) = Suc (store_counter s))"
proof -
  have tick: "unat (s_rv s + 1) = Suc (store_counter s)"
    using assms by (simp add: store_counter_def max_rv_def unat_u64_plus_1)
  then have tick': "store_counter (s\<lparr>s_items := m, s_rv := s_rv s + 1\<rparr>) = Suc (store_counter s)" for m
    by (simp add: store_counter_def)
  show ?thesis
    by (cases "s_items s k"; cases "object_meta obj")
      (auto simp: store_rules tick tick' obj_version_stamped)
qed

text \<open>A failing operation does not touch the contents. Create and update fail exactly on
  an occupied key, a missing key, or an object without metadata; delete and get exactly on a
  missing key. Only the failure to stamp, which comes after the counter was advanced,
  consumes a resource version.\<close>

lemma store_failures:
  "fst (Store_Create k obj s) =
      (if s_items s k \<noteq> None then Err (AlreadyExists (s_gr s) (k_Name k))
       else if object_meta obj = None
            then Err (ErrorfWrap ''inmemory: cannot stamp resourceVersion: '' NotAnObject)
            else Ok (stamped s obj))
   \<and> fst (Store_Update k obj s) =
      (if s_items s k = None then Err (NotFound (s_gr s) (k_Name k))
       else if object_meta obj = None
            then Err (ErrorfWrap ''inmemory: cannot stamp resourceVersion: '' NotAnObject)
            else Ok (stamped s obj))
   \<and> (\<not> is_ok (fst (Store_Create k obj s)) \<longrightarrow>
        snd (Store_Create k obj s) = (if s_items s k = None then s\<lparr>s_rv := s_rv s + 1\<rparr> else s))
   \<and> (\<not> is_ok (fst (Store_Update k obj s)) \<longrightarrow>
        snd (Store_Update k obj s) = (if s_items s k = None then s else s\<lparr>s_rv := s_rv s + 1\<rparr>))
   \<and> (\<not> is_ok (fst (Store_Delete k s)) \<longrightarrow> s_items s k = None \<and> snd (Store_Delete k s) = s)
   \<and> (is_ok (Store_Get k s) \<longleftrightarrow> s_items s k \<noteq> None)"
  by (cases "s_items s k"; cases "object_meta obj") (simp_all add: store_rules)

text \<open>Reads follow writes: after a successful create or update, get on the same key
  returns the very object the write returned; after a successful delete it returns NotFound
  and a create at that key succeeds again; get on any other key is unaffected.\<close>

lemma store_read_your_writes:
  "(fst (Store_Create k obj s) = Ok r \<longrightarrow> Store_Get k (snd (Store_Create k obj s)) = Ok r)
   \<and> (fst (Store_Update k obj s) = Ok r \<longrightarrow> Store_Get k (snd (Store_Update k obj s)) = Ok r)
   \<and> (fst (Store_Delete k s) = Ok r \<longrightarrow>
        Store_Get k (snd (Store_Delete k s)) = Err (NotFound (s_gr s) (k_Name k))
        \<and> (object_meta obj \<noteq> None \<longrightarrow> is_ok (fst (Store_Create k obj (snd (Store_Delete k s))))))
   \<and> (k' \<noteq> k \<longrightarrow> Store_Get k' (snd (Store_Create k obj s)) = Store_Get k' s
        \<and> Store_Get k' (snd (Store_Update k obj s)) = Store_Get k' s
        \<and> Store_Get k' (snd (Store_Delete k s)) = Store_Get k' s)"
  by (cases "s_items s k"; cases "object_meta obj") (simp_all add: store_rules Store_Get_def split: option.split)

text \<open>List returns exactly the objects of the selected namespace (all of them for the
  empty namespace), each once, whatever order the runtime ranges over the map in; two
  orders give permutations of the same result.\<close>

lemma store_list_exact:
  assumes "range_order s ks"
  shows "\<exists>objs. Store_List ks ns s = Ok objs
    \<and> set objs = {obj. \<exists>k. s_items s k = Some obj \<and> (ns = [] \<or> k_Namespace k = ns)}
    \<and> length objs = card {k \<in> dom (s_items s). ns = [] \<or> k_Namespace k = ns}
    \<and> (\<forall>ks'. range_order s ks' \<longrightarrow> (\<exists>objs'. Store_List ks' ns s = Ok objs' \<and> mset objs' = mset objs))"
proof (intro exI conjI allI impI)
  let ?objs = "list_loop ns (s_items s) ks"
  have ks: "distinct ks" "set ks = dom (s_items s)" using assms by (simp_all add: range_order_def)
  show "Store_List ks ns s = Ok ?objs" by (simp add: Store_List_def)
  show "set ?objs = {obj. \<exists>k. s_items s k = Some obj \<and> (ns = [] \<or> k_Namespace k = ns)}"
    using ks(2) by (auto simp: set_list_loop ns_selects_def)
  show "length ?objs = card {k \<in> dom (s_items s). ns = [] \<or> k_Namespace k = ns}"
    using length_list_loop [OF ks, of ns] by (simp add: ns_selects_def)
  fix ks'
  assume "range_order s ks'"
  then have "mset ks' = mset ks"
    using ks set_eq_iff_mset_eq_distinct [of ks' ks] by (simp add: range_order_def)
  then show "mset (list_loop ns (s_items s) ks') = mset ?objs" by (rule mset_list_loop)
  show "Store_List ks' ns s = Ok (list_loop ns (s_items s) ks')" by (simp add: Store_List_def)
qed

text \<open>C31. The counter is a \<open>uint64\<close>: at its maximum the next write wraps to version 0, the
  stamped object sorts before everything stored, and the monotonicity that the package
  promises ends there. It does not happen in the first \<open>2 ^ 64 - 1\<close> writes.\<close>

theorem store_counter_wraps:
  assumes "s_rv s = 2 ^ 64 - 1" "s_items s k = None" "object_meta obj = Some m"
  shows "obj_version (stamped s obj) = 0 \<and> fst (Store_Create k obj s) = Ok (stamped s obj)
    \<and> store_counter (snd (Store_Create k obj s)) = 0"
  using assms by (simp add: store_rules obj_version_stamped store_counter_def)

theorem store_counter_wraps_witness:
  "obj_version (stamped ((Store_New (Resource ''tasks''))\<lparr>s_rv := 2 ^ 64 - 1\<rparr>)
     (newTask ''ns'' ''a'' ''alpine'')) = 0"
  using store_counter_wraps [of "(Store_New (Resource ''tasks''))\<lparr>s_rv := 2 ^ 64 - 1\<rparr>"
      "Key ''ns'' ''a''" "newTask ''ns'' ''a'' ''alpine''", OF _ _ object_meta_newTask_Some]
  by (simp add: Store_New_def)

end
