(* ===== verification/Strategy.thy ===== *)
theory Strategy
  imports TaskTypes
begin

section \<open>Strategies: \<open>pkg/registry/tasks/task/strategy.go\<close>\<close>

text \<open>
  \<open>Strategy\<close> is what the main resource does on create and update, \<open>StatusStrategy\<close> what the
  status subresource does on update. Both are passed to the registry and to the Kubernetes
  library as values of the interfaces \<open>rest.RESTCreateStrategy\<close> and
  \<open>rest.RESTUpdateStrategy\<close>, which are records of their methods here. A hook mutates the
  object it is given; its model returns the object it leaves. The library's validators are
  parameters.
\<close>

subsection \<open>Validation errors and the library's validators\<close>

type_synonym field_path = "string list"

datatype field_error =
    FieldRequired field_path message
  | FieldInvalid field_path i64 message
  | FieldExternal field_path string

type_synonym ErrorList = "field_error list"

datatype name_validator = NameIsDNSSubdomain

record validators =
  v_ValidateObjectMeta :: "ObjectMeta \<Rightarrow> bool \<Rightarrow> name_validator \<Rightarrow> field_path \<Rightarrow> ErrorList"
  v_ValidateConditions :: "Condition slice \<Rightarrow> field_path \<Rightarrow> ErrorList"

subsection \<open>The strategy values and the interfaces\<close>

record ObjectTyper =
  ot_ObjectKinds :: "runtime_object \<Rightarrow> (go_error, GroupVersionKind list \<times> bool) outcome"
  ot_Recognizes :: "GroupVersionKind \<Rightarrow> bool"

type_synonym NameGenerator = "string \<Rightarrow> string"

record Strategy =
  sg_ObjectTyper :: ObjectTyper
  sg_NameGenerator :: NameGenerator

record StatusStrategy =
  ss_Strategy :: Strategy

record 'ctx create_strategy =
  cs_ObjectTyper :: ObjectTyper
  cs_NameGenerator :: NameGenerator
  cs_NamespaceScoped :: bool
  cs_PrepareForCreate :: "'ctx \<Rightarrow> runtime_object \<Rightarrow> (go_error, runtime_object) outcome"
  cs_Validate :: "'ctx \<Rightarrow> runtime_object \<Rightarrow> (go_error, ErrorList) outcome"
  cs_WarningsOnCreate :: "'ctx \<Rightarrow> runtime_object \<Rightarrow> string list"
  cs_Canonicalize :: "runtime_object \<Rightarrow> runtime_object"

record 'ctx update_strategy =
  us_ObjectTyper :: ObjectTyper
  us_NamespaceScoped :: bool
  us_AllowCreateOnUpdate :: bool
  us_PrepareForUpdate ::
    "'ctx \<Rightarrow> runtime_object \<Rightarrow> runtime_object \<Rightarrow> (go_error, runtime_object) outcome"
  us_ValidateUpdate ::
    "'ctx \<Rightarrow> runtime_object \<Rightarrow> runtime_object \<Rightarrow> (go_error, ErrorList) outcome"
  us_WarningsOnUpdate :: "'ctx \<Rightarrow> runtime_object \<Rightarrow> runtime_object \<Rightarrow> string list"
  us_Canonicalize :: "runtime_object \<Rightarrow> runtime_object"
  us_AllowUnconditionalUpdate :: bool

definition NewStrategy :: "NameGenerator \<Rightarrow> ObjectTyper \<Rightarrow> Strategy" where
  "NewStrategy SimpleNameGenerator typer =
     \<lparr>sg_ObjectTyper = typer, sg_NameGenerator = SimpleNameGenerator\<rparr>"

definition NewStatusStrategy :: "NameGenerator \<Rightarrow> ObjectTyper \<Rightarrow> StatusStrategy" where
  "NewStatusStrategy SimpleNameGenerator typer =
     \<lparr>ss_Strategy = NewStrategy SimpleNameGenerator typer\<rparr>"

subsection \<open>Comparing specs\<close>

definition stringSliceEqual :: "string slice \<Rightarrow> string slice \<Rightarrow> bool" where
  "stringSliceEqual a b =
     (if length (elems a) \<noteq> length (elems b) then False
      else list_all (\<lambda>i. elems a ! i = elems b ! i) [0..<length (elems a)])"

definition specEqual :: "TaskSpec \<Rightarrow> TaskSpec \<Rightarrow> bool" where
  "specEqual a b \<longleftrightarrow> ts_Image a = ts_Image b
     \<and> stringSliceEqual (ts_Command a) (ts_Command b)
     \<and> stringSliceEqual (ts_Args a) (ts_Args b)"

lemma stringSliceEqual_iff: "stringSliceEqual a b \<longleftrightarrow> elems a = elems b"
  unfolding stringSliceEqual_def by (auto simp: list_all_iff intro: nth_equalityI)

lemma specEqual_iff:
  "specEqual a b \<longleftrightarrow> ts_Image a = ts_Image b \<and> elems (ts_Command a) = elems (ts_Command b)
     \<and> elems (ts_Args a) = elems (ts_Args b)"
  by (simp add: specEqual_def stringSliceEqual_iff)

lemma specEqual_refl [simp]: "specEqual a a"
  by (simp add: specEqual_iff)

subsection \<open>Constants of the strategy\<close>

definition NamespaceScoped :: bool where "NamespaceScoped = True"
definition AllowCreateOnUpdate :: bool where "AllowCreateOnUpdate = False"
definition AllowUnconditionalUpdate :: bool where "AllowUnconditionalUpdate = False"

definition Canonicalize :: "runtime_object \<Rightarrow> runtime_object" where
  "Canonicalize obj = obj"

definition WarningsOnCreate :: "'ctx \<Rightarrow> runtime_object \<Rightarrow> string list" where
  "WarningsOnCreate ctx obj = []"

definition WarningsOnUpdate :: "'ctx \<Rightarrow> runtime_object \<Rightarrow> runtime_object \<Rightarrow> string list" where
  "WarningsOnUpdate ctx obj old = []"

lemmas strategy_constants [simp] =
  NamespaceScoped_def AllowCreateOnUpdate_def AllowUnconditionalUpdate_def Canonicalize_def
  WarningsOnCreate_def WarningsOnUpdate_def

subsection \<open>Hooks of the main resource\<close>

definition set_generation :: "i64 \<Rightarrow> Task \<Rightarrow> Task" where
  "set_generation g t = t\<lparr>t_ObjectMeta := (t_ObjectMeta t)\<lparr>om_Generation := g\<rparr>\<rparr>"

abbreviation generation :: "Task \<Rightarrow> i64" where
  "generation t \<equiv> om_Generation (t_ObjectMeta t)"

definition PrepareForCreate :: "'ctx \<Rightarrow> runtime_object \<Rightarrow> (go_error, runtime_object) outcome" where
  "PrepareForCreate ctx obj =
     and_then (assert_Task obj) (\<lambda>task.
       let task = task\<lparr>t_Status := zero_TaskStatus\<rparr>
       in Ok (TaskObj (set_generation 1 task)))"

definition PrepareForUpdate ::
    "'ctx \<Rightarrow> runtime_object \<Rightarrow> runtime_object \<Rightarrow> (go_error, runtime_object) outcome" where
  "PrepareForUpdate ctx obj old =
     and_then (assert_Task obj) (\<lambda>newTask.
     and_then (assert_Task old) (\<lambda>oldTask.
       let newTask = newTask\<lparr>t_Status := t_Status oldTask\<rparr>
       in if specEqual (t_Spec newTask) (t_Spec oldTask)
          then Ok (TaskObj (set_generation (generation oldTask) newTask))
          else Ok (TaskObj (set_generation (generation oldTask + 1) newTask))))"

definition validateTask :: "validators \<Rightarrow> Task \<Rightarrow> ErrorList" where
  "validateTask V task =
     v_ValidateObjectMeta V (t_ObjectMeta task) True NameIsDNSSubdomain [''metadata'']
     @ (if ts_Image (t_Spec task) = []
        then [FieldRequired [''spec'', ''image''] (Sprintf ''image is required'' [])] else [])"

definition validateImmutableFields :: "Task \<Rightarrow> Task \<Rightarrow> ErrorList" where
  "validateImmutableFields newTask oldTask = []"

definition Validate :: "validators \<Rightarrow> 'ctx \<Rightarrow> runtime_object \<Rightarrow> (go_error, ErrorList) outcome" where
  "Validate V ctx obj = and_then (assert_Task obj) (\<lambda>task. Ok (validateTask V task))"

definition ValidateUpdate ::
    "validators \<Rightarrow> 'ctx \<Rightarrow> runtime_object \<Rightarrow> runtime_object \<Rightarrow> (go_error, ErrorList) outcome" where
  "ValidateUpdate V ctx obj old =
     and_then (assert_Task obj) (\<lambda>newTask.
     and_then (assert_Task old) (\<lambda>oldTask.
       Ok (validateTask V newTask @ validateImmutableFields newTask oldTask)))"

subsection \<open>Hooks of the status subresource\<close>

definition Status_PrepareForUpdate ::
    "'ctx \<Rightarrow> runtime_object \<Rightarrow> runtime_object \<Rightarrow> (go_error, runtime_object) outcome" where
  "Status_PrepareForUpdate ctx obj old =
     and_then (assert_Task obj) (\<lambda>newTask.
     and_then (assert_Task old) (\<lambda>oldTask.
       let newTask = newTask\<lparr>t_Spec := t_Spec oldTask\<rparr>
       in Ok (TaskObj (set_generation (generation oldTask) newTask))))"

definition validateStatusUpdate :: "validators \<Rightarrow> Task \<Rightarrow> ErrorList" where
  "validateStatusUpdate V task =
     (let og = st_ObservedGeneration (t_Status task)
      in (if sint og < 0
          then [FieldInvalid [''status'', ''observedGeneration''] og
                  (Sprintf ''observedGeneration must be non-negative'' [])]
          else if sint og > sint (generation task)
          then [FieldInvalid [''status'', ''observedGeneration''] og
                  (Sprintf ''observedGeneration (%d) must not exceed generation (%d)''
                     [FInt og, FInt (generation task)])]
          else [])
         @ v_ValidateConditions V (st_Conditions (t_Status task)) [''status'', ''conditions''])"

definition Status_ValidateUpdate ::
    "validators \<Rightarrow> 'ctx \<Rightarrow> runtime_object \<Rightarrow> runtime_object \<Rightarrow> (go_error, ErrorList) outcome" where
  "Status_ValidateUpdate V ctx obj old =
     and_then (assert_Task obj) (\<lambda>newTask. Ok (validateStatusUpdate V newTask))"

subsection \<open>The strategies as interface values\<close>

definition Strategy_create :: "validators \<Rightarrow> Strategy \<Rightarrow> 'ctx create_strategy" where
  "Strategy_create V s =
     \<lparr>cs_ObjectTyper = sg_ObjectTyper s, cs_NameGenerator = sg_NameGenerator s,
      cs_NamespaceScoped = NamespaceScoped, cs_PrepareForCreate = PrepareForCreate,
      cs_Validate = Validate V, cs_WarningsOnCreate = WarningsOnCreate,
      cs_Canonicalize = Canonicalize\<rparr>"

definition Strategy_update :: "validators \<Rightarrow> Strategy \<Rightarrow> 'ctx update_strategy" where
  "Strategy_update V s =
     \<lparr>us_ObjectTyper = sg_ObjectTyper s, us_NamespaceScoped = NamespaceScoped,
      us_AllowCreateOnUpdate = AllowCreateOnUpdate, us_PrepareForUpdate = PrepareForUpdate,
      us_ValidateUpdate = ValidateUpdate V, us_WarningsOnUpdate = WarningsOnUpdate,
      us_Canonicalize = Canonicalize, us_AllowUnconditionalUpdate = AllowUnconditionalUpdate\<rparr>"

text \<open>\<open>StatusStrategy\<close> embeds \<open>Strategy\<close> and overrides the two update hooks.\<close>

definition StatusStrategy_update :: "validators \<Rightarrow> StatusStrategy \<Rightarrow> 'ctx update_strategy" where
  "StatusStrategy_update V s =
     (Strategy_update V (ss_Strategy s))
       \<lparr>us_PrepareForUpdate := Status_PrepareForUpdate,
        us_ValidateUpdate := Status_ValidateUpdate V\<rparr>"


subsection \<open>The hooks on Tasks\<close>

lemma set_generation_simps [simp]:
  "t_Spec (set_generation g t) = t_Spec t"
  "t_Status (set_generation g t) = t_Status t"
  "t_TypeMeta (set_generation g t) = t_TypeMeta t"
  "t_ObjectMeta (set_generation g t) = (t_ObjectMeta t)\<lparr>om_Generation := g\<rparr>"
  by (simp_all add: set_generation_def)

lemma PrepareForUpdate_Task [strategy_rules]:
  "PrepareForUpdate ctx (TaskObj n) (TaskObj old) =
     Ok (TaskObj (set_generation
       (if specEqual (t_Spec n) (t_Spec old) then generation old else generation old + 1)
       (n\<lparr>t_Status := t_Status old\<rparr>)))"
  by (simp add: PrepareForUpdate_def Let_def)

lemma Status_PrepareForUpdate_Task [strategy_rules]:
  "Status_PrepareForUpdate ctx (TaskObj n) (TaskObj old) =
     Ok (TaskObj (set_generation (generation old) (n\<lparr>t_Spec := t_Spec old\<rparr>)))"
  by (simp add: Status_PrepareForUpdate_def Let_def)

lemma PrepareForUpdate_OkD: "PrepareForUpdate ctx obj old = Ok r \<Longrightarrow> \<exists>n. obj = TaskObj n"
  by (auto simp: PrepareForUpdate_def)

lemma Status_PrepareForUpdate_OkD:
  "Status_PrepareForUpdate ctx obj old = Ok r \<Longrightarrow> \<exists>n. obj = TaskObj n"
  by (auto simp: Status_PrepareForUpdate_def)

lemma ValidateUpdate_Task [strategy_rules]:
  "ValidateUpdate V ctx (TaskObj n) (TaskObj old) = Ok (validateTask V n)"
  by (simp add: ValidateUpdate_def validateImmutableFields_def)

lemma Status_ValidateUpdate_Task [strategy_rules]:
  "Status_ValidateUpdate V ctx (TaskObj n) old = Ok (validateStatusUpdate V n)"
  by (simp add: Status_ValidateUpdate_def)

lemma validateTask_Nil_iff:
  "validateTask V t = [] \<longleftrightarrow>
     v_ValidateObjectMeta V (t_ObjectMeta t) True NameIsDNSSubdomain [''metadata''] = []
     \<and> ts_Image (t_Spec t) \<noteq> []"
  by (auto simp: validateTask_def)

lemma validateStatusUpdate_Nil_iff:
  "validateStatusUpdate V t = [] \<longleftrightarrow>
     0 \<le> sint (st_ObservedGeneration (t_Status t))
     \<and> sint (st_ObservedGeneration (t_Status t)) \<le> sint (generation t)
     \<and> v_ValidateConditions V (st_Conditions (t_Status t)) [''status'', ''conditions''] = []"
  by (auto simp: validateStatusUpdate_def Let_def)

subsection \<open>Interface: an update strategy for Tasks\<close>

text \<open>
  A stored task is well formed if it has an image, its generation has started, and no
  controller claims to have observed a generation that does not exist.
\<close>

definition task_wf :: "Task \<Rightarrow> bool" where
  "task_wf t \<longleftrightarrow> ts_Image (t_Spec t) \<noteq> [] \<and> 1 \<le> sint (generation t)
     \<and> 0 \<le> sint (st_ObservedGeneration (t_Status t))
     \<and> sint (st_ObservedGeneration (t_Status t)) \<le> sint (generation t)"

text \<open>Two tasks agree on what the strategies decide: spec, status, type and generation.\<close>

definition same_body :: "Task \<Rightarrow> Task \<Rightarrow> bool" where
  "same_body a b \<longleftrightarrow> t_Spec a = t_Spec b \<and> t_Status a = t_Status b
     \<and> t_TypeMeta a = t_TypeMeta b \<and> generation a = generation b"

text \<open>
  What the registry relies on in either strategy: it is namespaced and conditional, its
  hook writes the generation that the spec change demands and leaves spec or status as it
  was, and what passes its validation is well formed if the old task was.
\<close>

locale task_update_strategy =
  fixes us :: "'ctx update_strategy"
  assumes scoped: "us_NamespaceScoped us"
    and conditional: "\<not> us_AllowUnconditionalUpdate us"
    and no_create: "\<not> us_AllowCreateOnUpdate us"
    and canonical: "us_Canonicalize us obj = obj"
    and prepare_Task: "\<exists>p. us_PrepareForUpdate us ctx (TaskObj n) (TaskObj old) = Ok (TaskObj p)"
    and prepare_only_Task:
      "us_PrepareForUpdate us ctx obj (TaskObj old) = Ok r \<Longrightarrow> \<exists>n. obj = TaskObj n"
    and prepare_generation:
      "us_PrepareForUpdate us ctx (TaskObj n) (TaskObj old) = Ok (TaskObj p) \<Longrightarrow>
         generation p = (if specEqual (t_Spec p) (t_Spec old)
                         then generation old else generation old + 1)"
    and prepare_frame:
      "us_PrepareForUpdate us ctx (TaskObj n) (TaskObj old) = Ok (TaskObj p) \<Longrightarrow>
         t_ObjectMeta p = (t_ObjectMeta n)\<lparr>om_Generation := generation p\<rparr>
         \<and> t_TypeMeta p = t_TypeMeta n
         \<and> (t_Spec p = t_Spec old \<or> t_Status p = t_Status old)"
    and prepare_body:
      "same_body old old' \<Longrightarrow>
         us_PrepareForUpdate us ctx (TaskObj n) (TaskObj old)
           = us_PrepareForUpdate us ctx (TaskObj n) (TaskObj old')"
    and validated_wf:
      "us_PrepareForUpdate us ctx (TaskObj n) (TaskObj old) = Ok (TaskObj p) \<Longrightarrow>
         same_body p q \<Longrightarrow> us_ValidateUpdate us ctx (TaskObj q) (TaskObj old) = Ok [] \<Longrightarrow>
         task_wf old \<Longrightarrow> sint (generation old) < 2 ^ 63 - 1 \<Longrightarrow> task_wf q"
begin

lemma generation_step:
  assumes "us_PrepareForUpdate us ctx (TaskObj n) (TaskObj old) = Ok (TaskObj p)"
    and "sint (generation old) < 2 ^ 63 - 1"
  shows "sint (generation p) = sint (generation old)
      \<and> specEqual (t_Spec p) (t_Spec old)
    \<or> sint (generation p) = sint (generation old) + 1
      \<and> \<not> specEqual (t_Spec p) (t_Spec old) \<and> t_Status p = t_Status old"
proof (cases "specEqual (t_Spec p) (t_Spec old)")
  case True
  with prepare_generation [OF assms(1)] show ?thesis by simp
next
  case False
  then have "t_Spec p \<noteq> t_Spec old" by auto
  with prepare_frame [OF assms(1)] prepare_generation [OF assms(1)] False
    sint_i64_plus_1 [OF assms(2)] show ?thesis by simp
qed

end

lemma update_iface_simps [simp]:
  "us_PrepareForUpdate (Strategy_update V s) = PrepareForUpdate"
  "us_ValidateUpdate (Strategy_update V s) = ValidateUpdate V"
  "us_NamespaceScoped (Strategy_update V s)"
  "\<not> us_AllowUnconditionalUpdate (Strategy_update V s)"
  "\<not> us_AllowCreateOnUpdate (Strategy_update V s)"
  "us_Canonicalize (Strategy_update V s) obj = obj"
  "us_PrepareForUpdate (StatusStrategy_update V ss) = Status_PrepareForUpdate"
  "us_ValidateUpdate (StatusStrategy_update V ss) = Status_ValidateUpdate V"
  "us_NamespaceScoped (StatusStrategy_update V ss)"
  "\<not> us_AllowUnconditionalUpdate (StatusStrategy_update V ss)"
  "\<not> us_AllowCreateOnUpdate (StatusStrategy_update V ss)"
  "us_Canonicalize (StatusStrategy_update V ss) obj = obj"
  by (simp_all add: Strategy_update_def StatusStrategy_update_def)

lemma create_iface_simps [simp]:
  "cs_PrepareForCreate (Strategy_create V s) = PrepareForCreate"
  "cs_Validate (Strategy_create V s) = Validate V"
  "cs_NamespaceScoped (Strategy_create V s)"
  "cs_Canonicalize (Strategy_create V s) obj = obj"
  by (simp_all add: Strategy_create_def)

interpretation main_strategy: task_update_strategy "Strategy_update V s" for V s
proof unfold_locales
  fix ctx :: 'a and n old p q :: Task
  assume p: "us_PrepareForUpdate (Strategy_update V s) ctx (TaskObj n) (TaskObj old) = Ok (TaskObj p)"
    and q: "same_body p q"
    and v: "us_ValidateUpdate (Strategy_update V s) ctx (TaskObj q) (TaskObj old) = Ok []"
    and wf: "task_wf old" and b: "sint (generation old) < 2 ^ 63 - 1"
  from p q have "generation q = (if specEqual (t_Spec n) (t_Spec old) then generation old else generation old + 1)"
    "t_Status q = t_Status old"
    by (auto simp: strategy_rules same_body_def)
  moreover from v have "ts_Image (t_Spec q) \<noteq> []"
    by (simp add: ValidateUpdate_Task validateTask_Nil_iff)
  ultimately show "task_wf q"
    using wf sint_i64_plus_1 [OF b] by (simp add: task_wf_def)
qed (auto simp: strategy_rules same_body_def dest: PrepareForUpdate_OkD)

interpretation status_strategy: task_update_strategy "StatusStrategy_update V s" for V s
proof unfold_locales
  fix ctx :: 'a and n old p q :: Task
  assume p: "us_PrepareForUpdate (StatusStrategy_update V s) ctx (TaskObj n) (TaskObj old) = Ok (TaskObj p)"
    and q: "same_body p q"
    and v: "us_ValidateUpdate (StatusStrategy_update V s) ctx (TaskObj q) (TaskObj old) = Ok []"
    and wf: "task_wf old"
  from p q have "generation q = generation old" "t_Spec q = t_Spec old"
    by (auto simp: strategy_rules same_body_def)
  with v wf show "task_wf q"
    by (simp add: Status_ValidateUpdate_Task validateStatusUpdate_Nil_iff task_wf_def)
qed (auto simp: strategy_rules same_body_def dest: Status_PrepareForUpdate_OkD)


subsection \<open>Properties\<close>

text \<open>C32. \<open>specEqual\<close>, written with an index loop to avoid \<open>reflect.DeepEqual\<close>, decides
  equality of image, command and arguments as sequences: a nil slice and an empty one count
  as equal, and nothing else is identified. It is an equivalence relation, so a chain of
  unchanged updates never bumps the generation.\<close>

theorem specEqual_decides:
  "(specEqual a b \<longleftrightarrow> ts_Image a = ts_Image b \<and> elems (ts_Command a) = elems (ts_Command b)
      \<and> elems (ts_Args a) = elems (ts_Args b))
   \<and> equivp specEqual
   \<and> specEqual (a\<lparr>ts_Args := None\<rparr>) (a\<lparr>ts_Args := Some []\<rparr>)"
  by (auto simp: specEqual_iff fun_eq_iff intro!: equivpI reflpI sympI transpI)

text \<open>The create hook drops whatever status and generation the client sent, so that a
  created task that passes validation is well formed: it has an image, its generation is 1
  and no generation counts as observed. On any other object the hook panics.\<close>

lemma create_hook_resets:
  "PrepareForCreate ctx (TaskObj t) =
     Ok (TaskObj (t\<lparr>t_Status := zero_TaskStatus,
                    t_ObjectMeta := (t_ObjectMeta t)\<lparr>om_Generation := 1\<rparr>\<rparr>))
   \<and> (task_wf (t\<lparr>t_Status := zero_TaskStatus, t_ObjectMeta := (t_ObjectMeta t)\<lparr>om_Generation := 1\<rparr>\<rparr>)
        \<longleftrightarrow> ts_Image (t_Spec t) \<noteq> [])
   \<and> (as_Task obj = None \<longleftrightarrow> \<not> is_ok (PrepareForCreate ctx obj))"
  by (cases obj)
    (simp_all add: PrepareForCreate_def set_generation_def task_wf_def zero_TaskStatus_def
      assert_Task_def)

text \<open>An update of the main resource keeps the stored status whatever the client sent,
  keeps the client's spec and its metadata other than the generation, and moves the
  generation by exactly one if the spec changed and not at all otherwise (as long as the
  generation has not reached the largest \<open>int64\<close>).\<close>

lemma main_update_hook:
  assumes "sint (generation old) < 2 ^ 63 - 1"
  shows "\<exists>p. PrepareForUpdate ctx (TaskObj n) (TaskObj old) = Ok (TaskObj p)
    \<and> t_Status p = t_Status old \<and> t_Spec p = t_Spec n
    \<and> t_ObjectMeta p = (t_ObjectMeta n)\<lparr>om_Generation := generation p\<rparr>
    \<and> sint (generation p) =
        (if specEqual (t_Spec n) (t_Spec old) then sint (generation old) else sint (generation old) + 1)"
  using sint_i64_plus_1 [OF assms] by (simp add: strategy_rules)

text \<open>An update through the status subresource keeps the stored spec and generation
  whatever the client sent, and the client's status goes through. The rest of the metadata
  is the client's as well: labels, annotations and finalizers are not pinned.\<close>

lemma status_update_hook:
  "Status_PrepareForUpdate ctx (TaskObj n) (TaskObj old) =
     Ok (TaskObj (n\<lparr>t_Spec := t_Spec old,
                    t_ObjectMeta := (t_ObjectMeta n)\<lparr>om_Generation := generation old\<rparr>\<rparr>))"
  by (simp add: strategy_rules set_generation_def)

text \<open>Spec writers and status writers do not interfere: applying the main hook and then
  the status hook to two clients' objects leaves the same spec, status and generation as
  applying them in the other order.\<close>

lemma spec_and_status_writes_commute:
  "(\<exists>p r q r'.
      PrepareForUpdate ctx (TaskObj n) (TaskObj old) = Ok (TaskObj p)
    \<and> Status_PrepareForUpdate ctx (TaskObj m) (TaskObj p) = Ok (TaskObj r)
    \<and> Status_PrepareForUpdate ctx (TaskObj m) (TaskObj old) = Ok (TaskObj q)
    \<and> PrepareForUpdate ctx (TaskObj n) (TaskObj q) = Ok (TaskObj r')
    \<and> t_Spec r = t_Spec r' \<and> t_Status r = t_Status r' \<and> generation r = generation r'
    \<and> t_Spec r = t_Spec n \<and> t_Status r = t_Status m)"
  by (simp add: strategy_rules)

text \<open>Status validation accepts exactly the statuses whose observed generation lies
  between 0 and the task's generation, as signed numbers, and whose conditions the library
  accepts; it reports at most one error for the observed generation.\<close>

lemma status_validation_decides:
  "(validateStatusUpdate V t = [] \<longleftrightarrow>
      0 \<le> sint (st_ObservedGeneration (t_Status t))
      \<and> sint (st_ObservedGeneration (t_Status t)) \<le> sint (generation t)
      \<and> v_ValidateConditions V (st_Conditions (t_Status t)) [''status'', ''conditions''] = [])
   \<and> length (validateStatusUpdate V t) \<le>
       Suc (length (v_ValidateConditions V (st_Conditions (t_Status t)) [''status'', ''conditions'']))"
  by (auto simp: validateStatusUpdate_def Let_def)

end
