(* ===== verification/Registry.thy ===== *)
theory Registry
  imports StoreSpec Strategy
begin

section \<open>The REST handlers: \<open>pkg/registry/tasks/task/storage.go\<close>\<close>

text \<open>
  A handler is a program that calls the store: a tree whose nodes are the store's methods and
  whose branches are what the handler does with their results. Each method holds the
  store's lock for its own duration only, so the tree has exactly the points at which
  other requests may run. \<open>exec\<close> runs a handler alone; the theory Concurrency
  interleaves handlers. The Kubernetes library functions that the handlers call are
  parameters, collected in \<open>k8s\<close>.
\<close>

subsection \<open>Programs over the store\<close>

datatype 'a prog =
    Done 'a
  | CallGet Key "(go_error, runtime_object) outcome \<Rightarrow> 'a prog"
  | CallList string "(go_error, runtime_object list) outcome \<Rightarrow> 'a prog"
  | CallCurrentRV "u64 \<Rightarrow> 'a prog"
  | CallCreate Key runtime_object "(go_error, runtime_object) outcome \<Rightarrow> 'a prog"
  | CallUpdate Key runtime_object "(go_error, runtime_object) outcome \<Rightarrow> 'a prog"
  | CallDelete Key "(go_error, runtime_object) outcome \<Rightarrow> 'a prog"

text \<open>\<open>ord\<close> gives the order in which the runtime ranges over the store's map.\<close>

primrec exec :: "(store \<Rightarrow> Key list) \<Rightarrow> 'a prog \<Rightarrow> store \<Rightarrow> 'a \<times> store" where
  "exec ord (Done x) s = (x, s)"
| "exec ord (CallGet k f) s = exec ord (f (Store_Get k s)) s"
| "exec ord (CallList ns f) s = exec ord (f (Store_List (ord s) ns s)) s"
| "exec ord (CallCurrentRV f) s = exec ord (f (CurrentResourceVersion s)) s"
| "exec ord (CallCreate k obj f) s =
     exec ord (f (fst (Store_Create k obj s))) (snd (Store_Create k obj s))"
| "exec ord (CallUpdate k obj f) s =
     exec ord (f (fst (Store_Update k obj s))) (snd (Store_Update k obj s))"
| "exec ord (CallDelete k f) s =
     exec ord (f (fst (Store_Delete k s))) (snd (Store_Delete k s))"

text \<open>\<open>if err != nil { return err }\<close>.\<close>

fun on_ok :: "(go_error, 'a) outcome \<Rightarrow> ('a \<Rightarrow> (go_error, 'b) outcome prog)
    \<Rightarrow> (go_error, 'b) outcome prog" where
  "on_ok (Ok x) f = f x"
| "on_ok (Err e) f = Done (Err e)"
| "on_ok (Panic p) f = Done (Panic p)"

subsection \<open>The library the handlers call\<close>

text \<open>
  \<open>genericapirequest.NamespaceFrom\<close>, \<open>rest.FillObjectMetaSystemFields\<close>,
  \<open>rest.BeforeCreate\<close> and \<open>rest.BeforeUpdate\<close>. The last two mutate the objects they are
  given; their models return them.
\<close>

record 'ctx k8s =
  x_NamespaceFrom :: "'ctx \<Rightarrow> string \<times> bool"
  x_FillObjectMetaSystemFields :: "ObjectMeta \<Rightarrow> ObjectMeta"
  x_BeforeCreate ::
    "'ctx create_strategy \<Rightarrow> 'ctx \<Rightarrow> runtime_object \<Rightarrow> (go_error, runtime_object) outcome"
  x_BeforeUpdate ::
    "'ctx update_strategy \<Rightarrow> 'ctx \<Rightarrow> runtime_object \<Rightarrow> runtime_object
       \<Rightarrow> (go_error, runtime_object \<times> runtime_object) outcome"

text \<open>Admission callbacks and \<open>rest.UpdatedObjectInfo\<close>; a nil callback is \<open>None\<close>.\<close>

type_synonym 'ctx validate_object = "('ctx \<Rightarrow> runtime_object \<Rightarrow> (go_error, unit) outcome) option"
type_synonym 'ctx validate_update =
  "('ctx \<Rightarrow> runtime_object \<Rightarrow> runtime_object \<Rightarrow> (go_error, unit) outcome) option"

definition call_validation ::
    "'ctx validate_object \<Rightarrow> 'ctx \<Rightarrow> runtime_object \<Rightarrow> (go_error, unit) outcome" where
  "call_validation v ctx obj = (case v of None \<Rightarrow> Ok () | Some f \<Rightarrow> f ctx obj)"

definition call_update_validation ::
    "'ctx validate_update \<Rightarrow> 'ctx \<Rightarrow> runtime_object \<Rightarrow> runtime_object \<Rightarrow> (go_error, unit) outcome" where
  "call_update_validation v ctx obj old = (case v of None \<Rightarrow> Ok () | Some f \<Rightarrow> f ctx obj old)"

record 'ctx updated_object_info =
  uoi_UpdatedObject :: "'ctx \<Rightarrow> runtime_object \<Rightarrow> (go_error, runtime_object) outcome"
  uoi_Preconditions :: "Preconditions option"

text \<open>Selectors are interface values: of a field selector the code asks whether it is empty,
  of a label selector whether it matches a set of labels.\<close>

record field_selector =
  fs_Empty :: bool

record ListOptions =
  lo_LabelSelector :: "((string, string) gomap \<Rightarrow> bool) option"
  lo_FieldSelector :: "field_selector option"
  lo_ResourceVersion :: string
  lo_Limit :: i64
  lo_Continue :: string

subsection \<open>The handlers' own state\<close>

record 'ctx REST =
  r_strategy :: Strategy
  r_gr :: GroupResource
  r_table :: "'ctx \<Rightarrow> runtime_object \<Rightarrow> runtime_object \<Rightarrow> (go_error, runtime_object) outcome"

record StatusREST =
  sr_strategy :: StatusStrategy
  sr_gr :: GroupResource

definition NewREST ::
    "(GroupResource \<Rightarrow> 'ctx \<Rightarrow> runtime_object \<Rightarrow> runtime_object \<Rightarrow> (go_error, runtime_object) outcome)
       \<Rightarrow> Strategy \<Rightarrow> GroupResource \<Rightarrow> 'ctx REST" where
  "NewREST NewDefaultTableConvertor strategy gr =
     \<lparr>r_strategy = strategy, r_gr = gr, r_table = NewDefaultTableConvertor gr\<rparr>"

definition NewStatusREST :: "StatusStrategy \<Rightarrow> GroupResource \<Rightarrow> StatusREST" where
  "NewStatusREST strategy gr = \<lparr>sr_strategy = strategy, sr_gr = gr\<rparr>"

definition REST_New :: runtime_object where "REST_New = TaskObj zero_Task"
definition REST_NewList :: runtime_object where "REST_NewList = TaskListObj zero_TaskList"
definition Strategy_New :: runtime_object where "Strategy_New = TaskObj zero_Task"
definition REST_Destroy :: "store \<Rightarrow> store" where "REST_Destroy s = s"
definition REST_NamespaceScoped :: "'ctx REST \<Rightarrow> bool" where
  "REST_NamespaceScoped r = NamespaceScoped"
definition GetSingularName :: string where "GetSingularName = ''task''"
definition ShortNames :: "string list" where "ShortNames = [''tk'']"
definition Categories :: "string list" where "Categories = [''all'']"

definition ConvertToTable ::
    "'ctx REST \<Rightarrow> 'ctx \<Rightarrow> runtime_object \<Rightarrow> runtime_object \<Rightarrow> (go_error, runtime_object) outcome" where
  "ConvertToTable r ctx obj opts = r_table r ctx obj opts"

subsection \<open>Keys from the request\<close>

definition requestNamespace :: "'ctx k8s \<Rightarrow> 'ctx \<Rightarrow> string \<times> bool" where
  "requestNamespace K ctx = x_NamespaceFrom K ctx"

definition namespaceFromContext :: "'ctx k8s \<Rightarrow> 'ctx \<Rightarrow> bool \<Rightarrow> string" where
  "namespaceFromContext K ctx namespaced = fst (requestNamespace K ctx)"

definition keyFromContext ::
    "'ctx k8s \<Rightarrow> 'ctx \<Rightarrow> string \<Rightarrow> bool \<Rightarrow> GroupResource \<Rightarrow> (go_error, Key) outcome" where
  "keyFromContext K ctx name namespaced gr =
     (if name = [] then Err (BadRequest (Sprintf ''name is required'' []))
      else let ns = namespaceFromContext K ctx namespaced
           in if namespaced \<and> ns = []
              then Err (BadRequest (Sprintf ''namespace is required for %s'' [FGR gr]))
              else Ok (Key ns name))"

subsection \<open>Conflict checks\<close>

definition checkResourceVersion ::
    "runtime_object \<Rightarrow> runtime_object \<Rightarrow> 'ctx update_strategy \<Rightarrow> GroupResource
       \<Rightarrow> (go_error, unit) outcome" where
  "checkResourceVersion existing updated us gr =
     (case Accessor existing of
        Err e \<Rightarrow> Err (InternalError e)
      | Panic p \<Rightarrow> Panic p
      | Ok oldAcc \<Rightarrow>
     (case Accessor updated of
        Err e \<Rightarrow> Err (InternalError e)
      | Panic p \<Rightarrow> Panic p
      | Ok newAcc \<Rightarrow>
          let newRV = om_ResourceVersion newAcc
          in if newRV = [] then
               (if us_AllowUnconditionalUpdate us then Ok ()
                else Err (Conflict gr (om_Name newAcc)
                       (Errorf (Sprintf ''resourceVersion must be specified for an update'' []))))
             else if newRV \<noteq> om_ResourceVersion oldAcc then
               Err (Conflict gr (om_Name newAcc) (Errorf (Sprintf
                 ''the object has been modified; please apply your changes to the latest version and try again'' [])))
             else Ok ()))"

definition checkPreconditions ::
    "runtime_object \<Rightarrow> Preconditions option \<Rightarrow> GroupResource \<Rightarrow> string \<Rightarrow> (go_error, unit) outcome" where
  "checkPreconditions existing pre gr name =
     (case pre of
        None \<Rightarrow> Ok ()
      | Some pre \<Rightarrow>
     (case Accessor existing of
        Err e \<Rightarrow> Err (InternalError e)
      | Panic p \<Rightarrow> Panic p
      | Ok acc \<Rightarrow>
          if pre_UID pre \<noteq> None \<and> the (pre_UID pre) \<noteq> om_UID acc then
            Err (Conflict gr name (Errorf (Sprintf
              ''UID precondition (%s) does not match current UID (%s)''
              [FStr (the (pre_UID pre)), FStr (om_UID acc)])))
          else if pre_ResourceVersion pre \<noteq> None
               \<and> the (pre_ResourceVersion pre) \<noteq> om_ResourceVersion acc then
            Err (Conflict gr name (Errorf (Sprintf
              ''resourceVersion precondition (%s) does not match current resourceVersion (%s)''
              [FStr (the (pre_ResourceVersion pre)), FStr (om_ResourceVersion acc)])))
          else Ok ()))"


subsection \<open>Reading: get, list, watch\<close>

definition REST_Get ::
    "'ctx k8s \<Rightarrow> 'ctx REST \<Rightarrow> 'ctx \<Rightarrow> string \<Rightarrow> GetOptions option
       \<Rightarrow> (go_error, runtime_object) outcome prog" where
  "REST_Get K r ctx name opts =
     on_ok (keyFromContext K ctx name (REST_NamespaceScoped r) (r_gr r)) (\<lambda>key.
     CallGet key Done)"

text \<open>The loop of \<open>List\<close>: filters by label and keeps the highest version seen.\<close>

fun list_items ::
    "((string, string) gomap \<Rightarrow> bool) \<Rightarrow> runtime_object list \<Rightarrow> Task list \<Rightarrow> u64
       \<Rightarrow> (go_error, Task list \<times> u64) outcome" where
  "list_items selector [] items maxRV = Ok (items, maxRV)"
| "list_items selector (obj # raw) items maxRV =
     (case as_Task obj of
        None \<Rightarrow> Err (InternalError (Errorf (Sprintf ''stored object is not a *Task: %T''
                  [FStr (dynamic_type obj)])))
      | Some t \<Rightarrow>
          if \<not> selector (om_Labels (t_ObjectMeta t)) then list_items selector raw items maxRV
          else let rv = parseRVOrZero (om_ResourceVersion (t_ObjectMeta t))
               in list_items selector raw (items @ [t]) (if maxRV < rv then rv else maxRV))"

definition task_list :: "Task list \<Rightarrow> u64 \<Rightarrow> TaskList" where
  "task_list items rv =
     zero_TaskList\<lparr>tl_Items := Some items,
                   tl_ListMeta := zero_ListMeta\<lparr>lm_ResourceVersion := formatRV rv\<rparr>\<rparr>"

definition REST_List ::
    "'ctx k8s \<Rightarrow> 'ctx REST \<Rightarrow> 'ctx \<Rightarrow> ListOptions option
       \<Rightarrow> (go_error, TaskList) outcome prog" where
  "REST_List K r ctx options =
     (if (case options of None \<Rightarrow> False
          | Some opts \<Rightarrow> (case lo_FieldSelector opts of None \<Rightarrow> False
                          | Some fs \<Rightarrow> \<not> fs_Empty fs))
      then Done (Err (InternalError (Errorf
             (Sprintf ''field selectors are not supported on %s'' [FGR (r_gr r)]))))
      else
        let selector = (case options of None \<Rightarrow> (\<lambda>_. True)
                        | Some opts \<Rightarrow> (case lo_LabelSelector opts of None \<Rightarrow> (\<lambda>_. True)
                                        | Some sel \<Rightarrow> sel));
            ns = namespaceFromContext K ctx (REST_NamespaceScoped r)
        in CallList ns (\<lambda>raw.
           on_ok raw (\<lambda>raw.
           on_ok (list_items selector raw [] 0) (\<lambda>(items, maxRV).
             if maxRV = 0 then CallCurrentRV (\<lambda>rv. Done (Ok (task_list items rv)))
             else Done (Ok (task_list items maxRV))))))"

definition REST_Watch ::
    "'ctx REST \<Rightarrow> 'ctx \<Rightarrow> ListOptions option \<Rightarrow> (go_error, unit) outcome prog" where
  "REST_Watch r ctx opts = Done (Err (MethodNotSupported (r_gr r) ''watch''))"

subsection \<open>Create\<close>

definition internal_accessor :: "runtime_object \<Rightarrow> (go_error, ObjectMeta) outcome" where
  "internal_accessor obj =
     (case Accessor obj of Err e \<Rightarrow> Err (InternalError e) | Panic p \<Rightarrow> Panic p | Ok m \<Rightarrow> Ok m)"

text \<open>The metadata an accessor obtained earlier for this object reads.\<close>

definition meta_of :: "runtime_object \<Rightarrow> ObjectMeta" where
  "meta_of obj = (case object_meta obj of None \<Rightarrow> zero_ObjectMeta | Some m \<Rightarrow> m)"

definition REST_Create ::
    "'ctx k8s \<Rightarrow> validators \<Rightarrow> 'ctx REST \<Rightarrow> 'ctx \<Rightarrow> runtime_object \<Rightarrow> 'ctx validate_object
       \<Rightarrow> CreateOptions option \<Rightarrow> (go_error, runtime_object) outcome prog" where
  "REST_Create K V r ctx obj createValidation opts =
     on_ok (internal_accessor obj) (\<lambda>m.
     let obj = set_object_meta (x_FillObjectMetaSystemFields K m) obj in
     on_ok (x_BeforeCreate K (Strategy_create V (r_strategy r)) ctx obj) (\<lambda>obj.
     on_ok (call_validation createValidation ctx obj) (\<lambda>_.
     let key = Key (om_Namespace (meta_of obj)) (om_Name (meta_of obj)) in
     CallCreate key obj Done)))"

subsection \<open>Update\<close>

definition updateOnStore ::
    "'ctx k8s \<Rightarrow> validators \<Rightarrow> 'ctx \<Rightarrow> string \<Rightarrow> 'ctx updated_object_info
       \<Rightarrow> 'ctx validate_object \<Rightarrow> 'ctx validate_update \<Rightarrow> bool \<Rightarrow> UpdateOptions option
       \<Rightarrow> Strategy \<Rightarrow> 'ctx update_strategy \<Rightarrow> GroupResource
       \<Rightarrow> (go_error, runtime_object \<times> bool) outcome prog" where
  "updateOnStore K V ctx name objInfo createValidation updateValidation forceAllowCreate opts
       createStrategy updateStrategy gr =
     on_ok (keyFromContext K ctx name (us_NamespaceScoped updateStrategy) gr) (\<lambda>key.
     CallGet key (\<lambda>got. case got of
       Panic p \<Rightarrow> Done (Panic p)
     | Err getErr \<Rightarrow>
         if IsNotFound getErr then
           if \<not> forceAllowCreate \<and> \<not> AllowCreateOnUpdate then Done (Err getErr)
           else
             on_ok (uoi_UpdatedObject objInfo ctx Strategy_New) (\<lambda>newObj.
             on_ok (internal_accessor newObj) (\<lambda>m.
             let newObj = set_object_meta (x_FillObjectMetaSystemFields K m) newObj in
             on_ok (x_BeforeCreate K (Strategy_create V createStrategy) ctx newObj) (\<lambda>newObj.
             on_ok (call_validation createValidation ctx newObj) (\<lambda>_.
             CallCreate key newObj (\<lambda>created.
             on_ok created (\<lambda>created. Done (Ok (created, True))))))))
         else Done (Err getErr)
     | Ok existing \<Rightarrow>
         on_ok (uoi_UpdatedObject objInfo ctx existing) (\<lambda>newObj.
         on_ok (checkPreconditions existing (uoi_Preconditions objInfo) gr name) (\<lambda>_.
         on_ok (checkResourceVersion existing newObj updateStrategy gr) (\<lambda>_.
         on_ok (x_BeforeUpdate K updateStrategy ctx newObj existing) (\<lambda>(newObj, existing).
         on_ok (call_update_validation updateValidation ctx newObj existing) (\<lambda>_.
         CallUpdate key newObj (\<lambda>updated.
         on_ok updated (\<lambda>updated. Done (Ok (updated, False)))))))))))"

definition REST_Update ::
    "'ctx k8s \<Rightarrow> validators \<Rightarrow> 'ctx REST \<Rightarrow> 'ctx \<Rightarrow> string \<Rightarrow> 'ctx updated_object_info
       \<Rightarrow> 'ctx validate_object \<Rightarrow> 'ctx validate_update \<Rightarrow> bool \<Rightarrow> UpdateOptions option
       \<Rightarrow> (go_error, runtime_object \<times> bool) outcome prog" where
  "REST_Update K V r ctx name objInfo createValidation updateValidation forceAllowCreate opts =
     updateOnStore K V ctx name objInfo createValidation updateValidation forceAllowCreate opts
       (r_strategy r) (Strategy_update V (r_strategy r)) (r_gr r)"

subsection \<open>Delete\<close>

definition REST_Delete ::
    "'ctx k8s \<Rightarrow> 'ctx REST \<Rightarrow> 'ctx \<Rightarrow> string \<Rightarrow> 'ctx validate_object \<Rightarrow> DeleteOptions option
       \<Rightarrow> (go_error, runtime_object \<times> bool) outcome prog" where
  "REST_Delete K r ctx name deleteValidation options =
     on_ok (keyFromContext K ctx name (REST_NamespaceScoped r) (r_gr r)) (\<lambda>key.
     CallGet key (\<lambda>got.
     on_ok got (\<lambda>existing.
     on_ok (case options of None \<Rightarrow> Panic ''nil pointer dereference''
            | Some dopts \<Rightarrow> Ok (do_Preconditions dopts)) (\<lambda>pre.
     on_ok (checkPreconditions existing pre (r_gr r) name) (\<lambda>_.
     on_ok (call_validation deleteValidation ctx existing) (\<lambda>_.
     CallDelete key (\<lambda>deleted.
     on_ok deleted (\<lambda>deleted. Done (Ok (deleted, True))))))))))"

subsection \<open>The status subresource\<close>

definition StatusREST_New :: runtime_object where "StatusREST_New = TaskObj zero_Task"
definition StatusREST_Destroy :: "store \<Rightarrow> store" where "StatusREST_Destroy s = s"

definition StatusREST_Get ::
    "'ctx k8s \<Rightarrow> StatusREST \<Rightarrow> 'ctx \<Rightarrow> string \<Rightarrow> GetOptions option
       \<Rightarrow> (go_error, runtime_object) outcome prog" where
  "StatusREST_Get K r ctx name opts =
     on_ok (keyFromContext K ctx name NamespaceScoped (sr_gr r)) (\<lambda>key.
     CallGet key Done)"

definition StatusREST_Update ::
    "'ctx k8s \<Rightarrow> validators \<Rightarrow> StatusREST \<Rightarrow> 'ctx \<Rightarrow> string \<Rightarrow> 'ctx updated_object_info
       \<Rightarrow> 'ctx validate_object \<Rightarrow> 'ctx validate_update \<Rightarrow> bool \<Rightarrow> UpdateOptions option
       \<Rightarrow> (go_error, runtime_object \<times> bool) outcome prog" where
  "StatusREST_Update K V r ctx name objInfo createValidation updateValidation forceAllowCreate opts =
     updateOnStore K V ctx name objInfo createValidation updateValidation forceAllowCreate opts
       (ss_Strategy (sr_strategy r)) (StatusStrategy_update V (sr_strategy r)) (sr_gr r)"

end
