(* ===== verification/LibraryContract.thy ===== *)
theory LibraryContract
  imports Registry
begin

section \<open>What the handlers rely on in the Kubernetes library\<close>

text \<open>
  \<open>rest.BeforeCreate\<close> and \<open>rest.BeforeUpdate\<close> are not part of the program. Their documented
  behaviour, as far as the program relies on it: they run the strategy's hook on the object
  and then its validation, they succeed only if validation reports nothing, and apart from
  that they only touch metadata (\<open>BeforeCreate\<close> generates a name only where there is none).
  \<open>FillObjectMetaSystemFields\<close> sets UID and creation time. A successful create is for the request's namespace, and a
  successful update has not changed name, namespace or UID. The last part of this theory
  gives one library that behaves so, to evaluate the handlers with.
\<close>

definition only_meta :: "runtime_object \<Rightarrow> runtime_object \<Rightarrow> bool" where
  "only_meta a b \<longleftrightarrow> (\<exists>m. b = set_object_meta m a)"

definition keeps_generation :: "runtime_object \<Rightarrow> runtime_object \<Rightarrow> bool" where
  "keeps_generation a b \<longleftrightarrow> only_meta a b \<and> om_Generation (meta_of b) = om_Generation (meta_of a)"

definition same_identity :: "runtime_object \<Rightarrow> runtime_object \<Rightarrow> bool" where
  "same_identity a b \<longleftrightarrow> om_Name (meta_of a) = om_Name (meta_of b)
     \<and> om_Namespace (meta_of a) = om_Namespace (meta_of b) \<and> om_UID (meta_of a) = om_UID (meta_of b)"

definition before_create_contract :: "'ctx k8s \<Rightarrow> bool" where
  "before_create_contract K \<longleftrightarrow>
     (\<forall>cs ctx obj r. x_BeforeCreate K cs ctx obj = Ok r \<longrightarrow>
        (\<exists>obj0 p. only_meta obj obj0
           \<and> (om_Name (meta_of obj) \<noteq> [] \<longrightarrow> om_Name (meta_of obj0) = om_Name (meta_of obj))
           \<and> cs_PrepareForCreate cs ctx obj0 = Ok p
           \<and> cs_Validate cs ctx p = Ok []
           \<and> r = cs_Canonicalize cs p
           \<and> (cs_NamespaceScoped cs \<longrightarrow> om_Namespace (meta_of r) = fst (x_NamespaceFrom K ctx))))"

definition before_update_contract :: "'ctx k8s \<Rightarrow> bool" where
  "before_update_contract K \<longleftrightarrow>
     (\<forall>us ctx new old r old'. x_BeforeUpdate K us ctx new old = Ok (r, old') \<longrightarrow>
        (\<exists>new0 old0 p q. only_meta new new0 \<and> keeps_generation old old0
           \<and> us_PrepareForUpdate us ctx new0 old0 = Ok p
           \<and> keeps_generation p q \<and> keeps_generation old old'
           \<and> us_ValidateUpdate us ctx q old' = Ok []
           \<and> r = us_Canonicalize us q \<and> same_identity q old))"

definition fill_contract :: "'ctx k8s \<Rightarrow> bool" where
  "fill_contract K \<longleftrightarrow>
     (\<forall>m. om_Name (x_FillObjectMetaSystemFields K m) = om_Name m
        \<and> om_Namespace (x_FillObjectMetaSystemFields K m) = om_Namespace m)"

definition library_contract :: "'ctx k8s \<Rightarrow> bool" where
  "library_contract K \<longleftrightarrow> before_create_contract K \<and> before_update_contract K \<and> fill_contract K"

lemma library_contractD:
  assumes "library_contract K"
  shows "before_create_contract K" "before_update_contract K" "fill_contract K"
  using assms by (simp_all add: library_contract_def)

lemma meta_of_TaskObj [simp]: "meta_of (TaskObj t) = t_ObjectMeta t"
  by (simp add: meta_of_def)

lemma only_meta_refl [simp]: "only_meta a a"
proof (cases "object_meta a")
  case None
  then have "set_object_meta m a = a" for m by (cases a) auto
  then show ?thesis by (metis only_meta_def)
next
  case (Some m)
  then show ?thesis unfolding only_meta_def by (metis set_object_meta_self)
qed

lemma keeps_generation_refl [simp]: "keeps_generation a a"
  by (simp add: keeps_generation_def)

lemma only_meta_TaskObj: "only_meta (TaskObj t) b \<longleftrightarrow> (\<exists>m. b = TaskObj (t\<lparr>t_ObjectMeta := m\<rparr>))"
  by (simp add: only_meta_def)

lemma only_meta_TaskObjD: "only_meta a (TaskObj t) \<Longrightarrow> \<exists>t0. a = TaskObj t0"
  by (cases a) (auto simp: only_meta_def)

lemma keeps_generation_TaskObjE:
  assumes "keeps_generation (TaskObj t) b"
  obtains t' where "b = TaskObj t'" "same_body t t'"
  using assms by (auto simp: keeps_generation_def only_meta_TaskObj same_body_def)

subsection \<open>A library to evaluate with\<close>

text \<open>
  A request's context is its namespace. Every task gets the same UID and creation time.
\<close>

definition plain_BeforeCreate ::
    "string create_strategy \<Rightarrow> string \<Rightarrow> runtime_object \<Rightarrow> (go_error, runtime_object) outcome" where
  "plain_BeforeCreate cs ctx obj =
     and_then (cs_PrepareForCreate cs ctx obj) (\<lambda>p.
     and_then (cs_Validate cs ctx p) (\<lambda>errs.
       if errs \<noteq> [] then Err (APIStatus ''Invalid'' [])
       else if cs_NamespaceScoped cs \<and> om_Namespace (meta_of (cs_Canonicalize cs p)) \<noteq> ctx
            then Err (APIStatus ''BadRequest'' [])
       else Ok (cs_Canonicalize cs p)))"

definition plain_BeforeUpdate ::
    "string update_strategy \<Rightarrow> string \<Rightarrow> runtime_object \<Rightarrow> runtime_object
       \<Rightarrow> (go_error, runtime_object \<times> runtime_object) outcome" where
  "plain_BeforeUpdate us ctx new old =
     and_then (us_PrepareForUpdate us ctx new old) (\<lambda>p.
     and_then (us_ValidateUpdate us ctx p old) (\<lambda>errs.
       if errs \<noteq> [] \<or> om_Name (meta_of p) \<noteq> om_Name (meta_of old)
          \<or> om_Namespace (meta_of p) \<noteq> om_Namespace (meta_of old)
          \<or> om_UID (meta_of p) \<noteq> om_UID (meta_of old)
       then Err (APIStatus ''Invalid'' []) else Ok (us_Canonicalize us p, old)))"

definition plain_k8s :: "string k8s" where
  "plain_k8s =
     \<lparr>x_NamespaceFrom = (\<lambda>ctx. (ctx, ctx \<noteq> [])),
      x_FillObjectMetaSystemFields = (\<lambda>m. m\<lparr>om_UID := ''uid'', om_CreationTimestamp := 1\<rparr>),
      x_BeforeCreate = plain_BeforeCreate, x_BeforeUpdate = plain_BeforeUpdate\<rparr>"

definition plain_validators :: validators where
  "plain_validators =
     \<lparr>v_ValidateObjectMeta = (\<lambda>m namespaced fn path.
        if om_Name m = [] then [FieldExternal path ''name is required''] else []),
      v_ValidateConditions = (\<lambda>cs path.
        if \<exists>c \<in> set (elems cs). c_Type c = [] then [FieldExternal path ''type is required''] else [])\<rparr>"

definition plain_strategy :: Strategy where
  "plain_strategy = NewStrategy (\<lambda>base. base @ ''x'')
     \<lparr>ot_ObjectKinds = (\<lambda>obj. Ok ([], False)), ot_Recognizes = (\<lambda>gvk. True)\<rparr>"

definition plain_REST :: "string REST" where
  "plain_REST = NewREST (\<lambda>gr ctx obj opts. Ok obj) plain_strategy (Resource ''tasks'')"

definition plain_StatusREST :: StatusREST where
  "plain_StatusREST = NewStatusREST \<lparr>ss_Strategy = plain_strategy\<rparr> (Resource ''tasks'')"

lemma plain_before_create: "before_create_contract plain_k8s"
proof -
  have "\<exists>obj0 p. only_meta obj obj0
      \<and> (om_Name (meta_of obj) \<noteq> [] \<longrightarrow> om_Name (meta_of obj0) = om_Name (meta_of obj))
      \<and> cs_PrepareForCreate cs ctx obj0 = Ok p
      \<and> cs_Validate cs ctx p = Ok [] \<and> r = cs_Canonicalize cs p
      \<and> (cs_NamespaceScoped cs \<longrightarrow> om_Namespace (meta_of r) = ctx)"
    if "plain_BeforeCreate cs ctx obj = Ok r" for cs ctx obj r
  proof -
    from that obtain p where p: "cs_PrepareForCreate cs ctx obj = Ok p" "cs_Validate cs ctx p = Ok []"
      "r = cs_Canonicalize cs p"
      "cs_NamespaceScoped cs \<longrightarrow> om_Namespace (meta_of r) = ctx"
      by (auto simp: plain_BeforeCreate_def split: if_splits)
    show ?thesis
      by (rule exI [of _ obj], rule exI [of _ p]) (simp add: p(1,2), use p(3,4) in simp)
  qed
  then show ?thesis by (simp add: before_create_contract_def plain_k8s_def)
qed

lemma plain_before_update: "before_update_contract plain_k8s"
proof -
  have "\<exists>new0 old0 p q. only_meta new new0 \<and> keeps_generation old old0
      \<and> us_PrepareForUpdate us ctx new0 old0 = Ok p
      \<and> keeps_generation p q \<and> keeps_generation old old'
      \<and> us_ValidateUpdate us ctx q old' = Ok []
      \<and> r = us_Canonicalize us q \<and> same_identity q old"
    if "plain_BeforeUpdate us ctx new old = Ok (r, old')" for us ctx new old r old'
  proof -
    from that obtain p errs where p: "us_PrepareForUpdate us ctx new old = Ok p"
      and errs: "us_ValidateUpdate us ctx p old = Ok errs"
      and rest: "(if errs \<noteq> [] \<or> om_Name (meta_of p) \<noteq> om_Name (meta_of old)
            \<or> om_Namespace (meta_of p) \<noteq> om_Namespace (meta_of old)
            \<or> om_UID (meta_of p) \<noteq> om_UID (meta_of old)
         then Err (APIStatus ''Invalid'' []) else Ok (us_Canonicalize us p, old)) = Ok (r, old')"
      unfolding plain_BeforeUpdate_def and_then_eq_Ok by (elim exE conjE)
    from rest errs have "us_ValidateUpdate us ctx p old = Ok []" "same_identity p old"
      "r = us_Canonicalize us p" "old' = old"
      by (simp_all add: same_identity_def split: if_split_asm)
    note p = p this
    show ?thesis
      by (rule exI [of _ new], rule exI [of _ old], rule exI [of _ p], rule exI [of _ p])
        (simp add: p)
  qed
  note step = this
  have K: "x_BeforeUpdate plain_k8s = plain_BeforeUpdate" by (simp add: plain_k8s_def)
  show ?thesis unfolding before_update_contract_def K by (intro allI impI) (rule step)
qed

lemma plain_library: "library_contract plain_k8s"
  using plain_before_create plain_before_update
  by (simp add: library_contract_def fill_contract_def plain_k8s_def)

end
