(* ===== verification/Handlers.thy ===== *)
theory Handlers
  imports LibraryContract
begin

section \<open>How the handlers run\<close>

text \<open>
  Equations for running a handler, a syntactic bound on the writes it makes, and the
  result of each handler on each of its branches. The properties of the REST surface in
  RestProperties, Requests and Concurrency rest on these lemmas.
\<close>

subsection \<open>Running programs\<close>

lemma on_ok_eq:
  "on_ok r f = (case r of Ok x \<Rightarrow> f x | Err e \<Rightarrow> Done (Err e) | Panic p \<Rightarrow> Done (Panic p))"
  by (cases r) simp_all

lemma exec_on_ok:
  "exec ord (on_ok r f) s =
     (case r of Ok x \<Rightarrow> exec ord (f x) s | Err e \<Rightarrow> (Err e, s) | Panic p \<Rightarrow> (Panic p, s))"
  by (cases r) simp_all

lemma exec_on_ok_Ok:
  assumes "exec ord (on_ok r f) s = (Ok y, s')"
  obtains x where "r = Ok x" "exec ord (f x) s = (Ok y, s')"
  using assms by (cases r) auto

subsection \<open>Counting writes\<close>

text \<open>\<open>at_most n p\<close>: whatever the store answers, \<open>p\<close> makes at most \<open>n\<close> writes.\<close>

primrec at_most :: "nat \<Rightarrow> 'a prog \<Rightarrow> bool" where
  "at_most n (Done x) \<longleftrightarrow> True"
| "at_most n (CallGet k f) \<longleftrightarrow> (\<forall>r. at_most n (f r))"
| "at_most n (CallList ns f) \<longleftrightarrow> (\<forall>r. at_most n (f r))"
| "at_most n (CallCurrentRV f) \<longleftrightarrow> (\<forall>r. at_most n (f r))"
| "at_most n (CallCreate k obj f) \<longleftrightarrow> n > 0 \<and> (\<forall>r. at_most (n - 1) (f r))"
| "at_most n (CallUpdate k obj f) \<longleftrightarrow> n > 0 \<and> (\<forall>r. at_most (n - 1) (f r))"
| "at_most n (CallDelete k f) \<longleftrightarrow> n > 0 \<and> (\<forall>r. at_most (n - 1) (f r))"

lemma at_most_on_ok [simp]: "at_most n (on_ok r f) \<longleftrightarrow> (\<forall>x. r = Ok x \<longrightarrow> at_most n (f x))"
  by (cases r) simp_all

lemma at_most_0_exec: "at_most 0 p \<Longrightarrow> snd (exec ord p s) = s"
  by (induction p arbitrary: s) auto

lemma exec_steps: "at_most n p \<Longrightarrow> \<exists>j \<le> n. (store_step ^^ j) s (snd (exec ord p s))"
proof (induction p arbitrary: n s)
  case (Done x)
  show ?case by (intro exI [of _ 0]) simp
next
  case (CallGet k f)
  then show ?case by simp
next
  case (CallList ns f)
  then show ?case by simp
next
  case (CallCurrentRV f)
  then show ?case by simp
next
  case (CallCreate k obj f)
  have st: "store_step s (snd (Store_Create k obj s))"
    unfolding store_step_def by (rule exI [of _ "OpCreate k obj"]) simp
  obtain j where "j \<le> n - 1"
    "(store_step ^^ j) (snd (Store_Create k obj s)) (snd (exec ord (CallCreate k obj f) s))"
    using CallCreate.IH [OF rangeI, of "n - 1" "fst (Store_Create k obj s)" "snd (Store_Create k obj s)"]
      CallCreate.prems by auto
  with st CallCreate.prems show ?case
    by (intro exI [of _ "Suc j"]) (auto intro: relpowp_Suc_I2 simp del: relpowp.simps exec.simps)
next
  case (CallUpdate k obj f)
  have st: "store_step s (snd (Store_Update k obj s))"
    unfolding store_step_def by (rule exI [of _ "OpUpdate k obj"]) simp
  obtain j where "j \<le> n - 1"
    "(store_step ^^ j) (snd (Store_Update k obj s)) (snd (exec ord (CallUpdate k obj f) s))"
    using CallUpdate.IH [OF rangeI, of "n - 1" "fst (Store_Update k obj s)" "snd (Store_Update k obj s)"]
      CallUpdate.prems by auto
  with st CallUpdate.prems show ?case
    by (intro exI [of _ "Suc j"]) (auto intro: relpowp_Suc_I2 simp del: relpowp.simps exec.simps)
next
  case (CallDelete k f)
  have st: "store_step s (snd (Store_Delete k s))"
    unfolding store_step_def by (rule exI [of _ "OpDelete k"]) simp
  obtain j where "j \<le> n - 1"
    "(store_step ^^ j) (snd (Store_Delete k s)) (snd (exec ord (CallDelete k f) s))"
    using CallDelete.IH [OF rangeI, of "n - 1" "fst (Store_Delete k s)" "snd (Store_Delete k s)"]
      CallDelete.prems by auto
  with st CallDelete.prems show ?case
    by (intro exI [of _ "Suc j"]) (auto intro: relpowp_Suc_I2 simp del: relpowp.simps exec.simps)
qed

lemma exec_one_step:
  assumes "at_most 1 p"
  shows "snd (exec ord p s) = s \<or> store_step s (snd (exec ord p s))"
proof -
  from exec_steps [OF assms] obtain j where j: "j \<le> 1" "(store_step ^^ j) s (snd (exec ord p s))"
    by blast
  then show ?thesis by (cases j) auto
qed

lemma REST_Get_reads: "at_most 0 (REST_Get K r ctx name opts)"
  by (simp add: REST_Get_def)

lemma REST_List_reads: "at_most 0 (REST_List K r ctx opts)"
  by (auto simp: REST_List_def Let_def)

lemma REST_Watch_reads: "at_most 0 (REST_Watch r ctx opts)"
  by (simp add: REST_Watch_def)

lemma REST_Create_writes: "at_most 1 (REST_Create K V r ctx obj cv opts)"
  by (simp add: REST_Create_def Let_def)

lemma REST_Delete_writes: "at_most 1 (REST_Delete K r ctx name dv opts)"
  by (simp add: REST_Delete_def)

lemma updateOnStore_writes: "at_most 1 (updateOnStore K V ctx name info cv uv force opts cs us gr)"
  by (auto simp: updateOnStore_def Let_def split: outcome.split)

lemma StatusREST_Get_reads: "at_most 0 (StatusREST_Get K r ctx name opts)"
  by (simp add: StatusREST_Get_def)

lemmas handler_writes [registry_rules] =
  REST_Get_reads REST_List_reads REST_Watch_reads REST_Create_writes REST_Delete_writes
  updateOnStore_writes StatusREST_Get_reads

subsection \<open>Keys and checks\<close>

lemma keyFromContext_Ok_iff:
  "keyFromContext K ctx name namespaced gr = Ok key \<longleftrightarrow>
     name \<noteq> [] \<and> (namespaced \<longrightarrow> fst (x_NamespaceFrom K ctx) \<noteq> [])
     \<and> key = Key (fst (x_NamespaceFrom K ctx)) name"
  by (auto simp: keyFromContext_def Let_def namespaceFromContext_def requestNamespace_def)

lemma keyFromContext_no_panic [simp]: "keyFromContext K ctx name namespaced gr \<noteq> Panic p"
  by (simp add: keyFromContext_def Let_def)

text \<open>The answer to an update that does not carry the stored version.\<close>

definition stale_conflict :: "GroupResource \<Rightarrow> Task \<Rightarrow> go_error" where
  "stale_conflict gr n = Conflict gr (om_Name (t_ObjectMeta n)) (Errorf (Sprintf
     (if om_ResourceVersion (t_ObjectMeta n) = []
      then ''resourceVersion must be specified for an update''
      else ''the object has been modified; please apply your changes to the latest version and try again'')
     []))"

lemma checkResourceVersion_Tasks [registry_rules]:
  assumes "\<not> us_AllowUnconditionalUpdate us"
  shows "checkResourceVersion (TaskObj old) (TaskObj n) us gr =
     (if om_ResourceVersion (t_ObjectMeta n) = []
         \<or> om_ResourceVersion (t_ObjectMeta n) \<noteq> om_ResourceVersion (t_ObjectMeta old)
      then Err (stale_conflict gr n) else Ok ())"
  using assms by (simp add: checkResourceVersion_def Let_def stale_conflict_def)

lemma checkResourceVersion_Ok_iff:
  assumes "\<not> us_AllowUnconditionalUpdate us"
  shows "checkResourceVersion (TaskObj old) obj us gr = Ok () \<longleftrightarrow>
     (\<exists>m. object_meta obj = Some m \<and> om_ResourceVersion m \<noteq> []
        \<and> om_ResourceVersion m = om_ResourceVersion (t_ObjectMeta old))"
  using assms by (auto simp: checkResourceVersion_def Let_def Accessor_def split: option.splits)

text \<open>What preconditions demand of the stored object.\<close>

definition preconditions_met :: "Preconditions option \<Rightarrow> ObjectMeta \<Rightarrow> bool" where
  "preconditions_met pre m \<longleftrightarrow>
     (\<forall>p. pre = Some p \<longrightarrow>
        (\<forall>u. pre_UID p = Some u \<longrightarrow> om_UID m = u)
        \<and> (\<forall>v. pre_ResourceVersion p = Some v \<longrightarrow> om_ResourceVersion m = v))"

lemma checkPreconditions_Ok_iff:
  "object_meta obj = Some m \<Longrightarrow>
     checkPreconditions obj pre gr name = Ok () \<longleftrightarrow> preconditions_met pre m"
  by (auto simp: checkPreconditions_def preconditions_met_def Accessor_def split: option.splits)

lemma checkPreconditions_conflict:
  "object_meta obj = Some m \<Longrightarrow> \<not> preconditions_met pre m \<Longrightarrow>
     \<exists>e. checkPreconditions obj pre gr name = Err (Conflict gr name e)"
  by (auto simp: checkPreconditions_def preconditions_met_def Accessor_def split: option.splits)

lemma checkPreconditions_no_panic [simp]: "checkPreconditions obj pre gr name \<noteq> Panic p"
  by (auto simp: checkPreconditions_def split: option.split outcome.split)

subsection \<open>The update handler, branch by branch\<close>

lemma update_bad_key:
  "keyFromContext K ctx name (us_NamespaceScoped us) gr = Err e \<Longrightarrow>
     exec ord (updateOnStore K V ctx name info cv uv force opts cs us gr) s = (Err e, s)"
  by (simp add: updateOnStore_def)

lemma update_missing:
  assumes "keyFromContext K ctx name (us_NamespaceScoped us) gr = Ok key" "s_items s key = None"
  shows "exec ord (updateOnStore K V ctx name info cv uv False opts cs us gr) s
    = (Err (NotFound (s_gr s) (k_Name key)), s)"
  using assms by (simp add: updateOnStore_def store_rules)

text \<open>On an existing object the handler is the chain of its checks.\<close>

lemma update_existing:
  assumes "keyFromContext K ctx name (us_NamespaceScoped us) gr = Ok key"
    and "s_items s key = Some existing"
  shows "exec ord (updateOnStore K V ctx name info cv uv force opts cs us gr) s =
    exec ord (on_ok (uoi_UpdatedObject info ctx existing) (\<lambda>newObj.
       on_ok (checkPreconditions existing (uoi_Preconditions info) gr name) (\<lambda>_.
       on_ok (checkResourceVersion existing newObj us gr) (\<lambda>_.
       on_ok (x_BeforeUpdate K us ctx newObj existing) (\<lambda>(newObj, existing).
       on_ok (call_update_validation uv ctx newObj existing) (\<lambda>_.
       CallUpdate key newObj (\<lambda>updated.
       on_ok updated (\<lambda>updated. Done (Ok (updated, False)))))))))) s"
  using assms by (simp add: updateOnStore_def store_rules)

lemma update_existing_OkE:
  assumes "keyFromContext K ctx name (us_NamespaceScoped us) gr = Ok key"
    and "s_items s key = Some existing"
    and "exec ord (updateOnStore K V ctx name info cv uv force opts cs us gr) s = (Ok (r, created), s')"
  obtains obj obj' existing' where "uoi_UpdatedObject info ctx existing = Ok obj"
    "checkPreconditions existing (uoi_Preconditions info) gr name = Ok ()"
    "checkResourceVersion existing obj us gr = Ok ()"
    "x_BeforeUpdate K us ctx obj existing = Ok (obj', existing')"
    "call_update_validation uv ctx obj' existing' = Ok ()"
    "object_meta obj' \<noteq> None" "\<not> created" "r = stamped s obj'"
    "s' = s\<lparr>s_items := (s_items s)(key \<mapsto> r), s_rv := s_rv s + 1\<rparr>"
proof -
  from assms(3) [unfolded update_existing [OF assms(1,2)]]
  obtain obj where o: "uoi_UpdatedObject info ctx existing = Ok obj"
      "checkPreconditions existing (uoi_Preconditions info) gr name = Ok ()"
      "checkResourceVersion existing obj us gr = Ok ()"
    and rest: "exec ord (on_ok (x_BeforeUpdate K us ctx obj existing) (\<lambda>(newObj, existing).
       on_ok (call_update_validation uv ctx newObj existing) (\<lambda>_.
       CallUpdate key newObj (\<lambda>updated.
       on_ok updated (\<lambda>updated. Done (Ok (updated, False))))))) s = (Ok (r, created), s')"
    by (auto elim!: exec_on_ok_Ok)
  from rest obtain obj' existing' where b: "x_BeforeUpdate K us ctx obj existing = Ok (obj', existing')"
      "call_update_validation uv ctx obj' existing' = Ok ()"
    and w: "exec ord (CallUpdate key obj' (\<lambda>updated.
       on_ok updated (\<lambda>updated. Done (Ok (updated, False))))) s = (Ok (r, created), s')"
    by (auto elim!: exec_on_ok_Ok)
  have "object_meta obj' \<noteq> None \<and> \<not> created \<and> r = stamped s obj'
      \<and> s' = s\<lparr>s_items := (s_items s)(key \<mapsto> r), s_rv := s_rv s + 1\<rparr>"
    using w assms(2) by (cases "object_meta obj'") (auto simp: store_rules)
  with o b show thesis using that by blast
qed

subsection \<open>What a successful update writes, for any update strategy\<close>

text \<open>
  \<open>updated us ctx old n q\<close>: \<open>q\<close> is what strategy \<open>us\<close> and the library make of the
  client's object \<open>n\<close> on the stored task \<open>old\<close>, and it passed the strategy's validation.
\<close>

definition updated :: "'ctx update_strategy \<Rightarrow> 'ctx \<Rightarrow> Task \<Rightarrow> Task \<Rightarrow> Task \<Rightarrow> bool" where
  "updated us ctx old n q \<longleftrightarrow>
     (\<exists>n0 old0 p old1. t_Spec n0 = t_Spec n \<and> t_Status n0 = t_Status n \<and> t_TypeMeta n0 = t_TypeMeta n
        \<and> same_body old old0 \<and> same_body old old1 \<and> same_body p q
        \<and> us_PrepareForUpdate us ctx (TaskObj n0) (TaskObj old0) = Ok (TaskObj p)
        \<and> us_ValidateUpdate us ctx (TaskObj q) (TaskObj old1) = Ok []
        \<and> same_identity (TaskObj q) (TaskObj old))"

lemma same_identity_Tasks:
  "same_identity (TaskObj a) (TaskObj b) \<longleftrightarrow>
     om_Name (t_ObjectMeta a) = om_Name (t_ObjectMeta b)
     \<and> om_Namespace (t_ObjectMeta a) = om_Namespace (t_ObjectMeta b)
     \<and> om_UID (t_ObjectMeta a) = om_UID (t_ObjectMeta b)"
  by (simp add: same_identity_def)

lemma task_wf_same_body: "same_body a b \<Longrightarrow> task_wf a = task_wf b"
  by (simp add: same_body_def task_wf_def)

text \<open>The hook on a Task and an old Task with the same body leaves a Task.\<close>

context task_update_strategy
begin

lemma prepare_Ok_Task:
  assumes "us_PrepareForUpdate us ctx obj (TaskObj old) = Ok r"
  obtains n p where "obj = TaskObj n" "r = TaskObj p"
proof -
  obtain n where n: "obj = TaskObj n" using prepare_only_Task [OF assms] by blast
  obtain p where "us_PrepareForUpdate us ctx (TaskObj n) (TaskObj old) = Ok (TaskObj p)"
    using prepare_Task by blast
  with assms n have "r = TaskObj p" by simp
  with n show thesis by (rule that)
qed

text \<open>The library's \<open>BeforeUpdate\<close> on a stored task.\<close>

lemma before_update_Task:
  assumes K: "before_update_contract K"
    and B: "x_BeforeUpdate K us ctx obj (TaskObj old) = Ok (r, old')"
  obtains n q old1 where "obj = TaskObj n" "r = TaskObj q" "old' = TaskObj old1"
    "same_body old old1" "updated us ctx old n q"
proof -
  from K [unfolded before_update_contract_def, rule_format, OF B]
  obtain new0 o0 p' q' where c: "only_meta obj new0" "keeps_generation (TaskObj old) o0"
    "us_PrepareForUpdate us ctx new0 o0 = Ok p'" "keeps_generation p' q'"
    "keeps_generation (TaskObj old) old'" "us_ValidateUpdate us ctx q' old' = Ok []"
    "r = us_Canonicalize us q'" "same_identity q' (TaskObj old)" by blast
  obtain old0 where o0: "o0 = TaskObj old0" "same_body old old0"
    using c(2) by (rule keeps_generation_TaskObjE)
  obtain old1 where o1: "old' = TaskObj old1" "same_body old old1"
    using c(5) by (rule keeps_generation_TaskObjE)
  obtain n0 p where n0: "new0 = TaskObj n0" "p' = TaskObj p"
    using c(3) unfolding o0(1) by (rule prepare_Ok_Task)
  obtain n where n: "obj = TaskObj n"
    using c(1) only_meta_TaskObjD unfolding n0 by blast
  obtain q where q: "q' = TaskObj q" "same_body p q"
    using c(4) unfolding n0(2) by (rule keeps_generation_TaskObjE)
  have "t_Spec n0 = t_Spec n" "t_Status n0 = t_Status n" "t_TypeMeta n0 = t_TypeMeta n"
    using c(1) unfolding n n0 only_meta_TaskObj by auto
  with o0 o1 q c(3,6,8) n0 have "updated us ctx old n q"
    unfolding updated_def by blast
  moreover have "r = TaskObj q" using c(7) q(1) canonical by simp
  ultimately show thesis using that n o1 by blast
qed

lemma updated_identity: "updated us ctx old n q \<Longrightarrow>
    om_Name (t_ObjectMeta q) = om_Name (t_ObjectMeta old)
    \<and> om_Namespace (t_ObjectMeta q) = om_Namespace (t_ObjectMeta old)
    \<and> om_UID (t_ObjectMeta q) = om_UID (t_ObjectMeta old)"
  unfolding updated_def same_identity_Tasks by blast

lemma updated_generation:
  assumes "updated us ctx old n q"
  shows "generation q = (if specEqual (t_Spec q) (t_Spec old)
                         then generation old else generation old + 1)"
proof -
  from assms obtain n0 old0 p where "same_body old old0" "same_body p q"
    "us_PrepareForUpdate us ctx (TaskObj n0) (TaskObj old0) = Ok (TaskObj p)"
    unfolding updated_def by blast
  with prepare_generation show ?thesis by (auto simp: same_body_def)
qed

lemma updated_wf:
  assumes "updated us ctx old n q" "task_wf old" "sint (generation old) < 2 ^ 63 - 1"
  shows "task_wf q"
proof -
  from assms(1) obtain n0 old0 p old1 where u: "same_body old old0" "same_body old old1"
    "same_body p q" "us_PrepareForUpdate us ctx (TaskObj n0) (TaskObj old0) = Ok (TaskObj p)"
    "us_ValidateUpdate us ctx (TaskObj q) (TaskObj old1) = Ok []"
    unfolding updated_def by blast
  have p1: "us_PrepareForUpdate us ctx (TaskObj n0) (TaskObj old1) = Ok (TaskObj p)"
    using u(4) prepare_body [of old0 old1 ctx n0] u(1,2) by (simp add: same_body_def)
  have "task_wf old1" using assms(2) task_wf_same_body [OF u(2)] by simp
  moreover have "sint (generation old1) < 2 ^ 63 - 1" using assms(3) u(2) by (simp add: same_body_def)
  ultimately show ?thesis using validated_wf [OF p1 u(3,5)] by blast
qed

lemma updated_generation_le:
  assumes "updated us ctx old n q" "sint (generation old) < 2 ^ 63 - 1"
  shows "sint (generation q) \<le> sint (generation old) + 1"
  using updated_generation [OF assms(1)] sint_i64_plus_1 [OF assms(2)] by simp

end

lemma updated_main:
  assumes "updated (Strategy_update V s) ctx old n q"
  shows "t_Spec q = t_Spec n \<and> t_Status q = t_Status old \<and> t_TypeMeta q = t_TypeMeta n
    \<and> ts_Image (t_Spec n) \<noteq> []
    \<and> generation q = (if specEqual (t_Spec n) (t_Spec old) then generation old else generation old + 1)"
  using assms unfolding updated_def same_body_def
  by (auto simp: strategy_rules validateTask_Nil_iff)

lemma updated_status:
  assumes "updated (StatusStrategy_update V s) ctx old n q"
  shows "t_Spec q = t_Spec old \<and> t_Status q = t_Status n \<and> t_TypeMeta q = t_TypeMeta n
    \<and> generation q = generation old
    \<and> 0 \<le> sint (st_ObservedGeneration (t_Status n))
    \<and> sint (st_ObservedGeneration (t_Status n)) \<le> sint (generation old)"
  using assms unfolding updated_def same_body_def
  by (auto simp: strategy_rules validateStatusUpdate_Nil_iff)

text \<open>A store that holds Tasks only.\<close>

definition all_tasks :: "store \<Rightarrow> bool" where
  "all_tasks s \<longleftrightarrow> (\<forall>k obj. s_items s k = Some obj \<longrightarrow> (\<exists>t. obj = TaskObj t))"

lemma all_tasksE:
  assumes "all_tasks s" "s_items s k = Some obj"
  obtains t where "obj = TaskObj t"
  using assms by (auto simp: all_tasks_def)

text \<open>The task that a write of \<open>q\<close> leaves in store \<open>s\<close>.\<close>

definition stamped_task :: "store \<Rightarrow> Task \<Rightarrow> Task" where
  "stamped_task s q = q\<lparr>t_ObjectMeta := (t_ObjectMeta q)\<lparr>om_ResourceVersion := FormatUint (s_rv s + 1)\<rparr>\<rparr>"

lemma stamped_eq_stamped_task [simp]: "stamped s (TaskObj q) = TaskObj (stamped_task s q)"
  by (simp add: stamped_task_def)

declare stamped_TaskObj [simp del]

lemma stamped_task_simps [simp]:
  "t_Spec (stamped_task s q) = t_Spec q" "t_Status (stamped_task s q) = t_Status q"
  "t_TypeMeta (stamped_task s q) = t_TypeMeta q"
  "t_ObjectMeta (stamped_task s q) = (t_ObjectMeta q)\<lparr>om_ResourceVersion := FormatUint (s_rv s + 1)\<rparr>"
  by (simp_all add: stamped_task_def)

lemma same_body_stamped: "same_body q (stamped_task s q)"
  by (simp add: same_body_def)

text \<open>The store after a write of \<open>q\<close> at \<open>key\<close>.\<close>

definition written :: "store \<Rightarrow> Key \<Rightarrow> Task \<Rightarrow> store" where
  "written s key q = s\<lparr>s_items := (s_items s)(key \<mapsto> TaskObj (stamped_task s q)), s_rv := s_rv s + 1\<rparr>"

context task_update_strategy
begin

text \<open>The success of an update, in full: from here on no library function is left.\<close>

lemma update_OkE:
  assumes K: "before_update_contract K" and T: "all_tasks s"
    and E: "exec ord (updateOnStore K V ctx name info cv uv False opts cs us gr) s = (Ok (r, created), s')"
  obtains key old n q where "keyFromContext K ctx name True gr = Ok key"
    "s_items s key = Some (TaskObj old)" "uoi_UpdatedObject info ctx (TaskObj old) = Ok (TaskObj n)"
    "preconditions_met (uoi_Preconditions info) (t_ObjectMeta old)"
    "om_ResourceVersion (t_ObjectMeta n) = om_ResourceVersion (t_ObjectMeta old)"
    "om_ResourceVersion (t_ObjectMeta n) \<noteq> []"
    "updated us ctx old n q" "\<not> created" "r = TaskObj (stamped_task s q)" "s' = written s key q"
proof -
  obtain key where key: "keyFromContext K ctx name (us_NamespaceScoped us) gr = Ok key"
    using E by (cases "keyFromContext K ctx name (us_NamespaceScoped us) gr") (auto simp: updateOnStore_def)
  obtain existing where ex: "s_items s key = Some existing"
    using E update_missing [OF key, of s] by (cases "s_items s key") auto
  obtain old where old: "existing = TaskObj old" using T ex by (rule all_tasksE)
  note ex = ex [unfolded old]
  obtain obj obj' existing' where o: "uoi_UpdatedObject info ctx (TaskObj old) = Ok obj"
    "checkPreconditions (TaskObj old) (uoi_Preconditions info) gr name = Ok ()"
    "checkResourceVersion (TaskObj old) obj us gr = Ok ()"
    "x_BeforeUpdate K us ctx obj (TaskObj old) = Ok (obj', existing')"
    "\<not> created" "r = stamped s obj'"
    "s' = s\<lparr>s_items := (s_items s)(key \<mapsto> r), s_rv := s_rv s + 1\<rparr>"
    by (rule update_existing_OkE [OF key ex E])
  obtain n q old1 where n: "obj = TaskObj n" "obj' = TaskObj q" "updated us ctx old n q"
    by (rule before_update_Task [OF K o(4)])
  have "preconditions_met (uoi_Preconditions info) (t_ObjectMeta old)"
    using o(2) by (simp add: checkPreconditions_Ok_iff)
  moreover have "om_ResourceVersion (t_ObjectMeta n) = om_ResourceVersion (t_ObjectMeta old)"
    "om_ResourceVersion (t_ObjectMeta old) \<noteq> []"
    using o(3) unfolding n(1) by (auto simp add: checkResourceVersion_Ok_iff conditional)
  ultimately show thesis
    using that [of key old n q] key ex o n scoped by (simp add: written_def)
qed

end

text \<open>On an existing task and an object the client made of it, the outcome is decided by the
  checks in their order, and a failure leaves the store alone.\<close>

context task_update_strategy
begin

lemma update_current:
  assumes key: "keyFromContext K ctx name True gr = Ok key"
    and ex: "s_items s key = Some (TaskObj old)"
    and n: "uoi_UpdatedObject info ctx (TaskObj old) = Ok (TaskObj n)"
    and "preconditions_met (uoi_Preconditions info) (t_ObjectMeta old)"
    and "om_ResourceVersion (t_ObjectMeta n) \<noteq> []"
    and "om_ResourceVersion (t_ObjectMeta n) = om_ResourceVersion (t_ObjectMeta old)"
  shows "exec ord (updateOnStore K V ctx name info cv uv force opts cs us gr) s =
    exec ord (on_ok (x_BeforeUpdate K us ctx (TaskObj n) (TaskObj old)) (\<lambda>(newObj, existing).
       on_ok (call_update_validation uv ctx newObj existing) (\<lambda>_.
       CallUpdate key newObj (\<lambda>updated.
       on_ok updated (\<lambda>updated. Done (Ok (updated, False))))))) s"
proof -
  have key: "keyFromContext K ctx name (us_NamespaceScoped us) gr = Ok key" using key scoped by simp
  have "checkPreconditions (TaskObj old) (uoi_Preconditions info) gr name = Ok ()"
    using assms(4) by (simp add: checkPreconditions_Ok_iff)
  moreover have "checkResourceVersion (TaskObj old) (TaskObj n) us gr = Ok ()"
    using assms(5,6) conditional by (auto simp: checkResourceVersion_Ok_iff)
  ultimately show ?thesis by (simp add: update_existing [OF key ex] n)
qed

lemma update_not_current:
  assumes key: "keyFromContext K ctx name True gr = Ok key"
    and ex: "s_items s key = Some (TaskObj old)"
    and n: "uoi_UpdatedObject info ctx (TaskObj old) = Ok (TaskObj n)"
    and "\<not> (preconditions_met (uoi_Preconditions info) (t_ObjectMeta old)
      \<and> om_ResourceVersion (t_ObjectMeta n) \<noteq> []
      \<and> om_ResourceVersion (t_ObjectMeta n) = om_ResourceVersion (t_ObjectMeta old))"
  shows "\<exists>e. exec ord (updateOnStore K V ctx name info cv uv force opts cs us gr) s = (Err e, s)"
proof -
  have key: "keyFromContext K ctx name (us_NamespaceScoped us) gr = Ok key" using key scoped by simp
  show ?thesis
    using assms(4) conditional
      checkPreconditions_conflict [of "TaskObj old" "t_ObjectMeta old" "uoi_Preconditions info" gr name]
      checkPreconditions_Ok_iff [of "TaskObj old" "t_ObjectMeta old" "uoi_Preconditions info" gr name]
    by (cases "preconditions_met (uoi_Preconditions info) (t_ObjectMeta old)")
      (auto simp: update_existing [OF key ex] n registry_rules)
qed

lemma update_ok_iff:
  assumes K: "before_update_contract K" and key: "keyFromContext K ctx name True gr = Ok key"
    and ex: "s_items s key = Some (TaskObj old)"
    and n: "uoi_UpdatedObject info ctx (TaskObj old) = Ok (TaskObj n)"
  shows "is_ok (fst (exec ord (updateOnStore K V ctx name info cv uv force opts cs us gr) s)) =
      (preconditions_met (uoi_Preconditions info) (t_ObjectMeta old)
      \<and> om_ResourceVersion (t_ObjectMeta n) \<noteq> []
      \<and> om_ResourceVersion (t_ObjectMeta n) = om_ResourceVersion (t_ObjectMeta old)
      \<and> (\<exists>obj' old'. x_BeforeUpdate K us ctx (TaskObj n) (TaskObj old) = Ok (obj', old')
            \<and> call_update_validation uv ctx obj' old' = Ok ()))
    \<and> (\<not> is_ok (fst (exec ord (updateOnStore K V ctx name info cv uv force opts cs us gr) s))
        \<longrightarrow> snd (exec ord (updateOnStore K V ctx name info cv uv force opts cs us gr) s) = s)"
proof (cases "preconditions_met (uoi_Preconditions info) (t_ObjectMeta old)
      \<and> om_ResourceVersion (t_ObjectMeta n) \<noteq> []
      \<and> om_ResourceVersion (t_ObjectMeta n) = om_ResourceVersion (t_ObjectMeta old)")
  case False
  then show ?thesis
    using update_not_current [OF key ex n False, of ord V cv uv force opts cs] by auto
next
  case True
  then have c: "preconditions_met (uoi_Preconditions info) (t_ObjectMeta old)"
    "om_ResourceVersion (t_ObjectMeta n) \<noteq> []"
    "om_ResourceVersion (t_ObjectMeta n) = om_ResourceVersion (t_ObjectMeta old)" by blast+
  show ?thesis
  proof (cases "x_BeforeUpdate K us ctx (TaskObj n) (TaskObj old)")
    case (Ok b)
    obtain q old1 where q: "b = (TaskObj q, TaskObj old1)"
      by (cases b, rule before_update_Task [OF K, of ctx "TaskObj n" old "fst b" "snd b"])
        (use Ok in auto)
    show ?thesis
      using c(2) by (cases "call_update_validation uv ctx (TaskObj q) (TaskObj old1)")
        (simp_all add: update_current [OF key ex n c] c(1,3) Ok q
          Store_Update_simps(3) [OF ex, of "TaskObj q" "t_ObjectMeta q"])
  qed (simp_all add: update_current [OF key ex n c])
qed

end

subsection \<open>What a successful create writes\<close>

text \<open>\<open>created_from ns t q\<close>: \<open>q\<close> is what the create strategy makes of the client's task \<open>t\<close>
  in a request for namespace \<open>ns\<close>.\<close>

definition created_from :: "string \<Rightarrow> Task \<Rightarrow> Task \<Rightarrow> bool" where
  "created_from ns t q \<longleftrightarrow>
     t_Spec q = t_Spec t \<and> t_TypeMeta q = t_TypeMeta t \<and> t_Status q = zero_TaskStatus
     \<and> generation q = 1 \<and> ts_Image (t_Spec t) \<noteq> []
     \<and> om_Namespace (t_ObjectMeta q) = ns
     \<and> (om_Name (t_ObjectMeta t) \<noteq> [] \<longrightarrow> om_Name (t_ObjectMeta q) = om_Name (t_ObjectMeta t))"

lemma created_from_wf: "created_from ns t q \<Longrightarrow> task_wf q"
  by (simp add: created_from_def task_wf_def zero_TaskStatus_def)

lemma before_create_Task:
  assumes K: "before_create_contract K"
    and B: "x_BeforeCreate K (Strategy_create V cs) ctx obj = Ok r"
  obtains t q where "obj = TaskObj t" "r = TaskObj q"
    "created_from (fst (x_NamespaceFrom K ctx)) t q"
proof -
  have "cs_NamespaceScoped (Strategy_create V cs :: 'a create_strategy)" by simp
  with K [unfolded before_create_contract_def, rule_format, OF B]
  obtain obj0 p where c: "only_meta obj obj0"
    "om_Name (meta_of obj) \<noteq> [] \<longrightarrow> om_Name (meta_of obj0) = om_Name (meta_of obj)"
    "PrepareForCreate ctx obj0 = Ok p" "Validate V ctx p = Ok []" "r = p"
    "om_Namespace (meta_of r) = fst (x_NamespaceFrom K ctx)"
    unfolding create_iface_simps by blast
  obtain t0 where t0: "obj0 = TaskObj t0"
    "p = TaskObj (set_generation 1 (t0\<lparr>t_Status := zero_TaskStatus\<rparr>))"
    using c(3) by (auto simp: PrepareForCreate_def)
  obtain t where t: "obj = TaskObj t" using c(1) only_meta_TaskObjD unfolding t0 by blast
  from c(1) obtain m where m: "t0 = t\<lparr>t_ObjectMeta := m\<rparr>"
    unfolding t t0 only_meta_TaskObj by auto
  have "ts_Image (t_Spec t0) \<noteq> []"
    using c(4) unfolding t0 by (simp add: Validate_def validateTask_Nil_iff)
  then have "created_from (fst (x_NamespaceFrom K ctx)) t (set_generation 1 (t0\<lparr>t_Status := zero_TaskStatus\<rparr>))"
    using c(2,5,6) unfolding t t0 m by (simp add: created_from_def)
  with t t0 c(5) show thesis using that by blast
qed

lemma set_object_meta_eq_TaskObj:
  "set_object_meta m obj = TaskObj t \<Longrightarrow> \<exists>t0. obj = TaskObj t0 \<and> t = t0\<lparr>t_ObjectMeta := m\<rparr>"
  by (cases obj) auto

text \<open>Success of the body shared by create and create-on-update, up to the store's call.\<close>

lemma create_body_OkE:
  assumes K: "library_contract K"
    and E: "exec ord (on_ok (internal_accessor obj) (\<lambda>m.
       let obj = set_object_meta (x_FillObjectMetaSystemFields K m) obj in
       on_ok (x_BeforeCreate K (Strategy_create V cs) ctx obj) (\<lambda>obj.
       on_ok (call_validation cv ctx obj) (\<lambda>_. f obj)))) s = (r, s')"
    and stop: "\<And>x. (\<And>y. x \<noteq> Ok y) \<Longrightarrow> r = x \<Longrightarrow> s' = s \<Longrightarrow> thesis"
    and go: "\<And>t q. obj = TaskObj t \<Longrightarrow> created_from (fst (x_NamespaceFrom K ctx)) t q \<Longrightarrow>
       call_validation cv ctx (TaskObj q) = Ok () \<Longrightarrow>
       exec ord (f (TaskObj q)) s = (r, s') \<Longrightarrow> thesis"
  shows thesis
proof (cases "object_meta obj")
  case None
  then have "internal_accessor obj = Err (InternalError NotAnObject)"
    by (simp add: internal_accessor_def Accessor_def)
  with E show thesis by (intro stop [of "Err (InternalError NotAnObject)"]) auto
next
  case (Some m)
  let ?o = "set_object_meta (x_FillObjectMetaSystemFields K m) obj"
  have acc: "internal_accessor obj = Ok m" using Some by (simp add: internal_accessor_def Accessor_def)
  show thesis
  proof (cases "x_BeforeCreate K (Strategy_create V cs) ctx ?o")
    case (Err e)
    with E acc show thesis by (intro stop [of "Err e"]) auto
  next
    case (Panic e)
    with E acc show thesis by (intro stop [of "Panic e"]) auto
  next
    case (Ok obj')
    obtain t1 q where t1: "?o = TaskObj t1" "obj' = TaskObj q"
      "created_from (fst (x_NamespaceFrom K ctx)) t1 q"
      by (rule before_create_Task [OF library_contractD(1) [OF K] Ok])
    obtain t where t: "obj = TaskObj t" "t1 = t\<lparr>t_ObjectMeta := x_FillObjectMetaSystemFields K m\<rparr>"
      using set_object_meta_eq_TaskObj [OF t1(1)] by blast
    have cf: "created_from (fst (x_NamespaceFrom K ctx)) t q"
      using t1(3) t Some library_contractD(3) [OF K] by (simp add: created_from_def fill_contract_def)
    show thesis
    proof (cases "call_validation cv ctx (TaskObj q)")
      case V: (Ok u)
      with E acc Ok t1(2) show thesis by (intro go [OF t(1) cf]) auto
    next
      case (Err e)
      with E acc Ok t1(2) show thesis by (intro stop [of "Err e"]) auto
    next
      case (Panic e)
      with E acc Ok t1(2) show thesis by (intro stop [of "Panic e"]) auto
    qed
  qed
qed

lemma REST_Create_cases:
  assumes K: "library_contract K"
    and E: "exec ord (REST_Create K V r ctx obj cv opts) s = (res, s')"
  obtains (failed) "\<not> is_ok res" "s' = s"
    | (created) t q where "obj = TaskObj t" "created_from (fst (x_NamespaceFrom K ctx)) t q"
      "s_items s (Key (om_Namespace (t_ObjectMeta q)) (om_Name (t_ObjectMeta q))) = None"
      "res = Ok (TaskObj (stamped_task s q))"
      "s' = written s (Key (om_Namespace (t_ObjectMeta q)) (om_Name (t_ObjectMeta q))) q"
  using E [unfolded REST_Create_def]
proof (rule create_body_OkE [OF K])
  fix x :: "(go_error, runtime_object) outcome"
  assume "\<And>y. x \<noteq> Ok y" "res = x" "s' = s"
  then show thesis by (intro failed) (auto simp: is_ok_iff)
next
  fix t q :: Task
  let ?key = "Key (om_Namespace (t_ObjectMeta q)) (om_Name (t_ObjectMeta q))"
  assume t: "obj = TaskObj t" "created_from (fst (x_NamespaceFrom K ctx)) t q"
    and w: "exec ord (let key = Key (om_Namespace (meta_of (TaskObj q))) (om_Name (meta_of (TaskObj q)))
                      in CallCreate key (TaskObj q) Done) s = (res, s')"
  show thesis
  proof (cases "s_items s ?key")
    case None
    with w show thesis
      by (intro created [OF t]) (simp_all add: Store_Create_simps(3) [OF None, of "TaskObj q" "t_ObjectMeta q"]
          written_def)
  next
    case (Some old)
    with w show thesis by (intro failed) (auto simp: store_rules)
  qed
qed

text \<open>Create-on-update, which only \<open>forceAllowCreate\<close> reaches.\<close>

lemma update_missing_forced:
  assumes "keyFromContext K ctx name (us_NamespaceScoped us) gr = Ok key" "s_items s key = None"
  shows "exec ord (updateOnStore K V ctx name info cv uv True opts cs us gr) s =
    exec ord (on_ok (uoi_UpdatedObject info ctx Strategy_New) (\<lambda>newObj.
             on_ok (internal_accessor newObj) (\<lambda>m.
             let newObj = set_object_meta (x_FillObjectMetaSystemFields K m) newObj in
             on_ok (x_BeforeCreate K (Strategy_create V cs) ctx newObj) (\<lambda>newObj.
             on_ok (call_validation cv ctx newObj) (\<lambda>_.
             CallCreate key newObj (\<lambda>created.
             on_ok created (\<lambda>created. Done (Ok (created, True))))))))) s"
  using assms by (simp add: updateOnStore_def store_rules)

lemma update_missing_cases:
  assumes K: "library_contract K" and key: "keyFromContext K ctx name (us_NamespaceScoped us) gr = Ok key"
    and none: "s_items s key = None"
    and E: "exec ord (updateOnStore K V ctx name info cv uv force opts cs us gr) s = (res, s')"
  obtains (failed) "\<not> is_ok res" "s' = s"
    | (created) t q where "force" "uoi_UpdatedObject info ctx Strategy_New = Ok (TaskObj t)"
      "created_from (fst (x_NamespaceFrom K ctx)) t q"
      "res = Ok (TaskObj (stamped_task s q), True)" "s' = written s key q"
proof (cases force)
  case False
  with E update_missing [OF key none] show thesis by (intro failed) auto
next
  case True
  have E: "exec ord (updateOnStore K V ctx name info cv uv True opts cs us gr) s = (res, s')"
    using E True by simp
  note E = E [unfolded update_missing_forced [OF key none]]
  show thesis
  proof (cases "uoi_UpdatedObject info ctx Strategy_New")
    case (Ok obj)
    note E' = E [unfolded Ok on_ok.simps]
    show thesis using E'
    proof (rule create_body_OkE [OF K])
      fix x :: "(go_error, runtime_object \<times> bool) outcome"
      assume "\<And>y. x \<noteq> Ok y" "res = x" "s' = s"
      then show thesis by (intro failed) (auto simp: is_ok_iff)
    next
      fix t q :: Task
      assume t: "obj = TaskObj t" "created_from (fst (x_NamespaceFrom K ctx)) t q"
        and w: "exec ord (CallCreate key (TaskObj q) (\<lambda>created.
             on_ok created (\<lambda>created. Done (Ok (created, True))))) s = (res, s')"
      show thesis
        using w by (intro created [OF True _ t(2)])
          (simp_all add: Ok t Store_Create_simps(3) [OF none, of "TaskObj q" "t_ObjectMeta q"] written_def)
    qed
  qed (use E in \<open>auto intro: failed\<close>)
qed

text \<open>The success of an update, forced or not: of the stored task, or of none.\<close>

context task_update_strategy
begin

lemma update_forced_OkE:
  assumes K: "library_contract K" and T: "all_tasks s"
    and E: "exec ord (updateOnStore K V ctx name info cv uv force opts cs us gr) s = (Ok (r, created), s')"
  obtains (existing) key old n q where "keyFromContext K ctx name True gr = Ok key"
      "s_items s key = Some (TaskObj old)" "uoi_UpdatedObject info ctx (TaskObj old) = Ok (TaskObj n)"
      "om_ResourceVersion (t_ObjectMeta n) = om_ResourceVersion (t_ObjectMeta old)"
      "updated us ctx old n q" "\<not> created" "r = TaskObj (stamped_task s q)" "s' = written s key q"
    | (new) key n q where "keyFromContext K ctx name True gr = Ok key" "s_items s key = None" "force"
      "uoi_UpdatedObject info ctx (TaskObj zero_Task) = Ok (TaskObj n)"
      "created_from (fst (x_NamespaceFrom K ctx)) n q" "created"
      "r = TaskObj (stamped_task s q)" "s' = written s key q"
proof -
  obtain key where key: "keyFromContext K ctx name (us_NamespaceScoped us) gr = Ok key"
    using E by (cases "keyFromContext K ctx name (us_NamespaceScoped us) gr") (auto simp: updateOnStore_def)
  show thesis
  proof (cases "s_items s key")
    case None
    from K key None E show thesis
    proof (cases rule: update_missing_cases)
      case (created t q)
      with key None scoped show thesis
        by (intro new [of key t q]) (simp_all add: Strategy_New_def)
    qed simp
  next
    case (Some obj)
    have "exec ord (updateOnStore K V ctx name info cv uv False opts cs us gr) s = (Ok (r, created), s')"
      using E unfolding update_existing [OF key Some] .
    then show thesis
      by (rule update_OkE [OF library_contractD(2) [OF K] T]) (rule existing)
  qed
qed

end

subsection \<open>Delete\<close>

lemma REST_Delete_existing:
  assumes key: "keyFromContext K ctx name True (r_gr r) = Ok key"
    and ex: "s_items s key = Some obj" "object_meta obj = Some m"
  shows "exec ord (REST_Delete K r ctx name dv (Some d)) s =
    (if \<not> preconditions_met (do_Preconditions d) m
     then (Err (the_err (checkPreconditions obj (do_Preconditions d) (r_gr r) name)), s)
     else case call_validation dv ctx obj of
            Ok _ \<Rightarrow> (Ok (obj, True), s\<lparr>s_items := (s_items s)(key := None), s_rv := s_rv s + 1\<rparr>)
          | Err e \<Rightarrow> (Err e, s)
          | Panic p \<Rightarrow> (Panic p, s))"
  using checkPreconditions_conflict [OF ex(2), of "do_Preconditions d" "r_gr r" name]
    checkPreconditions_Ok_iff [OF ex(2), of "do_Preconditions d" "r_gr r" name]
  by (cases "preconditions_met (do_Preconditions d) m"; cases "call_validation dv ctx obj")
    (auto simp: REST_Delete_def REST_NamespaceScoped_def key store_rules ex)

lemma REST_Delete_missing:
  assumes "keyFromContext K ctx name True (r_gr r) = Ok key" "s_items s key = None"
  shows "exec ord (REST_Delete K r ctx name dv opts) s = (Err (NotFound (s_gr s) (k_Name key)), s)"
  using assms by (simp add: REST_Delete_def REST_NamespaceScoped_def store_rules)

lemma REST_Delete_failed:
  assumes "exec ord (REST_Delete K r ctx name dv opts) s = (res, s')" "\<not> is_ok res"
  shows "s' = s"
proof (cases "keyFromContext K ctx name True (r_gr r)")
  case (Ok key)
  show ?thesis
  proof (cases "s_items s key")
    case None
    with assms(1) Ok show ?thesis by (simp add: REST_Delete_missing)
  next
    case (Some obj)
    with assms Ok show ?thesis
      by (auto simp: REST_Delete_def REST_NamespaceScoped_def exec_on_ok store_rules
          split: outcome.splits option.splits)
  qed
qed (use assms in \<open>auto simp: REST_Delete_def REST_NamespaceScoped_def\<close>)

subsection \<open>List\<close>

abbreviation task_labels :: "Task \<Rightarrow> (string, string) gomap" where
  "task_labels t \<equiv> om_Labels (t_ObjectMeta t)"

definition task_rv :: "Task \<Rightarrow> u64" where
  "task_rv t = parseRVOrZero (om_ResourceVersion (t_ObjectMeta t))"

lemma list_items_Tasks:
  "list_items sel (map TaskObj ts) items rv =
     Ok (items @ filter (\<lambda>t. sel (task_labels t)) ts,
         fold max (map task_rv (filter (\<lambda>t. sel (task_labels t)) ts)) rv)"
proof (induction ts arbitrary: items rv)
  case (Cons t ts)
  have "max (task_rv t) rv = (if rv < task_rv t then task_rv t else rv)" by (auto simp: max_def)
  with Cons show ?case by (simp add: task_rv_def Let_def)
qed simp

lemma fold_max_Max: "fold max xs (m :: u64) = Max (insert m (set xs))"
  by (metis Max.set_eq_fold list.set(2))

lemma fold_max_0:
  "fold max xs (0 :: u64) = (if xs = [] then 0 else Max (set xs))"
proof (cases "xs = []")
  case False
  then have "Max (insert 0 (set xs)) = max 0 (Max (set xs))" by (intro Max_insert) auto
  also have "\<dots> = Max (set xs)" by (simp add: max_def)
  finally show ?thesis using False by (simp add: fold_max_Max)
qed simp

text \<open>The raw list of a store of Tasks.\<close>

lemma list_loop_all_tasks:
  assumes "\<And>k obj. m k = Some obj \<Longrightarrow> \<exists>t. obj = TaskObj t"
  shows "\<exists>ts. list_loop ns m ks = map TaskObj ts"
proof -
  have "\<forall>obj \<in> set (list_loop ns m ks). \<exists>t. obj = TaskObj t"
    using assms by (auto simp: set_list_loop)
  then show ?thesis by (auto simp: ex_map_conv)
qed

definition selects_field :: "ListOptions option \<Rightarrow> bool" where
  "selects_field options \<longleftrightarrow>
     (case options of None \<Rightarrow> False
      | Some opts \<Rightarrow> (case lo_FieldSelector opts of None \<Rightarrow> False | Some fs \<Rightarrow> \<not> fs_Empty fs))"

definition label_selector :: "ListOptions option \<Rightarrow> (string, string) gomap \<Rightarrow> bool" where
  "label_selector options =
     (case options of None \<Rightarrow> (\<lambda>_. True)
      | Some opts \<Rightarrow> (case lo_LabelSelector opts of None \<Rightarrow> (\<lambda>_. True) | Some sel \<Rightarrow> sel))"

lemma REST_List_run:
  assumes "\<not> selects_field options"
    and "list_loop (fst (x_NamespaceFrom K ctx)) (s_items s) (ord s) = map TaskObj ts"
    and "sel = label_selector options"
    and "rv = fold max (map task_rv (filter (\<lambda>t. sel (task_labels t)) ts)) 0"
  shows "exec ord (REST_List K r ctx options) s =
    (Ok (task_list (filter (\<lambda>t. sel (task_labels t)) ts) (if rv = 0 then s_rv s else rv)), s)"
proof -
  have "exec ord (REST_List K r ctx options) s =
      exec ord (CallList (fst (x_NamespaceFrom K ctx)) (\<lambda>raw.
           on_ok raw (\<lambda>raw. on_ok (list_items sel raw [] 0) (\<lambda>(items, maxRV).
             if maxRV = 0 then CallCurrentRV (\<lambda>rv. Done (Ok (task_list items rv)))
             else Done (Ok (task_list items maxRV)))))) s"
    using assms(1) unfolding REST_List_def selects_field_def [symmetric] assms(3) label_selector_def
    by (simp add: namespaceFromContext_def requestNamespace_def Let_def)
  also have "\<dots> = (Ok (task_list (filter (\<lambda>t. sel (task_labels t)) ts) (if rv = 0 then s_rv s else rv)), s)"
    unfolding assms(4) by (simp add: Store_List_def assms(2) list_items_Tasks CurrentResourceVersion_def)
  finally show ?thesis .
qed

lemma length_filter_list_loop:
  assumes "list_loop ns m ks = map TaskObj ts"
    and "\<And>k. P k \<longleftrightarrow> (\<exists>t. m k = Some (TaskObj t) \<and> ns_selects ns k \<and> Q t)"
  shows "length (filter Q ts) = length (filter P ks)"
  using assms(1)
proof (induction ks arbitrary: ts)
  case (Cons k ks)
  show ?case
  proof (cases "m k \<noteq> None \<and> ns_selects ns k")
    case True
    with Cons.prems obtain t ts' where "ts = t # ts'" "m k = Some (TaskObj t)"
      "list_loop ns m ks = map TaskObj ts'"
      by (auto simp: ns_selects_def split: if_splits)
    with Cons.IH [of ts'] True show ?thesis by (simp add: assms(2))
  next
    case False
    then have "list_loop ns m (k # ks) = list_loop ns m ks" by (auto simp: ns_selects_def split: option.split)
    with Cons False show ?thesis by (auto simp add: assms(2))
  qed
qed simp

lemma fold_max_rv:
  "(if fold max (map task_rv ts) 0 = 0 then v else fold max (map task_rv ts) 0)
    = (if \<forall>t \<in> set ts. task_rv t = 0 then v else Max (task_rv ` set ts))"
proof (cases "ts = []")
  case False
  have "Max (task_rv ` set ts) = 0 \<longleftrightarrow> (\<forall>t \<in> set ts. task_rv t = 0)"
    using False Max_in [of "task_rv ` set ts"] Max_ge [of "task_rv ` set ts"] by (fastforce simp: image_iff)
  with False show ?thesis by (simp add: fold_max_0)
qed simp

text \<open>The tasks a list returns, and its version.\<close>

definition picked :: "store \<Rightarrow> string \<Rightarrow> ((string, string) gomap \<Rightarrow> bool) \<Rightarrow> Key \<Rightarrow> Task \<Rightarrow> bool" where
  "picked s ns sel k t \<longleftrightarrow>
     s_items s k = Some (TaskObj t) \<and> (ns = [] \<or> k_Namespace k = ns) \<and> sel (task_labels t)"

lemma picked_tasks:
  assumes d: "distinct ks" "set ks = dom (s_items s)" and ts: "list_loop ns (s_items s) ks = map TaskObj ts"
  shows "set (filter (\<lambda>t. sel (task_labels t)) ts) = {t. \<exists>k. picked s ns sel k t}
    \<and> length (filter (\<lambda>t. sel (task_labels t)) ts) = card {k. \<exists>t. picked s ns sel k t}"
proof -
  have "set ts = {t. \<exists>k \<in> set ks. ns_selects ns k \<and> s_items s k = Some (TaskObj t)}"
    using arg_cong [OF ts, of set] by (auto simp: set_list_loop)
  moreover have "length (filter (\<lambda>t. sel (task_labels t)) ts) = length (filter (\<lambda>k. \<exists>t. picked s ns sel k t) ks)"
    using ts by (rule length_filter_list_loop) (simp add: picked_def ns_selects_def)
  moreover have "\<dots> = card (set (filter (\<lambda>k. \<exists>t. picked s ns sel k t) ks))"
    using d(1) by (metis distinct_card distinct_filter)
  moreover have "set (filter (\<lambda>k. \<exists>t. picked s ns sel k t) ks) = {k. \<exists>t. picked s ns sel k t}"
    using d(2) by (auto simp: picked_def)
  ultimately show ?thesis using d(2) by (auto simp: picked_def ns_selects_def)
qed

lemma list_result:
  assumes "all_tasks s" "range_order s (ord s)" "\<not> selects_field options"
    and "ns = fst (x_NamespaceFrom K ctx)" "sel = label_selector options"
  shows "\<exists>ts rv. exec ord (REST_List K r ctx options) s = (Ok (task_list ts rv), s)
    \<and> set ts = {t. \<exists>k. picked s ns sel k t} \<and> length ts = card {k. \<exists>t. picked s ns sel k t}
    \<and> rv = (if \<forall>t \<in> set ts. task_rv t = 0 then s_rv s else Max (task_rv ` set ts))"
proof -
  obtain ts where ts: "list_loop ns (s_items s) (ord s) = map TaskObj ts"
    using list_loop_all_tasks [of "s_items s"] assms(1) unfolding all_tasks_def by blast
  let ?ts = "filter (\<lambda>t. sel (task_labels t)) ts"
  let ?rv = "fold max (map task_rv ?ts) 0"
  have run: "exec ord (REST_List K r ctx options) s
      = (Ok (task_list ?ts (if ?rv = 0 then s_rv s else ?rv)), s)"
    using assms(3) ts [unfolded assms(4)] assms(5) by (rule REST_List_run) (rule refl)
  have d: "distinct (ord s)" "set (ord s) = dom (s_items s)" using assms(2) by (simp_all add: range_order_def)
  have set: "set ?ts = {t. \<exists>k. picked s ns sel k t}" and len: "length ?ts = card {k. \<exists>t. picked s ns sel k t}"
    using picked_tasks [OF d ts] by blast+
  have "(if ?rv = 0 then s_rv s else ?rv)
      = (if \<forall>t \<in> set ?ts. task_rv t = 0 then s_rv s else Max (task_rv ` set ?ts))"
    by (rule fold_max_rv)
  with run set len show ?thesis by blast
qed

subsection \<open>A failing update leaves the store alone\<close>

context task_update_strategy
begin

lemma update_failed:
  assumes K: "library_contract K" and T: "all_tasks s"
    and E: "exec ord (updateOnStore K V ctx name info cv uv force opts cs us gr) s = (res, s')"
    and bad: "\<not> is_ok res"
  shows "s' = s"
proof (cases "keyFromContext K ctx name (us_NamespaceScoped us) gr")
  case (Ok key)
  show ?thesis
  proof (cases "s_items s key")
    case None
    from K Ok None E show ?thesis by (cases rule: update_missing_cases) (use bad in auto)
  next
    case (Some existing)
    with T obtain old where "existing = TaskObj old" by (rule all_tasksE)
    note ex = Some [unfolded this]
    note E = E [unfolded update_existing [OF Ok ex]]
    show ?thesis
    proof (rule ccontr)
      assume ne: "s' \<noteq> s"
      from E ne obtain obj where o: "uoi_UpdatedObject info ctx (TaskObj old) = Ok obj"
        by (cases "uoi_UpdatedObject info ctx (TaskObj old)") auto
      from E ne obtain b where b: "x_BeforeUpdate K us ctx obj (TaskObj old) = Ok b"
        unfolding exec_on_ok o
        by (cases "x_BeforeUpdate K us ctx obj (TaskObj old)") (auto split: outcome.splits)
      obtain q old1 where q: "b = (TaskObj q, TaskObj old1)"
        by (cases b, rule before_update_Task [OF library_contractD(2) [OF K], of ctx obj old "fst b" "snd b"])
          (use b in auto)
      from E ne bad show False
        by (auto simp: exec_on_ok o b [unfolded q] Store_Update_simps(3) [OF ex, of "TaskObj q" "t_ObjectMeta q"]
            split: outcome.splits)
    qed
  qed
qed (use E bad in \<open>auto simp: updateOnStore_def\<close>)

end

end
