(* ===== verification/Guarantee.thy ===== *)
theory Guarantee
  imports Handlers
begin

section \<open>Interface: an invariant of stored objects that programs over the store keep\<close>

text \<open>
  An invariant of single objects may depend on the object's key and version. A program over the
  store keeps it if every object it writes satisfies it, provided the objects that it got
  from the store did. That is a property of the program alone, stated without a run:
  \<open>guarantees\<close>. The locale shows that it is enough, both when programs run one after the
  other and, call by call, when their calls interleave (theory Concurrency). The theory ends
  with the invariant of this program: \<open>good_task\<close>, and the proof that every REST handler
  guarantees it.
\<close>

subsection \<open>What a program guarantees\<close>

text \<open>\<open>c\<close> is a number of writes that the store is known to have passed; no claim is made
  beyond \<open>bound\<close> writes.\<close>

primrec guarantees ::
    "(nat \<Rightarrow> Key \<Rightarrow> runtime_object \<Rightarrow> bool) \<Rightarrow> nat \<Rightarrow> nat \<Rightarrow> 'a prog \<Rightarrow> bool" where
  "guarantees good bound c (Done x) \<longleftrightarrow> True"
| "guarantees good bound c (CallGet k f) \<longleftrightarrow>
     (\<forall>c' r. c \<le> c' \<longrightarrow> c' < bound \<longrightarrow> (\<forall>obj. r = Ok obj \<longrightarrow> good c' k obj) \<longrightarrow> guarantees good bound c' (f r))"
| "guarantees good bound c (CallList ns f) \<longleftrightarrow>
     (\<forall>c' r. c \<le> c' \<longrightarrow> c' < bound \<longrightarrow> guarantees good bound c' (f r))"
| "guarantees good bound c (CallCurrentRV f) \<longleftrightarrow>
     (\<forall>c' r. c \<le> c' \<longrightarrow> c' < bound \<longrightarrow> guarantees good bound c' (f r))"
| "guarantees good bound c (CallCreate k obj f) \<longleftrightarrow>
     good (Suc c) k obj \<and> (\<forall>c' r. c \<le> c' \<longrightarrow> c' < bound \<longrightarrow> guarantees good bound c' (f r))"
| "guarantees good bound c (CallUpdate k obj f) \<longleftrightarrow>
     good (Suc c) k obj \<and> (\<forall>c' r. c \<le> c' \<longrightarrow> c' < bound \<longrightarrow> guarantees good bound c' (f r))"
| "guarantees good bound c (CallDelete k f) \<longleftrightarrow>
     (\<forall>c' r. c \<le> c' \<longrightarrow> c' < bound \<longrightarrow> guarantees good bound c' (f r))"

lemma guarantees_on_ok [simp]:
  "guarantees good bound c (on_ok r f) \<longleftrightarrow> (\<forall>x. r = Ok x \<longrightarrow> guarantees good bound c (f x))"
  by (cases r) simp_all

lemma guarantees_map [simp]: "guarantees good bound c (map_prog h p) = guarantees good bound c p"
  by (induction p arbitrary: c) simp_all

lemma at_most_map [simp]: "at_most n (map_prog h p) = at_most n p"
  by (induction p arbitrary: n) simp_all

lemma exec_map: "exec ord (map_prog h p) s = (h (fst (exec ord p s)), snd (exec ord p s))"
  by (induction p arbitrary: s) simp_all

lemma exec_mapE:
  assumes "exec ord (map_prog h p) s = (resp, s')"
  obtains r where "resp = h r" "exec ord p s = (r, s')"
  using assms that [of "fst (exec ord p s)"] by (auto simp: exec_map)

subsection \<open>The invariant of the store\<close>

definition store_inv :: "(nat \<Rightarrow> Key \<Rightarrow> runtime_object \<Rightarrow> bool) \<Rightarrow> store \<Rightarrow> bool" where
  "store_inv good s \<longleftrightarrow> version_ok (s_items s) (store_counter s) obj_version
     \<and> (\<forall>k obj. s_items s k = Some obj \<longrightarrow> good (obj_version obj) k obj)"

lemma store_inv_New: "store_inv good (Store_New gr)"
  by (simp add: store_inv_def Store_New_def)

lemma store_step_ops:
  "store_step s (snd (Store_Create k obj s))" "store_step s (snd (Store_Update k obj s))"
  "store_step s (snd (Store_Delete k s))"
  unfolding store_step_def
  by (rule exI [of _ "OpCreate k obj"], simp) (rule exI [of _ "OpUpdate k obj"], simp,
      rule exI [of _ "OpDelete k"], simp)

locale object_invariant =
  fixes good :: "nat \<Rightarrow> Key \<Rightarrow> runtime_object \<Rightarrow> bool"
    and bound :: nat
  assumes bound_le: "bound \<le> max_rv"
    and good_mono: "good c k obj \<Longrightarrow> c \<le> c' \<Longrightarrow> good c' k obj"
    and good_stamp: "good c k obj \<Longrightarrow> good c k (SetResourceVersion v obj)"
begin

lemma guarantees_mono: "guarantees good bound c p \<Longrightarrow> c \<le> c' \<Longrightarrow> guarantees good bound c' p"
  by (cases p) (auto intro: good_mono)

lemma inv_lookup:
  assumes "store_inv good s" "s_items s k = Some obj"
  shows "good (store_counter s) k obj"
proof -
  have "obj_version obj \<le> store_counter s" "good (obj_version obj) k obj"
    using assms version_ok_bounds [of "s_items s" "store_counter s" obj_version k obj]
    by (auto simp: store_inv_def)
  then show ?thesis using good_mono by blast
qed

text \<open>One store call keeps the invariant if what it writes is good.\<close>

lemma write_inv:
  assumes "store_inv good s" "store_counter s < bound" "store_step s s'"
    and "\<And>k' obj'. s_items s' k' = Some obj' \<Longrightarrow>
      s_items s k' = Some obj' \<or> obj_version obj' = Suc (store_counter s) \<and> good (Suc (store_counter s)) k' obj'"
  shows "store_inv good s'"
proof -
  have "version_ok (s_items s') (store_counter s') obj_version"
    using vst.step_version_ok [OF assms(3)] assms(1,2) bound_le by (simp add: store_inv_def)
  moreover have "good (obj_version obj') k' obj'" if "s_items s' k' = Some obj'" for k' obj'
    using assms(4) [OF that] assms(1) by (auto simp: store_inv_def)
  ultimately show ?thesis by (simp add: store_inv_def)
qed

lemma stamped_good:
  assumes "good (Suc (store_counter s)) k obj" "store_counter s < bound" "object_meta obj = Some m"
  shows "obj_version (stamped s obj) = Suc (store_counter s) \<and> good (Suc (store_counter s)) k (stamped s obj)"
  using assms bound_le good_stamp [OF assms(1)]
  by (simp add: obj_version_stamped, simp add: stamped_def store_counter_def max_rv_def unat_u64_plus_1)

lemma create_inv:
  assumes "store_inv good s" "store_counter s < bound" "good (Suc (store_counter s)) k obj"
  shows "store_inv good (snd (Store_Create k obj s))"
  by (rule write_inv [OF assms(1,2) store_step_ops(1)])
    (use stamped_good [OF assms(3,2)] in
      \<open>cases "s_items s k"; cases "object_meta obj"; auto simp: store_rules split: if_splits\<close>)

lemma update_inv:
  assumes "store_inv good s" "store_counter s < bound" "good (Suc (store_counter s)) k obj"
  shows "store_inv good (snd (Store_Update k obj s))"
  by (rule write_inv [OF assms(1,2) store_step_ops(2)])
    (use stamped_good [OF assms(3,2)] in
      \<open>cases "s_items s k"; cases "object_meta obj"; auto simp: store_rules split: if_splits\<close>)

lemma delete_inv:
  assumes "store_inv good s" "store_counter s < bound"
  shows "store_inv good (snd (Store_Delete k s))"
  by (rule write_inv [OF assms store_step_ops(3)])
    (cases "s_items s k"; auto simp: store_rules split: if_splits)

lemma step_counter_le:
  assumes "store_step s s'" "store_counter s < bound"
  shows "store_counter s \<le> store_counter s' \<and> store_counter s' \<le> Suc (store_counter s)"
  using vst.step_counter [OF assms(1)] assms(2) bound_le by auto

lemma get_guarantees:
  assumes "guarantees good bound c (CallGet k f)" "c \<le> store_counter s" "store_counter s < bound"
    and "store_inv good s"
  shows "guarantees good bound (store_counter s) (f (Store_Get k s))"
  using assms inv_lookup [OF assms(4)] by simp

lemma exec_inv:
  "guarantees good bound c p \<Longrightarrow> at_most n p \<Longrightarrow> c \<le> store_counter s \<Longrightarrow>
     store_counter s + n < bound \<Longrightarrow> store_inv good s \<Longrightarrow>
     store_inv good (snd (exec ord p s))
     \<and> store_counter s \<le> store_counter (snd (exec ord p s))
     \<and> store_counter (snd (exec ord p s)) \<le> store_counter s + n"
proof (induction p arbitrary: c n s)
  case (Done x)
  then show ?case by simp
next
  case (CallGet k f)
  have "guarantees good bound (store_counter s) (f (Store_Get k s))"
    using get_guarantees [OF CallGet.prems(1,3) _ CallGet.prems(5)] CallGet.prems(4) by simp
  with CallGet.IH [OF rangeI, of "store_counter s" _ n s] CallGet.prems show ?case by simp
next
  case (CallList ns f)
  have "guarantees good bound (store_counter s) (f (Store_List (ord s) ns s))"
    using CallList.prems by simp
  with CallList.IH [OF rangeI, of "store_counter s" _ n s] CallList.prems show ?case by simp
next
  case (CallCurrentRV f)
  have "guarantees good bound (store_counter s) (f (CurrentResourceVersion s))"
    using CallCurrentRV.prems by simp
  with CallCurrentRV.IH [OF rangeI, of "store_counter s" _ n s] CallCurrentRV.prems show ?case by simp
next
  case (CallCreate k obj f)
  let ?s = "snd (Store_Create k obj s)"
  have n: "0 < n" "at_most (n - 1) (f (fst (Store_Create k obj s)))" using CallCreate.prems(2) by auto
  have lt: "store_counter s < bound" using CallCreate.prems(4) by simp
  have c: "store_counter s \<le> store_counter ?s" "store_counter ?s \<le> Suc (store_counter s)"
    using step_counter_le [OF store_step_ops(1) lt] by auto
  have "guarantees good bound (store_counter ?s) (f (fst (Store_Create k obj s)))"
    using CallCreate.prems c n by simp
  moreover have "store_inv good ?s"
    using CallCreate.prems(1,3) by (intro create_inv CallCreate.prems lt) (auto intro: good_mono)
  ultimately show ?case
    using CallCreate.IH [OF rangeI _ n(2), of "store_counter ?s" ?s] n c CallCreate.prems(4) by fastforce
next
  case (CallUpdate k obj f)
  let ?s = "snd (Store_Update k obj s)"
  have n: "0 < n" "at_most (n - 1) (f (fst (Store_Update k obj s)))" using CallUpdate.prems(2) by auto
  have lt: "store_counter s < bound" using CallUpdate.prems(4) by simp
  have c: "store_counter s \<le> store_counter ?s" "store_counter ?s \<le> Suc (store_counter s)"
    using step_counter_le [OF store_step_ops(2) lt] by auto
  have "guarantees good bound (store_counter ?s) (f (fst (Store_Update k obj s)))"
    using CallUpdate.prems c n by simp
  moreover have "store_inv good ?s"
    using CallUpdate.prems(1,3) by (intro update_inv CallUpdate.prems lt) (auto intro: good_mono)
  ultimately show ?case
    using CallUpdate.IH [OF rangeI _ n(2), of "store_counter ?s" ?s] n c CallUpdate.prems(4) by fastforce
next
  case (CallDelete k f)
  let ?s = "snd (Store_Delete k s)"
  have n: "0 < n" "at_most (n - 1) (f (fst (Store_Delete k s)))" using CallDelete.prems(2) by auto
  have lt: "store_counter s < bound" using CallDelete.prems(4) by simp
  have c: "store_counter s \<le> store_counter ?s" "store_counter ?s \<le> Suc (store_counter s)"
    using step_counter_le [OF store_step_ops(3) lt] by auto
  have "guarantees good bound (store_counter ?s) (f (fst (Store_Delete k s)))"
    using CallDelete.prems c n by simp
  moreover have "store_inv good ?s" by (intro delete_inv CallDelete.prems lt)
  ultimately show ?case
    using CallDelete.IH [OF rangeI _ n(2), of "store_counter ?s" ?s] n c CallDelete.prems(4) by fastforce
qed

end

subsection \<open>The invariant of this program\<close>

text \<open>
  A stored object is a well-formed Task, its metadata agrees with the key it is stored at,
  and its generation has not outrun the writes.
\<close>

definition good_task :: "nat \<Rightarrow> Key \<Rightarrow> runtime_object \<Rightarrow> bool" where
  "good_task c k obj \<longleftrightarrow>
     (\<exists>t. obj = TaskObj t \<and> task_wf t \<and> om_Namespace (t_ObjectMeta t) = k_Namespace k
        \<and> om_Name (t_ObjectMeta t) = k_Name k \<and> sint (generation t) \<le> int c)"

definition request_bound :: nat where
  "request_bound = 2 ^ 63 - 1"

interpretation tasks: object_invariant good_task request_bound
proof unfold_locales
  fix c k obj v
  assume "good_task c k obj"
  then obtain t where t: "obj = TaskObj t" "task_wf t" "om_Namespace (t_ObjectMeta t) = k_Namespace k"
    "om_Name (t_ObjectMeta t) = k_Name k" "sint (generation t) \<le> int c" by (auto simp: good_task_def)
  then show "good_task c k (SetResourceVersion v obj)" by (simp add: good_task_def task_wf_def)
qed (auto simp: request_bound_def max_rv_def good_task_def)

lemma good_task_TaskObj:
  "good_task c k (TaskObj t) \<longleftrightarrow> task_wf t \<and> om_Namespace (t_ObjectMeta t) = k_Namespace k
     \<and> om_Name (t_ObjectMeta t) = k_Name k \<and> sint (generation t) \<le> int c"
  by (simp add: good_task_def)

lemma store_inv_all_tasks: "store_inv good_task s \<Longrightarrow> all_tasks s"
  unfolding store_inv_def all_tasks_def good_task_def by blast

lemma created_from_good:
  assumes "created_from ns t q"
  shows "good_task (Suc c) (Key ns (om_Name (t_ObjectMeta q))) (TaskObj q)"
  using assms created_from_wf [OF assms] by (simp add: good_task_TaskObj created_from_def)

text \<open>The body that create and create-on-update share.\<close>

lemma create_body_created:
  assumes K: "library_contract K" and m: "internal_accessor obj = Ok m"
    and b: "x_BeforeCreate K (Strategy_create V cs) ctx (set_object_meta (x_FillObjectMetaSystemFields K m) obj) = Ok r"
  obtains t q where "obj = TaskObj t" "r = TaskObj q" "created_from (fst (x_NamespaceFrom K ctx)) t q"
proof -
  obtain t1 q where t1: "set_object_meta (x_FillObjectMetaSystemFields K m) obj = TaskObj t1" "r = TaskObj q"
    "created_from (fst (x_NamespaceFrom K ctx)) t1 q"
    by (rule before_create_Task [OF library_contractD(1) [OF K] b])
  obtain t where t: "obj = TaskObj t" "t1 = t\<lparr>t_ObjectMeta := x_FillObjectMetaSystemFields K m\<rparr>"
    using set_object_meta_eq_TaskObj [OF t1(1)] by blast
  have "m = t_ObjectMeta t" using m t(1) by (simp add: internal_accessor_def)
  with t1(3) t library_contractD(3) [OF K] have "created_from (fst (x_NamespaceFrom K ctx)) t q"
    by (simp add: created_from_def fill_contract_def)
  with t(1) t1(2) that show thesis by blast
qed

lemma REST_Create_guarantees:
  assumes "library_contract K"
  shows "guarantees good_task bound c (REST_Create K V r ctx obj cv opts)"
proof -
  have "good_task (Suc c) (Key (om_Namespace (meta_of obj')) (om_Name (meta_of obj'))) obj'"
    if "internal_accessor obj = Ok m"
      and "x_BeforeCreate K (Strategy_create V (r_strategy r)) ctx
        (set_object_meta (x_FillObjectMetaSystemFields K m) obj) = Ok obj'" for m obj'
    using assms that
  proof (rule create_body_created)
    fix t q
    assume q: "obj' = TaskObj q" and cf: "created_from (fst (x_NamespaceFrom K ctx)) t q"
    then have "om_Namespace (t_ObjectMeta q) = fst (x_NamespaceFrom K ctx)" by (simp add: created_from_def)
    with created_from_good [OF cf] q show ?thesis by simp
  qed
  then show ?thesis by (simp add: REST_Create_def Let_def)
qed

text \<open>The endpoint layer only forces creation of the name in the request's path.\<close>

definition names_match :: "'ctx updated_object_info \<Rightarrow> string \<Rightarrow> bool" where
  "names_match info name \<longleftrightarrow>
     (\<forall>ctx base obj. uoi_UpdatedObject info ctx base = Ok obj \<longrightarrow> om_Name (meta_of obj) = name)"

context task_update_strategy
begin

lemma update_guarantees:
  assumes K: "library_contract K" and names: "force \<Longrightarrow> names_match info name"
  shows "guarantees good_task request_bound c
    (updateOnStore K V ctx name info cv uv force opts cs us gr)"
proof -
  have miss: "good_task (Suc c') key obj'"
    if "keyFromContext K ctx name (us_NamespaceScoped us) gr = Ok key" force
      "uoi_UpdatedObject info ctx Strategy_New = Ok obj" "internal_accessor obj = Ok m"
      "x_BeforeCreate K (Strategy_create V cs) ctx (set_object_meta (x_FillObjectMetaSystemFields K m) obj) = Ok obj'"
    for c' key obj m obj'
    using K that(4,5)
  proof (rule create_body_created)
    fix t q
    assume u: "obj = TaskObj t" "obj' = TaskObj q" and cf: "created_from (fst (x_NamespaceFrom K ctx)) t q"
    have "om_Name (t_ObjectMeta t) = name"
      using names [OF that(2)] that(3) u(1) meta_of_TaskObj unfolding names_match_def by metis
    with cf that(1) have "key = Key (fst (x_NamespaceFrom K ctx)) (om_Name (t_ObjectMeta q))"
      by (auto simp: keyFromContext_Ok_iff created_from_def)
    then show ?thesis using created_from_good [OF cf] u(2) by simp
  qed
  have hit: "good_task (Suc c') key obj'"
    if old_good: "good_task c' key existing" and c': "c' < request_bound"
      and before: "x_BeforeUpdate K us ctx obj existing = Ok (obj', old')"
    for c' key existing obj obj' old'
  proof -
    obtain old where old: "existing = TaskObj old" using old_good by (auto simp: good_task_def)
    obtain n q old1 where q: "obj' = TaskObj q" "updated us ctx old n q"
      by (rule before_update_Task [OF library_contractD(2) [OF K] before [unfolded old]])
    have g: "task_wf old" "sint (generation old) \<le> int c'"
      "om_Namespace (t_ObjectMeta old) = k_Namespace key" "om_Name (t_ObjectMeta old) = k_Name key"
      using old_good by (simp_all add: old good_task_TaskObj)
    have lt: "sint (generation old) < 2 ^ 63 - 1" using g(2) c' by (simp add: request_bound_def)
    show ?thesis
      using updated_wf [OF q(2) g(1) lt] updated_generation_le [OF q(2) lt] updated_identity [OF q(2)] g
      by (simp add: q(1) good_task_TaskObj)
  qed
  show ?thesis
    unfolding updateOnStore_def
    by (auto simp: Let_def split: outcome.split intro: miss hit)
qed

end

end
