(* ===== verification/RestProperties.thy ===== *)
theory RestProperties
  imports Handlers
begin

section \<open>Properties of the REST handlers\<close>

text \<open>
  What each request of \<open>storage.go\<close> does to the store and answers, when it runs alone: on
  which inputs it succeeds, what it writes, and that nothing else changes. The library's
  part is the contract of LibraryContract; properties that hold of any library state no
  such hypothesis.
\<close>

subsection \<open>A store and requests to evaluate with\<close>

definition sample_task :: Task where
  "sample_task = zero_Task
     \<lparr>t_ObjectMeta := zero_ObjectMeta\<lparr>om_Name := ''a'', om_Namespace := ''ns'', om_UID := ''uid'',
                                      om_ResourceVersion := ''1'', om_Generation := 1\<rparr>,
      t_Spec := zero_TaskSpec\<lparr>ts_Image := ''alpine''\<rparr>\<rparr>"

definition sample_key :: Key where "sample_key = Key ''ns'' ''a''"

definition sample_store :: store where
  "sample_store = \<lparr>s_items = [sample_key \<mapsto> TaskObj sample_task], s_rv = 1, s_gr = Resource ''tasks''\<rparr>"

text \<open>\<open>rest.DefaultUpdatedObjectInfo\<close>: the client's whole object, as in a PUT.\<close>

definition put :: "Task \<Rightarrow> 'ctx updated_object_info" where
  "put t = \<lparr>uoi_UpdatedObject = (\<lambda>ctx old. Ok (TaskObj t)), uoi_Preconditions = None\<rparr>"

definition set_version :: "string \<Rightarrow> Task \<Rightarrow> Task" where
  "set_version v t = t\<lparr>t_ObjectMeta := (t_ObjectMeta t)\<lparr>om_ResourceVersion := v\<rparr>\<rparr>"

lemma set_version_simps [simp]:
  "t_ObjectMeta (set_version v t) = (t_ObjectMeta t)\<lparr>om_ResourceVersion := v\<rparr>"
  "t_Spec (set_version v t) = t_Spec t" "t_Status (set_version v t) = t_Status t"
  by (simp_all add: set_version_def)

lemma put_simps [simp]:
  "uoi_UpdatedObject (put t) ctx old = Ok (TaskObj t)" "uoi_Preconditions (put t) = None"
  by (simp_all add: put_def)

lemma preconditions_met_None [simp]: "preconditions_met None m"
  by (simp add: preconditions_met_def)

lemma plain_NamespaceFrom [simp]: "x_NamespaceFrom plain_k8s ctx = (ctx, ctx \<noteq> [])"
  by (simp add: plain_k8s_def)

lemma plain_REST_simps [simp]:
  "r_gr plain_REST = Resource ''tasks''" "sr_gr plain_StatusREST = Resource ''tasks''"
  "r_strategy plain_REST = plain_strategy"
  "ss_Strategy (sr_strategy plain_StatusREST) = plain_strategy"
  by (simp_all add: plain_REST_def plain_StatusREST_def NewREST_def NewStatusREST_def)

lemma sample_simps [simp]:
  "s_items sample_store = [sample_key \<mapsto> TaskObj sample_task]"
  "s_rv sample_store = 1" "s_gr sample_store = Resource ''tasks''"
  "keyFromContext plain_k8s ''ns'' ''a'' True gr = Ok sample_key"
  by (simp_all add: sample_store_def keyFromContext_Ok_iff sample_key_def)

lemma all_tasks_sample [simp]: "all_tasks sample_store"
  by (simp add: all_tasks_def)

lemma sample_task_simps [simp]:
  "om_ResourceVersion (t_ObjectMeta sample_task) = ''1''"
  "om_Name (t_ObjectMeta sample_task) = ''a''"
  "om_Namespace (t_ObjectMeta sample_task) = ''ns''"
  "om_UID (t_ObjectMeta sample_task) = ''uid''"
  "om_Generation (t_ObjectMeta sample_task) = 1"
  "t_Spec sample_task = zero_TaskSpec\<lparr>ts_Image := ''alpine''\<rparr>"
  "t_Status sample_task = zero_TaskStatus"
  by (simp_all add: sample_task_def zero_Task_def)

text \<open>The plain library's checks on two tasks of the same identity.\<close>

lemma plain_update:
  assumes "us_PrepareForUpdate us ctx (TaskObj n) (TaskObj old) = Ok (TaskObj p)"
    and "us_ValidateUpdate us ctx (TaskObj p) (TaskObj old) = Ok []"
    and "same_identity (TaskObj p) (TaskObj old)"
  shows "x_BeforeUpdate plain_k8s us ctx (TaskObj n) (TaskObj old)
    = Ok (us_Canonicalize us (TaskObj p), TaskObj old)"
  using assms by (simp add: plain_k8s_def plain_BeforeUpdate_def same_identity_Tasks)

text \<open>A put of an object that the plain library accepts succeeds.\<close>

lemma plain_put:
  assumes "us_PrepareForUpdate us ''ns'' (TaskObj n) (TaskObj sample_task) = Ok (TaskObj p)"
    and "us_ValidateUpdate us ''ns'' (TaskObj p) (TaskObj sample_task) = Ok []"
    and "same_identity (TaskObj p) (TaskObj sample_task)"
    and "om_ResourceVersion (t_ObjectMeta n) = ''1''" "us_NamespaceScoped us"
    and "us_Canonicalize us (TaskObj p) = TaskObj p" "\<not> us_AllowUnconditionalUpdate us"
  shows "exec ord (updateOnStore plain_k8s V ''ns'' ''a'' (put n) cv None force opts cs us gr) sample_store
    = (Ok (TaskObj (stamped_task sample_store p), False), written sample_store sample_key p)"
proof -
  have key: "keyFromContext plain_k8s ''ns'' ''a'' (us_NamespaceScoped us) gr = Ok sample_key"
    using assms(5) by simp
  have ex: "s_items sample_store sample_key = Some (TaskObj sample_task)" by simp
  have "checkPreconditions (TaskObj sample_task) None gr ''a'' = Ok ()"
    by (simp add: checkPreconditions_def)
  moreover have "checkResourceVersion (TaskObj sample_task) (TaskObj n) us gr = Ok ()"
    using assms(4,7) by (simp add: registry_rules)
  ultimately show ?thesis
    by (simp add: update_existing [OF key ex] plain_update [OF assms(1-3)] assms(6)
        call_update_validation_def Store_Update_simps(3) [OF ex, of "TaskObj p" "t_ObjectMeta p"] written_def)
qed

subsection \<open>Updates\<close>

text \<open>C6. Optimistic concurrency: an update or a status update whose object does not carry
  the stored resource version (an empty one included) is answered with Conflict and leaves
  the store exactly as it was, whatever the library and the admission callbacks would do,
  and also when creation on update is forced.\<close>

theorem stale_update_conflicts:
  assumes "keyFromContext K ctx name True gr = Ok key" "s_items s key = Some (TaskObj old)"
    and "uoi_UpdatedObject info ctx (TaskObj old) = Ok (TaskObj n)"
    and "preconditions_met (uoi_Preconditions info) (t_ObjectMeta old)"
    and "om_ResourceVersion (t_ObjectMeta n) = []
      \<or> om_ResourceVersion (t_ObjectMeta n) \<noteq> om_ResourceVersion (t_ObjectMeta old)"
    and "r_gr r = gr" "sr_gr sr = gr"
  shows "exec ord (REST_Update K V r ctx name info cv uv force opts) s = (Err (stale_conflict gr n), s)
    \<and> exec ord (StatusREST_Update K V sr ctx name info cv uv force opts) s = (Err (stale_conflict gr n), s)"
proof -
  have p: "checkPreconditions (TaskObj old) (uoi_Preconditions info) gr name = Ok ()"
    using assms(4) by (simp add: checkPreconditions_Ok_iff)
  have "exec ord (updateOnStore K V ctx name info cv uv force opts cs us gr) s
      = (Err (stale_conflict gr n), s)"
    if us: "us_NamespaceScoped us" "\<not> us_AllowUnconditionalUpdate us" for cs us
  proof -
    have key: "keyFromContext K ctx name (us_NamespaceScoped us) gr = Ok key"
      using assms(1) us by simp
    have "checkResourceVersion (TaskObj old) (TaskObj n) us gr = Err (stale_conflict gr n)"
      using assms(5) us by (auto simp: registry_rules)
    then show ?thesis by (simp add: update_existing [OF key assms(2)] assms(3) p)
  qed
  then show ?thesis using assms(6,7) by (auto simp: REST_Update_def StatusREST_Update_def)
qed

theorem stale_update_conflicts_witness:
  "exec sorted_order (REST_Update plain_k8s plain_validators plain_REST ''ns'' ''a''
       (put (set_version [] sample_task)) None None False None) sample_store
     = (Err (stale_conflict (Resource ''tasks'') (set_version [] sample_task)), sample_store)"
  using stale_update_conflicts [of plain_k8s "''ns''" "''a''" "Resource ''tasks''" sample_key sample_store
      sample_task "put (set_version [] sample_task)" "set_version [] sample_task"
      plain_REST plain_StatusREST sorted_order plain_validators None None False None]
  by simp

text \<open>C5. When an update succeeds, its effect is this and no more. If the task exists, the update
  was made against the current object: the spec is the client's, the status is what was
  stored, the generation moved by one exactly if the spec changed, name, namespace and UID are
  unchanged, and nothing was created. If it does not exist, then creation on update was forced
  (server-side apply), and a task of generation 1 with the client's spec and an empty status
  is created at its key. Either way the image is not empty, the version is the next one of the
  store, no other key changed, and the caller gets back the object as stored.\<close>

theorem update_success:
  assumes "library_contract K" "all_tasks s"
    and "exec ord (REST_Update K V r ctx name info cv uv force opts) s = (Ok (robj, created), s')"
  shows "\<exists>key q. keyFromContext K ctx name True (r_gr r) = Ok key \<and> robj = TaskObj q
    \<and> ts_Image (t_Spec q) \<noteq> []
    \<and> om_ResourceVersion (t_ObjectMeta q) = FormatUint (s_rv s + 1)
    \<and> s' = s\<lparr>s_items := (s_items s)(key \<mapsto> robj), s_rv := s_rv s + 1\<rparr>
    \<and> (\<forall>old. s_items s key = Some (TaskObj old) \<longrightarrow> \<not> created \<and> (\<exists>n.
         uoi_UpdatedObject info ctx (TaskObj old) = Ok (TaskObj n)
         \<and> om_ResourceVersion (t_ObjectMeta n) = om_ResourceVersion (t_ObjectMeta old)
         \<and> t_Spec q = t_Spec n \<and> t_Status q = t_Status old
         \<and> generation q = (if specEqual (t_Spec n) (t_Spec old) then generation old else generation old + 1)
         \<and> om_Name (t_ObjectMeta q) = om_Name (t_ObjectMeta old)
         \<and> om_Namespace (t_ObjectMeta q) = om_Namespace (t_ObjectMeta old)
         \<and> om_UID (t_ObjectMeta q) = om_UID (t_ObjectMeta old)))
    \<and> (s_items s key = None \<longrightarrow> created \<and> force \<and> (\<exists>n.
         uoi_UpdatedObject info ctx (TaskObj zero_Task) = Ok (TaskObj n)
         \<and> t_Spec q = t_Spec n \<and> t_Status q = zero_TaskStatus \<and> generation q = 1
         \<and> om_Namespace (t_ObjectMeta q) = k_Namespace key))"
  using assms(1,2) assms(3) [unfolded REST_Update_def]
proof (cases rule: main_strategy.update_forced_OkE)
  case (existing key old n q)
  show ?thesis
    by (rule exI [of _ key], rule exI [of _ "stamped_task s q"])
      (use existing updated_main [OF existing(5)] main_strategy.updated_identity [OF existing(5)]
        in \<open>simp add: written_def\<close>)
next
  case (new key n q)
  show ?thesis
    by (rule exI [of _ key], rule exI [of _ "stamped_task s q"])
      (use new in \<open>simp add: written_def created_from_def keyFromContext_Ok_iff\<close>)
qed

theorem update_success_witness:
  "\<exists>q. fst (exec sorted_order (REST_Update plain_k8s plain_validators plain_REST ''ns'' ''a''
       (put (sample_task\<lparr>t_Spec := zero_TaskSpec\<lparr>ts_Image := ''busybox''\<rparr>\<rparr>))
       None None False None) sample_store) = Ok (TaskObj q, False)
     \<and> generation q = 2 \<and> om_UID (t_ObjectMeta q) = ''uid''"
proof -
  let ?n = "sample_task\<lparr>t_Spec := zero_TaskSpec\<lparr>ts_Image := ''busybox''\<rparr>\<rparr>"
  let ?p = "REST_Update plain_k8s plain_validators plain_REST ''ns'' ''a'' (put ?n) None None False None"
  have e: "exec sorted_order ?p sample_store
      = (Ok (TaskObj (stamped_task sample_store (set_generation 2 ?n)), False),
         written sample_store sample_key (set_generation 2 ?n))"
    unfolding REST_Update_def
    by (rule plain_put) (simp_all add: strategy_rules specEqual_iff zero_TaskSpec_def
        set_generation_def validateTask_Nil_iff plain_validators_def same_identity_Tasks)
  from update_success [OF plain_library all_tasks_sample e] e show ?thesis
    by (auto simp: specEqual_iff zero_TaskSpec_def)
qed

text \<open>C8. A successful update of the status subresource of an existing task writes the client's
  status and nothing of the client's spec: spec, generation, name, namespace and UID stay as
  they were stored, and the observed generation is between 0 and the stored generation. Of a
  task that does not exist it succeeds only if creation on update is forced, and then it writes
  the client's spec and an empty status. Either way the version is the next one, no other key
  changed, and the caller gets back the object as stored. The other metadata is what library
  and client made of it.\<close>

theorem status_update_success:
  assumes "library_contract K" "all_tasks s"
    and "exec ord (StatusREST_Update K V sr ctx name info cv uv force opts) s = (Ok (robj, created), s')"
  shows "\<exists>key q. keyFromContext K ctx name True (sr_gr sr) = Ok key \<and> robj = TaskObj q
    \<and> om_ResourceVersion (t_ObjectMeta q) = FormatUint (s_rv s + 1)
    \<and> s' = s\<lparr>s_items := (s_items s)(key \<mapsto> robj), s_rv := s_rv s + 1\<rparr>
    \<and> (\<forall>old. s_items s key = Some (TaskObj old) \<longrightarrow> \<not> created \<and> (\<exists>n.
         uoi_UpdatedObject info ctx (TaskObj old) = Ok (TaskObj n)
         \<and> om_ResourceVersion (t_ObjectMeta n) = om_ResourceVersion (t_ObjectMeta old)
         \<and> t_Status q = t_Status n \<and> t_Spec q = t_Spec old \<and> generation q = generation old
         \<and> 0 \<le> sint (st_ObservedGeneration (t_Status q))
         \<and> sint (st_ObservedGeneration (t_Status q)) \<le> sint (generation q)
         \<and> om_Name (t_ObjectMeta q) = om_Name (t_ObjectMeta old)
         \<and> om_Namespace (t_ObjectMeta q) = om_Namespace (t_ObjectMeta old)
         \<and> om_UID (t_ObjectMeta q) = om_UID (t_ObjectMeta old)))
    \<and> (s_items s key = None \<longrightarrow> created \<and> force \<and> (\<exists>n.
         uoi_UpdatedObject info ctx (TaskObj zero_Task) = Ok (TaskObj n)
         \<and> t_Spec q = t_Spec n \<and> t_Status q = zero_TaskStatus \<and> generation q = 1))"
  using assms(1,2) assms(3) [unfolded StatusREST_Update_def]
proof (cases rule: status_strategy.update_forced_OkE)
  case (existing key old n q)
  show ?thesis
    by (rule exI [of _ key], rule exI [of _ "stamped_task s q"])
      (use existing updated_status [OF existing(5)] status_strategy.updated_identity [OF existing(5)]
        in \<open>simp add: written_def\<close>)
next
  case (new key n q)
  show ?thesis
    by (rule exI [of _ key], rule exI [of _ "stamped_task s q"])
      (use new in \<open>simp add: written_def created_from_def\<close>)
qed

theorem status_update_success_witness:
  "\<exists>q. fst (exec sorted_order (StatusREST_Update plain_k8s plain_validators plain_StatusREST ''ns'' ''a''
       (put (sample_task\<lparr>t_Spec := zero_TaskSpec, t_Status := zero_TaskStatus\<lparr>st_Phase := TaskPhaseRunning\<rparr>\<rparr>))
       None None False None) sample_store) = Ok (TaskObj q, False)
     \<and> ts_Image (t_Spec q) = ''alpine'' \<and> st_Phase (t_Status q) = ''Running''"
proof -
  let ?n = "sample_task\<lparr>t_Spec := zero_TaskSpec, t_Status := zero_TaskStatus\<lparr>st_Phase := TaskPhaseRunning\<rparr>\<rparr>"
  let ?q = "set_generation 1 (?n\<lparr>t_Spec := zero_TaskSpec\<lparr>ts_Image := ''alpine''\<rparr>\<rparr>)"
  let ?p = "StatusREST_Update plain_k8s plain_validators plain_StatusREST ''ns'' ''a'' (put ?n) None None False None"
  have e: "exec sorted_order ?p sample_store
      = (Ok (TaskObj (stamped_task sample_store ?q), False), written sample_store sample_key ?q)"
    unfolding StatusREST_Update_def
    by (rule plain_put) (simp_all add: strategy_rules validateStatusUpdate_Nil_iff
        plain_validators_def same_identity_Tasks zero_TaskStatus_def)
  from status_update_success [OF plain_library all_tasks_sample e] e show ?thesis
    by (auto simp: TaskPhaseRunning_def)
qed

text \<open>C22. When an update of an existing task succeeds, for either surface: exactly when the
  preconditions hold of the stored object, the client's object carries the stored version,
  the library accepts it under the surface's strategy and the admission callback does. Every
  other update of it leaves the store unchanged.\<close>

theorem update_succeeds_iff:
  assumes "library_contract K" "keyFromContext K ctx name True gr = Ok key" "r_gr r = gr" "sr_gr sr = gr"
    and "s_items s key = Some (TaskObj old)"
    and "uoi_UpdatedObject info ctx (TaskObj old) = Ok (TaskObj n)"
    and "main = exec ord (REST_Update K V r ctx name info cv uv force opts) s"
    and "status = exec ord (StatusREST_Update K V sr ctx name info cv uv force opts) s"
    and "current \<longleftrightarrow> preconditions_met (uoi_Preconditions info) (t_ObjectMeta old)
      \<and> om_ResourceVersion (t_ObjectMeta n) \<noteq> []
      \<and> om_ResourceVersion (t_ObjectMeta n) = om_ResourceVersion (t_ObjectMeta old)"
    and "accepts = (\<lambda>us. \<exists>obj' old'. x_BeforeUpdate K us ctx (TaskObj n) (TaskObj old) = Ok (obj', old')
      \<and> call_update_validation uv ctx obj' old' = Ok ())"
  shows "(is_ok (fst main) \<longleftrightarrow> current \<and> accepts (Strategy_update V (r_strategy r)))
    \<and> (is_ok (fst status) \<longleftrightarrow> current \<and> accepts (StatusStrategy_update V (sr_strategy sr)))
    \<and> (\<not> is_ok (fst main) \<longrightarrow> snd main = s) \<and> (\<not> is_ok (fst status) \<longrightarrow> snd status = s)"
  using main_strategy.update_ok_iff [OF library_contractD(2) [OF assms(1)] assms(2,5,6)]
    status_strategy.update_ok_iff [OF library_contractD(2) [OF assms(1)] assms(2,5,6)]
  unfolding assms(7-10) REST_Update_def StatusREST_Update_def assms(3,4) conj_assoc by simp

theorem update_succeeds_iff_witness:
  "is_ok (fst (exec sorted_order (REST_Update plain_k8s plain_validators plain_REST ''ns'' ''a''
       (put sample_task) None None False None) sample_store))"
proof -
  have "x_BeforeUpdate plain_k8s (Strategy_update plain_validators plain_strategy) ''ns''
      (TaskObj sample_task) (TaskObj sample_task)
      = Ok (us_Canonicalize (Strategy_update plain_validators plain_strategy :: string update_strategy)
              (TaskObj (set_generation 1 sample_task)), TaskObj sample_task)"
    by (rule plain_update) (simp_all add: strategy_rules validateTask_Nil_iff plain_validators_def
        same_identity_Tasks set_generation_def)
  then have "\<exists>obj' old'. x_BeforeUpdate plain_k8s (Strategy_update plain_validators (r_strategy plain_REST)) ''ns''
      (TaskObj sample_task) (TaskObj sample_task) = Ok (obj', old')
      \<and> call_update_validation None ''ns'' obj' old' = Ok ()"
    by (simp add: call_update_validation_def)
  moreover have ex: "s_items sample_store sample_key = Some (TaskObj sample_task)" by simp
  ultimately show ?thesis
    by (subst update_succeeds_iff [OF plain_library sample_simps(4) plain_REST_simps(1,2) ex
          put_simps(1) refl refl refl refl, THEN conjunct1]) simp
qed

text \<open>PUT and PUT on the status subresource of a name that does not exist answer NotFound
  and change nothing, unless the caller forces creation on update.\<close>

lemma update_missing_not_found:
  assumes "keyFromContext K ctx name True gr = Ok key" "r_gr r = gr" "sr_gr sr = gr"
    and "s_items s key = None"
  shows "exec ord (REST_Update K V r ctx name info cv uv False opts) s
      = (Err (NotFound (s_gr s) name), s)
    \<and> exec ord (StatusREST_Update K V sr ctx name info cv uv False opts) s
      = (Err (NotFound (s_gr s) name), s)"
proof -
  have "k_Name key = name" using assms(1) by (simp add: keyFromContext_Ok_iff)
  then show ?thesis
    using assms update_missing [of K ctx name _ gr key s]
    by (simp add: REST_Update_def StatusREST_Update_def)
qed

text \<open>C29. Creation through the status subresource: with \<open>forceAllowCreate\<close>, which the API
  machinery sets for server-side apply, an update of the status of a task that does not
  exist creates the task, although the source says that the status subresource never
  creates. The same holds of the main resource, where that is the intent.\<close>

theorem forced_status_update_creates:
  assumes "library_contract K" "keyFromContext K ctx name True (sr_gr sr) = Ok key"
    and "s_items s key = None" "uoi_UpdatedObject info ctx (TaskObj zero_Task) = Ok (TaskObj n)"
    and "x_BeforeCreate K (Strategy_create V (ss_Strategy (sr_strategy sr))) ctx
      (TaskObj (n\<lparr>t_ObjectMeta := x_FillObjectMetaSystemFields K (t_ObjectMeta n)\<rparr>)) = Ok obj"
  shows "\<exists>q. exec ord (StatusREST_Update K V sr ctx name info None uv True opts) s
      = (Ok (TaskObj q, True), s\<lparr>s_items := (s_items s)(key \<mapsto> TaskObj q), s_rv := s_rv s + 1\<rparr>)
    \<and> t_Spec q = t_Spec n \<and> t_Status q = zero_TaskStatus \<and> generation q = 1"
proof -
  obtain t q where q: "TaskObj (n\<lparr>t_ObjectMeta := x_FillObjectMetaSystemFields K (t_ObjectMeta n)\<rparr>) = TaskObj t"
    "obj = TaskObj q" "created_from (fst (x_NamespaceFrom K ctx)) t q"
    by (rule before_create_Task [OF library_contractD(1) [OF assms(1)] assms(5)])
  have key: "keyFromContext K ctx name (us_NamespaceScoped (StatusStrategy_update V (sr_strategy sr))) (sr_gr sr) = Ok key"
    using assms(2) by simp
  have "exec ord (StatusREST_Update K V sr ctx name info None uv True opts) s
      = (Ok (TaskObj (stamped_task s q), True), written s key q)"
    unfolding StatusREST_Update_def
    by (subst update_missing_forced [OF key assms(3)])
      (simp add: Strategy_New_def assms(4) internal_accessor_def assms(5) q(2) call_validation_def
        Store_Create_simps(3) [OF assms(3), of "TaskObj q" "t_ObjectMeta q"] written_def)
  then show ?thesis
    using q(1,3) by (intro exI [of _ "stamped_task s q"]) (auto simp: written_def created_from_def)
qed

theorem forced_status_update_creates_witness:
  "\<exists>q. fst (exec sorted_order (StatusREST_Update plain_k8s plain_validators plain_StatusREST ''ns'' ''a''
     (put sample_task) None None True None) (Store_New (Resource ''tasks''))) = Ok (TaskObj q, True)"
proof -
  let ?s = "Store_New (Resource ''tasks'')"
  have none: "s_items ?s sample_key = None" by (simp add: Store_New_def)
  let ?m = "x_FillObjectMetaSystemFields plain_k8s (t_ObjectMeta sample_task)"
  have "x_BeforeCreate plain_k8s (Strategy_create plain_validators plain_strategy) ''ns''
      (TaskObj (sample_task\<lparr>t_ObjectMeta := ?m\<rparr>))
      = Ok (TaskObj (set_generation 1 (sample_task\<lparr>t_ObjectMeta := ?m, t_Status := zero_TaskStatus\<rparr>)))"
    by (simp add: plain_k8s_def plain_BeforeCreate_def PrepareForCreate_def Validate_def
        validateTask_Nil_iff plain_validators_def set_generation_def sample_task_def)
  then have "x_BeforeCreate plain_k8s (Strategy_create plain_validators
        (ss_Strategy (sr_strategy plain_StatusREST))) ''ns'' (TaskObj (sample_task\<lparr>t_ObjectMeta := ?m\<rparr>))
      = Ok (TaskObj (set_generation 1 (sample_task\<lparr>t_ObjectMeta := ?m, t_Status := zero_TaskStatus\<rparr>)))"
    by simp
  note create = forced_status_update_creates [OF plain_library _ none put_simps(1) this, of "''a''"]
  obtain q where "exec sorted_order (StatusREST_Update plain_k8s plain_validators plain_StatusREST ''ns'' ''a''
      (put sample_task) None None True None) ?s
    = (Ok (TaskObj q, True), ?s\<lparr>s_items := (s_items ?s)(sample_key \<mapsto> TaskObj q), s_rv := s_rv ?s + 1\<rparr>)"
    using create by (metis sample_simps(4))
  then show ?thesis by auto
qed

subsection \<open>Create\<close>

text \<open>C23. A successful create stores one new object at the namespace of the request and the
  name the object has, where there was none: its spec is the client's, its status is empty
  whatever the client sent, its generation is 1, it has an image, and its version is the
  next one. The caller gets the object as stored and no other key changes.\<close>

theorem create_success:
  assumes "library_contract K"
    and "exec ord (REST_Create K V r ctx obj cv opts) s = (Ok robj, s')"
  shows "\<exists>t q key. obj = TaskObj t \<and> robj = TaskObj q
    \<and> key = Key (fst (x_NamespaceFrom K ctx)) (om_Name (t_ObjectMeta q))
    \<and> s_items s key = None
    \<and> t_Spec q = t_Spec t \<and> ts_Image (t_Spec q) \<noteq> [] \<and> t_Status q = zero_TaskStatus \<and> generation q = 1
    \<and> om_Namespace (t_ObjectMeta q) = k_Namespace key
    \<and> (om_Name (t_ObjectMeta t) \<noteq> [] \<longrightarrow> om_Name (t_ObjectMeta q) = om_Name (t_ObjectMeta t))
    \<and> om_ResourceVersion (t_ObjectMeta q) = FormatUint (s_rv s + 1)
    \<and> s' = s\<lparr>s_items := (s_items s)(key \<mapsto> robj), s_rv := s_rv s + 1\<rparr>"
  using assms
proof (cases rule: REST_Create_cases)
  case failed
  then show ?thesis by simp
next
  case (created t q)
  let ?key = "Key (fst (x_NamespaceFrom K ctx)) (om_Name (t_ObjectMeta q))"
  show ?thesis
    by (rule exI [of _ t], rule exI [of _ "stamped_task s q"], rule exI [of _ ?key])
      (use created in \<open>simp add: created_from_def written_def\<close>)
qed

definition created_sample :: Task where
  "created_sample = set_generation 1 (zero_Task
     \<lparr>t_ObjectMeta := zero_ObjectMeta\<lparr>om_Name := ''b'', om_Namespace := ''ns'', om_UID := ''uid'',
                                     om_CreationTimestamp := 1\<rparr>,
      t_Spec := zero_TaskSpec\<lparr>ts_Image := ''alpine''\<rparr>\<rparr>)"

lemma plain_create_prog:
  "REST_Create plain_k8s plain_validators plain_REST ''ns'' (newTask ''ns'' ''b'' ''alpine'') None opts
     = CallCreate (Key ''ns'' ''b'') (TaskObj created_sample) Done"
  by (simp add: REST_Create_def newTask_def internal_accessor_def plain_k8s_def plain_BeforeCreate_def
      PrepareForCreate_def Validate_def validateTask_Nil_iff plain_validators_def set_generation_def
      call_validation_def zero_Task_def created_sample_def)

lemma plain_create:
  "exec ord (REST_Create plain_k8s plain_validators plain_REST ''ns'' (newTask ''ns'' ''b'' ''alpine'') None opts)
     s =
   (if s_items s (Key ''ns'' ''b'') \<noteq> None then (Err (AlreadyExists (s_gr s) ''b''), s)
    else (Ok (TaskObj (stamped_task s created_sample)), written s (Key ''ns'' ''b'') created_sample))"
  by (simp add: plain_create_prog Store_Create_def bumpAndStampLocked_def written_def stamped_task_def)

theorem create_success_witness:
  "\<exists>q. fst (exec sorted_order (REST_Create plain_k8s plain_validators plain_REST ''ns''
       (newTask ''ns'' ''b'' ''alpine'') None None) sample_store) = Ok (TaskObj q)
     \<and> generation q = 1 \<and> om_ResourceVersion (t_ObjectMeta q) = FormatUint 2"
proof -
  let ?p = "REST_Create plain_k8s plain_validators plain_REST ''ns'' (newTask ''ns'' ''b'' ''alpine'') None None"
  obtain robj s' where e: "exec sorted_order ?p sample_store = (Ok robj, s')"
    by (simp add: plain_create sample_key_def)
  from create_success [OF plain_library e] e show ?thesis by auto
qed

text \<open>C24. Create never overwrites: if the client's object carries a name that exists in the
  namespace of the request, the create fails and the store is unchanged. So does every
  other create that fails.\<close>

theorem create_never_overwrites:
  assumes "library_contract K" "run = exec ord (REST_Create K V r ctx (TaskObj t) cv opts) s"
  shows "(om_Name (t_ObjectMeta t) \<noteq> []
      \<and> s_items s (Key (fst (x_NamespaceFrom K ctx)) (om_Name (t_ObjectMeta t))) \<noteq> None
      \<longrightarrow> \<not> is_ok (fst run) \<and> snd run = s)
    \<and> (\<not> is_ok (fst run) \<longrightarrow> snd run = s)"
proof -
  have "exec ord (REST_Create K V r ctx (TaskObj t) cv opts) s = (fst run, snd run)"
    using assms(2) by simp
  with assms(1) show ?thesis
  proof (cases rule: REST_Create_cases)
    case (created t' q)
    then have "om_Namespace (t_ObjectMeta q) = fst (x_NamespaceFrom K ctx)"
      "om_Name (t_ObjectMeta t) \<noteq> [] \<longrightarrow> om_Name (t_ObjectMeta q) = om_Name (t_ObjectMeta t)"
      by (auto simp: created_from_def)
    with created show ?thesis by auto
  qed simp
qed

theorem create_never_overwrites_witness:
  "\<not> is_ok (fst (exec sorted_order (REST_Create plain_k8s plain_validators plain_REST ''ns''
       (TaskObj sample_task) None None) sample_store))"
  using create_never_overwrites [OF plain_library refl, where ctx = "''ns''" and t = sample_task
      and s = sample_store]
  by (simp add: sample_key_def)

subsection \<open>Delete\<close>

text \<open>C26. Delete, decided on every branch. A request without a name or a namespace is a
  BadRequest; a missing task is NotFound. On an existing task a UID precondition that does not
  hold is answered with a Conflict naming both UIDs, then a version precondition that does not
  hold with a Conflict naming both versions, then the admission callback decides; and otherwise
  exactly that task is removed and returned, and the counter takes a version. Every refusal
  leaves the store as it was. Without options the handler panics on an existing task and still
  answers NotFound on a missing one.\<close>

theorem delete_decided:
  assumes "all_tasks s" "ns = fst (x_NamespaceFrom K ctx)" "key = Key ns name" "r_gr r = gr"
    and "run = exec ord (REST_Delete K r ctx name dv opts) s"
  shows "(name = [] \<longrightarrow> run = (Err (BadRequest (Sprintf ''name is required'' [])), s))
    \<and> (name \<noteq> [] \<and> ns = [] \<longrightarrow>
         run = (Err (BadRequest (Sprintf ''namespace is required for %s'' [FGR gr])), s))
    \<and> (name \<noteq> [] \<and> ns \<noteq> [] \<and> s_items s key = None \<longrightarrow> run = (Err (NotFound (s_gr s) name), s))
    \<and> (\<forall>t. name \<noteq> [] \<and> ns \<noteq> [] \<and> s_items s key = Some (TaskObj t) \<longrightarrow>
         (opts = None \<longrightarrow> run = (Panic ''nil pointer dereference'', s))
         \<and> (\<forall>d uid version. opts = Some d \<longrightarrow> uid = Option.bind (do_Preconditions d) pre_UID \<longrightarrow>
              version = Option.bind (do_Preconditions d) pre_ResourceVersion \<longrightarrow>
              (\<forall>u. uid = Some u \<and> u \<noteq> om_UID (t_ObjectMeta t) \<longrightarrow>
                 run = (Err (Conflict gr name (Errorf (Sprintf
                   ''UID precondition (%s) does not match current UID (%s)''
                   [FStr u, FStr (om_UID (t_ObjectMeta t))]))), s))
              \<and> (\<forall>v. uid \<in> {None, Some (om_UID (t_ObjectMeta t))}
                    \<and> version = Some v \<and> v \<noteq> om_ResourceVersion (t_ObjectMeta t) \<longrightarrow>
                 run = (Err (Conflict gr name (Errorf (Sprintf
                   ''resourceVersion precondition (%s) does not match current resourceVersion (%s)''
                   [FStr v, FStr (om_ResourceVersion (t_ObjectMeta t))]))), s))
              \<and> (uid \<in> {None, Some (om_UID (t_ObjectMeta t))}
                    \<and> version \<in> {None, Some (om_ResourceVersion (t_ObjectMeta t))} \<longrightarrow>
                 run = (case call_validation dv ctx (TaskObj t) of
                     Ok _ \<Rightarrow> (Ok (TaskObj t, True), s\<lparr>s_items := (s_items s)(key := None), s_rv := s_rv s + 1\<rparr>)
                   | Err e \<Rightarrow> (Err e, s)
                   | Panic p \<Rightarrow> (Panic p, s)))))"
proof (cases "name = [] \<or> ns = []")
  case True
  then show ?thesis
    using assms(2,4) by (auto simp: assms(5) REST_Delete_def REST_NamespaceScoped_def keyFromContext_def
        namespaceFromContext_def requestNamespace_def)
next
  case False
  then have k: "keyFromContext K ctx name True (r_gr r) = Ok key"
    using assms(2,3) by (simp add: keyFromContext_Ok_iff)
  show ?thesis
  proof (cases "s_items s key")
    case None
    with k False assms(3) show ?thesis by (simp add: assms(5) REST_Delete_missing)
  next
    case (Some obj)
    with assms(1) obtain t where "obj = TaskObj t" by (rule all_tasksE)
    note ex = Some [unfolded this]
    have "checkPreconditions (TaskObj t) pre gr name =
        (case Option.bind pre pre_UID of
           Some u \<Rightarrow> if u \<noteq> om_UID (t_ObjectMeta t)
             then Err (Conflict gr name (Errorf (Sprintf
               ''UID precondition (%s) does not match current UID (%s)'' [FStr u, FStr (om_UID (t_ObjectMeta t))])))
             else version_check
         | None \<Rightarrow> version_check)"
      if "version_check = (case Option.bind pre pre_ResourceVersion of
           Some v \<Rightarrow> if v \<noteq> om_ResourceVersion (t_ObjectMeta t)
             then Err (Conflict gr name (Errorf (Sprintf
               ''resourceVersion precondition (%s) does not match current resourceVersion (%s)''
               [FStr v, FStr (om_ResourceVersion (t_ObjectMeta t))])))
             else Ok ()
         | None \<Rightarrow> Ok ())" for pre version_check
      using that by (cases pre) (auto simp: checkPreconditions_def split: option.split)
    note pre = this [OF refl]
    show ?thesis
    proof (cases opts)
      case None
      with False k ex assms(4) show ?thesis
        by (simp add: assms(5) REST_Delete_def REST_NamespaceScoped_def store_rules)
    next
      case (Some d)
      have run: "run = exec ord (on_ok (checkPreconditions (TaskObj t) (do_Preconditions d) gr name) (\<lambda>_.
            on_ok (call_validation dv ctx (TaskObj t)) (\<lambda>_.
            CallDelete key (\<lambda>deleted. on_ok deleted (\<lambda>deleted. Done (Ok (deleted, True))))))) s"
        using k assms(4) by (simp add: assms(5) REST_Delete_def REST_NamespaceScoped_def store_rules ex Some)
      have decided: "call_validation dv ctx (TaskObj t) = res \<Longrightarrow> exec ord (on_ok res (\<lambda>_.
            CallDelete key (\<lambda>deleted. on_ok deleted (\<lambda>deleted. Done (Ok (deleted, True)))))) s
          = (case res of Ok _ \<Rightarrow> (Ok (TaskObj t, True), s\<lparr>s_items := (s_items s)(key := None), s_rv := s_rv s + 1\<rparr>)
              | Err e \<Rightarrow> (Err e, s) | Panic p \<Rightarrow> (Panic p, s))" for res
        by (cases res) (simp_all add: store_rules ex)
      show ?thesis
        unfolding run using False Some by (auto simp: ex pre decided [OF refl])
    qed
  qed
qed

definition delete_options :: "Preconditions option \<Rightarrow> DeleteOptions" where
  "delete_options pre =
     \<lparr>do_GracePeriodSeconds = None, do_Preconditions = pre, do_OrphanDependents = None,
      do_PropagationPolicy = None, do_DryRun = None,
      do_IgnoreStoreReadErrorWithClusterBreakingPotential = None\<rparr>"

theorem delete_decided_witness:
  "exec sorted_order (REST_Delete plain_k8s plain_REST ''ns'' ''a'' None
       (Some (delete_options (Some \<lparr>pre_UID = Some ''uid'', pre_ResourceVersion = Some ''1''\<rparr>)))) sample_store
     = (Ok (TaskObj sample_task, True), sample_store\<lparr>s_items := Map.empty, s_rv := 2\<rparr>)
   \<and> exec sorted_order (REST_Delete plain_k8s plain_REST ''ns'' ''a'' None
       (Some (delete_options (Some \<lparr>pre_UID = Some ''uid'', pre_ResourceVersion = Some ''7''\<rparr>)))) sample_store
     = (Err (Conflict (Resource ''tasks'') ''a'' (Errorf (Sprintf
          ''resourceVersion precondition (%s) does not match current resourceVersion (%s)''
          [FStr ''7'', FStr ''1'']))), sample_store)"
proof -
  note D = delete_decided [where K = plain_k8s and ctx = "''ns''" and name = "''a''" and ord = sorted_order
      and dv = None, OF all_tasks_sample refl refl plain_REST_simps(1) refl]
  have k: "Key ''ns'' ''a'' = sample_key" by (simp add: sample_key_def)
  show ?thesis
    using D [where opts = "Some (delete_options (Some \<lparr>pre_UID = Some ''uid'', pre_ResourceVersion = Some ''1''\<rparr>))"]
      D [where opts = "Some (delete_options (Some \<lparr>pre_UID = Some ''uid'', pre_ResourceVersion = Some ''7''\<rparr>))"]
    by (simp add: delete_options_def call_validation_def k)
qed

subsection \<open>Reading\<close>

text \<open>Get answers with the stored object or NotFound, list and watch and get never change
  the store, watch is always answered MethodNotSupported (405), an empty name or an empty
  namespace is a BadRequest that does not reach the store, and the status subresource reads
  what the main resource reads.\<close>

lemma reads_are_reads:
  assumes "sr_gr sr = r_gr r"
  shows "exec ord (REST_Get K r ctx name opts) s =
      (case keyFromContext K ctx name True (r_gr r) of
         Ok key \<Rightarrow> (case s_items s key of None \<Rightarrow> Err (NotFound (s_gr s) name) | Some obj \<Rightarrow> Ok obj)
       | Err e \<Rightarrow> Err e | Panic p \<Rightarrow> Panic p, s)
    \<and> exec ord (StatusREST_Get K sr ctx name opts) s = exec ord (REST_Get K r ctx name opts) s
    \<and> snd (exec ord (REST_List K r ctx lopts) s) = s
    \<and> exec ord (REST_Watch r ctx lopts) s = (Err (MethodNotSupported (r_gr r) ''watch''), s)
    \<and> (name = [] \<or> fst (x_NamespaceFrom K ctx) = [] \<longrightarrow>
         (\<exists>msg. fst (exec ord (REST_Get K r ctx name opts) s) = Err (BadRequest msg)))"
proof -
  have k: "keyFromContext K ctx name True (r_gr r) =
      (if name = [] then Err (BadRequest (Sprintf ''name is required'' []))
       else if fst (x_NamespaceFrom K ctx) = []
       then Err (BadRequest (Sprintf ''namespace is required for %s'' [FGR (r_gr r)]))
       else Ok (Key (fst (x_NamespaceFrom K ctx)) name))"
    by (simp add: keyFromContext_def namespaceFromContext_def requestNamespace_def)
  show ?thesis
    using assms
    by (simp add: at_most_0_exec [OF REST_List_reads] REST_Get_def StatusREST_Get_def REST_Watch_def REST_NamespaceScoped_def k
        Store_Get_def split: option.split)
qed

text \<open>C27. List returns exactly the tasks of the namespace of the request (of all namespaces
  if it names none) whose labels the selector matches, each once, whatever order the store's
  map is ranged over in. Its resource version is the newest version among the tasks it
  returns, and the store's current version when it returns none with a version.\<close>

theorem list_success:
  assumes "all_tasks s" "range_order s (ord s)" "\<not> selects_field options"
    and "ns = fst (x_NamespaceFrom K ctx)" "sel = label_selector options"
    and "picks = (\<lambda>k t. s_items s k = Some (TaskObj t) \<and> (ns = [] \<or> k_Namespace k = ns) \<and> sel (task_labels t))"
  shows "\<exists>ts rv. exec ord (REST_List K r ctx options) s = (Ok (task_list ts rv), s)
    \<and> set ts = {t. \<exists>k. picks k t} \<and> length ts = card {k. \<exists>t. picks k t}
    \<and> rv = (if \<forall>t \<in> set ts. task_rv t = 0 then s_rv s else Max (task_rv ` set ts))"
  using list_result [where ord = ord and s = s, OF assms(1-5)] unfolding assms(6) picked_def .

theorem list_success_witness:
  "\<exists>ts rv. exec sorted_order (REST_List plain_k8s plain_REST ''ns'' None) sample_store
      = (Ok (task_list ts rv), sample_store) \<and> set ts = {sample_task} \<and> length ts = 1"
proof -
  have o: "range_order sample_store (sorted_order sample_store)" by (rule range_order_sorted) simp
  have f: "\<not> selects_field None" by (simp add: selects_field_def)
  have k: "k_Namespace sample_key = ''ns''" by (simp add: sample_key_def)
  have p: "{t. \<exists>k. s_items sample_store k = Some (TaskObj t) \<and> (''ns'' = [] \<or> k_Namespace k = ''ns'')
      \<and> label_selector None (task_labels t)} = {sample_task}"
    by (auto simp: label_selector_def k split: if_splits)
  have c: "{k. \<exists>t. s_items sample_store k = Some (TaskObj t) \<and> (''ns'' = [] \<or> k_Namespace k = ''ns'')
      \<and> label_selector None (task_labels t)} = {sample_key}"
    by (auto simp: label_selector_def k split: if_splits)
  have ns: "''ns'' = fst (x_NamespaceFrom plain_k8s ''ns'')" by simp
  from list_success [where ord = sorted_order and s = sample_store and r = plain_REST,
      OF all_tasks_sample o f ns refl refl, unfolded p c]
  show ?thesis by auto
qed

text \<open>The version of a list is never ahead of the store: under the store's version
  invariant it is at most the current version, and if anything is listed it is the version
  of a listed task, hence positive and at least that of every other listed task.\<close>

lemma list_version_bounds:
  assumes "version_ok (s_items s) (store_counter s) obj_version"
    and "all_tasks s" "range_order s (ord s)" "\<not> selects_field options"
  shows "\<exists>ts rv. exec ord (REST_List K r ctx options) s = (Ok (task_list ts rv), s)
    \<and> unat rv \<le> store_counter s
    \<and> (\<forall>t \<in> set ts. 0 < obj_version (TaskObj t) \<and> obj_version (TaskObj t) \<le> unat rv)
    \<and> (ts \<noteq> [] \<longrightarrow> (\<exists>t \<in> set ts. unat rv = obj_version (TaskObj t)))"
proof -
  obtain ts rv where l: "exec ord (REST_List K r ctx options) s = (Ok (task_list ts rv), s)"
    "set ts = {t. \<exists>k. picked s (fst (x_NamespaceFrom K ctx)) (label_selector options) k t}"
    "rv = (if \<forall>t \<in> set ts. task_rv t = 0 then s_rv s else Max (task_rv ` set ts))"
    using list_result [where ord = ord and s = s and K = K and ctx = ctx and r = r, OF assms(2-4) refl refl]
    by (elim exE conjE) (rule that)
  have ver: "obj_version (TaskObj t) = unat (task_rv t)" for t by (simp add: obj_version_def task_rv_def)
  have pos: "0 < unat (task_rv t) \<and> unat (task_rv t) \<le> store_counter s" if t: "t \<in> set ts" for t
  proof -
    obtain k where "s_items s k = Some (TaskObj t)" using t unfolding l(2) picked_def by blast
    from version_ok_bounds [OF assms(1) this] show ?thesis unfolding ver .
  qed
  show ?thesis
  proof (cases "ts = []")
    case True
    then show ?thesis using l(1,3) by (intro exI [of _ "[]"] exI [of _ "s_rv s"]) (simp add: store_counter_def)
  next
    case False
    then have "Max (task_rv ` set ts) \<in> task_rv ` set ts" by (intro Max_in) auto
    then obtain t where t: "t \<in> set ts" "Max (task_rv ` set ts) = task_rv t" by auto
    have "task_rv t \<noteq> 0" using pos [OF t(1)] by auto
    with t(1) have "\<not> (\<forall>t \<in> set ts. task_rv t = 0)" by blast
    then have rv: "rv = task_rv t" unfolding l(3) t(2) [symmetric] by (rule if_not_P)
    have "unat (task_rv u) \<le> unat (task_rv t)" if "u \<in> set ts" for u
      using Max_ge [of "task_rv ` set ts" "task_rv u"] that t(2) by (auto simp: word_le_nat_alt)
    with rv t(1) pos have "unat rv \<le> store_counter s
      \<and> (\<forall>t \<in> set ts. 0 < unat (task_rv t) \<and> unat (task_rv t) \<le> unat rv)
      \<and> (ts \<noteq> [] \<longrightarrow> (\<exists>t \<in> set ts. unat rv = unat (task_rv t)))" by blast
    with l(1) show ?thesis unfolding ver by blast
  qed
qed

text \<open>C28. The version of a list is not the store's high-water mark, and it can go backwards.
  In a store whose versions are as its operations leave them, let a list request return the
  task at \<open>k\<close> and none newer, and delete that task. If the request matches another task, the
  same request now answers with an older version than before, that of the newest task left,
  although the deletion advanced the store; if it matches no other, it answers with an empty
  list and the store's own, newer version.\<close>

theorem list_version_regresses:
  assumes "version_ok (s_items s) (store_counter s) obj_version" "store_counter s < max_rv" "all_tasks s"
    and "range_order s (ord s)" "range_order s' (ord s')" "s' = snd (Store_Delete k s)"
    and "\<not> selects_field options" "ns = fst (x_NamespaceFrom K ctx)" "sel = label_selector options"
    and "picks = (\<lambda>k t. s_items s k = Some (TaskObj t) \<and> (ns = [] \<or> k_Namespace k = ns) \<and> sel (task_labels t))"
    and "picks k t" "\<forall>k' t'. picks k' t' \<longrightarrow> task_rv t' \<le> task_rv t"
    and "left = {t'. \<exists>k'. k' \<noteq> k \<and> picks k' t'}"
  shows "\<exists>ts ts' rv'. exec ord (REST_List K r ctx options) s = (Ok (task_list ts (task_rv t)), s)
    \<and> exec ord (REST_List K r ctx options) s' = (Ok (task_list ts' rv'), s')
    \<and> set ts = insert t left \<and> set ts' = left \<and> s_rv s' = s_rv s + 1 \<and> task_rv t < s_rv s'
    \<and> (if left = {} then rv' = s_rv s' else rv' = Max (task_rv ` left) \<and> rv' < task_rv t)"
proof -
  have k: "s_items s k = Some (TaskObj t)" using assms(10,11) by simp
  have s': "s_items s' = (s_items s)(k := None)" "s_rv s' = s_rv s + 1"
    using k assms(6) by (simp_all add: store_rules)
  have T: "all_tasks s'" using assms(3) s'(1) by (auto simp: all_tasks_def)
  have P: "picked s ns sel = picks" by (intro ext) (simp add: picked_def assms(10))
  have P': "picked s' ns sel k' t' \<longleftrightarrow> k' \<noteq> k \<and> picks k' t'" for k' t' by (auto simp: picked_def s'(1) assms(10))
  have ver: "obj_version (TaskObj u) = unat (task_rv u)" for u by (simp add: obj_version_def task_rv_def)
  have pos: "task_rv u \<noteq> 0 \<and> unat (task_rv u) \<le> store_counter s" if "picks k' u" for k' u
    using version_ok_bounds [OF assms(1), of k' "TaskObj u"] that by (auto simp: assms(10) ver)
  have less: "task_rv u < task_rv t" if u: "u \<in> left" for u
  proof -
    from u obtain k' where k': "k' \<noteq> k" "picks k' u" by (auto simp: assms(13))
    then have "unat (task_rv u) \<noteq> unat (task_rv t)"
      using version_ok_inj [OF assms(1), of k' "TaskObj u" k "TaskObj t"] k by (auto simp: ver assms(10))
    with assms(12) k'(2) show ?thesis by (metis order_le_imp_less_or_eq)
  qed
  obtain ts where l: "exec ord (REST_List K r ctx options) s = (Ok (task_list ts
      (if \<forall>t \<in> set ts. task_rv t = 0 then s_rv s else Max (task_rv ` set ts))), s)" "set ts = {t. \<exists>k. picks k t}"
    using list_result [where ord = ord and r = r, OF assms(3,4,7-9)] unfolding P by blast
  obtain ts' where l': "exec ord (REST_List K r ctx options) s' = (Ok (task_list ts'
      (if \<forall>t \<in> set ts'. task_rv t = 0 then s_rv s' else Max (task_rv ` set ts'))), s')" "set ts' = left"
    using list_result [where ord = ord and r = r, OF T assms(5,7-9)] unfolding P' assms(13) by blast
  have ts: "set ts = insert t left"
  proof (intro set_eqI iffI)
    fix u assume "u \<in> set ts"
    then obtain k' where k': "picks k' u" using l(2) by blast
    show "u \<in> insert t left"
    proof (cases "k' = k")
      case True
      with k' k show ?thesis by (simp add: assms(10))
    qed (use k' assms(13) in blast)
  qed (use assms(11,13) l(2) in blast)
  have max: "Max (task_rv ` set ts) = task_rv t" unfolding ts
    using less finite_subset [of left "set ts"] ts by (intro Max_eqI) (auto intro: less_imp_le)
  have "\<not> (\<forall>u \<in> set ts. task_rv u = 0)" using pos [OF assms(11)] ts by auto
  with l(1) max have "exec ord (REST_List K r ctx options) s = (Ok (task_list ts (task_rv t)), s)" by simp
  moreover have "task_rv t < s_rv s'"
    using pos [OF assms(11)] assms(2) unfolding s'(2)
    by (simp add: word_less_nat_alt store_counter_def max_rv_def unat_u64_plus_1)
  moreover have "(if left = {} then rv' = s_rv s' else rv' = Max (task_rv ` left) \<and> rv' < task_rv t)"
    if "rv' = (if \<forall>t \<in> set ts'. task_rv t = 0 then s_rv s' else Max (task_rv ` set ts'))" for rv'
  proof (cases "left = {}")
    case False
    moreover have "finite left" using l'(2) by (metis finite_set)
    moreover have "\<not> (\<forall>u \<in> left. task_rv u = 0)" using False pos unfolding assms(13) by blast
    then have "rv' = Max (task_rv ` left)" using that unfolding l'(2) by (simp only: if_False)
    ultimately show ?thesis using less by simp
  qed (use that l'(2) in simp)
  ultimately show ?thesis using l'(1,2) s'(2) ts by blast
qed

theorem list_version_regresses_witness:
  "\<exists>l l' s'. exec sorted_order (REST_List plain_k8s plain_REST ''ns'' None)
        (sample_store\<lparr>s_items := [Key ''ns'' ''a'' \<mapsto> TaskObj sample_task,
           Key ''ns'' ''b'' \<mapsto> TaskObj (set_version (formatRV 2) sample_task)], s_rv := 2\<rparr>) = (Ok l, s')
      \<and> exec sorted_order (REST_List plain_k8s plain_REST ''ns'' None) (snd (Store_Delete (Key ''ns'' ''b'') s'))
          = (Ok l', snd (Store_Delete (Key ''ns'' ''b'') s'))
      \<and> lm_ResourceVersion (tl_ListMeta l) = formatRV 2 \<and> lm_ResourceVersion (tl_ListMeta l') = formatRV 1"
proof -
  let ?t2 = "set_version (formatRV 2) sample_task" and ?a = "Key ''ns'' ''a''" and ?b = "Key ''ns'' ''b''"
  let ?s = "sample_store\<lparr>s_items := [?a \<mapsto> TaskObj sample_task, ?b \<mapsto> TaskObj ?t2], s_rv := 2\<rparr>"
  let ?s' = "snd (Store_Delete ?b ?s)"
  have v2: "task_rv ?t2 = 2" by (simp add: task_rv_def formatRV_def)
  have v1: "task_rv sample_task = 1"
    using parseRVOrZero_FormatUint [of 1] by (simp add: task_rv_def FormatUint_def digit_char_def char_of_def bit_simps)
  have ver: "obj_version (TaskObj ?t2) = 2" "obj_version (TaskObj sample_task) = 1"
    using v1 v2 by (simp_all add: obj_version_def task_rv_def)
  have ok: "version_ok (s_items ?s) (store_counter ?s) obj_version" "store_counter ?s < max_rv" "all_tasks ?s"
    by (auto simp: version_ok_def ver store_counter_def max_rv_def all_tasks_def simp del: sample_task_simps split: if_splits)
  have o: "range_order ?s (sorted_order ?s)" "range_order ?s' (sorted_order ?s')"
    by (rule range_order_sorted, simp add: store_rules)+
  have f: "\<not> selects_field None" "label_selector None = (\<lambda>_. True)" by (simp_all add: selects_field_def label_selector_def)
  let ?picks = "\<lambda>k t. s_items ?s k = Some (TaskObj t)
      \<and> (fst (x_NamespaceFrom plain_k8s ''ns'') = [] \<or> k_Namespace k = fst (x_NamespaceFrom plain_k8s ''ns''))
      \<and> label_selector None (task_labels t)"
  have p: "?picks ?b ?t2" "\<forall>k' t'. ?picks k' t' \<longrightarrow> task_rv t' \<le> task_rv ?t2"
    using v1 v2 f by (auto split: if_splits)
  have l: "{t'. \<exists>k'. k' \<noteq> ?b \<and> ?picks k' t'} = {sample_task}" using f by (auto split: if_splits)
  have m: "lm_ResourceVersion (tl_ListMeta (task_list ts rv)) = formatRV rv" for ts rv
    by (simp add: task_list_def zero_TaskList_def)
  obtain ts ts' rv' where "exec sorted_order (REST_List plain_k8s plain_REST ''ns'' None) ?s = (Ok (task_list ts (task_rv ?t2)), ?s)"
    "exec sorted_order (REST_List plain_k8s plain_REST ''ns'' None) ?s' = (Ok (task_list ts' rv'), ?s')"
    "if {sample_task} = {} then rv' = s_rv ?s' else rv' = Max (task_rv ` {sample_task}) \<and> rv' < task_rv ?t2"
    using list_version_regresses [where ord = sorted_order and r = plain_REST,
      OF ok o refl f(1) refl refl refl p refl, unfolded l] by blast
  then show ?thesis
    by (intro exI [of _ "task_list ts 2"] exI [of _ "task_list ts' 1"] exI [of _ ?s] conjI)
      (simp_all add: v1 v2 m del: sample_simps)
qed

end
