(* ===== verification/Requests.thy ===== *)
theory Requests
  imports Guarantee RestProperties
begin

section \<open>Sequences of requests\<close>

text \<open>
  The REST surface as a whole: a request is a call of one of the handlers with its
  arguments, and a run serves requests one after the other. The theory shows the invariant of
  the stored objects over all runs, and that a run of requests is itself a versioned store.
\<close>

subsection \<open>Requests and responses\<close>

datatype 'ctx request =
    GetReq 'ctx string "GetOptions option"
  | ListReq 'ctx "ListOptions option"
  | WatchReq 'ctx "ListOptions option"
  | CreateReq 'ctx runtime_object "'ctx validate_object" "CreateOptions option"
  | UpdateReq 'ctx string "'ctx updated_object_info" "'ctx validate_object" "'ctx validate_update"
      bool "UpdateOptions option"
  | DeleteReq 'ctx string "'ctx validate_object" "DeleteOptions option"
  | StatusGetReq 'ctx string "GetOptions option"
  | StatusUpdateReq 'ctx string "'ctx updated_object_info" "'ctx validate_object" "'ctx validate_update"
      bool "UpdateOptions option"

datatype response =
    ObjectResp "(go_error, runtime_object) outcome"
  | ListResp "(go_error, TaskList) outcome"
  | WatchResp "(go_error, unit) outcome"
  | WriteResp "(go_error, runtime_object \<times> bool) outcome"

fun response_ok :: "response \<Rightarrow> bool" where
  "response_ok (ObjectResp r) = is_ok r"
| "response_ok (ListResp r) = is_ok r"
| "response_ok (WatchResp r) = is_ok r"
| "response_ok (WriteResp r) = is_ok r"

text \<open>The two surfaces that \<open>installTasksGroup\<close> mounts over one store.\<close>

record 'ctx api =
  api_rest :: "'ctx REST"
  api_status :: StatusREST

fun handler :: "'ctx k8s \<Rightarrow> validators \<Rightarrow> 'ctx api \<Rightarrow> 'ctx request \<Rightarrow> response prog" where
  "handler K V A (GetReq ctx name opts) = map_prog ObjectResp (REST_Get K (api_rest A) ctx name opts)"
| "handler K V A (ListReq ctx opts) = map_prog ListResp (REST_List K (api_rest A) ctx opts)"
| "handler K V A (WatchReq ctx opts) = map_prog WatchResp (REST_Watch (api_rest A) ctx opts)"
| "handler K V A (CreateReq ctx obj cv opts) =
     map_prog ObjectResp (REST_Create K V (api_rest A) ctx obj cv opts)"
| "handler K V A (UpdateReq ctx name info cv uv force opts) =
     map_prog WriteResp (REST_Update K V (api_rest A) ctx name info cv uv force opts)"
| "handler K V A (DeleteReq ctx name dv opts) =
     map_prog WriteResp (REST_Delete K (api_rest A) ctx name dv opts)"
| "handler K V A (StatusGetReq ctx name opts) =
     map_prog ObjectResp (StatusREST_Get K (api_status A) ctx name opts)"
| "handler K V A (StatusUpdateReq ctx name info cv uv force opts) =
     map_prog WriteResp (StatusREST_Update K V (api_status A) ctx name info cv uv force opts)"

text \<open>What the endpoint layer in front of the handlers checks of a request.\<close>

fun request_ok :: "'ctx request \<Rightarrow> bool" where
  "request_ok (UpdateReq ctx name info cv uv force opts) \<longleftrightarrow> (force \<longrightarrow> names_match info name)"
| "request_ok (StatusUpdateReq ctx name info cv uv force opts) \<longleftrightarrow> (force \<longrightarrow> names_match info name)"
| "request_ok _ \<longleftrightarrow> True"

definition serve ::
    "(store \<Rightarrow> Key list) \<Rightarrow> 'ctx k8s \<Rightarrow> validators \<Rightarrow> 'ctx api \<Rightarrow> 'ctx request list \<Rightarrow> store \<Rightarrow> store" where
  "serve ord K V A reqs s = fold (\<lambda>req s. snd (exec ord (handler K V A req) s)) reqs s"

lemma serve_simps [simp]:
  "serve ord K V A [] s = s"
  "serve ord K V A (req # reqs) s = serve ord K V A reqs (snd (exec ord (handler K V A req) s))"
  by (simp_all add: serve_def)

subsection \<open>One request\<close>

lemma handler_writes: "at_most 1 (handler K V A req)"
  by (cases req) (simp_all add: registry_rules [unfolded One_nat_def] REST_Update_def StatusREST_Update_def
      REST_Watch_def REST_Get_def StatusREST_Get_def REST_List_def Let_def)

lemma handler_guarantees:
  assumes "library_contract K" "request_ok req"
  shows "guarantees good_task request_bound c (handler K V A req)"
proof (cases req)
  case (CreateReq ctx obj cv opts)
  then show ?thesis using REST_Create_guarantees [OF assms(1)] by simp
next
  case (UpdateReq ctx name info cv uv force opts)
  then show ?thesis
    using main_strategy.update_guarantees [OF assms(1)] assms(2) by (simp add: REST_Update_def)
next
  case (StatusUpdateReq ctx name info cv uv force opts)
  then show ?thesis
    using status_strategy.update_guarantees [OF assms(1)] assms(2) by (simp add: StatusREST_Update_def)
qed (simp_all add: REST_Get_def REST_List_def REST_Watch_def REST_Delete_def StatusREST_Get_def Let_def
    split: prod.split)

definition request_step ::
    "(store \<Rightarrow> Key list) \<Rightarrow> 'ctx k8s \<Rightarrow> validators \<Rightarrow> 'ctx api \<Rightarrow> store \<Rightarrow> store \<Rightarrow> bool" where
  "request_step ord K V A s s' \<longleftrightarrow> (\<exists>req. s' = snd (exec ord (handler K V A req) s))"

lemma request_step_store_step:
  assumes "request_step ord K V A s s'"
  shows "s' = s \<or> store_step s s'"
  using assms exec_one_step [OF handler_writes, of ord K V A _ s] by (auto simp: request_step_def)

interpretation requests: versioned_store s_items store_counter obj_version max_rv "request_step ord K V A"
  for ord K V A
proof unfold_locales
  fix s s'
  assume st: "request_step ord K V A s s'" and b: "store_counter s < max_rv"
  show "store_counter s' = store_counter s \<and> s_items s' = s_items s
      \<or> store_counter s' = Suc (store_counter s)"
    using request_step_store_step [OF st] vst.step_counter [OF _ b] by blast
  fix k obj'
  assume "s_items s' k = Some obj'"
  then show "s_items s k = Some obj'
      \<or> store_counter s' = Suc (store_counter s) \<and> obj_version obj' = Suc (store_counter s)
        \<and> (\<forall>k'. k' \<noteq> k \<longrightarrow> s_items s' k' = s_items s k')"
    using request_step_store_step [OF st] vst.step_lookup [OF _ b] by blast
qed

lemma serve_steps: "(request_step ord K V A ^^ length reqs) s (serve ord K V A reqs s)"
proof (induction reqs arbitrary: s)
  case (Cons req reqs)
  have "request_step ord K V A s (snd (exec ord (handler K V A req) s))" by (auto simp: request_step_def)
  with Cons.IH [of "snd (exec ord (handler K V A req) s)"] show ?case
    by (auto intro: relpowp_Suc_I2 simp del: relpowp.simps)
qed simp

lemma serve_inv:
  assumes K: "library_contract K"
  shows "list_all request_ok reqs \<Longrightarrow> store_inv good_task s \<Longrightarrow>
    store_counter s + length reqs < request_bound \<Longrightarrow>
    store_inv good_task (serve ord K V A reqs s)
    \<and> store_counter s \<le> store_counter (serve ord K V A reqs s)
    \<and> store_counter (serve ord K V A reqs s) \<le> store_counter s + length reqs"
proof (induction reqs arbitrary: s)
  case (Cons req reqs)
  let ?s = "snd (exec ord (handler K V A req) s)"
  have "store_inv good_task ?s \<and> store_counter s \<le> store_counter ?s
      \<and> store_counter ?s \<le> store_counter s + 1"
    using tasks.exec_inv [OF handler_guarantees [OF K, of req "store_counter s" V A] handler_writes,
        of s ord] Cons.prems by auto
  with Cons.IH [of ?s] Cons.prems show ?case by auto
qed simp

subsection \<open>Properties\<close>

text \<open>C2. The invariant of the API: after any sequence of requests on a new store (fewer than
  \<open>2 ^ 63\<close>), whatever their outcomes, every stored object is a Task that has an image; its
  namespace and name are those of its key; its generation is at least 1; the observed
  generation lies between 0 and the generation; and the generation is at most the resource
  version, which in turn is at most the number of requests.\<close>

theorem api_invariant:
  assumes "library_contract K" "list_all request_ok reqs" "length reqs < 2 ^ 63 - 1"
    and "s_items (serve ord K V A reqs (Store_New gr)) k = Some obj"
  shows "\<exists>t. obj = TaskObj t \<and> ts_Image (t_Spec t) \<noteq> []
    \<and> om_Namespace (t_ObjectMeta t) = k_Namespace k \<and> om_Name (t_ObjectMeta t) = k_Name k
    \<and> 1 \<le> sint (generation t)
    \<and> 0 \<le> sint (st_ObservedGeneration (t_Status t))
    \<and> sint (st_ObservedGeneration (t_Status t)) \<le> sint (generation t)
    \<and> sint (generation t) \<le> int (obj_version obj) \<and> obj_version obj \<le> length reqs"
proof -
  let ?s = "serve ord K V A reqs (Store_New gr)"
  have c0: "store_counter (Store_New gr) = 0" by (simp add: Store_New_def store_counter_def)
  have inv: "store_inv good_task ?s" and c: "store_counter ?s \<le> length reqs"
    using serve_inv [OF assms(1,2) store_inv_New, of gr ord V A] assms(3) c0 by (auto simp: request_bound_def)
  have "good_task (obj_version obj) k obj" using inv assms(4) by (simp add: store_inv_def)
  moreover have "obj_version obj \<le> store_counter ?s"
    using inv version_ok_bounds [where m = "s_items ?s", OF _ assms(4)] by (auto simp: store_inv_def)
  ultimately show ?thesis using c by (auto simp: good_task_def task_wf_def)
qed

definition plain_api :: "string api" where
  "plain_api = \<lparr>api_rest = plain_REST, api_status = plain_StatusREST\<rparr>"

theorem api_invariant_witness:
  "\<exists>t. s_items (serve sorted_order plain_k8s plain_validators plain_api
       [CreateReq ''ns'' (newTask ''ns'' ''b'' ''alpine'') None None] (Store_New (Resource ''tasks'')))
       (Key ''ns'' ''b'') = Some (TaskObj t) \<and> ts_Image (t_Spec t) \<noteq> []
     \<and> sint (generation t) \<le> int (obj_version (TaskObj t))"
proof -
  let ?reqs = "[CreateReq ''ns'' (newTask ''ns'' ''b'' ''alpine'') None None]"
  obtain obj where o: "s_items (serve sorted_order plain_k8s plain_validators plain_api ?reqs
      (Store_New (Resource ''tasks''))) (Key ''ns'' ''b'') = Some obj"
    by (simp add: plain_api_def exec_map plain_create Store_New_def written_def)
  have "list_all request_ok ?reqs" "length ?reqs < 2 ^ 63 - 1" by simp_all
  from api_invariant [OF plain_library this o] o show ?thesis by auto
qed

text \<open>C21. Over the whole API a resource version names one write: two objects returned or
  stored at any two times of a run of requests that carry the same version are the same
  object at the same key. In particular an update whose precondition or version check
  succeeds is made against the very object its client has read.\<close>

theorem api_version_identifies:
  assumes "length reqs1 + length reqs2 \<le> max_rv"
    and "s1 = serve ord K V A reqs1 (Store_New gr)" "s2 = serve ord K V A reqs2 s1"
    and "s_items s1 k = Some (TaskObj t)" "s_items s2 k' = Some (TaskObj t')"
    and "om_ResourceVersion (t_ObjectMeta t') = om_ResourceVersion (t_ObjectMeta t)"
  shows "k' = k \<and> t' = t"
proof -
  have c0: "store_counter (Store_New gr) = 0" by (simp add: Store_New_def store_counter_def)
  have ok: "version_ok (s_items s1) (store_counter s1) obj_version"
    using requests.steps_version_ok [OF serve_steps, of "Store_New gr" reqs1 ord K V A] assms(1,2) c0
    by (simp add: Store_New_def)
  have "store_counter s1 + length reqs2 \<le> max_rv"
    using requests.steps_counter [OF serve_steps, of "Store_New gr" reqs1 ord K V A] assms(1,2) c0 by simp
  note bnd = this
  have steps: "(request_step ord K V A ^^ length reqs2) s1 s2"
    unfolding assms(3) by (rule serve_steps)
  have "obj_version (TaskObj t') = obj_version (TaskObj t)"
    using assms(6) by (simp add: obj_version_def)
  from requests.version_identifies [OF steps bnd ok assms(4,5) this] show ?thesis by simp
qed

theorem api_version_identifies_witness:
  "\<exists>s1 s2 t t'. s1 = serve sorted_order plain_k8s plain_validators plain_api
       [CreateReq ''ns'' (newTask ''ns'' ''b'' ''alpine'') None None] (Store_New (Resource ''tasks''))
     \<and> s2 = serve sorted_order plain_k8s plain_validators plain_api [GetReq ''ns'' ''b'' None] s1
     \<and> s_items s1 (Key ''ns'' ''b'') = Some (TaskObj t) \<and> s_items s2 (Key ''ns'' ''b'') = Some (TaskObj t')
     \<and> om_ResourceVersion (t_ObjectMeta t') = om_ResourceVersion (t_ObjectMeta t) \<and> t' = t"
proof -
  let ?reqs = "[CreateReq ''ns'' (newTask ''ns'' ''b'' ''alpine'') None None]"
  let ?s1 = "serve sorted_order plain_k8s plain_validators plain_api ?reqs (Store_New (Resource ''tasks''))"
  let ?s2 = "serve sorted_order plain_k8s plain_validators plain_api [GetReq ''ns'' ''b'' None] ?s1"
  obtain t where t: "s_items ?s1 (Key ''ns'' ''b'') = Some (TaskObj t)"
    by (simp add: plain_api_def exec_map plain_create Store_New_def written_def)
  have "?s2 = ?s1" by (simp add: exec_map at_most_0_exec [OF REST_Get_reads])
  with t obtain t' where t': "s_items ?s2 (Key ''ns'' ''b'') = Some (TaskObj t')" 
    "om_ResourceVersion (t_ObjectMeta t') = om_ResourceVersion (t_ObjectMeta t)" by auto
  have "length ?reqs + length [GetReq ''ns'' ''b'' None] \<le> max_rv" by (simp add: max_rv_def)
  from api_version_identifies [OF this refl refl t t'] t t' show ?thesis by blast
qed

text \<open>C15. A request that fails or panics, of any kind and with any arguments, leaves the store
  exactly as it was: no object changes and no resource version is consumed.\<close>

theorem failed_request_changes_nothing:
  assumes "library_contract K" "all_tasks s"
    and "exec ord (handler K V A req) s = (resp, s')" "\<not> response_ok resp"
  shows "s' = s"
proof (cases req)
  case (CreateReq ctx obj cv opts)
  obtain r where r: "exec ord (REST_Create K V (api_rest A) ctx obj cv opts) s = (r, s')" "\<not> is_ok r"
    using assms(3,4) CreateReq by (auto elim!: exec_mapE)
  show ?thesis using assms(1) r(1) by (cases rule: REST_Create_cases) (use r(2) in auto)
next
  case (UpdateReq ctx name info cv uv force opts)
  then obtain r where "exec ord (REST_Update K V (api_rest A) ctx name info cv uv force opts) s = (r, s')"
    "\<not> is_ok r" using assms(3,4) by (auto elim!: exec_mapE)
  then show ?thesis unfolding REST_Update_def by (rule main_strategy.update_failed [OF assms(1,2)])
next
  case (StatusUpdateReq ctx name info cv uv force opts)
  then obtain r where "exec ord (StatusREST_Update K V (api_status A) ctx name info cv uv force opts) s = (r, s')"
    "\<not> is_ok r" using assms(3,4) by (auto elim!: exec_mapE)
  then show ?thesis unfolding StatusREST_Update_def by (rule status_strategy.update_failed [OF assms(1,2)])
next
  case (DeleteReq ctx name dv opts)
  then obtain r where r: "exec ord (REST_Delete K (api_rest A) ctx name dv opts) s = (r, s')"
    "\<not> is_ok r" using assms(3,4) by (auto elim!: exec_mapE)
  then show ?thesis by (rule REST_Delete_failed)
qed (use assms(3) at_most_0_exec [OF REST_Get_reads] at_most_0_exec [OF REST_List_reads]
      at_most_0_exec [OF StatusREST_Get_reads] in \<open>auto simp: exec_map REST_Watch_def\<close>)

theorem failed_request_changes_nothing_witness:
  "snd (exec sorted_order (handler plain_k8s plain_validators plain_api
      (UpdateReq ''ns'' ''a'' (put (set_version ''7'' sample_task)) None None False None)) sample_store)
    = sample_store"
proof -
  let ?run = "exec sorted_order (handler plain_k8s plain_validators plain_api
      (UpdateReq ''ns'' ''a'' (put (set_version ''7'' sample_task)) None None False None)) sample_store"
  have key: "keyFromContext plain_k8s ''ns'' ''a''
      (us_NamespaceScoped (Strategy_update plain_validators plain_strategy :: string update_strategy))
      (Resource ''tasks'') = Ok sample_key" by simp
  have "\<not> response_ok (fst ?run)"
    by (simp add: exec_map plain_api_def REST_Update_def update_existing [OF key]
        checkPreconditions_def registry_rules)
  from failed_request_changes_nothing [OF plain_library all_tasks_sample prod.collapse [symmetric] this]
  show ?thesis .
qed

text \<open>The requests that write, and the object an answer carries.\<close>

fun is_write :: "'ctx request \<Rightarrow> bool" where
  "is_write (CreateReq ctx obj cv opts) \<longleftrightarrow> True"
| "is_write (UpdateReq ctx name info cv uv force opts) \<longleftrightarrow> True"
| "is_write (DeleteReq ctx name dv opts) \<longleftrightarrow> True"
| "is_write (StatusUpdateReq ctx name info cv uv force opts) \<longleftrightarrow> True"
| "is_write _ \<longleftrightarrow> False"

fun is_delete :: "'ctx request \<Rightarrow> bool" where
  "is_delete (DeleteReq ctx name dv opts) \<longleftrightarrow> True"
| "is_delete _ \<longleftrightarrow> False"

fun answered_object :: "response \<Rightarrow> runtime_object option" where
  "answered_object (ObjectResp (Ok obj)) = Some obj"
| "answered_object (WriteResp (Ok (obj, b))) = Some obj"
| "answered_object _ = None"

lemma REST_Delete_Ok:
  assumes "all_tasks s" "exec ord (REST_Delete K r ctx name dv opts) s = (Ok (obj, b), s')"
  shows "\<exists>key t. obj = TaskObj t \<and> s_items s key = Some obj
    \<and> s' = s\<lparr>s_items := (s_items s)(key := None), s_rv := s_rv s + 1\<rparr>"
proof -
  from assms(2) obtain key where key: "keyFromContext K ctx name True (r_gr r) = Ok key"
    by (cases "keyFromContext K ctx name True (r_gr r)") (auto simp: REST_Delete_def REST_NamespaceScoped_def)
  show ?thesis
  proof (cases "s_items s key")
    case None
    with assms(2) key show ?thesis by (simp add: REST_Delete_missing)
  next
    case (Some old)
    with assms(1) obtain t where t: "old = TaskObj t" by (rule all_tasksE)
    from assms(2) key Some t have "obj = TaskObj t
        \<and> s' = s\<lparr>s_items := (s_items s)(key := None), s_rv := s_rv s + 1\<rparr>"
      by (auto simp: REST_Delete_def REST_NamespaceScoped_def exec_on_ok store_rules
          split: outcome.splits option.splits)
    with Some t show ?thesis by blast
  qed
qed

text \<open>C30. An acknowledged write takes effect, whatever its options: the answered object is in the
  store, stamped with the version that this request took, or, for a delete, it was there and is
  gone; one version is used and no other key changes. This includes requests with
  \<open>dryRun=All\<close>, documented in the served OpenAPI schema as not to be persisted, and deletes
  of objects with finalizers or with a grace period, an orphan or a propagation policy. A
  request that reads changes nothing.\<close>

theorem acknowledged_writes_take_effect:
  assumes "library_contract K" "all_tasks s"
    and "exec ord (handler K V A req) s = (resp, s')" "response_ok resp"
  shows "if is_write req
    then \<exists>key t. answered_object resp = Some (TaskObj t)
      \<and> s_rv s' = s_rv s + 1 \<and> (\<forall>k. k \<noteq> key \<longrightarrow> s_items s' k = s_items s k)
      \<and> (if is_delete req then s_items s key = Some (TaskObj t) \<and> s_items s' key = None
         else s_items s' key = Some (TaskObj t)
              \<and> om_ResourceVersion (t_ObjectMeta t) = FormatUint (s_rv s + 1))
    else s' = s"
proof -
  have wrote: ?thesis if "is_write req" "\<not> is_delete req" "answered_object resp = Some (TaskObj (stamped_task s q))"
    "s' = written s key q" for q key
  proof -
    have "\<exists>key t. answered_object resp = Some (TaskObj t)
      \<and> s_rv s' = s_rv s + 1 \<and> (\<forall>k. k \<noteq> key \<longrightarrow> s_items s' k = s_items s k)
      \<and> s_items s' key = Some (TaskObj t) \<and> om_ResourceVersion (t_ObjectMeta t) = FormatUint (s_rv s + 1)"
      by (rule exI [of _ key], rule exI [of _ "stamped_task s q"]) (use that in \<open>simp add: written_def\<close>)
    with that(1,2) show ?thesis by simp
  qed
  show ?thesis
  proof (cases req)
    case (CreateReq ctx obj cv opts)
    obtain r where r: "exec ord (REST_Create K V (api_rest A) ctx obj cv opts) s = (r, s')" "resp = ObjectResp r"
      using assms(3) CreateReq by (auto elim!: exec_mapE)
    show ?thesis using assms(1) r(1)
    proof (cases rule: REST_Create_cases)
      case (created t q)
      with CreateReq r(2) show ?thesis by (intro wrote) simp_all
    qed (use r(2) assms(4) in simp)
  next
    case (UpdateReq ctx name info cv uv force opts)
    then obtain obj b where "exec ord (REST_Update K V (api_rest A) ctx name info cv uv force opts) s = (Ok (obj, b), s')"
      and r: "resp = WriteResp (Ok (obj, b))" using assms(3,4) by (auto elim!: exec_mapE simp: is_ok_iff)
    from assms(1,2) this(1) [unfolded REST_Update_def] show ?thesis
    proof (cases rule: main_strategy.update_forced_OkE)
      case (existing key old n q)
      then show ?thesis by (intro wrote [of q key]) (use UpdateReq r in simp_all)
    next
      case (new key n q)
      then show ?thesis by (intro wrote [of q key]) (use UpdateReq r in simp_all)
    qed
  next
    case (StatusUpdateReq ctx name info cv uv force opts)
    then obtain obj b where "exec ord (StatusREST_Update K V (api_status A) ctx name info cv uv force opts) s = (Ok (obj, b), s')"
      and r: "resp = WriteResp (Ok (obj, b))" using assms(3,4) by (auto elim!: exec_mapE simp: is_ok_iff)
    from assms(1,2) this(1) [unfolded StatusREST_Update_def] show ?thesis
    proof (cases rule: status_strategy.update_forced_OkE)
      case (existing key old n q)
      then show ?thesis by (intro wrote [of q key]) (use StatusUpdateReq r in simp_all)
    next
      case (new key n q)
      then show ?thesis by (intro wrote [of q key]) (use StatusUpdateReq r in simp_all)
    qed
  next
    case (DeleteReq ctx name dv opts)
    then obtain obj b where d: "exec ord (REST_Delete K (api_rest A) ctx name dv opts) s = (Ok (obj, b), s')"
      and r: "resp = WriteResp (Ok (obj, b))" using assms(3,4) by (auto elim!: exec_mapE simp: is_ok_iff)
    from REST_Delete_Ok [OF assms(2) d] obtain key t where "obj = TaskObj t" "s_items s key = Some obj"
      "s' = s\<lparr>s_items := (s_items s)(key := None), s_rv := s_rv s + 1\<rparr>" by blast
    with DeleteReq r show ?thesis by auto
  qed (use assms(3) at_most_0_exec [OF REST_Get_reads] at_most_0_exec [OF REST_List_reads]
      at_most_0_exec [OF StatusREST_Get_reads] in \<open>auto simp: exec_map REST_Watch_def\<close>)
qed

text \<open>A dry-run delete of a task with a finalizer removes it.\<close>

theorem acknowledged_writes_take_effect_witness:
  "\<exists>t s'. exec sorted_order (handler plain_k8s plain_validators plain_api (DeleteReq ''ns'' ''a'' None
       (Some ((delete_options None)\<lparr>do_DryRun := Some [''All'']\<rparr>))))
       (sample_store\<lparr>s_items := [sample_key \<mapsto> TaskObj t]\<rparr>) = (WriteResp (Ok (TaskObj t, True)), s')
     \<and> om_Finalizers (t_ObjectMeta t) = Some [''f''] \<and> s_rv s' = 2"
proof -
  let ?t = "sample_task\<lparr>t_ObjectMeta := (t_ObjectMeta sample_task)\<lparr>om_Finalizers := Some [''f'']\<rparr>\<rparr>"
  let ?s = "sample_store\<lparr>s_items := [sample_key \<mapsto> TaskObj ?t]\<rparr>"
  let ?d = "(delete_options None)\<lparr>do_DryRun := Some [''All'']\<rparr>"
  let ?h = "handler plain_k8s plain_validators plain_api (DeleteReq ''ns'' ''a'' None (Some ?d))"
  have "exec sorted_order (REST_Delete plain_k8s plain_REST ''ns'' ''a'' None (Some ?d)) ?s
      = (Ok (TaskObj ?t, True), ?s\<lparr>s_items := Map.empty, s_rv := 2\<rparr>)"
    by (subst REST_Delete_existing [where key = sample_key and m = "t_ObjectMeta ?t" and obj = "TaskObj ?t"])
      (simp_all add: delete_options_def call_validation_def)
  then have e: "exec sorted_order ?h ?s = (WriteResp (Ok (TaskObj ?t, True)), ?s\<lparr>s_items := Map.empty, s_rv := 2\<rparr>)"
    by (simp add: exec_map plain_api_def)
  have "all_tasks ?s" by (simp add: all_tasks_def)
  from acknowledged_writes_take_effect [OF plain_library this e]
  have "s_rv (?s\<lparr>s_items := Map.empty, s_rv := 2\<rparr>) = s_rv ?s + 1" by auto
  then show ?thesis
    by (intro exI [of _ ?t] exI [of _ "?s\<lparr>s_items := Map.empty, s_rv := 2\<rparr>"] conjI e) simp_all
qed

end
