(* ===== verification/Concurrency.thy ===== *)
theory Concurrency
  imports Requests
begin

section \<open>Concurrent requests\<close>

text \<open>
  The HTTP server runs every request in a goroutine of its own. A store method holds the
  store's lock while it runs, and a handler holds it for no longer than one call; so two
  handlers interleave between their store calls and nowhere else. A thread is a handler
  under way, a step is one store call of one thread, and a map that is listed may be
  ranged over in any order. What holds of all interleavings, and what does not: the version
  checks of updates and deletes read the object in one critical section and write in another.
\<close>

subsection \<open>Steps\<close>

inductive thread_step :: "store \<Rightarrow> 'a prog \<Rightarrow> store \<Rightarrow> 'a prog \<Rightarrow> bool" where
  step_get: "thread_step s (CallGet k f) s (f (Store_Get k s))"
| step_list: "range_order s ks \<Longrightarrow> thread_step s (CallList ns f) s (f (Store_List ks ns s))"
| step_rv: "thread_step s (CallCurrentRV f) s (f (CurrentResourceVersion s))"
| step_create: "thread_step s (CallCreate k obj f) (snd (Store_Create k obj s)) (f (fst (Store_Create k obj s)))"
| step_update: "thread_step s (CallUpdate k obj f) (snd (Store_Update k obj s)) (f (fst (Store_Update k obj s)))"
| step_delete: "thread_step s (CallDelete k f) (snd (Store_Delete k s)) (f (fst (Store_Delete k s)))"

inductive_simps thread_step_Done [simp]: "thread_step s (Done x) s' p'"
inductive_cases thread_step_GetE: "thread_step s (CallGet k f) s' p'"
inductive_cases thread_step_CreateE: "thread_step s (CallCreate k obj f) s' p'"

text \<open>A configuration is the store with the threads by their number.\<close>

type_synonym 'a config = "store \<times> 'a prog list"

inductive conf_step :: "'a config \<Rightarrow> 'a config \<Rightarrow> bool" where
  "i < length ps \<Longrightarrow> thread_step s (ps ! i) s' p' \<Longrightarrow> conf_step (s, ps) (s', ps[i := p'])"

inductive_cases conf_stepE: "conf_step (s, ps) (s', ps')"

lemma thread_step_store: "thread_step s p s' p' \<Longrightarrow> s' = s \<or> store_step s s'"
  by (induction rule: thread_step.induct) (auto intro: store_step_ops)

lemma conf_step_store: "conf_step c c' \<Longrightarrow> fst c' = fst c \<or> store_step (fst c) (fst c')"
  by (induction rule: conf_step.induct) (auto dest: thread_step_store)

subsection \<open>Interleaved handlers are a versioned store\<close>

interpretation conc: versioned_store "\<lambda>c :: 'a config. s_items (fst c)" "\<lambda>c. store_counter (fst c)"
    obj_version max_rv conf_step
proof unfold_locales
  fix c c' :: "'a config"
  assume st: "conf_step c c'" and b: "store_counter (fst c) < max_rv"
  show "store_counter (fst c') = store_counter (fst c) \<and> s_items (fst c') = s_items (fst c)
      \<or> store_counter (fst c') = Suc (store_counter (fst c))"
    using conf_step_store [OF st] vst.step_counter [OF _ b] by auto
  fix k obj'
  assume l: "s_items (fst c') k = Some obj'"
  show "s_items (fst c) k = Some obj'
      \<or> store_counter (fst c') = Suc (store_counter (fst c)) \<and> obj_version obj' = Suc (store_counter (fst c))
        \<and> (\<forall>k'. k' \<noteq> k \<longrightarrow> s_items (fst c') k' = s_items (fst c) k')"
    using conf_step_store [OF st]
  proof
    assume "fst c' = fst c"
    then show ?thesis using l by simp
  next
    assume "store_step (fst c) (fst c')"
    from vst.step_lookup [OF this b l] show ?thesis .
  qed
qed

subsection \<open>A handler that runs alone is one of the interleavings\<close>

lemma exec_thread_steps:
  assumes "\<And>s. finite (dom (s_items s)) \<Longrightarrow> range_order s (ord s)" "finite (dom (s_items s))"
  shows "\<exists>n. ((\<lambda>(s, p) (s', p'). thread_step s p s' p') ^^ n) (s, p) (snd (exec ord p s), Done (fst (exec ord p s)))"
  using assms(2)
proof (induction p arbitrary: s)
  case (Done x)
  show ?case by (intro exI [of _ 0]) simp
next
  case (CallGet k f)
  show ?case
    using CallGet.IH [OF rangeI CallGet.prems, of "Store_Get k s"]
    by (auto intro: relpowp_Suc_I2 step_get simp del: relpowp.simps)
next
  case (CallList ns f)
  show ?case
    using CallList.IH [OF rangeI CallList.prems, of "Store_List (ord s) ns s"] assms(1) [OF CallList.prems]
    by (auto intro: relpowp_Suc_I2 step_list simp del: relpowp.simps)
next
  case (CallCurrentRV f)
  show ?case
    using CallCurrentRV.IH [OF rangeI CallCurrentRV.prems, of "CurrentResourceVersion s"]
    by (auto intro: relpowp_Suc_I2 step_rv simp del: relpowp.simps)
next
  case (CallCreate k obj f)
  have "finite (dom (s_items (snd (Store_Create k obj s))))"
    using CallCreate.prems by (cases "s_items s k"; cases "object_meta obj") (auto simp: store_rules)
  from CallCreate.IH [OF rangeI this, of "fst (Store_Create k obj s)"] show ?case
    by (auto intro: relpowp_Suc_I2 step_create simp del: relpowp.simps)
next
  case (CallUpdate k obj f)
  have "finite (dom (s_items (snd (Store_Update k obj s))))"
    using CallUpdate.prems by (cases "s_items s k"; cases "object_meta obj") (auto simp: store_rules)
  from CallUpdate.IH [OF rangeI this, of "fst (Store_Update k obj s)"] show ?case
    by (auto intro: relpowp_Suc_I2 step_update simp del: relpowp.simps)
next
  case (CallDelete k f)
  have "finite (dom (s_items (snd (Store_Delete k s))))"
    using CallDelete.prems by (cases "s_items s k") (auto simp: store_rules)
  from CallDelete.IH [OF rangeI this, of "fst (Store_Delete k s)"] show ?case
    by (auto intro: relpowp_Suc_I2 step_delete simp del: relpowp.simps)
qed

subsection \<open>Object invariants hold in every interleaving\<close>

context object_invariant
begin

lemma thread_step_guarantees:
  assumes "thread_step s p s' p'" "guarantees good bound c p" "c \<le> store_counter s"
    and "store_inv good s" "Suc (store_counter s) < bound"
  shows "store_inv good s' \<and> guarantees good bound (store_counter s') p'"
proof -
  have lt: "store_counter s < bound" using assms(5) by simp
  have le: "store_counter s' \<le> Suc (store_counter s)" "store_counter s \<le> store_counter s'"
    using thread_step_store [OF assms(1)] step_counter_le [OF _ lt] by auto
  show ?thesis
    using assms(1)
  proof cases
    case (step_get k f)
    then show ?thesis using assms(2,3,4) get_guarantees [of c k f s] lt by simp
  next
    case (step_create k obj f)
    have "good (Suc (store_counter s)) k obj" using assms(2,3) good_mono step_create by auto
    then show ?thesis
      using step_create assms(2,3,5) le create_inv [OF assms(4) lt] by auto
  next
    case (step_update k obj f)
    have "good (Suc (store_counter s)) k obj" using assms(2,3) good_mono step_update by auto
    then show ?thesis
      using step_update assms(2,3,5) le update_inv [OF assms(4) lt] by auto
  next
    case (step_delete k f)
    then show ?thesis
      using assms(2,3,5) le delete_inv [OF assms(4) lt] by auto
  qed (use assms lt in auto)
qed

lemma conf_steps_inv:
  assumes "(conf_step ^^ n) (s, ps) (s', ps')" "store_inv good s"
    and "\<And>p. p \<in> set ps \<Longrightarrow> guarantees good bound (store_counter s) p"
    and "store_counter s + n < bound"
  shows "store_inv good s' \<and> (\<forall>p \<in> set ps'. guarantees good bound (store_counter s') p)"
  using assms(1,4)
proof (induction n arbitrary: s' ps')
  case 0
  then show ?case using assms(2,3) by simp
next
  case (Suc n)
  then obtain s1 ps1 where st: "(conf_step ^^ n) (s, ps) (s1, ps1)" "conf_step (s1, ps1) (s', ps')"
    by (auto elim: relpowp_Suc_E)
  have IH: "store_inv good s1" "\<forall>p \<in> set ps1. guarantees good bound (store_counter s1) p"
    using Suc.IH [OF st(1)] Suc.prems(2) by auto
  have c: "store_counter s1 \<le> store_counter s + n"
    using conc.steps_counter [OF st(1)] Suc.prems(2) bound_le by simp
  from st(2) obtain i p' where i: "i < length ps1" "thread_step s1 (ps1 ! i) s' p'" "ps' = ps1[i := p']"
    by (rule conf_stepE)
  have g: "store_inv good s' \<and> guarantees good bound (store_counter s') p'"
    using thread_step_guarantees [OF i(2) _ order_refl IH(1)] IH(2) i(1) c Suc.prems(2) by auto
  have "store_counter s1 \<le> store_counter s'"
    using thread_step_store [OF i(2)] step_counter_le [of s1 s'] c Suc.prems(2) by auto
  then have "\<forall>p \<in> set ps1. guarantees good bound (store_counter s') p"
    using IH(2) guarantees_mono by blast
  with g show ?case unfolding i(3) by (auto dest: set_update_subset_insert [THEN subsetD])
qed

end

subsection \<open>Concurrent creates\<close>

definition key_of :: "Task \<Rightarrow> Key" where
  "key_of q = Key (om_Namespace (t_ObjectMeta q)) (om_Name (t_ObjectMeta q))"

lemma key_of_stamped [simp]: "key_of (stamped_task s q) = key_of q"
  by (simp add: key_of_def)

text \<open>A create is decided before it calls the store, or it is one call.\<close>

lemma REST_Create_shape:
  assumes "library_contract K"
  shows "(\<exists>e. REST_Create K V r ctx obj cv opts = Done e \<and> \<not> is_ok e)
    \<or> (\<exists>q. REST_Create K V r ctx obj cv opts = CallCreate (key_of q) (TaskObj q) Done)"
proof (cases "internal_accessor obj")
  case (Ok m)
  let ?o = "set_object_meta (x_FillObjectMetaSystemFields K m) obj"
  show ?thesis
  proof (cases "x_BeforeCreate K (Strategy_create V (r_strategy r)) ctx ?o")
    case B: (Ok obj')
    obtain t q where q: "obj' = TaskObj q" by (rule create_body_created [OF assms Ok B])
    show ?thesis
      by (cases "call_validation cv ctx obj'") (auto simp: REST_Create_def Ok B q key_of_def)
  qed (auto simp: REST_Create_def Ok)
qed (auto simp: REST_Create_def)

definition creates_inv :: "(go_error, runtime_object) outcome config \<Rightarrow> bool" where
  "creates_inv c \<longleftrightarrow>
     (\<forall>p \<in> set (snd c). (\<exists>e. p = Done e \<and> \<not> is_ok e)
        \<or> (\<exists>q. p = CallCreate (key_of q) (TaskObj q) Done) \<or> (\<exists>q. p = Done (Ok (TaskObj q))))
     \<and> (\<forall>i q. i < length (snd c) \<longrightarrow> snd c ! i = Done (Ok (TaskObj q)) \<longrightarrow>
          s_items (fst c) (key_of q) = Some (TaskObj q))
     \<and> (\<forall>i j q q'. i < length (snd c) \<longrightarrow> j < length (snd c) \<longrightarrow> i \<noteq> j \<longrightarrow>
          snd c ! i = Done (Ok (TaskObj q)) \<longrightarrow> snd c ! j = Done (Ok (TaskObj q')) \<longrightarrow> key_of q \<noteq> key_of q')"

lemma creates_inv_step:
  assumes "creates_inv (s, ps)" "conf_step (s, ps) (s', ps')"
  shows "creates_inv (s', ps')"
proof -
  from assms(2) obtain i p' where i: "i < length ps" "thread_step s (ps ! i) s' p'" "ps' = ps[i := p']"
    by (rule conf_stepE)
  have sh: "(\<exists>e. ps ! i = Done e \<and> \<not> is_ok e) \<or> (\<exists>q. ps ! i = CallCreate (key_of q) (TaskObj q) Done)
      \<or> (\<exists>q. ps ! i = Done (Ok (TaskObj q)))"
    using assms(1) i(1) by (auto simp: creates_inv_def)
  then obtain q where q: "ps ! i = CallCreate (key_of q) (TaskObj q) Done" using i(2) by auto
  have st: "s' = snd (Store_Create (key_of q) (TaskObj q) s)" "p' = Done (fst (Store_Create (key_of q) (TaskObj q) s))"
    using i(2) unfolding q by (auto elim: thread_step_CreateE)
  show ?thesis
  proof (cases "s_items s (key_of q)")
    case (Some old)
    then have "s' = s" "p' = Done (Err (AlreadyExists (s_gr s) (k_Name (key_of q))))"
      by (simp_all add: st store_rules)
    with assms(1) i(1) show ?thesis
      unfolding i(3) creates_inv_def by (auto simp: nth_list_update dest: set_update_subset_insert [THEN subsetD])
  next
    case None
    note w = Store_Create_simps(3) [OF None, of "TaskObj q" "t_ObjectMeta q"]
    have st: "s_items s' = (s_items s)(key_of q \<mapsto> TaskObj (stamped_task s q))"
      "p' = Done (Ok (TaskObj (stamped_task s q)))"
      by (simp_all add: st w)
    have other: "key_of q' \<noteq> key_of q" if "j < length ps" "ps ! j = Done (Ok (TaskObj q'))" for j q'
      using assms(1) that None by (auto simp: creates_inv_def)
    have other': "key_of q \<noteq> key_of q'" if "j < length ps" "ps ! j = Done (Ok (TaskObj q'))" for j q'
      using other [OF that] by simp
    show ?thesis
      using assms(1) i(1) other other' unfolding i(3) creates_inv_def
      by (auto simp: nth_list_update st dest: set_update_subset_insert [THEN subsetD])
  qed
qed

lemma creates_inv_steps:
  "(conf_step ^^ n) (s, ps) (s', ps') \<Longrightarrow> creates_inv (s, ps) \<Longrightarrow> creates_inv (s', ps')"
proof (induction n arbitrary: s' ps')
  case (Suc n)
  then obtain s1 ps1 where "(conf_step ^^ n) (s, ps) (s1, ps1)" "conf_step (s1, ps1) (s', ps')"
    by (auto elim: relpowp_Suc_E)
  with Suc creates_inv_step show ?case by blast
qed simp

subsection \<open>The two critical sections of update and delete\<close>

definition reply_update :: "(go_error, runtime_object) outcome \<Rightarrow> (go_error, runtime_object \<times> bool) outcome prog" where
  "reply_update u = on_ok u (\<lambda>updated. Done (Ok (updated, False)))"

text \<open>\<open>passes\<close>: the client's object passes every check of an update of \<open>old\<close>, and becomes \<open>q\<close>.\<close>

definition passes ::
    "'ctx k8s \<Rightarrow> 'ctx update_strategy \<Rightarrow> 'ctx \<Rightarrow> 'ctx updated_object_info \<Rightarrow> Task \<Rightarrow> Task \<Rightarrow> bool" where
  "passes K us ctx info old q \<longleftrightarrow>
     (\<exists>n old'. uoi_UpdatedObject info ctx (TaskObj old) = Ok (TaskObj n)
        \<and> preconditions_met (uoi_Preconditions info) (t_ObjectMeta old)
        \<and> om_ResourceVersion (t_ObjectMeta n) \<noteq> []
        \<and> om_ResourceVersion (t_ObjectMeta n) = om_ResourceVersion (t_ObjectMeta old)
        \<and> x_BeforeUpdate K us ctx (TaskObj n) (TaskObj old) = Ok (TaskObj q, old'))"

lemma update_two_calls:
  assumes key: "keyFromContext K ctx name (us_NamespaceScoped us) gr = Ok key"
    and us: "\<not> us_AllowUnconditionalUpdate us" and pass: "passes K us ctx info old q"
  obtains f where "updateOnStore K V ctx name info cv None force opts cs us gr = CallGet key f"
    "f (Ok (TaskObj old)) = CallUpdate key (TaskObj q) reply_update"
proof -
  from pass obtain n old' where n: "uoi_UpdatedObject info ctx (TaskObj old) = Ok (TaskObj n)"
    "preconditions_met (uoi_Preconditions info) (t_ObjectMeta old)"
    "om_ResourceVersion (t_ObjectMeta n) \<noteq> []"
    "om_ResourceVersion (t_ObjectMeta n) = om_ResourceVersion (t_ObjectMeta old)"
    "x_BeforeUpdate K us ctx (TaskObj n) (TaskObj old) = Ok (TaskObj q, old')"
    unfolding passes_def by blast
  have "checkPreconditions (TaskObj old) (uoi_Preconditions info) gr name = Ok ()"
    using n(2) by (simp add: checkPreconditions_Ok_iff)
  moreover have "checkResourceVersion (TaskObj old) (TaskObj n) us gr = Ok ()"
    using n(3,4) us by (auto simp: checkResourceVersion_Ok_iff)
  ultimately show thesis
    using that n(1,5) unfolding updateOnStore_def key on_ok.simps
    by (simp add: call_update_validation_def reply_update_def [abs_def])
qed

lemma delete_two_calls:
  assumes key: "keyFromContext K ctx name True (r_gr r) = Ok key"
    and pre: "preconditions_met (do_Preconditions d) (t_ObjectMeta old)"
  obtains f where "REST_Delete K r ctx name None (Some d) = CallGet key f"
    "f (Ok (TaskObj old)) = CallDelete key (\<lambda>u. on_ok u (\<lambda>deleted. Done (Ok (deleted, True))))"
proof -
  have "checkPreconditions (TaskObj old) (do_Preconditions d) (r_gr r) name = Ok ()"
    using pre by (simp add: checkPreconditions_Ok_iff)
  then show thesis
    using that key unfolding REST_Delete_def REST_NamespaceScoped_def strategy_constants
    by (simp add: call_validation_def)
qed

text \<open>After any write at the key, an object that carries the old version conflicts.\<close>

lemma version_not_next:
  assumes "s_items s key = Some (TaskObj old)" "store_inv good s" "store_counter s < max_rv"
  shows "om_ResourceVersion (t_ObjectMeta old) \<noteq> FormatUint (s_rv s + 1)"
proof -
  have "obj_version (TaskObj old) \<le> store_counter s"
    using assms(2) version_ok_bounds [where m = "s_items s", OF _ assms(1)] by (auto simp: store_inv_def)
  moreover have "unat (s_rv s + 1) = Suc (store_counter s)"
    using assms(3) by (simp add: store_counter_def max_rv_def unat_u64_plus_1)
  ultimately have "parseRVOrZero (om_ResourceVersion (t_ObjectMeta old)) \<noteq> s_rv s + 1"
    by (auto simp: obj_version_def)
  then show ?thesis by auto
qed

lemma update_after_write:
  assumes key: "keyFromContext K ctx name (us_NamespaceScoped us) gr = Ok key"
    and "s_items s key = Some (TaskObj old)" "store_inv good s" "store_counter s < max_rv"
    and "om_ResourceVersion (t_ObjectMeta n) = om_ResourceVersion (t_ObjectMeta old)"
    and "\<not> us_AllowUnconditionalUpdate us"
  shows "fst (exec ord (updateOnStore K V ctx name (put n) cv uv force opts cs us gr) (written s key q))
    = Err (stale_conflict gr n)"
proof -
  have "om_ResourceVersion (t_ObjectMeta old) \<noteq> FormatUint (s_rv s + 1)"
    by (rule version_not_next [OF assms(2-4)])
  then have c: "checkResourceVersion (TaskObj (stamped_task s q)) (TaskObj n) us gr = Err (stale_conflict gr n)"
    using assms(5,6) by (simp add: registry_rules)
  have i: "s_items (written s key q) key = Some (TaskObj (stamped_task s q))" by (simp add: written_def)
  show ?thesis
    unfolding update_existing [OF key i] by (simp add: checkPreconditions_def c)
qed

text \<open>A step of the first or second of two threads.\<close>

lemma left_step: "thread_step s p s' p' \<Longrightarrow> conf_step (s, [p, r]) (s', [p', r])"
  using conf_step.intros [of 0 "[p, r]" s s' p'] by simp

lemma right_step: "thread_step s p s' p' \<Longrightarrow> conf_step (s, [r, p]) (s', [r, p'])"
  using conf_step.intros [of 1 "[r, p]" s s' p'] by simp

lemma get_step:
  "s_items s k = Some obj \<Longrightarrow> f (Ok obj) = p' \<Longrightarrow> thread_step s (CallGet k f) s p'"
  using step_get [of s k f] by (auto simp: store_rules)

lemma update_step:
  assumes "s_items s k = Some obj"
  shows "thread_step s (CallUpdate k (TaskObj q) reply_update)
    (written s k q) (Done (Ok (TaskObj (stamped_task s q), False)))"
  using step_update [of s k "TaskObj q" reply_update]
    Store_Update_simps(3) [OF assms, of "TaskObj q" "t_ObjectMeta q"]
  by (simp add: written_def reply_update_def)

lemma delete_step:
  assumes "s_items s k = Some obj"
  shows "thread_step s (CallDelete k (\<lambda>u. on_ok u (\<lambda>deleted. Done (Ok (deleted, True)))))
    (s\<lparr>s_items := (s_items s)(k := None), s_rv := s_rv s + 1\<rparr>) (Done (Ok (obj, True)))"
  using step_delete [of s k "\<lambda>u. on_ok u (\<lambda>deleted. Done (Ok (deleted, True)))"]
  by (simp add: store_rules assms)

lemma written_items [simp]:
  "s_items (written s k q) = (s_items s)(k \<mapsto> TaskObj (stamped_task s q))" "s_rv (written s k q) = s_rv s + 1"
  by (simp_all add: written_def)

lemma four_steps:
  "R a b \<Longrightarrow> R b c \<Longrightarrow> R c d \<Longrightarrow> R d e \<Longrightarrow> (R ^^ 4) a e"
proof -
  assume "R a b" "R b c" "R c d" "R d e"
  then have "(R ^^ Suc (Suc (Suc (Suc 0)))) a e"
    by (intro relpowp_Suc_I2 [of R a b] relpowp_Suc_I2 [of R b c] relpowp_Suc_I2 [of R c d]
        relpowp_Suc_I2 [of R d e]) simp_all
  then show ?thesis by (simp only: numeral_eq_Suc pred_numeral_simps One_nat_def BitM.simps eval_nat_numeral)
qed

subsection \<open>Properties\<close>

text \<open>C1. No interleaving breaks the invariant of the API: any number of requests served
  concurrently on a new store, with their store calls in any order and after any number of
  calls (fewer than \<open>2 ^ 63\<close>), leave only well-formed tasks at their own keys, with
  generations that are no larger than their versions, and no two keys share a version.\<close>

theorem concurrent_api_invariant:
  assumes "library_contract K" "list_all request_ok reqs" "n < 2 ^ 63 - 1"
    and "(conf_step ^^ n) (Store_New gr, map (handler K V A) reqs) (s, ps)"
  shows "(\<forall>k obj. s_items s k = Some obj \<longrightarrow>
      (\<exists>t. obj = TaskObj t \<and> task_wf t \<and> key_of t = k \<and> sint (generation t) \<le> int (obj_version obj)))
    \<and> (\<forall>k1 k2 o1 o2. s_items s k1 = Some o1 \<longrightarrow> s_items s k2 = Some o2 \<longrightarrow>
        obj_version o1 = obj_version o2 \<longrightarrow> k1 = k2)"
proof -
  have c0: "store_counter (Store_New gr) = 0" by (simp add: Store_New_def store_counter_def)
  have "guarantees good_task request_bound (store_counter (Store_New gr)) p"
    if "p \<in> set (map (handler K V A) reqs)" for p
    using that handler_guarantees [OF assms(1)] assms(2) by (auto simp: list_all_iff)
  with tasks.conf_steps_inv [OF assms(4) store_inv_New] assms(3) c0
  have inv: "store_inv good_task s" by (simp add: request_bound_def)
  have "\<exists>t. obj = TaskObj t \<and> task_wf t \<and> key_of t = k \<and> sint (generation t) \<le> int (obj_version obj)"
    if "s_items s k = Some obj" for k obj
  proof -
    have "good_task (obj_version obj) k obj" using inv that by (simp add: store_inv_def)
    then obtain t where t: "obj = TaskObj t" "task_wf t" "om_Namespace (t_ObjectMeta t) = k_Namespace k"
      "om_Name (t_ObjectMeta t) = k_Name k" "sint (generation t) \<le> int (obj_version obj)"
      unfolding good_task_def by blast
    then have "key_of t = k" by (cases k) (simp add: key_of_def)
    with t show ?thesis by blast
  qed
  moreover have "version_ok (s_items s) (store_counter s) obj_version" using inv by (simp add: store_inv_def)
  ultimately show ?thesis unfolding version_ok_def by blast
qed

lemma conf_step_nth:
  "i < length ps \<Longrightarrow> thread_step s (ps ! i) s' p' \<Longrightarrow> ps' = ps[i := p'] \<Longrightarrow> conf_step (s, ps) (s', ps')"
  by (simp add: conf_step.intros)

lemma two_creates_run:
  "(conf_step ^^ 2) (Store_New gr, [CallCreate (Key ''ns'' ''b'') (TaskObj created_sample) Done,
       CallCreate (Key ''ns'' ''b'') (TaskObj created_sample) Done])
     (written (Store_New gr) (Key ''ns'' ''b'') created_sample,
      [Done (Ok (TaskObj (stamped_task (Store_New gr) created_sample))), Done (Err (AlreadyExists gr ''b''))])"
proof -
  let ?k = "Key ''ns'' ''b''" and ?s = "Store_New gr"
  let ?s1 = "written ?s ?k created_sample"
  have none: "s_items ?s ?k = None" "s_gr ?s = gr" by (simp_all add: Store_New_def)
  have w: "Store_Create ?k (TaskObj created_sample) ?s
      = (Ok (TaskObj (stamped_task ?s created_sample)), ?s1)"
    by (simp add: Store_Create_simps(3) [OF none(1), of _ "t_ObjectMeta created_sample"] written_def)
  have w1: "Store_Create ?k (TaskObj created_sample) ?s1 = (Err (AlreadyExists gr ''b''), ?s1)"
    using none(2) by (simp add: store_rules written_def)
  have "conf_step (?s, [CallCreate ?k (TaskObj created_sample) Done, CallCreate ?k (TaskObj created_sample) Done])
      (?s1, [Done (Ok (TaskObj (stamped_task ?s created_sample))), CallCreate ?k (TaskObj created_sample) Done])"
    by (rule conf_step_nth [of 0 _ _ _ "Done (Ok (TaskObj (stamped_task ?s created_sample)))"])
      (use step_create [of ?s ?k "TaskObj created_sample" Done] w in simp_all)
  moreover have "conf_step (?s1, [Done (Ok (TaskObj (stamped_task ?s created_sample))),
        CallCreate ?k (TaskObj created_sample) Done])
      (?s1, [Done (Ok (TaskObj (stamped_task ?s created_sample))), Done (Err (AlreadyExists gr ''b''))])"
    by (rule conf_step_nth [of 1 _ _ _ "Done (Err (AlreadyExists gr ''b''))"])
      (use step_create [of ?s1 ?k "TaskObj created_sample" Done] w1 in simp_all)
  ultimately show ?thesis unfolding numeral_2_eq_2 by auto
qed

theorem concurrent_api_invariant_witness:
  "\<exists>s ps t. (conf_step ^^ 1) (Store_New (Resource ''tasks''), map (handler plain_k8s plain_validators plain_api)
       [CreateReq ''ns'' (newTask ''ns'' ''b'' ''alpine'') None None]) (s, ps)
     \<and> s_items s (Key ''ns'' ''b'') = Some (TaskObj t) \<and> task_wf t \<and> key_of t = Key ''ns'' ''b''"
proof -
  let ?reqs = "[CreateReq ''ns'' (newTask ''ns'' ''b'' ''alpine'') None None]"
  let ?s = "Store_New (Resource ''tasks'')" and ?k = "Key ''ns'' ''b''"
  let ?s1 = "snd (Store_Create ?k (TaskObj created_sample) ?s)"
  let ?ps = "map (handler plain_k8s plain_validators plain_api) ?reqs"
  have none: "s_items ?s ?k = None" by (simp add: Store_New_def)
  have p: "?ps = [CallCreate ?k (TaskObj created_sample) (\<lambda>r. Done (ObjectResp r))]"
    by (simp add: plain_api_def plain_create_prog comp_def)
  have st: "(conf_step ^^ 1) (?s, ?ps)
      (?s1, [Done (ObjectResp (fst (Store_Create ?k (TaskObj created_sample) ?s)))])"
    unfolding p relpowp_1
    by (rule conf_step_nth [of 0])
      (use step_create [of ?s ?k "TaskObj created_sample" "\<lambda>r. Done (ObjectResp r)"] in simp_all)
  have l: "s_items ?s1 ?k = Some (TaskObj (stamped_task ?s created_sample))"
    by (simp add: Store_Create_simps(3) [OF none, of _ "t_ObjectMeta created_sample"])
  have "list_all request_ok ?reqs" "(1::nat) < 2 ^ 63 - 1" by simp_all
  from concurrent_api_invariant [OF plain_library this st, THEN conjunct1, rule_format, OF l]
  have "task_wf (stamped_task ?s created_sample)" "key_of (stamped_task ?s created_sample) = ?k" by auto
  with st l show ?thesis by blast
qed

text \<open>C25. Creates need no more than the store's lock: however any number of creates
  interleave, with whatever admission callbacks and options, every create that was acknowledged is in the store as acknowledged, and no two
  acknowledged creates are for the same key.\<close>

theorem concurrent_creates:
  assumes "library_contract K" "ps0 = map (\<lambda>(ctx, obj, cv, opts). REST_Create K V r ctx obj cv opts) args"
    and "(conf_step ^^ n) (s0, ps0) (s, ps)"
    and "i < length ps" "ps ! i = Done (Ok (TaskObj q))"
  shows "s_items s (key_of q) = Some (TaskObj q)
    \<and> (\<forall>j q'. j < length ps \<longrightarrow> ps ! j = Done (Ok (TaskObj q')) \<longrightarrow> key_of q' = key_of q \<longrightarrow> j = i)"
proof -
  have sh: "(\<exists>e. p = Done e \<and> \<not> is_ok e) \<or> (\<exists>q. p = CallCreate (key_of q) (TaskObj q) Done)"
    if "p \<in> set ps0" for p
    using that REST_Create_shape [OF assms(1)] unfolding assms(2) by force
  then have "ps0 ! i \<noteq> Done (Ok (TaskObj q))" if "i < length ps0" for i q
    using nth_mem [OF that] by fastforce
  with sh have "creates_inv (s0, ps0)" unfolding creates_inv_def by auto
  from creates_inv_steps [OF assms(3) this] assms(4,5) show ?thesis
    unfolding creates_inv_def by (metis fst_conv snd_conv)
qed

theorem concurrent_creates_witness:
  "\<exists>s ps q. (conf_step ^^ 2) (Store_New (Resource ''tasks''),
       map (\<lambda>(ctx, obj, cv, opts). REST_Create plain_k8s plain_validators plain_REST ctx obj cv opts)
         [(''ns'', newTask ''ns'' ''b'' ''alpine'', None, None), (''ns'', newTask ''ns'' ''b'' ''alpine'', None, None)]) (s, ps)
     \<and> ps ! 0 = Done (Ok (TaskObj q)) \<and> s_items s (key_of q) = Some (TaskObj q)"
proof -
  let ?args = "[(''ns'', newTask ''ns'' ''b'' ''alpine'', None, None), (''ns'', newTask ''ns'' ''b'' ''alpine'', None, None)]"
  let ?s = "Store_New (Resource ''tasks'')"
  have st: "(conf_step ^^ 2) (?s, map (\<lambda>(ctx, obj, cv, opts). REST_Create plain_k8s plain_validators plain_REST ctx obj cv opts) ?args)
      (written ?s (Key ''ns'' ''b'') created_sample,
       [Done (Ok (TaskObj (stamped_task ?s created_sample))), Done (Err (AlreadyExists (Resource ''tasks'') ''b''))])"
    using two_creates_run [of "Resource ''tasks''"] by (simp add: plain_create_prog)
  from concurrent_creates [OF plain_library refl this, of 0 "stamped_task ?s created_sample"] st
  show ?thesis by fastforce
qed

text \<open>C9. The version check does not exclude lost updates. If two clients hold the same,
  current version of a task and the library accepts both of their objects, then one after
  the other the second is answered with Conflict; but there is an interleaving of the same
  two requests in which both are acknowledged, and the store ends with the second object and
  nothing of the first, because the handler checks the version in one critical section of
  the store and writes in another.\<close>

theorem lost_update:
  assumes "keyFromContext K ctx1 name True (r_gr r) = Ok key" "keyFromContext K ctx2 name True (r_gr r) = Ok key"
    and "s_items s key = Some (TaskObj old)" "store_inv good_task s" "store_counter s < max_rv"
    and "passes K (Strategy_update V (r_strategy r)) ctx1 info1 old q1"
    and "passes K (Strategy_update V (r_strategy r)) ctx2 info2 old q2"
    and "info2 = put n2"
    and "p1 = REST_Update K V r ctx1 name info1 None None False None"
    and "p2 = REST_Update K V r ctx2 name info2 None None False None"
  shows "fst (exec ord p2 (snd (exec ord p1 s))) = Err (stale_conflict (r_gr r) n2)
    \<and> (\<exists>s' t1 t2. (conf_step ^^ 4) (s, [p1, p2]) (s', [Done (Ok (TaskObj t1, False)), Done (Ok (TaskObj t2, False))])
        \<and> t_Spec t1 = t_Spec q1 \<and> s_items s' key = Some (TaskObj t2) \<and> t_Spec t2 = t_Spec q2)"
proof -
  let ?us1 = "Strategy_update V (r_strategy r) :: 'a update_strategy"
  have us: "us_NamespaceScoped ?us1" "\<not> us_AllowUnconditionalUpdate ?us1" by simp_all
  have key1: "keyFromContext K ctx1 name (us_NamespaceScoped ?us1) (r_gr r) = Ok key"
    and key2: "keyFromContext K ctx2 name (us_NamespaceScoped ?us1) (r_gr r) = Ok key" using assms(1,2) us by simp_all
  obtain f1 where f1: "p1 = CallGet key f1" "f1 (Ok (TaskObj old)) = CallUpdate key (TaskObj q1) reply_update"
    unfolding assms(9) REST_Update_def by (rule update_two_calls [OF key1 us(2) assms(6)])
  obtain f2 where f2: "p2 = CallGet key f2" "f2 (Ok (TaskObj old)) = CallUpdate key (TaskObj q2) reply_update"
    unfolding assms(10) REST_Update_def by (rule update_two_calls [OF key2 us(2) assms(7)])
  let ?s1 = "written s key q1"
  have "exec ord p1 s = (Ok (TaskObj (stamped_task s q1), False), ?s1)"
    using Store_Update_simps(3) [OF assms(3), of "TaskObj q1" "t_ObjectMeta q1"]
    by (simp add: f1 Store_Get_simps(2) [OF assms(3)] reply_update_def written_def)
  moreover have "fst (exec ord p2 ?s1) = Err (stale_conflict (r_gr r) n2)"
    unfolding assms(10,8) REST_Update_def
    by (rule update_after_write [OF key2 assms(3-5)])
      (use assms(7,8) us in \<open>auto simp: passes_def\<close>)
  moreover have "(conf_step ^^ 4) (s, [p1, p2]) (written ?s1 key q2,
      [Done (Ok (TaskObj (stamped_task s q1), False)), Done (Ok (TaskObj (stamped_task ?s1 q2), False))])"
    unfolding f1(1) f2(1)
  proof (rule four_steps [where R = conf_step])
    show "conf_step (s, [CallGet key f1, CallGet key f2]) (s, [CallUpdate key (TaskObj q1) reply_update, CallGet key f2])"
      by (rule left_step, rule get_step, rule assms(3), rule f1(2))
    show "conf_step (s, [CallUpdate key (TaskObj q1) reply_update, CallGet key f2])
        (s, [CallUpdate key (TaskObj q1) reply_update, CallUpdate key (TaskObj q2) reply_update])"
      by (rule right_step, rule get_step, rule assms(3), rule f2(2))
  qed (rule left_step, rule update_step, rule assms(3), rule right_step, rule update_step, simp)
  moreover have "s_items (written ?s1 key q2) key = Some (TaskObj (stamped_task ?s1 q2))" by simp
  ultimately show ?thesis by (metis fst_conv snd_conv stamped_task_simps(1))
qed

lemma sample_task_rv: "task_rv sample_task = 1"
  using parseRVOrZero_FormatUint [of 1]
  by (simp add: task_rv_def FormatUint_def digit_char_def char_of_def bit_simps)

lemma sample_store_inv: "store_inv good_task sample_store"
proof -
  have "obj_version (TaskObj sample_task) = 1"
    using sample_task_rv by (simp add: obj_version_def task_rv_def)
  then show ?thesis
    by (auto simp: store_inv_def version_ok_def store_counter_def good_task_TaskObj task_wf_def sample_key_def
        zero_TaskStatus_def split: if_splits)
qed

definition image_task :: "string \<Rightarrow> Task" where
  "image_task img = sample_task\<lparr>t_Spec := zero_TaskSpec\<lparr>ts_Image := img\<rparr>\<rparr>"

lemma image_task_passes:
  assumes "img \<noteq> ''alpine''" "img \<noteq> []"
  shows "passes plain_k8s (Strategy_update plain_validators (r_strategy plain_REST)) ''ns'' (put (image_task img))
    sample_task (set_generation 2 (image_task img))"
proof -
  have "x_BeforeUpdate plain_k8s (Strategy_update plain_validators plain_strategy) ''ns''
      (TaskObj (image_task img)) (TaskObj sample_task)
      = Ok (us_Canonicalize (Strategy_update plain_validators plain_strategy :: string update_strategy)
             (TaskObj (set_generation 2 (image_task img))), TaskObj sample_task)"
    by (rule plain_update) (use assms in \<open>simp_all add: strategy_rules specEqual_iff zero_TaskSpec_def
        set_generation_def validateTask_Nil_iff plain_validators_def same_identity_Tasks image_task_def\<close>)
  then show ?thesis by (auto simp: passes_def image_task_def)
qed

theorem lost_update_witness:
  "\<exists>s' t1 t2. (conf_step ^^ 4) (sample_store,
      [REST_Update plain_k8s plain_validators plain_REST ''ns'' ''a'' (put (image_task ''x'')) None None False None,
       REST_Update plain_k8s plain_validators plain_REST ''ns'' ''a'' (put (image_task ''y'')) None None False None])
      (s', [Done (Ok (TaskObj t1, False)), Done (Ok (TaskObj t2, False))])
    \<and> ts_Image (t_Spec t1) = ''x'' \<and> s_items s' sample_key = Some (TaskObj t2) \<and> ts_Image (t_Spec t2) = ''y''"
proof -
  have c: "store_counter sample_store < max_rv" by (simp add: store_counter_def max_rv_def)
  have i: "s_items sample_store sample_key = Some (TaskObj sample_task)" by simp
  have p: "passes plain_k8s (Strategy_update plain_validators (r_strategy plain_REST)) ''ns'' (put (image_task ''x''))
        sample_task (set_generation 2 (image_task ''x''))"
    "passes plain_k8s (Strategy_update plain_validators (r_strategy plain_REST)) ''ns'' (put (image_task ''y''))
        sample_task (set_generation 2 (image_task ''y''))"
    by (rule image_task_passes; simp)+
  have im: "ts_Image (t_Spec (set_generation 2 (image_task x))) = x" for x by (simp add: image_task_def)
  from lost_update [OF sample_simps(4) sample_simps(4) i sample_store_inv c p refl refl refl, THEN conjunct2]
  show ?thesis using im by metis
qed

text \<open>C10. Nor do the preconditions of a delete protect the object that is deleted: if they name
  the current version and a concurrent update passes its checks, there is an interleaving in
  which both requests are acknowledged and the delete removes, and returns, the updated
  object, of which its preconditions do not hold.\<close>

theorem delete_precondition_race:
  assumes "keyFromContext K ctx1 name True (r_gr r) = Ok key" "keyFromContext K ctx2 name True (r_gr r) = Ok key"
    and "s_items s key = Some (TaskObj old)" "store_inv good s" "store_counter s < max_rv"
    and "do_Preconditions d = Some pre" "pre_ResourceVersion pre = Some (om_ResourceVersion (t_ObjectMeta old))"
    and "preconditions_met (Some pre) (t_ObjectMeta old)"
    and "passes K (Strategy_update V (r_strategy r)) ctx2 info old q"
  shows "\<exists>s' t. (conf_step ^^ 4)
      (s, [REST_Delete K r ctx1 name None (Some d), REST_Update K V r ctx2 name info None None False None])
      (s', [Done (Ok (TaskObj t, True)), Done (Ok (TaskObj t, False))])
    \<and> \<not> preconditions_met (Some pre) (t_ObjectMeta t) \<and> s_items s' key = None"
proof -
  let ?us = "Strategy_update V (r_strategy r) :: 'a update_strategy"
  have us: "us_NamespaceScoped ?us" "\<not> us_AllowUnconditionalUpdate ?us" by simp_all
  have key2: "keyFromContext K ctx2 name (us_NamespaceScoped ?us) (r_gr r) = Ok key" using assms(2) us by simp
  have met: "preconditions_met (do_Preconditions d) (t_ObjectMeta old)" using assms(6,8) by simp
  let ?del = "\<lambda>u. on_ok u (\<lambda>deleted. Done (Ok (deleted, True)))"
  obtain f1 where f1: "REST_Delete K r ctx1 name None (Some d) = CallGet key f1"
    "f1 (Ok (TaskObj old)) = CallDelete key ?del"
    by (rule delete_two_calls [OF assms(1) met])
  obtain f2 where f2: "REST_Update K V r ctx2 name info None None False None = CallGet key f2"
    "f2 (Ok (TaskObj old)) = CallUpdate key (TaskObj q) reply_update"
    unfolding REST_Update_def by (rule update_two_calls [OF key2 us(2) assms(9)])
  let ?s1 = "written s key q" and ?t = "stamped_task s q"
  let ?s2 = "?s1\<lparr>s_items := (s_items ?s1)(key := None), s_rv := s_rv ?s1 + 1\<rparr>"
  have "(conf_step ^^ 4) (s, [CallGet key f1, CallGet key f2])
      (?s2, [Done (Ok (TaskObj ?t, True)), Done (Ok (TaskObj ?t, False))])"
  proof (rule four_steps [where R = conf_step])
    show "conf_step (s, [CallGet key f1, CallGet key f2]) (s, [CallDelete key ?del, CallGet key f2])"
      by (rule left_step, rule get_step, rule assms(3), rule f1(2))
    show "conf_step (s, [CallDelete key ?del, CallGet key f2])
        (s, [CallDelete key ?del, CallUpdate key (TaskObj q) reply_update])"
      by (rule right_step, rule get_step, rule assms(3), rule f2(2))
  qed (rule right_step, rule update_step, rule assms(3), rule left_step, rule delete_step, simp)
  moreover have "om_ResourceVersion (t_ObjectMeta old) \<noteq> FormatUint (s_rv s + 1)"
    by (rule version_not_next [OF assms(3-5)])
  then have "\<not> preconditions_met (Some pre) (t_ObjectMeta ?t)"
    using assms(7) by (auto simp: preconditions_met_def)
  moreover have "s_items ?s2 key = None" by simp
  ultimately show ?thesis unfolding f1(1) f2(1) by blast
qed

theorem delete_precondition_race_witness:
  "\<exists>s' t. (conf_step ^^ 4) (sample_store,
      [REST_Delete plain_k8s plain_REST ''ns'' ''a'' None
         (Some (delete_options (Some \<lparr>pre_UID = None, pre_ResourceVersion = Some ''1''\<rparr>))),
       REST_Update plain_k8s plain_validators plain_REST ''ns'' ''a'' (put (image_task ''x'')) None None False None])
      (s', [Done (Ok (TaskObj t, True)), Done (Ok (TaskObj t, False))])
    \<and> \<not> preconditions_met (Some \<lparr>pre_UID = None, pre_ResourceVersion = Some ''1''\<rparr>) (t_ObjectMeta t)"
proof -
  let ?pre = "\<lparr>pre_UID = None, pre_ResourceVersion = Some ''1''\<rparr>"
  have c: "store_counter sample_store < max_rv" by (simp add: store_counter_def max_rv_def)
  have i: "s_items sample_store sample_key = Some (TaskObj sample_task)" by simp
  have d: "do_Preconditions (delete_options (Some ?pre)) = Some ?pre" by (simp add: delete_options_def)
  have v: "pre_ResourceVersion ?pre = Some (om_ResourceVersion (t_ObjectMeta sample_task))" by simp
  have m: "preconditions_met (Some ?pre) (t_ObjectMeta sample_task)" by (simp add: preconditions_met_def)
  have p: "passes plain_k8s (Strategy_update plain_validators (r_strategy plain_REST)) ''ns'' (put (image_task ''x''))
        sample_task (set_generation 2 (image_task ''x''))"
    by (rule image_task_passes) simp_all
  from delete_precondition_race [OF sample_simps(4) sample_simps(4) i sample_store_inv c d v m p]
  show ?thesis by blast
qed

text \<open>A handler that is not interrupted does exactly what it does in the sequential
  model: running it alone is one of the interleavings, step by step, whatever order the
  runtime ranges over maps in.\<close>

lemma alone_is_an_interleaving:
  assumes "\<And>s. finite (dom (s_items s)) \<Longrightarrow> range_order s (ord s)" "finite (dom (s_items s))"
  shows "\<exists>n. (conf_step ^^ n) (s, [handler K V A req])
    (snd (exec ord (handler K V A req) s), [Done (fst (exec ord (handler K V A req) s))])"
proof -
  let ?R = "\<lambda>(s, p) (s', p'). thread_step s p s' p'"
  have "(conf_step ^^ n) (s, [p]) (s', [p'])" if "(?R ^^ n) (s, p) (s', p')" for n s p s' p'
    using that
  proof (induction n arbitrary: s' p')
    case (Suc n)
    then obtain s1 p1 where "(?R ^^ n) (s, p) (s1, p1)" "thread_step s1 p1 s' p'"
      by (auto elim: relpowp_Suc_E)
    with Suc.IH conf_step.intros [of 0 "[p1]" s1 s' p'] show ?case by (auto intro: relpowp_Suc_I)
  qed simp
  then show ?thesis using exec_thread_steps [OF assms] by blast
qed

end
