(* ===== verification/Liveness.thy ===== *)
theory Liveness
  imports Concurrency
begin

section \<open>Every request is answered\<close>

text \<open>
  Handlers wait for nothing but the store's lock, and call the store at most twice. So however
  requests interleave, all of them are answered after a bounded number of steps, and until
  then one of them can go on.
\<close>

primrec calls_within :: "'a prog \<Rightarrow> nat \<Rightarrow> bool" where
  "calls_within (Done x) n \<longleftrightarrow> True"
| "calls_within (CallGet k f) n \<longleftrightarrow> 0 < n \<and> (\<forall>r. calls_within (f r) (n - 1))"
| "calls_within (CallList ns f) n \<longleftrightarrow> 0 < n \<and> (\<forall>r. calls_within (f r) (n - 1))"
| "calls_within (CallCurrentRV f) n \<longleftrightarrow> 0 < n \<and> (\<forall>r. calls_within (f r) (n - 1))"
| "calls_within (CallCreate k obj f) n \<longleftrightarrow> 0 < n \<and> (\<forall>r. calls_within (f r) (n - 1))"
| "calls_within (CallUpdate k obj f) n \<longleftrightarrow> 0 < n \<and> (\<forall>r. calls_within (f r) (n - 1))"
| "calls_within (CallDelete k f) n \<longleftrightarrow> 0 < n \<and> (\<forall>r. calls_within (f r) (n - 1))"

lemma calls_within_on_ok [simp]:
  "calls_within (on_ok r f) n \<longleftrightarrow> (\<forall>x. r = Ok x \<longrightarrow> calls_within (f x) n)"
  by (cases r) simp_all

lemma calls_within_map [simp]: "calls_within (map_prog h p) n = calls_within p n"
  by (induction p arbitrary: n) simp_all

lemma updateOnStore_two_calls:
  "calls_within (updateOnStore K V ctx name info cv uv force opts cs us gr) 2"
  by (auto simp: updateOnStore_def Let_def split: outcome.split)

lemma handler_two_calls: "calls_within (handler K V A req) 2"
  by (cases req) (auto simp: REST_Get_def REST_List_def REST_Watch_def REST_Create_def REST_Delete_def
      REST_Update_def StatusREST_Get_def StatusREST_Update_def updateOnStore_two_calls Let_def)

lemma thread_step_calls:
  "thread_step s p s' p' \<Longrightarrow> calls_within p n \<Longrightarrow> 0 < n \<and> calls_within p' (n - 1)"
  by (induction rule: thread_step.induct) auto

text \<open>How many calls the threads of a configuration have left at most.\<close>

definition budget :: "'a prog list \<Rightarrow> nat list \<Rightarrow> bool" where
  "budget ps ns \<longleftrightarrow> list_all2 calls_within ps ns"

lemma conf_step_budget:
  assumes "conf_step (s, ps) (s', ps')" "budget ps ns"
  obtains ns' where "budget ps' ns'" "sum_list ns = Suc (sum_list ns')"
proof -
  from assms(1) obtain i p' where i: "i < length ps" "thread_step s (ps ! i) s' p'" "ps' = ps[i := p']"
    by (rule conf_stepE)
  have len: "length ns = length ps" using assms(2) by (simp add: budget_def list_all2_lengthD)
  have c: "0 < ns ! i" "calls_within p' (ns ! i - 1)"
    using thread_step_calls [OF i(2), of "ns ! i"] assms(2) i(1) len
    by (simp_all add: budget_def list_all2_conv_all_nth)
  have "budget ps' (ns[i := ns ! i - 1])"
    using assms(2) c(2) unfolding i(3) budget_def by (rule list_all2_update_cong)
  moreover have "ns ! i \<le> sum_list ns" using i(1) len by (simp add: member_le_sum_list)
  then have "sum_list ns = Suc (sum_list (ns[i := ns ! i - 1]))"
    using c(1) i(1) len by (simp add: sum_list_update)
  ultimately show thesis by (rule that)
qed

lemma conf_steps_budget:
  assumes "(conf_step ^^ n) (s, ps) (s', ps')" "budget ps ns"
  shows "\<exists>ns'. budget ps' ns' \<and> sum_list ns = n + sum_list ns'"
  using assms
proof (induction n arbitrary: s' ps')
  case 0
  then show ?case by auto
next
  case (Suc n)
  then obtain s1 ps1 where st: "(conf_step ^^ n) (s, ps) (s1, ps1)" "conf_step (s1, ps1) (s', ps')"
    by (auto elim: relpowp_Suc_E)
  from Suc.IH [OF st(1) Suc.prems(2)] obtain ns1 where n1: "budget ps1 ns1" "sum_list ns = n + sum_list ns1" by blast
  from conf_step_budget [OF st(2) n1(1)] obtain ns2 where "budget ps' ns2" "sum_list ns1 = Suc (sum_list ns2)" .
  with n1(2) show ?case by (intro exI [of _ ns2]) simp
qed

text \<open>The map stays finite, so it can be ranged over and a call can always be made.\<close>

lemma store_op_finite: "finite (dom (s_items s)) \<Longrightarrow> finite (dom (s_items (apply_op opn s)))"
proof (cases opn)
  case (OpCreate k obj)
  assume "finite (dom (s_items s))"
  with OpCreate show ?thesis by (cases "s_items s k"; cases "object_meta obj") (auto simp: store_rules)
next
  case (OpUpdate k obj)
  assume "finite (dom (s_items s))"
  with OpUpdate show ?thesis by (cases "s_items s k"; cases "object_meta obj") (auto simp: store_rules)
next
  case (OpDelete k)
  assume "finite (dom (s_items s))"
  with OpDelete show ?thesis by (cases "s_items s k") (auto simp: store_rules)
qed simp_all

lemma conf_steps_finite:
  "(conf_step ^^ n) (s, ps) (s', ps') \<Longrightarrow> finite (dom (s_items s)) \<Longrightarrow> finite (dom (s_items s'))"
proof (induction n arbitrary: s' ps')
  case (Suc n)
  then obtain s1 ps1 where st: "(conf_step ^^ n) (s, ps) (s1, ps1)" "conf_step (s1, ps1) (s', ps')"
    by (auto elim: relpowp_Suc_E)
  with Suc conf_step_store [OF st(2)] store_op_finite [of s1] show ?case by (auto simp: store_step_def)
qed simp

lemma thread_enabled:
  assumes "finite (dom (s_items s))" "\<nexists>x. p = Done x"
  shows "\<exists>s' p'. thread_step s p s' p'"
  using assms range_order_sorted [OF assms(1)] by (cases p) (blast intro: thread_step.intros)+

text \<open>From any configuration with a budget the threads can be run to their ends.\<close>

lemma complete_run:
  "budget ps ns \<Longrightarrow> finite (dom (s_items s)) \<Longrightarrow>
     \<exists>m s' xs. (conf_step ^^ m) (s, ps) (s', map Done xs) \<and> m \<le> sum_list ns"
proof (induction "sum_list ns" arbitrary: s ps ns rule: less_induct)
  case less
  show ?case
  proof (cases "\<forall>p \<in> set ps. \<exists>x. p = Done x")
    case True
    then obtain xs where "ps = map Done xs" by (auto simp: ex_map_conv [symmetric])
    then show ?thesis by (intro exI [of _ 0] exI [of _ s] exI [of _ xs]) simp
  next
    case False
    then obtain i where i: "i < length ps" "\<nexists>x. ps ! i = Done x" by (auto simp: in_set_conv_nth)
    from thread_enabled [OF less.prems(2) i(2)] obtain s1 p1 where "thread_step s (ps ! i) s1 p1" by blast
    then have st: "conf_step (s, ps) (s1, ps[i := p1])" by (rule conf_step.intros [OF i(1)])
    from conf_step_budget [OF st less.prems(1)] obtain ns1 where
      n1: "budget (ps[i := p1]) ns1" "sum_list ns = Suc (sum_list ns1)" .
    have "finite (dom (s_items s1))" by (rule conf_steps_finite [where n = 1, unfolded relpowp_1, OF st less.prems(2)])
    from less.hyps [OF _ n1(1) this] n1(2) obtain m s' xs where
      "(conf_step ^^ m) (s1, ps[i := p1]) (s', map Done xs)" "m \<le> sum_list ns1" by auto
    then have "(conf_step ^^ Suc m) (s, ps) (s', map Done xs)" "Suc m \<le> sum_list ns"
      using st n1(2) by (auto intro: relpowp_Suc_I2 simp del: relpowp.simps)
    then show ?thesis by blast
  qed
qed

lemma infinite_run_prefix: "\<forall>i. R (f i) (f (Suc i)) \<Longrightarrow> (R ^^ n) (f 0) (f n)"
  by (induction n) auto

lemma handlers_budget: "budget (map (handler K V A) reqs) (replicate (length reqs) 2)"
  by (simp add: budget_def list_all2_conv_all_nth handler_two_calls)

subsection \<open>Properties\<close>

text \<open>C7. Serving requests terminates. No set of concurrent requests has an infinite run, whatever the
  store holds; and wherever a run stands, it can be brought to an end in which every request
  has its answer, with at most two store calls per request in all.\<close>

theorem requests_terminate:
  assumes "(conf_step ^^ n) (s0, map (handler K V A) reqs) (s, ps)" "finite (dom (s_items s0))"
  shows "(\<nexists>f. f 0 = (s, ps) \<and> (\<forall>i. conf_step (f i) (f (Suc i))))
    \<and> (\<exists>m s' resps. (conf_step ^^ m) (s, ps) (s', map Done resps) \<and> n + m \<le> 2 * length reqs)"
proof (intro conjI notI)
  obtain ns where ns: "budget ps ns" "2 * length reqs = n + sum_list ns"
    using conf_steps_budget [OF assms(1) handlers_budget] by (auto simp: sum_list_replicate)
  have fin: "finite (dom (s_items s))" by (rule conf_steps_finite [OF assms])
  show "\<exists>m s' resps. (conf_step ^^ m) (s, ps) (s', map Done resps) \<and> n + m \<le> 2 * length reqs"
    using complete_run [OF ns(1) fin] ns(2) by auto
  assume "\<exists>f. f 0 = (s, ps) \<and> (\<forall>i. conf_step (f i) (f (Suc i)))"
  then obtain f where f: "f 0 = (s, ps)" "\<forall>i. conf_step (f i) (f (Suc i))" by blast
  obtain s' ps' where "f (Suc (sum_list ns)) = (s', ps')" by fastforce
  then have "(conf_step ^^ Suc (sum_list ns)) (s, ps) (s', ps')" using infinite_run_prefix [where R = conf_step and f = f and n = "Suc (sum_list ns)"] f by simp
  from conf_steps_budget [OF this ns(1)] show False by auto
qed

text \<open>One create is served by one call.\<close>

lemma one_create_run:
  "(conf_step ^^ 1) (Store_New (Resource ''tasks''), map (handler plain_k8s plain_validators plain_api)
       [CreateReq ''ns'' (newTask ''ns'' ''b'' ''alpine'') None None])
     (snd (Store_Create (Key ''ns'' ''b'') (TaskObj created_sample) (Store_New (Resource ''tasks''))),
      [Done (ObjectResp (fst (Store_Create (Key ''ns'' ''b'') (TaskObj created_sample) (Store_New (Resource ''tasks'')))))])"
proof -
  let ?s = "Store_New (Resource ''tasks'')" and ?k = "Key ''ns'' ''b''"
  have p: "map (handler plain_k8s plain_validators plain_api) [CreateReq ''ns'' (newTask ''ns'' ''b'' ''alpine'') None None]
      = [CallCreate ?k (TaskObj created_sample) (\<lambda>r. Done (ObjectResp r))]"
    by (simp add: plain_api_def plain_create_prog comp_def)
  show ?thesis
    unfolding p relpowp_1
    by (rule conf_step_nth [of 0])
      (use step_create [of ?s ?k "TaskObj created_sample" "\<lambda>r. Done (ObjectResp r)"] in simp_all)
qed

theorem requests_terminate_witness:
  "\<exists>s ps. (conf_step ^^ 1) (Store_New (Resource ''tasks''), map (handler plain_k8s plain_validators plain_api)
       [CreateReq ''ns'' (newTask ''ns'' ''b'' ''alpine'') None None]) (s, ps)
     \<and> (\<nexists>f. f 0 = (s, ps) \<and> (\<forall>i. conf_step (f i) (f (Suc i))))"
proof -
  have "finite (dom (s_items (Store_New (Resource ''tasks''))))" by (simp add: Store_New_def)
  from requests_terminate [OF one_create_run this] one_create_run show ?thesis by blast
qed

end
