(* ===== verification/Serializability.thy ===== *)
theory Serializability
  imports Liveness
begin

section \<open>Concurrent requests that are equivalent to a sequence\<close>

text \<open>
  A handler reads in one critical section and writes in another. That is harmless as long as
  nobody writes the key it has read in between: then the whole handler might as well have run
  at the moment of its last store call. This theory makes that precise, for requests that do
  not interfere, and shows what becomes of a list, whose two calls are disturbed by any write.
\<close>

subsection \<open>What a program reads and writes\<close>

primrec is_Done :: "'a prog \<Rightarrow> bool" where
  "is_Done (Done x) \<longleftrightarrow> True"
| "is_Done (CallGet k f) \<longleftrightarrow> False"
| "is_Done (CallList ns f) \<longleftrightarrow> False"
| "is_Done (CallCurrentRV f) \<longleftrightarrow> False"
| "is_Done (CallCreate k obj f) \<longleftrightarrow> False"
| "is_Done (CallUpdate k obj f) \<longleftrightarrow> False"
| "is_Done (CallDelete k f) \<longleftrightarrow> False"

lemma is_Done_iff: "is_Done p \<longleftrightarrow> (\<exists>x. p = Done x)"
  by (cases p) simp_all

text \<open>Keys that a program may write, and keys that it reads before its last call.\<close>

primrec writes :: "'a prog \<Rightarrow> Key set" where
  "writes (Done x) = {}"
| "writes (CallGet k f) = (\<Union>r. writes (f r))"
| "writes (CallList ns f) = (\<Union>r. writes (f r))"
| "writes (CallCurrentRV f) = (\<Union>r. writes (f r))"
| "writes (CallCreate k obj f) = insert k (\<Union>r. writes (f r))"
| "writes (CallUpdate k obj f) = insert k (\<Union>r. writes (f r))"
| "writes (CallDelete k f) = insert k (\<Union>r. writes (f r))"

primrec relies :: "'a prog \<Rightarrow> Key set" where
  "relies (Done x) = {}"
| "relies (CallGet k f) = (if \<forall>r. is_Done (f r) then {} else insert k (\<Union>r. relies (f r)))"
| "relies (CallList ns f) = (\<Union>r. relies (f r))"
| "relies (CallCurrentRV f) = (\<Union>r. relies (f r))"
| "relies (CallCreate k obj f) = (\<Union>r. relies (f r))"
| "relies (CallUpdate k obj f) = (\<Union>r. relies (f r))"
| "relies (CallDelete k f) = (\<Union>r. relies (f r))"

text \<open>Only single keys are read, and nothing comes after a write.\<close>

primrec write_last :: "'a prog \<Rightarrow> bool" where
  "write_last (Done x) \<longleftrightarrow> True"
| "write_last (CallGet k f) \<longleftrightarrow> (\<forall>r. write_last (f r))"
| "write_last (CallList ns f) \<longleftrightarrow> False"
| "write_last (CallCurrentRV f) \<longleftrightarrow> False"
| "write_last (CallCreate k obj f) \<longleftrightarrow> (\<forall>r. is_Done (f r))"
| "write_last (CallUpdate k obj f) \<longleftrightarrow> (\<forall>r. is_Done (f r))"
| "write_last (CallDelete k f) \<longleftrightarrow> (\<forall>r. is_Done (f r))"

lemma on_ok_sets [simp]:
  "is_Done (on_ok r f) \<longleftrightarrow> (\<forall>x. r = Ok x \<longrightarrow> is_Done (f x))"
  "write_last (on_ok r f) \<longleftrightarrow> (\<forall>x. r = Ok x \<longrightarrow> write_last (f x))"
  "k \<in> writes (on_ok r f) \<longleftrightarrow> (\<exists>x. r = Ok x \<and> k \<in> writes (f x))"
  "k \<in> relies (on_ok r f) \<longleftrightarrow> (\<exists>x. r = Ok x \<and> k \<in> relies (f x))"
  by (cases r; simp)+

lemma case_sets:
  "k \<in> writes (case r of Ok x \<Rightarrow> f x | Err e \<Rightarrow> g e | Panic p \<Rightarrow> h p) \<longleftrightarrow>
     (\<exists>x. r = Ok x \<and> k \<in> writes (f x)) \<or> (\<exists>e. r = Err e \<and> k \<in> writes (g e)) \<or> (\<exists>p. r = Panic p \<and> k \<in> writes (h p))"
  "k \<in> relies (case r of Ok x \<Rightarrow> f x | Err e \<Rightarrow> g e | Panic p \<Rightarrow> h p) \<longleftrightarrow>
     (\<exists>x. r = Ok x \<and> k \<in> relies (f x)) \<or> (\<exists>e. r = Err e \<and> k \<in> relies (g e)) \<or> (\<exists>p. r = Panic p \<and> k \<in> relies (h p))"
  by (cases r; simp)+

lemma is_Done_map [simp]: "is_Done (map_prog h p) = is_Done p"
  by (cases p) simp_all

lemma map_sets [simp]:
  "writes (map_prog h p) = writes p" "relies (map_prog h p) = relies p" "write_last (map_prog h p) = write_last p"
  by (induction p) simp_all

lemma Done_sets: "is_Done p \<Longrightarrow> writes p = {} \<and> relies p = {} \<and> write_last p"
  by (cases p) simp_all

subsection \<open>Steps at other keys do not matter\<close>

definition same_at :: "Key \<Rightarrow> store \<Rightarrow> store \<Rightarrow> bool" where
  "same_at k s s' \<longleftrightarrow> s_items s' k = s_items s k \<and> s_gr s' = s_gr s"

lemma same_at_Get: "same_at k s s' \<Longrightarrow> Store_Get k s' = Store_Get k s"
  by (cases "s_items s k") (simp_all add: same_at_def store_rules)

lemma store_ops_same_at:
  "k' \<noteq> k \<Longrightarrow> same_at k' s (snd (Store_Create k obj s))" "k' \<noteq> k \<Longrightarrow> same_at k' s (snd (Store_Update k obj s))"
  "k' \<noteq> k \<Longrightarrow> same_at k' s (snd (Store_Delete k s))"
  by (cases "s_items s k"; cases "object_meta obj"; simp add: store_rules same_at_def)+

lemma thread_step_same_at: "thread_step s p s' p' \<Longrightarrow> k \<notin> writes p \<Longrightarrow> same_at k s s'"
  by (induction rule: thread_step.induct) (auto simp: same_at_def intro!: store_ops_same_at [unfolded same_at_def])

lemma thread_step_sets:
  "thread_step s p s' p' \<Longrightarrow> write_last p \<Longrightarrow>
     write_last p' \<and> writes p' \<subseteq> writes p \<and> relies p' \<subseteq> relies p \<and> exec ord p' s' = exec ord p s"
  by (induction rule: thread_step.induct) (auto dest: Done_sets split: if_splits)

lemma thread_step_get:
  "thread_step s p s' p' \<Longrightarrow> write_last p \<Longrightarrow> \<not> is_Done p' \<Longrightarrow>
     \<exists>k f. p = CallGet k f \<and> s' = s \<and> p' = f (Store_Get k s) \<and> k \<in> relies p"
  by (induction rule: thread_step.induct) (auto split: if_splits)

subsection \<open>One after the other\<close>

fun one_by_one :: "(store \<Rightarrow> Key list) \<Rightarrow> 'a prog list \<Rightarrow> store \<Rightarrow> 'a list \<times> store" where
  "one_by_one ord [] s = ([], s)"
| "one_by_one ord (p # ps) s =
     (let (x, s) = exec ord p s; (xs, s) = one_by_one ord ps s in (x # xs, s))"

lemma one_by_one_snoc:
  "one_by_one ord (ps @ [p]) s =
     (let (xs, s) = one_by_one ord ps s; (x, s) = exec ord p s in (xs @ [x], s))"
  by (induction ps arbitrary: s) (simp_all add: Let_def split: prod.split)

lemma one_by_one_Done: "one_by_one ord (map Done xs) s = (xs, s)"
  by (induction xs) simp_all

lemma serve_one_by_one: "serve ord K V A reqs s = snd (one_by_one ord (map (handler K V A) reqs) s)"
  by (induction reqs arbitrary: s) (simp_all add: Let_def split: prod.split)

subsection \<open>The simulation\<close>

text \<open>
  \<open>on_time\<close>: what is left of a handler does now what the whole handler would do now, and would do
  in any store that agrees on the keys it relies on.
\<close>

definition on_time :: "(store \<Rightarrow> Key list) \<Rightarrow> store \<Rightarrow> 'a prog \<Rightarrow> 'a prog \<Rightarrow> bool" where
  "on_time ord s p h \<longleftrightarrow> (\<forall>s'. (\<forall>k \<in> relies h. same_at k s s') \<longrightarrow> exec ord p s' = exec ord h s')"

lemma on_time_now: "on_time ord s p h \<Longrightarrow> exec ord p s = exec ord h s"
  by (simp add: on_time_def same_at_def)

lemma on_time_other:
  assumes "on_time ord s p h" "\<forall>k \<in> relies h. same_at k s s1"
  shows "on_time ord s1 p h"
  using assms by (auto simp: on_time_def same_at_def)

lemma on_time_get:
  assumes "on_time ord s (CallGet k f) h" "k \<in> relies h"
  shows "on_time ord s (f (Store_Get k s)) h"
  using assms same_at_Get [of k s] by (fastforce simp: on_time_def)

definition interference_free :: "'a prog list \<Rightarrow> bool" where
  "interference_free hs \<longleftrightarrow>
     (\<forall>i < length hs. \<forall>j < length hs. i \<noteq> j \<longrightarrow> relies (hs ! i) \<inter> writes (hs ! j) = {})"

text \<open>A handler \<open>h\<close> under way, of which \<open>p\<close> is left.\<close>

definition under_way :: "(store \<Rightarrow> Key list) \<Rightarrow> store \<Rightarrow> 'a prog \<Rightarrow> 'a prog \<Rightarrow> bool" where
  "under_way ord s p h \<longleftrightarrow>
     write_last p \<and> writes p \<subseteq> writes h \<and> relies p \<subseteq> relies h \<and> on_time ord s p h"

lemma under_way_step:
  assumes "under_way ord s p h" "thread_step s p s1 p1"
  shows "exec ord p1 s1 = exec ord h s" and "\<not> is_Done p1 \<Longrightarrow> under_way ord s1 p1 h"
proof -
  have p: "write_last p" "writes p \<subseteq> writes h" "relies p \<subseteq> relies h" "on_time ord s p h"
    using assms(1) by (simp_all add: under_way_def)
  note sets = thread_step_sets [OF assms(2) p(1), of ord]
  show "exec ord p1 s1 = exec ord h s" using sets on_time_now [OF p(4)] by simp
  assume "\<not> is_Done p1"
  from thread_step_get [OF assms(2) p(1) this] obtain k f where
    "p = CallGet k f" "s1 = s" "p1 = f (Store_Get k s)" "k \<in> relies p" by blast
  then have "on_time ord s1 p1 h" using on_time_get [of ord s k f h] p(3,4) by blast
  with sets p(2,3) show "under_way ord s1 p1 h" by (auto simp: under_way_def)
qed

text \<open>A step of another thread that writes nothing the handler relies on leaves it under way.\<close>

lemma under_way_other:
  assumes "under_way ord s p h" "thread_step s q s1 q1" "writes q \<subseteq> writes h'" "relies h \<inter> writes h' = {}"
  shows "under_way ord s1 p h"
proof -
  have "\<forall>k \<in> relies h. same_at k s s1" using thread_step_same_at [OF assms(2)] assms(3,4) by blast
  then show ?thesis using assms(1) on_time_other unfolding under_way_def by blast
qed

text \<open>
  The simulation relation: \<open>ix\<close> lists the threads that are done in the order in which they got
  there, and running their handlers in this order gives their results and the present store.
\<close>

definition simulates ::
    "(store \<Rightarrow> Key list) \<Rightarrow> 'a prog list \<Rightarrow> store \<Rightarrow> nat list \<Rightarrow> 'a config \<Rightarrow> bool" where
  "simulates ord hs s0 ix c \<longleftrightarrow>
     (case c of (s, ps) \<Rightarrow>
        length ps = length hs \<and> distinct ix \<and> set ix = {i. i < length hs \<and> is_Done (ps ! i)}
        \<and> (\<exists>xs. one_by_one ord (map (\<lambda>i. hs ! i) ix) s0 = (xs, s) \<and> map (\<lambda>i. ps ! i) ix = map Done xs)
        \<and> (\<forall>i < length hs. \<not> is_Done (ps ! i) \<longrightarrow> under_way ord s (ps ! i) (hs ! i)))"

lemma simulates_start:
  assumes "list_all write_last hs"
  shows "\<exists>ix. simulates ord hs s ix (s, hs)"
proof -
  let ?ix = "filter (\<lambda>i. is_Done (hs ! i)) [0..<length hs]"
  have "\<exists>xs. map (\<lambda>i. hs ! i) ?ix = map Done xs"
    by (rule exI [of _ "map (\<lambda>i. THE x. hs ! i = Done x) ?ix"]) (auto simp: is_Done_iff)
  then obtain xs where xs: "map (\<lambda>i. hs ! i) ?ix = map Done xs" ..
  have "simulates ord hs s ?ix (s, hs)"
    using assms unfolding simulates_def prod.case xs one_by_one_Done
    by (auto simp: list_all_length on_time_def under_way_def)
  then show ?thesis by blast
qed

lemma simulates_step:
  assumes sim: "simulates ord hs s0 ix (s, ps)" and free: "interference_free hs" and st: "conf_step (s, ps) (s1, ps1)"
  shows "\<exists>ix1. simulates ord hs s0 ix1 (s1, ps1)"
proof -
  from st obtain i p1 where i: "i < length ps" "thread_step s (ps ! i) s1 p1" and ps1: "ps1 = ps[i := p1]"
    by (rule conf_stepE)
  have len: "length ps = length hs" "distinct ix" and ix: "set ix = {i. i < length hs \<and> is_Done (ps ! i)}"
    and inv: "\<And>j. j < length hs \<Longrightarrow> \<not> is_Done (ps ! j) \<Longrightarrow> under_way ord s (ps ! j) (hs ! j)"
    using sim unfolding simulates_def prod.case by blast+
  from sim obtain xs where xs: "one_by_one ord (map (\<lambda>i. hs ! i) ix) s0 = (xs, s)" "map (\<lambda>i. ps ! i) ix = map Done xs"
    unfolding simulates_def prod.case by blast
  have nd: "\<not> is_Done (ps ! i)" using i(2) by (auto simp: is_Done_iff)
  then have ni: "i \<notin> set ix" using ix by simp
  then have "map (\<lambda>i. ps1 ! i) ix = map (\<lambda>i. ps ! i) ix" unfolding ps1 by (intro map_cong refl) (metis nth_list_update_neq)
  then have xs1: "map (\<lambda>i. ps1 ! i) ix = map Done xs" using xs(2) by simp
  have own: "under_way ord s (ps ! i) (hs ! i)" using inv nd i(1) len(1) by simp
  then have w: "writes (ps ! i) \<subseteq> writes (hs ! i)" by (simp add: under_way_def)
  have others: "under_way ord s1 (ps1 ! j) (hs ! j)" if "j < length hs" "j \<noteq> i" "\<not> is_Done (ps1 ! j)" for j
    using under_way_other [OF _ i(2) w, of ord "ps ! j" "hs ! j"] inv [of j] free i(1) len(1) that
    by (simp add: ps1 interference_free_def)
  show ?thesis
  proof (cases "is_Done p1")
    case True
    then obtain x where x: "p1 = Done x" by (auto simp: is_Done_iff)
    then have "exec ord (hs ! i) s = (x, s1)" using under_way_step(1) [OF own i(2)] by simp
    then have "one_by_one ord (map (\<lambda>i. hs ! i) (ix @ [i])) s0 = (xs @ [x], s1)"
      using xs(1) by (simp add: one_by_one_snoc)
    moreover have "map (\<lambda>i. ps1 ! i) (ix @ [i]) = map Done (xs @ [x])"
      using xs1 i(1) by (simp add: ps1 x)
    moreover have "set (ix @ [i]) = {j. j < length hs \<and> is_Done (ps1 ! j)}"
      using ix i(1) len(1) by (auto simp: ps1 x nth_list_update)
    moreover have "distinct (ix @ [i])" using len(2) ni by simp
    moreover have "length ps1 = length hs" using len(1) by (simp add: ps1)
    moreover have "under_way ord s1 (ps1 ! j) (hs ! j)" if "j < length hs" "\<not> is_Done (ps1 ! j)" for j
      using others [of j] that i(1) by (cases "j = i") (simp_all add: ps1 x)
    ultimately have "simulates ord hs s0 (ix @ [i]) (s1, ps1)" unfolding simulates_def prod.case by blast
    then show ?thesis by blast
  next
    case False
    have "s1 = s"
      using thread_step_get [OF i(2) _ False] own by (auto simp: under_way_def)
    then have "one_by_one ord (map (\<lambda>i. hs ! i) ix) s0 = (xs, s1)" using xs(1) by simp
    moreover have "set ix = {j. j < length hs \<and> is_Done (ps1 ! j)}"
      using ix i(1) nd False by (auto simp: ps1 nth_list_update)
    moreover have "length ps1 = length hs" using len(1) by (simp add: ps1)
    moreover have "under_way ord s1 (ps1 ! j) (hs ! j)" if "j < length hs" "\<not> is_Done (ps1 ! j)" for j
      using others [of j] that under_way_step(2) [OF own i(2) False] i(1) by (cases "j = i") (simp_all add: ps1)
    ultimately have "simulates ord hs s0 ix (s1, ps1)"
      using len(2) xs1 unfolding simulates_def prod.case by blast
    then show ?thesis by blast
  qed
qed

lemma simulates_steps:
  assumes "(conf_step ^^ n) (s0, hs) (s, ps)" "list_all write_last hs" "interference_free hs"
  shows "\<exists>ix. simulates ord hs s0 ix (s, ps)"
  using assms(1)
proof (induction n arbitrary: s ps)
  case 0
  then show ?case using simulates_start [OF assms(2)] by simp
next
  case (Suc n)
  from Suc.prems obtain s1 ps1 where st: "(conf_step ^^ n) (s0, hs) (s1, ps1)" "conf_step (s1, ps1) (s, ps)"
    by (auto elim: relpowp_Suc_E)
  from Suc.IH [OF st(1)] obtain ix where "simulates ord hs s0 ix (s1, ps1)" ..
  from simulates_step [OF this assms(3) st(2)] show ?case .
qed

text \<open>For programs in general: a run that has come to its end is a sequence.\<close>

lemma interference_free_serializable:
  assumes "(conf_step ^^ n) (s0, hs) (s, map Done xs)" "list_all write_last hs" "interference_free hs"
  obtains ix where "mset ix = mset [0..<length hs]"
    "one_by_one ord (map (\<lambda>i. hs ! i) ix) s0 = (map (\<lambda>i. xs ! i) ix, s)"
proof -
  from simulates_steps [OF assms, of ord] obtain ix where sim: "simulates ord hs s0 ix (s, map Done xs)" ..
  then have ix: "length xs = length hs" "distinct ix" "set ix = {i. i < length hs \<and> is_Done (map Done xs ! i)}"
    by (simp_all add: simulates_def)
  from sim obtain ys where
    ys: "one_by_one ord (map (\<lambda>i. hs ! i) ix) s0 = (ys, s)" "map (\<lambda>i. map Done xs ! i) ix = map Done ys"
    by (auto simp: simulates_def)
  have "is_Done (map Done xs ! i)" if "i < length hs" for i using that ix(1) by simp
  then have set: "set ix = set [0..<length hs]" unfolding ix(3) by fastforce
  then have "mset ix = mset [0..<length hs]" using ix(2) set_eq_iff_mset_eq_distinct [of ix "[0..<length hs]"] by simp
  moreover have "map (\<lambda>i. map Done xs ! i) ix = map (\<lambda>i. Done (xs ! i)) ix"
    by (rule map_cong [OF refl]) (use ix(1) set in simp)
  then have "map Done ys = map Done (map (\<lambda>i. xs ! i) ix)"
    using ys(2) by (simp only: map_map comp_def)
  moreover have "inj Done" by (simp add: inj_def)
  ultimately have "mset ix = mset [0..<length hs]" "ys = map (\<lambda>i. xs ! i) ix"
    using inj_map_eq_map by blast+
  with ys(1) show thesis by (intro that) simp_all
qed

subsection \<open>Requests\<close>

text \<open>The key that a request reads and then writes.\<close>

fun modifies :: "'ctx k8s \<Rightarrow> 'ctx request \<Rightarrow> Key option" where
  "modifies K (UpdateReq ctx name info cv uv force opts) = Some (Key (fst (x_NamespaceFrom K ctx)) name)"
| "modifies K (DeleteReq ctx name dv opts) = Some (Key (fst (x_NamespaceFrom K ctx)) name)"
| "modifies K (StatusUpdateReq ctx name info cv uv force opts) = Some (Key (fst (x_NamespaceFrom K ctx)) name)"
| "modifies K _ = None"

fun is_list :: "'ctx request \<Rightarrow> bool" where
  "is_list (ListReq ctx opts) = True"
| "is_list _ = False"

lemma updateOnStore_sets:
  "write_last (updateOnStore K V ctx name info cv uv force opts cs us gr)"
  "writes (updateOnStore K V ctx name info cv uv force opts cs us gr) \<subseteq> {Key (fst (x_NamespaceFrom K ctx)) name}"
  "relies (updateOnStore K V ctx name info cv uv force opts cs us gr) \<subseteq> {Key (fst (x_NamespaceFrom K ctx)) name}"
  subgoal by (auto simp: updateOnStore_def Let_def split: outcome.split)
  subgoal by (auto simp: updateOnStore_def Let_def keyFromContext_Ok_iff case_sets split: if_split_asm)
  subgoal by (auto simp: updateOnStore_def Let_def keyFromContext_Ok_iff case_sets split: if_split_asm)
  done

lemma delete_relies: "relies (REST_Delete K r ctx name dv opts) \<subseteq> {Key (fst (x_NamespaceFrom K ctx)) name}"
  by (auto simp: REST_Delete_def keyFromContext_Ok_iff split: if_split_asm)

lemma handler_write_last: "\<not> is_list req \<Longrightarrow> write_last (handler K V A req)"
  by (cases req) (simp_all add: REST_Get_def REST_Watch_def REST_Create_def REST_Delete_def REST_Update_def
      StatusREST_Get_def StatusREST_Update_def Let_def updateOnStore_sets(1))

lemma handler_relies: "\<not> is_list req \<Longrightarrow> relies (handler K V A req) \<subseteq> set_option (modifies K req)"
proof (cases req)
  case (DeleteReq ctx name dv opts)
  then show ?thesis using delete_relies by simp
next
  case (UpdateReq ctx name info cv uv force opts)
  then show ?thesis using updateOnStore_sets(3) by (simp add: REST_Update_def)
next
  case (StatusUpdateReq ctx name info cv uv force opts)
  then show ?thesis using updateOnStore_sets(3) by (simp add: StatusREST_Update_def)
qed (auto simp: REST_Get_def REST_Watch_def REST_Create_def StatusREST_Get_def Let_def)

lemma handler_writes_modified:
  "modifies K req = Some k \<Longrightarrow> writes (handler K V A req) \<subseteq> {k}"
  by (cases req; auto simp: REST_Delete_def REST_Update_def StatusREST_Update_def keyFromContext_Ok_iff
      dest!: subsetD [OF updateOnStore_sets(2)] split: outcome.split_asm)

text \<open>C12. Requests that do not interfere are served as if one after the other. Take any number of
  gets, creates, updates, status updates, deletes and watches, such that no request writes the
  task that another one updates or deletes. However their store calls interleave, the answers and
  the final store are those of serving the same requests one at a time, in some order.\<close>

theorem independent_requests_serialize:
  assumes "(conf_step ^^ n) (s0, map (handler K V A) reqs) (s, map Done resps)"
    and "\<forall>req \<in> set reqs. \<not> is_list req"
    and "\<And>i j k. i < length reqs \<Longrightarrow> j < length reqs \<Longrightarrow> i \<noteq> j \<Longrightarrow> modifies K (reqs ! i) = Some k \<Longrightarrow>
           k \<notin> writes (handler K V A (reqs ! j))"
  shows "\<exists>ix. mset ix = mset [0..<length reqs]
    \<and> one_by_one ord (map (\<lambda>i. handler K V A (reqs ! i)) ix) s0 = (map (\<lambda>i. resps ! i) ix, s)"
proof -
  let ?hs = "map (handler K V A) reqs"
  have last: "list_all write_last ?hs" using assms(2) by (auto simp: list_all_iff intro!: handler_write_last)
  have free: "interference_free ?hs"
    unfolding interference_free_def
  proof (intro allI impI)
    fix i j
    assume ij: "i < length ?hs" "j < length ?hs" "i \<noteq> j"
    then have "relies (?hs ! i) \<subseteq> set_option (modifies K (reqs ! i))"
      using assms(2) handler_relies [of "reqs ! i" K V A] by simp
    moreover have "k \<notin> writes (?hs ! j)" if "modifies K (reqs ! i) = Some k" for k
      using assms(3) [OF _ _ ij(3) that] ij(1,2) by simp
    ultimately show "relies (?hs ! i) \<inter> writes (?hs ! j) = {}" by fastforce
  qed
  from interference_free_serializable [OF assms(1) last free, of ord] obtain ix where
    ix: "mset ix = mset [0..<length ?hs]" "one_by_one ord (map (\<lambda>i. ?hs ! i) ix) s0 = (map (\<lambda>i. resps ! i) ix, s)" .
  have "set ix = {..<length reqs}" using mset_eq_setD [OF ix(1)] by (simp add: atLeast0LessThan)
  then have "map (\<lambda>i. ?hs ! i) ix = map (\<lambda>i. handler K V A (reqs ! i)) ix" by (intro map_cong refl) auto
  with ix show ?thesis by auto
qed

text \<open>A create of one task between the read and the write of an update of another.\<close>

lemma create_in_update_run:
  obtains s xs where "(conf_step ^^ 3) (sample_store, map (handler plain_k8s plain_validators plain_api)
      [UpdateReq ''ns'' ''a'' (put (image_task ''x'')) None None False None,
       CreateReq ''ns'' (newTask ''ns'' ''b'' ''alpine'') None None]) (s, map Done xs)"
proof -
  let ?us = "Strategy_update plain_validators (r_strategy plain_REST) :: string update_strategy"
  let ?c = "\<lambda>r. Done (ObjectResp r)" and ?q = "TaskObj (set_generation 2 (image_task ''x''))"
  have key: "keyFromContext plain_k8s ''ns'' ''a'' (us_NamespaceScoped ?us) (r_gr plain_REST) = Ok sample_key"
    by (simp add: keyFromContext_Ok_iff sample_key_def)
  have us: "\<not> us_AllowUnconditionalUpdate ?us" by simp
  have pass: "passes plain_k8s ?us ''ns'' (put (image_task ''x'')) sample_task (set_generation 2 (image_task ''x''))"
    by (rule image_task_passes; simp)
  obtain f where f: "updateOnStore plain_k8s plain_validators ''ns'' ''a'' (put (image_task ''x'')) None None False None
        (r_strategy plain_REST) ?us (r_gr plain_REST) = CallGet sample_key f"
    "f (Ok (TaskObj sample_task)) = CallUpdate sample_key ?q reply_update"
    by (rule update_two_calls [OF key us pass])
  define g where "g = (\<lambda>r. map_prog WriteResp (f r))"
  define h where "h = (\<lambda>r. map_prog WriteResp (reply_update r))"
  have hs: "map (handler plain_k8s plain_validators plain_api)
      [UpdateReq ''ns'' ''a'' (put (image_task ''x'')) None None False None,
       CreateReq ''ns'' (newTask ''ns'' ''b'' ''alpine'') None None]
    = [CallGet sample_key g, CallCreate (Key ''ns'' ''b'') (TaskObj created_sample) ?c]"
    using f(1) by (simp add: plain_api_def plain_create_prog REST_Update_def comp_def g_def)
  have g: "g (Ok (TaskObj sample_task)) = CallUpdate sample_key ?q h"
    by (simp add: g_def f(2) h_def comp_def)
  let ?s1 = "snd (Store_Create (Key ''ns'' ''b'') (TaskObj created_sample) sample_store)"
  let ?s2 = "snd (Store_Update sample_key ?q ?s1)"
  obtain x where x: "h (fst (Store_Update sample_key ?q ?s1)) = Done x"
    by (cases "fst (Store_Update sample_key ?q ?s1)") (auto simp: h_def reply_update_def)
  let ?y = "ObjectResp (fst (Store_Create (Key ''ns'' ''b'') (TaskObj created_sample) sample_store))"
  have "conf_step (sample_store, [CallGet sample_key g, CallCreate (Key ''ns'' ''b'') (TaskObj created_sample) ?c])
      (sample_store, [CallUpdate sample_key ?q h, CallCreate (Key ''ns'' ''b'') (TaskObj created_sample) ?c])"
    by (rule left_step, rule get_step, simp, rule g)
  moreover have "conf_step (sample_store, [CallUpdate sample_key ?q h, CallCreate (Key ''ns'' ''b'') (TaskObj created_sample) ?c])
      (?s1, [CallUpdate sample_key ?q h, Done ?y])"
    by (rule right_step, rule step_create)
  moreover have "conf_step (?s1, [CallUpdate sample_key ?q h, Done ?y]) (?s2, [Done x, Done ?y])"
    unfolding x [symmetric] by (rule left_step, rule step_update)
  ultimately have "(conf_step ^^ 3) (sample_store, [CallGet sample_key g, CallCreate (Key ''ns'' ''b'') (TaskObj created_sample) ?c])
      (?s2, map Done [x, ?y])"
    unfolding numeral_3_eq_3 by auto
  then show thesis by (intro that) (simp only: hs)
qed

theorem independent_requests_serialize_witness:
  "\<exists>s xs ix. (conf_step ^^ 3) (sample_store, map (handler plain_k8s plain_validators plain_api)
      [UpdateReq ''ns'' ''a'' (put (image_task ''x'')) None None False None,
       CreateReq ''ns'' (newTask ''ns'' ''b'' ''alpine'') None None]) (s, map Done xs)
    \<and> mset ix = {#0, 1#}
    \<and> one_by_one sorted_order (map (\<lambda>i. handler plain_k8s plain_validators plain_api
        ([UpdateReq ''ns'' ''a'' (put (image_task ''x'')) None None False None,
          CreateReq ''ns'' (newTask ''ns'' ''b'' ''alpine'') None None] ! i)) ix) sample_store = (map (\<lambda>i. xs ! i) ix, s)"
proof -
  let ?reqs = "[UpdateReq ''ns'' ''a'' (put (image_task ''x'')) None None False None,
       CreateReq ''ns'' (newTask ''ns'' ''b'' ''alpine'') None None]"
  obtain s xs where run: "(conf_step ^^ 3) (sample_store, map (handler plain_k8s plain_validators plain_api) ?reqs) (s, map Done xs)"
    by (rule create_in_update_run)
  have l: "\<forall>req \<in> set ?reqs. \<not> is_list req" by simp
  have i: "k \<notin> writes (handler plain_k8s plain_validators plain_api (?reqs ! j))"
    if "i < length ?reqs" "j < length ?reqs" "i \<noteq> j" "modifies plain_k8s (?reqs ! i) = Some k" for i j k
  proof -
    have "i = 0" "j = 1" using that by (auto simp: less_Suc_eq)
    then show ?thesis using that(4) by (auto simp: plain_api_def plain_create_prog)
  qed
  have "\<exists>ix. mset ix = mset [0..<length ?reqs]
      \<and> one_by_one sorted_order (map (\<lambda>i. handler plain_k8s plain_validators plain_api (?reqs ! i)) ix) sample_store
        = (map (\<lambda>i. xs ! i) ix, s)"
    by (rule independent_requests_serialize [OF run l], rule i)
  then obtain ix where "mset ix = mset [0..<length ?reqs]"
    and ix: "one_by_one sorted_order (map (\<lambda>i. handler plain_k8s plain_validators plain_api (?reqs ! i)) ix) sample_store
        = (map (\<lambda>i. xs ! i) ix, s)" by blast
  then have "mset ix = {#0, 1#}" by (simp add: upt_rec)
  with run ix show ?thesis by blast
qed

subsection \<open>A list beside a create\<close>

lemma list_of_none:
  assumes "range_order s ks" "\<forall>k \<in> dom (s_items s). \<not> (ns = [] \<or> k_Namespace k = ns)"
  shows "Store_List ks ns s = Ok []"
proof -
  have "set (list_loop ns (s_items s) ks) = {}"
    using assms by (auto simp: set_list_loop range_order_def ns_selects_def)
  then show ?thesis by (simp add: Store_List_def)
qed

lemma REST_List_calls:
  assumes "ns = fst (x_NamespaceFrom K ctx)"
  obtains f where "REST_List K r ctx None = CallList ns f"
    "f (Ok []) = CallCurrentRV (\<lambda>rv. Done (Ok (task_list [] rv)))"
proof -
  have "REST_List K r ctx None = CallList ns (\<lambda>raw. on_ok raw (\<lambda>raw. on_ok (list_items (\<lambda>_. True) raw [] 0)
      (\<lambda>(items, maxRV). if maxRV = 0 then CallCurrentRV (\<lambda>rv. Done (Ok (task_list items rv)))
        else Done (Ok (task_list items maxRV)))))"
    by (simp add: REST_List_def namespaceFromContext_def requestNamespace_def assms Let_def split: prod.split)
  from that [OF this] show thesis by simp
qed

lemma task_list_eq [simp]: "task_list ts rv = task_list ts' rv' \<longleftrightarrow> ts = ts' \<and> rv = rv'"
proof
  assume eq: "task_list ts rv = task_list ts' rv'"
  from arg_cong [OF eq, of tl_Items] have "ts = ts'" by (simp add: task_list_def)
  moreover from arg_cong [OF eq, of "\<lambda>l. lm_ResourceVersion (tl_ListMeta l)"]
  have "FormatUint rv = FormatUint rv'" by (simp add: task_list_def formatRV_def)
  from arg_cong [OF this, of parseRVOrZero] have "rv = rv'" by simp
  ultimately show "ts = ts' \<and> rv = rv'" ..
qed simp

lemma one_by_one_two:
  "fst (one_by_one ord [p, q] s) = [fst (exec ord p s), fst (exec ord q (snd (exec ord p s)))]"
  by (simp add: split_beta)

lemma mset_two: "mset ix = {#a, b#} \<Longrightarrow> ix = [a, b] \<or> ix = [b, a]"
proof -
  assume m: "mset ix = {#a, b#}"
  then have "length ix = 2" using size_mset [of ix] by simp
  then obtain x y where "ix = [x, y]" by (auto simp: numeral_2_eq_2 length_Suc_conv)
  with m show ?thesis by (auto simp: add_eq_conv_diff)
qed

text \<open>A create that succeeds is one call.\<close>

lemma REST_Create_OkE:
  assumes "library_contract K" "fst (exec ord (REST_Create K V r ctx obj cv opts) s) = Ok (TaskObj t)"
  obtains q where "REST_Create K V r ctx obj cv opts = CallCreate (key_of q) (TaskObj q) Done"
    "Store_Create (key_of q) (TaskObj q) s = (Ok (TaskObj t), written s (key_of q) q)" "t = stamped_task s q"
proof -
  obtain q where c: "REST_Create K V r ctx obj cv opts = CallCreate (key_of q) (TaskObj q) Done"
    using REST_Create_shape [OF assms(1), of V r ctx obj cv opts] assms(2) by fastforce
  have free: "s_items s (key_of q) = None"
    using assms(2) unfolding c by (cases "s_items s (key_of q)") (simp_all add: store_rules)
  have w: "Store_Create (key_of q) (TaskObj q) s = (Ok (TaskObj (stamped_task s q)), written s (key_of q) q)"
    by (simp add: Store_Create_simps(3) [OF free, of _ "t_ObjectMeta q"] written_def)
  moreover have "t = stamped_task s q" using assms(2) unfolding c by (simp add: w)
  ultimately show thesis using c that by simp
qed

text \<open>The calls of a list of nothing around a create.\<close>

lemma list_create_run:
  assumes order: "range_order s ks" and none: "Store_List ks ns s = Ok []"
    and g: "g (Ok []) = CallCurrentRV (\<lambda>rv. Done (h rv))" and w: "Store_Create k obj s = (r, s')"
  shows "(conf_step ^^ 3) (s, [CallList ns g, CallCreate k obj (\<lambda>r. Done (c r))]) (s', [Done (h (s_rv s')), Done (c r)])"
proof -
  let ?rv = "CallCurrentRV (\<lambda>rv. Done (h rv))"
  have "conf_step (s, [CallList ns g, CallCreate k obj (\<lambda>r. Done (c r))]) (s, [?rv, CallCreate k obj (\<lambda>r. Done (c r))])"
    using left_step [OF step_list [OF order, of ns g]] unfolding none g .
  moreover have "conf_step (s, [?rv, CallCreate k obj (\<lambda>r. Done (c r))]) (s', [?rv, Done (c r)])"
    using right_step [OF step_create [of s k obj "\<lambda>r. Done (c r)"]] unfolding w by simp
  moreover have "conf_step (s', [?rv, Done (c r)]) (s', [Done (h (s_rv s')), Done (c r)])"
    using left_step [OF step_rv [of s' "\<lambda>rv. Done (h rv)"]] by (simp add: CurrentResourceVersion_def)
  ultimately show ?thesis unfolding numeral_3_eq_3 by auto
qed

text \<open>A list that runs after a task has been stored is not empty.\<close>

lemma list_sees_task:
  assumes "all_tasks s" "range_order s (ord s)" "s_items s (key_of t) = Some (TaskObj t)"
    and "ns = fst (x_NamespaceFrom K ctx)" "ns = [] \<or> k_Namespace (key_of t) = ns"
  shows "fst (exec ord (REST_List K r ctx None) s) \<noteq> Ok (task_list [] rv)"
proof -
  have nf: "\<not> selects_field None" by (simp add: selects_field_def)
  from list_result [where ord = ord and s = s and K = K and ctx = ctx and r = r, OF assms(1,2) nf refl refl]
  obtain ts rv' where l: "exec ord (REST_List K r ctx None) s = (Ok (task_list ts rv'), s)"
    and ts: "set ts = {t. \<exists>k. picked s (fst (x_NamespaceFrom K ctx)) (label_selector None) k t}" by blast
  have "picked s ns (label_selector None) (key_of t) t"
    using assms(3,5) by (simp add: picked_def label_selector_def)
  then have "t \<in> set ts" unfolding ts assms(4) by blast
  then show ?thesis by (auto simp: l)
qed

text \<open>C14. The version of an empty list may be too new. If nothing is there to be listed when a list
  reads the store, the handler asks for the store's version in a second call; a create that
  runs in between is answered with that very version, and the list, although it carries the
  version of the new task, does not contain it. A client that goes on from the list's
  version never hears of the task, and no order of the two requests gives these answers.\<close>

theorem empty_list_overlooks_create:
  assumes "library_contract K" "store_inv good_task s" "store_counter s < max_rv" "finite (dom (s_items s))"
    and "\<forall>s. finite (dom (s_items s)) \<longrightarrow> range_order s (ord s)"
    and "fst (exec ord (REST_Create K V (api_rest A) ctx' obj None None) s) = Ok (TaskObj t)"
    and "ns = fst (x_NamespaceFrom K ctx)" "\<forall>k \<in> dom (s_items s). \<not> (ns = [] \<or> k_Namespace k = ns)"
    and "ns = [] \<or> k_Namespace (key_of t) = ns"
    and "reqs = [ListReq ctx None, CreateReq ctx' obj None None]"
  shows "\<exists>l s' resps. resps = [ListResp (Ok l), ObjectResp (Ok (TaskObj t))]
    \<and> (conf_step ^^ 3) (s, map (handler K V A) reqs) (s', map Done resps)
    \<and> tl_Items l = Some [] \<and> lm_ResourceVersion (tl_ListMeta l) = om_ResourceVersion (t_ObjectMeta t)
    \<and> s_items s' (key_of t) = Some (TaskObj t)
    \<and> (\<forall>ix. mset ix = mset [0..<length reqs] \<longrightarrow>
         one_by_one ord (map (\<lambda>i. handler K V A (reqs ! i)) ix) s \<noteq> (map (\<lambda>i. resps ! i) ix, s'))"
proof -
  obtain q where c: "REST_Create K V (api_rest A) ctx' obj None None = CallCreate (key_of q) (TaskObj q) Done"
    and w: "Store_Create (key_of q) (TaskObj q) s = (Ok (TaskObj t), written s (key_of q) q)" and t: "t = stamped_task s q"
    using assms(6) by (rule REST_Create_OkE [OF assms(1)])
  obtain f where f: "REST_List K (api_rest A) ctx None = CallList ns f"
    "f (Ok []) = CallCurrentRV (\<lambda>rv. Done (Ok (task_list [] rv)))" by (rule REST_List_calls [OF assms(7)])
  let ?s' = "written s (key_of q) q" and ?l = "task_list [] (s_rv s + 1)"
  let ?g = "\<lambda>r. map_prog ListResp (f r)" and ?c = "\<lambda>r. Done (ObjectResp r)"
  let ?resps = "[ListResp (Ok ?l), ObjectResp (Ok (TaskObj t))]"
  have hs: "handler K V A (reqs ! 0) = CallList ns ?g" "handler K V A (reqs ! 1) = CallCreate (key_of q) (TaskObj q) ?c"
    by (simp_all add: assms(10) c f(1) comp_def)
  have g: "?g (Ok []) = CallCurrentRV (\<lambda>rv. Done (ListResp (Ok (task_list [] rv))))"
    by (simp add: f(2) comp_def)
  note order = assms(5) [rule_format, OF assms(4)]
  note none = list_of_none [OF order assms(8)]
  have run: "(conf_step ^^ 3) (s, map (handler K V A) reqs) (?s', map Done ?resps)"
    using list_create_run [where g = ?g and h = "\<lambda>rv. ListResp (Ok (task_list [] rv))" and c = ObjectResp, OF order none g w] hs
    by (simp add: assms(10) written_def)
  have stored: "s_items ?s' (key_of t) = Some (TaskObj t)" by (simp add: written_def t)
  have "fst (exec ord (REST_List K (api_rest A) ctx None) ?s') \<noteq> Ok ?l"
    by (rule list_sees_task [OF _ _ stored assms(7,9)])
      (use store_inv_all_tasks [OF assms(2)] assms(4,5) in \<open>auto simp: all_tasks_def written_def\<close>)
  then have late: "fst (exec ord (handler K V A (reqs ! 0)) ?s') \<noteq> ListResp (Ok ?l)"
    by (simp add: assms(10) exec_map)
  have early: "fst (exec ord (handler K V A (reqs ! 0)) s) \<noteq> ListResp (Ok ?l)"
    unfolding hs by (simp add: none g CurrentResourceVersion_def)
  have create: "exec ord (handler K V A (reqs ! 1)) s = (ObjectResp (Ok (TaskObj t)), ?s')"
    unfolding hs by (simp add: w)
  have seq: "one_by_one ord (map (\<lambda>i. handler K V A (reqs ! i)) ix) s \<noteq> (map (\<lambda>i. ?resps ! i) ix, ?s')"
    if "mset ix = mset [0..<length reqs]" for ix
  proof -
    have "mset ix = {#0, 1#}" using that by (simp add: assms(10) upt_rec)
    then have "ix = [0, 1] \<or> ix = [1, 0]" by (rule mset_two)
    then have "fst (one_by_one ord (map (\<lambda>i. handler K V A (reqs ! i)) ix) s) \<noteq> map (\<lambda>i. ?resps ! i) ix"
      using early late create by (elim disjE) (simp_all add: one_by_one_two del: one_by_one.simps)
    then show ?thesis by auto
  qed
  show ?thesis
    by (rule exI [of _ ?l], rule exI [of _ ?s'], rule exI, intro conjI, rule refl, rule run)
      (use seq stored in \<open>auto simp: task_list_def formatRV_def t\<close>)
qed

theorem empty_list_overlooks_create_witness:
  "\<exists>l s' t. (conf_step ^^ 3) (Store_New (Resource ''tasks''), map (handler plain_k8s plain_validators plain_api)
      [ListReq ''ns'' None, CreateReq ''ns'' (newTask ''ns'' ''b'' ''alpine'') None None])
      (s', [Done (ListResp (Ok l)), Done (ObjectResp (Ok (TaskObj t)))])
    \<and> tl_Items l = Some [] \<and> lm_ResourceVersion (tl_ListMeta l) = om_ResourceVersion (t_ObjectMeta t)
    \<and> s_items s' (Key ''ns'' ''b'') = Some (TaskObj t)"
proof -
  let ?s = "Store_New (Resource ''tasks'')" and ?t = "stamped_task (Store_New (Resource ''tasks'')) created_sample"
  have c: "fst (exec sorted_order (REST_Create plain_k8s plain_validators (api_rest plain_api) ''ns''
      (newTask ''ns'' ''b'' ''alpine'') None None) ?s) = Ok (TaskObj ?t)"
    by (simp add: plain_api_def plain_create Store_New_def)
  have k: "key_of ?t = Key ''ns'' ''b''" by (simp add: key_of_def created_sample_def)
  have s: "store_counter ?s < max_rv" "finite (dom (s_items ?s))"
    "\<forall>k \<in> dom (s_items ?s). \<not> (''ns'' = [] \<or> k_Namespace k = ''ns'')"
    by (simp_all add: Store_New_def store_counter_def max_rv_def)
  have o: "\<forall>s. finite (dom (s_items s)) \<longrightarrow> range_order s (sorted_order s)" using range_order_sorted by blast
  have ns: "''ns'' = fst (x_NamespaceFrom plain_k8s ''ns'')" "''ns'' = [] \<or> k_Namespace (key_of ?t) = ''ns''"
    by (simp_all only: k Key.sel plain_NamespaceFrom fst_conv simp_thms)
  from empty_list_overlooks_create [OF plain_library store_inv_New s(1,2) o c ns(1) s(3) ns(2) refl] obtain l s' resps where
    r: "resps = [ListResp (Ok l), ObjectResp (Ok (TaskObj ?t))]"
    and run: "(conf_step ^^ 3) (?s, map (handler plain_k8s plain_validators plain_api)
        [ListReq ''ns'' None, CreateReq ''ns'' (newTask ''ns'' ''b'' ''alpine'') None None]) (s', map Done resps)"
    and l: "tl_Items l = Some []" "lm_ResourceVersion (tl_ListMeta l) = om_ResourceVersion (t_ObjectMeta ?t)"
      "s_items s' (key_of ?t) = Some (TaskObj ?t)" by (elim exE conjE)
  show ?thesis
    by (rule exI [of _ l], rule exI [of _ s'], rule exI [of _ ?t], intro conjI)
      (use run l k in \<open>simp_all only: r list.map\<close>)
qed

end
