(* ===== verification/Acknowledged.thy ===== *)
theory Acknowledged
  imports Serializability
begin

section \<open>Acknowledged writes\<close>

text \<open>
  What a client may conclude from an answer, however requests interleave: the version of an
  acknowledged write is its own, and what was acknowledged is in the store until a newer
  acknowledged write of the same key or a delete of that key comes. So of lost updates
  (\<open>lost_update\<close>) at least the order is on record.
\<close>

subsection \<open>Answers\<close>

definition ok_option :: "('e, 'a) outcome \<Rightarrow> 'a option" where
  "ok_option r = (case r of Ok x \<Rightarrow> Some x | _ \<Rightarrow> None)"

lemma ok_option_simps [simp]:
  "ok_option (Ok x) = Some x" "ok_option (Err e) = None" "ok_option (Panic p) = None"
  by (simp_all add: ok_option_def)

text \<open>The object that an answer says was written.\<close>

fun acknowledges :: "'ctx request \<Rightarrow> response \<Rightarrow> runtime_object option" where
  "acknowledges (CreateReq ctx obj cv opts) (ObjectResp r) = ok_option r"
| "acknowledges (UpdateReq ctx name info cv uv force opts) (WriteResp r) = map_option fst (ok_option r)"
| "acknowledges (StatusUpdateReq ctx name info cv uv force opts) (WriteResp r) = map_option fst (ok_option r)"
| "acknowledges req resp = None"

definition acknowledged :: "'ctx request list \<Rightarrow> response prog list \<Rightarrow> nat \<Rightarrow> Task \<Rightarrow> bool" where
  "acknowledged reqs ps i t \<longleftrightarrow>
     i < length ps \<and> (\<exists>x. ps ! i = Done x \<and> acknowledges (reqs ! i) x = Some (TaskObj t))"

text \<open>
  A program reports with \<open>ack\<close> what it writes: it ends with the result of its only write, if that
  was a create or an update, and acknowledges nothing otherwise. It deletes at keys of \<open>D\<close> only.
\<close>

primrec reports :: "('a \<Rightarrow> runtime_object option) \<Rightarrow> Key set \<Rightarrow> 'a prog \<Rightarrow> bool" where
  "reports ack D (Done x) \<longleftrightarrow> ack x = None"
| "reports ack D (CallGet k f) \<longleftrightarrow> (\<forall>r. reports ack D (f r))"
| "reports ack D (CallList ns f) \<longleftrightarrow> (\<forall>r. reports ack D (f r))"
| "reports ack D (CallCurrentRV f) \<longleftrightarrow> (\<forall>r. reports ack D (f r))"
| "reports ack D (CallCreate k obj f) \<longleftrightarrow> (\<forall>r. \<exists>x. f r = Done x \<and> ack x = ok_option r)"
| "reports ack D (CallUpdate k obj f) \<longleftrightarrow> (\<forall>r. \<exists>x. f r = Done x \<and> ack x = ok_option r)"
| "reports ack D (CallDelete k f) \<longleftrightarrow> k \<in> D \<and> (\<forall>r. \<exists>x. f r = Done x \<and> ack x = None)"

lemma reports_on_ok:
  "(\<And>e. ack (Err e) = None) \<Longrightarrow> (\<And>p. ack (Panic p) = None) \<Longrightarrow>
     reports ack D (on_ok r f) \<longleftrightarrow> (\<forall>x. r = Ok x \<longrightarrow> reports ack D (f x))"
  by (cases r) simp_all

lemma reports_map [simp]: "reports ack D (map_prog h p) = reports (\<lambda>x. ack (h x)) D p"
proof -
  have "(\<exists>x. map_prog h q = Done x \<and> P x) \<longleftrightarrow> (\<exists>x. q = Done x \<and> P (h x))" for q :: "'b prog" and P
    by (cases q) auto
  then show ?thesis by (induction p) simp_all
qed

lemma reports_mono: "reports ack D p \<Longrightarrow> D \<subseteq> D' \<Longrightarrow> reports ack D' p"
  by (induction p) auto

definition delete_keys :: "'ctx k8s \<Rightarrow> 'ctx request \<Rightarrow> Key set" where
  "delete_keys K req = {Key (fst (x_NamespaceFrom K ctx)) name | ctx name. \<exists>dv opts. req = DeleteReq ctx name dv opts}"

lemma updateOnStore_reports:
  "reports (\<lambda>r. map_option fst (ok_option r)) D (updateOnStore K V ctx name info cv uv force opts cs us gr)"
proof -
  have reply: "\<exists>x. on_ok r (\<lambda>u. Done (Ok (u, b))) = Done x \<and> map_option fst (ok_option x) = ok_option r"
    for r :: "(go_error, runtime_object) outcome" and b :: bool
    by (cases r) simp_all
  show ?thesis
    by (auto simp: updateOnStore_def Let_def reports_on_ok reply split: outcome.split)
qed

lemma handler_reports: "reports (acknowledges req) (delete_keys K req) (handler K V A req)"
proof (cases req)
  case (CreateReq ctx obj cv opts)
  then show ?thesis by (simp add: REST_Create_def Let_def reports_on_ok)
next
  case (DeleteReq ctx name dv opts)
  have reply: "\<exists>x. on_ok r (\<lambda>u. Done (Ok (u, True))) = Done x" for r :: "(go_error, runtime_object) outcome"
    by (cases r) simp_all
  show ?thesis
    by (auto simp: DeleteReq REST_Delete_def reports_on_ok reply delete_keys_def keyFromContext_Ok_iff)
qed (auto simp: REST_Get_def REST_List_def REST_Watch_def StatusREST_Get_def REST_Update_def StatusREST_Update_def
    reports_on_ok updateOnStore_reports Let_def split: prod.split)

subsection \<open>The ledger of acknowledged writes\<close>

text \<open>
  \<open>ledger c s A D\<close>: the entries of \<open>A\<close>, a thread and the task that was acknowledged to it, were written
  after \<open>c\<close> writes, with versions of their own, and each is in the store, or a newer entry of the
  same key is, or the key is one of \<open>D\<close> and free.
\<close>

definition in_effect :: "store \<Rightarrow> (nat \<times> Task) set \<Rightarrow> Key set \<Rightarrow> Task \<Rightarrow> bool" where
  "in_effect s A D t \<longleftrightarrow>
     s_items s (key_of t) = Some (TaskObj t)
     \<or> (\<exists>j u. (j, u) \<in> A \<and> key_of u = key_of t \<and> obj_version (TaskObj t) < obj_version (TaskObj u)
          \<and> s_items s (key_of t) = Some (TaskObj u))
     \<or> s_items s (key_of t) = None \<and> key_of t \<in> D"

definition ledger :: "nat \<Rightarrow> store \<Rightarrow> (nat \<times> Task) set \<Rightarrow> Key set \<Rightarrow> bool" where
  "ledger c s A D \<longleftrightarrow>
     (\<forall>(i, t) \<in> A. c < obj_version (TaskObj t) \<and> obj_version (TaskObj t) \<le> store_counter s \<and> in_effect s A D t)
     \<and> (\<forall>(i, t) \<in> A. \<forall>(j, u) \<in> A. i \<noteq> j \<longrightarrow> obj_version (TaskObj t) \<noteq> obj_version (TaskObj u))"

lemma ledger_counts:
  assumes "ledger c s A D" "s_items s' = s_items s" "store_counter s \<le> store_counter s'"
  shows "ledger c s' A D"
  using assms unfolding ledger_def in_effect_def by fastforce

lemma ledger_write:
  assumes led: "ledger c s A D" and c: "c \<le> store_counter s" and it: "s_items s' = (s_items s)(key_of t \<mapsto> TaskObj t)"
    and v: "obj_version (TaskObj t) = Suc (store_counter s)" and c': "store_counter s' = Suc (store_counter s)"
  shows "ledger c s' (insert (i, t) A) D"
proof -
  have old: "obj_version (TaskObj u) < obj_version (TaskObj t)" if "(j, u) \<in> A" for j u
    using led that v unfolding ledger_def by fastforce
  have "in_effect s' (insert (i, t) A) D u" if u: "(j, u) \<in> A" for j u
  proof (cases "key_of u = key_of t")
    case True
    then show ?thesis using old [OF u] by (auto simp: in_effect_def it)
  next
    case False
    have "in_effect s A D u" using led u unfolding ledger_def by fast
    with False show ?thesis by (auto simp: in_effect_def it)
  qed
  moreover have "in_effect s' (insert (i, t) A) D t" by (simp add: in_effect_def it)
  moreover have "obj_version (TaskObj u) \<noteq> obj_version (TaskObj w)"
    if "(j, u) \<in> insert (i, t) A" "(k, w) \<in> insert (i, t) A" "j \<noteq> k" for j k u w
    using that led old [of j u] old [of k w] unfolding ledger_def by auto
  moreover have "c < obj_version (TaskObj u) \<and> obj_version (TaskObj u) \<le> store_counter s'"
    if "(j, u) \<in> insert (i, t) A" for j u
    using that led v c c' unfolding ledger_def by fastforce
  ultimately show ?thesis unfolding ledger_def by fast
qed

lemma ledger_delete:
  assumes led: "ledger c s A D" and it: "s_items s' = (s_items s)(k := None)" and k: "k \<in> D"
    and c': "store_counter s \<le> store_counter s'"
  shows "ledger c s' A D"
proof -
  have "in_effect s' A D u" if u: "(j, u) \<in> A" for j u
  proof (cases "key_of u = k")
    case True
    then show ?thesis using k by (simp add: in_effect_def it)
  next
    case False
    have "in_effect s A D u" using led u unfolding ledger_def by fast
    with False show ?thesis by (auto simp: in_effect_def it)
  qed
  with led c' show ?thesis unfolding ledger_def by fastforce
qed

subsection \<open>One step\<close>

lemma good_task_key: "good_task c k obj \<Longrightarrow> \<exists>q. obj = TaskObj q \<and> key_of q = k"
  by (cases k) (auto simp: good_task_def key_of_def)

text \<open>A thread that reports, in the middle or at its end.\<close>

definition thread_ok :: "('a \<Rightarrow> runtime_object option) \<Rightarrow> Key set \<Rightarrow> 'a prog \<Rightarrow> bool" where
  "thread_ok ack D p \<longleftrightarrow> reports ack D p \<or> (\<exists>x t. p = Done x \<and> ack x = Some (TaskObj t))"

text \<open>What a call of a reporting thread does to the ledger: \<open>B\<close> is what the thread acknowledges
after it.\<close>

definition acks :: "('a \<Rightarrow> runtime_object option) \<Rightarrow> 'a prog \<Rightarrow> Task set" where
  "acks ack p = {t. \<exists>x. p = Done x \<and> ack x = Some (TaskObj t)}"

lemma acks_reports [simp]: "reports ack D p \<Longrightarrow> acks ack p = {}"
  by (cases p) (auto simp: acks_def)

lemma written_ledger:
  assumes "ledger c s A D" "c \<le> store_counter s" "store_counter s < max_rv"
  shows "ledger c (written s (key_of q) q) (insert (i, stamped_task s q) A) D"
proof (rule ledger_write [OF assms(1,2)])
  show "s_items (written s (key_of q) q) = (s_items s)(key_of (stamped_task s q) \<mapsto> TaskObj (stamped_task s q))"
    by (simp add: written_def)
  have one: "unat (s_rv s + 1) = Suc (store_counter s)"
    using assms(3) by (simp add: store_counter_def max_rv_def unat_u64_plus_1)
  then show "store_counter (written s (key_of q) q) = Suc (store_counter s)" by (simp add: written_def store_counter_def)
  show "obj_version (TaskObj (stamped_task s q)) = Suc (store_counter s)" using one by (simp add: obj_version_def)
qed

lemma thread_step_ledger:
  assumes st: "thread_step s p s' p'" and rep: "reports ack D p" and gd: "guarantees good_task bound (store_counter s) p"
    and led: "ledger c s A D" "c \<le> store_counter s" "store_counter s < max_rv"
  shows "thread_ok ack D p' \<and> ledger c s' ((\<lambda>t. (i, t)) ` acks ack p' \<union> A) D"
proof -
  have le: "store_counter s \<le> store_counter s'"
    using thread_step_store [OF st] by (auto dest: vst.step_counter [OF _ led(3)])
  have fail: "thread_ok ack D p' \<and> ledger c s' ((\<lambda>t. (i, t)) ` acks ack p' \<union> A) D"
    if "reports ack D p'" "s_items s' = s_items s"
    using that ledger_counts [OF led(1) that(2) le] by (simp add: thread_ok_def)
  have stored: "thread_ok ack D p' \<and> ledger c s' ((\<lambda>t. (i, t)) ` acks ack p' \<union> A) D"
    if "p' = Done x" "ack x = ok_option r" "s' = written s (key_of q) q" "r = Ok (TaskObj (stamped_task s q))" for x r q
    using that written_ledger [where i = i and q = q, OF led] by (simp add: thread_ok_def acks_def)
  show ?thesis
    using st
  proof cases
    case (step_create k obj f)
    from gd [unfolded step_create(1)] obtain q where q: "obj = TaskObj q" "key_of q = k"
      using good_task_key by fastforce
    from rep [unfolded step_create(1)] obtain x where
      x: "f (fst (Store_Create k obj s)) = Done x" "ack x = ok_option (fst (Store_Create k obj s))" by auto
    show ?thesis
    proof (cases "s_items s k")
      case None
      note w = Store_Create_simps(3) [OF None, of obj "t_ObjectMeta q"]
      show ?thesis
        by (rule stored [OF _ x(2)]) (use step_create x(1) w q in \<open>simp_all add: written_def\<close>)
    qed (rule fail; use step_create x q in \<open>simp add: store_rules\<close>)
  next
    case (step_update k obj f)
    from gd [unfolded step_update(1)] obtain q where q: "obj = TaskObj q" "key_of q = k"
      using good_task_key by fastforce
    from rep [unfolded step_update(1)] obtain x where
      x: "f (fst (Store_Update k obj s)) = Done x" "ack x = ok_option (fst (Store_Update k obj s))" by auto
    show ?thesis
    proof (cases "s_items s k")
      case (Some old)
      note w = Store_Update_simps(3) [OF Some, of obj "t_ObjectMeta q"]
      show ?thesis
        by (rule stored [OF _ x(2)]) (use step_update x(1) w q in \<open>simp_all add: written_def\<close>)
    qed (rule fail; use step_update x q in \<open>simp add: store_rules\<close>)
  next
    case (step_delete k f)
    from rep [unfolded step_delete(1)] obtain x where k: "k \<in> D"
      and x: "f (fst (Store_Delete k s)) = Done x" "ack x = None" by auto
    then have rep': "reports ack D p'" using step_delete by simp
    show ?thesis
    proof (cases "s_items s k")
      case (Some old)
      have "s_items s' = (s_items s)(k := None)" using step_delete Some by (simp add: store_rules)
      from ledger_delete [OF led(1) this k le] rep' show ?thesis by (simp add: thread_ok_def)
    qed (rule fail [OF rep']; use step_delete in \<open>simp add: store_rules\<close>)
  qed (rule fail; use rep in simp)+
qed

subsection \<open>All steps\<close>

definition entries :: "'ctx request list \<Rightarrow> response prog list \<Rightarrow> (nat \<times> Task) set" where
  "entries reqs ps = {(i, t). acknowledged reqs ps i t}"

lemma acknowledged_acks: "acknowledged reqs ps i t \<longleftrightarrow> i < length ps \<and> t \<in> acks (acknowledges (reqs ! i)) (ps ! i)"
  by (auto simp: acknowledged_def acks_def)

lemma entries_step:
  assumes "i < length ps" "acks (acknowledges (reqs ! i)) (ps ! i) = {}"
  shows "entries reqs (ps[i := p]) = (\<lambda>t. (i, t)) ` acks (acknowledges (reqs ! i)) p \<union> entries reqs ps"
  using assms by (auto simp: entries_def acknowledged_acks nth_list_update split: if_splits)

lemma conf_steps_ledger:
  assumes "library_contract K" "list_all request_ok reqs" "store_inv good_task s0" "store_counter s0 + n < request_bound"
    and "(conf_step ^^ n) (s0, map (handler K V A) reqs) (s, ps)"
    and "D = (\<Union>req \<in> set reqs. delete_keys K req)"
  shows "length ps = length reqs \<and> (\<forall>i < length ps. thread_ok (acknowledges (reqs ! i)) D (ps ! i))
    \<and> ledger (store_counter s0) s (entries reqs ps) D"
  using assms(5,4)
proof (induction n arbitrary: s ps)
  case 0
  have "reports (acknowledges req) D (handler K V A req)" if "req \<in> set reqs" for req
    using handler_reports [of req K V A] reports_mono [of _ _ _ D] that assms(6) by blast
  then have r: "reports (acknowledges (reqs ! i)) D (handler K V A (reqs ! i))" if "i < length reqs" for i
    using that by simp
  then have "entries reqs (map (handler K V A) reqs) = {}"
    using acks_reports [OF r] by (auto simp: entries_def acknowledged_acks)
  moreover have "s = s0" "ps = map (handler K V A) reqs" using 0 by auto
  ultimately show ?case using r by (simp add: thread_ok_def ledger_def)
next
  case (Suc n)
  then obtain s1 ps1 where st: "(conf_step ^^ n) (s0, map (handler K V A) reqs) (s1, ps1)" "conf_step (s1, ps1) (s, ps)"
    by (auto elim: relpowp_Suc_E)
  have IH: "length ps1 = length reqs" "\<forall>i < length ps1. thread_ok (acknowledges (reqs ! i)) D (ps1 ! i)"
    "ledger (store_counter s0) s1 (entries reqs ps1) D"
    using Suc.IH [OF st(1)] Suc.prems(2) by auto
  have b: "store_counter s0 + n < max_rv" "store_counter s0 + n < request_bound"
    using Suc.prems(2) by (simp_all add: request_bound_def max_rv_def)
  have c: "store_counter s0 \<le> store_counter s1" "store_counter s1 < max_rv"
    using conc.steps_counter [OF st(1)] b(1) by auto
  have "guarantees good_task request_bound (store_counter s0) p" if "p \<in> set (map (handler K V A) reqs)" for p
    using that handler_guarantees [OF assms(1)] assms(2) by (auto simp: list_all_iff)
  from tasks.conf_steps_inv [OF st(1) assms(3) this b(2)]
  have "\<forall>p \<in> set ps1. guarantees good_task request_bound (store_counter s1) p" by blast
  moreover from st(2) obtain i p' where i: "i < length ps1" "thread_step s1 (ps1 ! i) s p'" and ps: "ps = ps1[i := p']"
    by (rule conf_stepE)
  ultimately have g: "guarantees good_task request_bound (store_counter s1) (ps1 ! i)" by simp
  have rep: "reports (acknowledges (reqs ! i)) D (ps1 ! i)"
    using IH(2) i by (auto simp: thread_ok_def)
  from thread_step_ledger [OF i(2) rep g IH(3) c, of i] show ?case
    using IH(1,2) i(1) by (simp add: ps entries_step [OF i(1) acks_reports [OF rep]] nth_list_update)
qed

text \<open>C11. An acknowledgement is kept. In any interleaving of requests, an acknowledged create, update or
  status update has a version of its own among all acknowledged writes, later than any version of
  before the run. The object stays in the store as acknowledged until a newer acknowledged write
  of the same key takes its place or a delete of the key is among the requests; it never
  disappears otherwise, and no older write ever replaces a newer one.\<close>

theorem acknowledged_writes_are_kept:
  assumes "library_contract K" "list_all request_ok reqs" "store_inv good_task s0" "store_counter s0 + n < request_bound"
    and "(conf_step ^^ n) (s0, map (handler K V A) reqs) (s, ps)" "acknowledged reqs ps i t"
  shows "store_counter s0 < obj_version (TaskObj t) \<and> obj_version (TaskObj t) \<le> store_counter s
    \<and> (\<forall>j u. acknowledged reqs ps j u \<longrightarrow> j \<noteq> i \<longrightarrow> obj_version (TaskObj u) \<noteq> obj_version (TaskObj t))
    \<and> (s_items s (key_of t) = Some (TaskObj t)
       \<or> (\<exists>j u. acknowledged reqs ps j u \<and> key_of u = key_of t \<and> obj_version (TaskObj t) < obj_version (TaskObj u)
            \<and> s_items s (key_of t) = Some (TaskObj u))
       \<or> s_items s (key_of t) = None
         \<and> (\<exists>ctx name dv opts. DeleteReq ctx name dv opts \<in> set reqs \<and> key_of t = Key (fst (x_NamespaceFrom K ctx)) name))"
proof -
  let ?D = "\<Union>req \<in> set reqs. delete_keys K req"
  have led: "ledger (store_counter s0) s (entries reqs ps) ?D"
    using conf_steps_ledger [OF assms(1-5) refl] by blast
  have ent: "(j, u) \<in> entries reqs ps \<longleftrightarrow> acknowledged reqs ps j u" for j u by (simp add: entries_def)
  have "in_effect s (entries reqs ps) ?D t" using led assms(6) unfolding ledger_def ent [symmetric] by fast
  then have "s_items s (key_of t) = Some (TaskObj t)
       \<or> (\<exists>j u. acknowledged reqs ps j u \<and> key_of u = key_of t \<and> obj_version (TaskObj t) < obj_version (TaskObj u)
            \<and> s_items s (key_of t) = Some (TaskObj u))
       \<or> s_items s (key_of t) = None \<and> key_of t \<in> ?D"
    unfolding in_effect_def ent .
  moreover have "key_of t \<in> ?D \<Longrightarrow>
      \<exists>ctx name dv opts. DeleteReq ctx name dv opts \<in> set reqs \<and> key_of t = Key (fst (x_NamespaceFrom K ctx)) name"
    unfolding delete_keys_def by blast
  moreover have "store_counter s0 < obj_version (TaskObj t) \<and> obj_version (TaskObj t) \<le> store_counter s
    \<and> (\<forall>j u. acknowledged reqs ps j u \<longrightarrow> j \<noteq> i \<longrightarrow> obj_version (TaskObj u) \<noteq> obj_version (TaskObj t))"
    using led assms(6) unfolding ledger_def ent [symmetric] by fast
  ultimately show ?thesis by blast
qed

theorem acknowledged_writes_are_kept_witness:
  "\<exists>s ps t. (conf_step ^^ 1) (Store_New (Resource ''tasks''), map (handler plain_k8s plain_validators plain_api)
       [CreateReq ''ns'' (newTask ''ns'' ''b'' ''alpine'') None None]) (s, ps)
     \<and> s_items s (Key ''ns'' ''b'') = Some (TaskObj t) \<and> obj_version (TaskObj t) = 1"
proof -
  let ?s = "Store_New (Resource ''tasks'')" and ?k = "Key ''ns'' ''b''"
    and ?reqs = "[CreateReq ''ns'' (newTask ''ns'' ''b'' ''alpine'') None None]"
  let ?t = "stamped_task ?s created_sample" and ?s1 = "snd (Store_Create ?k (TaskObj created_sample) ?s)"
  have none: "s_items ?s ?k = None" by (simp add: Store_New_def)
  have p: "map (handler plain_k8s plain_validators plain_api) ?reqs = [CallCreate ?k (TaskObj created_sample) (\<lambda>r. Done (ObjectResp r))]"
    by (simp add: plain_api_def plain_create_prog comp_def)
  have w: "fst (Store_Create ?k (TaskObj created_sample) ?s) = Ok (TaskObj ?t)"
    by (simp add: Store_Create_simps(3) [OF none, of _ "t_ObjectMeta created_sample"])
  have st: "(conf_step ^^ 1) (?s, map (handler plain_k8s plain_validators plain_api) ?reqs) (?s1, [Done (ObjectResp (Ok (TaskObj ?t)))])"
    unfolding p relpowp_1
    by (rule conf_step_nth [of 0])
      (use step_create [of ?s ?k "TaskObj created_sample" "\<lambda>r. Done (ObjectResp r)"] w in simp_all)
  have ack: "acknowledged ?reqs [Done (ObjectResp (Ok (TaskObj ?t)))] 0 ?t" by (simp add: acknowledged_def)
  have c0: "store_counter ?s = 0" by (simp add: Store_New_def store_counter_def)
  have "list_all request_ok ?reqs" "store_counter ?s + 1 < request_bound"
    by (simp_all add: c0 request_bound_def)
  from acknowledged_writes_are_kept [OF plain_library this(1) store_inv_New this(2) st ack]
  have "store_counter ?s < obj_version (TaskObj ?t)" "obj_version (TaskObj ?t) \<le> store_counter ?s1"
    and "s_items ?s1 (key_of ?t) = Some (TaskObj ?t) \<or> (\<exists>u. s_items ?s1 (key_of ?t) = Some (TaskObj u) \<and> u \<noteq> ?t)
       \<or> s_items ?s1 (key_of ?t) = None" by auto
  moreover have "store_counter ?s1 = 1" "key_of ?t = ?k" "s_items ?s1 ?k = Some (TaskObj ?t)"
    by (simp_all add: Store_Create_simps(3) [OF none, of _ "t_ObjectMeta created_sample"] c0)
      (simp_all add: Store_New_def store_counter_def created_sample_def key_of_def)
  ultimately show ?thesis using st c0 by fastforce
qed

end
