(* ===== verification/Snapshots.thy ===== *)
theory Snapshots
  imports Acknowledged
begin

section \<open>What a list shows beside concurrent writes\<close>

text \<open>
  A list makes one call for the tasks and, if it found none, one for the version. Beside other
  requests it therefore shows the store as it was at one moment, whole; only its version may
  be of a later one, and only if it shows nothing.
\<close>

lemma conf_step_length: "conf_step (s, ps) (s', ps') \<Longrightarrow> length ps' = length ps"
  by (auto elim: conf_stepE)

lemma conf_steps_length: "(conf_step ^^ n) (s, ps) (s', ps') \<Longrightarrow> length ps' = length ps"
proof (induction n arbitrary: s' ps')
  case (Suc n)
  then obtain s1 ps1 where "(conf_step ^^ n) (s, ps) (s1, ps1)" "conf_step (s1, ps1) (s', ps')"
    by (auto elim: relpowp_Suc_E)
  with Suc.IH conf_step_length show ?case by fastforce
qed simp

lemma done_stays:
  "(conf_step ^^ n) (s, ps) (s', ps') \<Longrightarrow> i < length ps \<Longrightarrow> ps ! i = Done x \<Longrightarrow> ps' ! i = Done x"
proof (induction n arbitrary: s' ps')
  case (Suc n)
  then obtain s1 ps1 where st: "(conf_step ^^ n) (s, ps) (s1, ps1)" "conf_step (s1, ps1) (s', ps')"
    by (auto elim: relpowp_Suc_E)
  from Suc.IH [OF st(1) Suc.prems(2,3)] st(2) show ?case
    by (auto elim!: conf_stepE simp: nth_list_update)
qed simp

inductive_cases thread_step_ListE: "thread_step s (CallList ns f) s' p'"
inductive_cases thread_step_RVE: "thread_step s (CallCurrentRV f) s' p'"

subsection \<open>The two calls of a list in a run\<close>

text \<open>
  \<open>shown s1 ks ns f s p\<close>: in store \<open>s\<close>, a list \<open>CallList ns f\<close> of which \<open>p\<close> is left has listed the store
  \<open>s1\<close> in the order \<open>ks\<close>, and perhaps asked for the version since. \<open>listed c0 n c i ns f\<close>: that is so of
  thread \<open>i\<close> in the configuration \<open>c\<close>, and \<open>s1\<close> is the store of a configuration on a run of \<open>n\<close> steps
  from \<open>c0\<close> to \<open>c\<close>.
\<close>

definition shown ::
    "store \<Rightarrow> Key list \<Rightarrow> string \<Rightarrow> ((go_error, runtime_object list) outcome \<Rightarrow> 'a prog) \<Rightarrow> store \<Rightarrow> 'a prog \<Rightarrow> bool" where
  "shown s1 ks ns f s p \<longleftrightarrow> range_order s1 ks
     \<and> (p = f (Store_List ks ns s1)
        \<or> (\<exists>g rv. f (Store_List ks ns s1) = CallCurrentRV g \<and> p = g rv
             \<and> store_counter s1 \<le> unat rv \<and> unat rv \<le> store_counter s))"

definition listed ::
    "'a config \<Rightarrow> nat \<Rightarrow> 'a config \<Rightarrow> nat \<Rightarrow> string \<Rightarrow> ((go_error, runtime_object list) outcome \<Rightarrow> 'a prog) \<Rightarrow> bool" where
  "listed c0 n c i ns f \<longleftrightarrow>
     (\<exists>m m' c1 ks. n = m + m' \<and> (conf_step ^^ m) c0 c1 \<and> (conf_step ^^ m') c1 c
        \<and> shown (fst c1) ks ns f (fst c) (snd c ! i))"

lemma shown_later: "shown s1 ks ns f s p \<Longrightarrow> store_counter s \<le> store_counter s' \<Longrightarrow> shown s1 ks ns f s' p"
  unfolding shown_def using order_trans by blast

lemma listed_step:
  assumes "n = m + m'" "(conf_step ^^ m) c0 c1" "(conf_step ^^ m') c1 c" "conf_step c (s', ps')" "shown (fst c1) ks ns f s' (ps' ! i)"
  shows "listed c0 (Suc n) (s', ps') i ns f"
proof -
  have "(conf_step ^^ Suc m') c1 (s', ps')" using assms(3,4) by (rule relpowp_Suc_I)
  moreover have "Suc n = m + Suc m'" using assms(1) by simp
  ultimately show ?thesis unfolding listed_def fst_conv snd_conv using assms(2,5) by blast
qed

lemma list_calls_in_run:
  assumes "(conf_step ^^ n) (s0, hs) (s, ps)" "i < length hs" "hs ! i = CallList ns f"
    and f: "\<And>raw. is_Done (f raw) \<or> (\<exists>g. f raw = CallCurrentRV g \<and> (\<forall>rv. is_Done (g rv)))"
    and "store_counter s0 + n \<le> max_rv"
  shows "ps ! i = CallList ns f \<or> listed (s0, hs) n (s, ps) i ns f"
  using assms(1,5)
proof (induction n arbitrary: s ps)
  case (Suc n)
  then obtain s1 ps1 where st: "(conf_step ^^ n) (s0, hs) (s1, ps1)" "conf_step (s1, ps1) (s, ps)"
    by (auto elim: relpowp_Suc_E)
  from st(2) obtain j p' where j: "j < length ps1" "thread_step s1 (ps1 ! j) s p'" and ps: "ps = ps1[j := p']"
    by (rule conf_stepE)
  have b: "store_counter s0 + n < max_rv" "store_counter s1 < max_rv"
    using Suc.prems(2) conc.steps_counter [OF st(1)] by auto
  have mono: "store_counter s1 \<le> store_counter s"
    using thread_step_store [OF j(2)] by (auto dest: vst.step_counter [OF _ b(2)])
  have i: "i < length ps1" using conf_steps_length [OF st(1)] assms(2) by simp
  from Suc.IH [OF st(1)] b(1) consider "ps1 ! i = CallList ns f" | "listed (s0, hs) n (s1, ps1) i ns f" by auto
  then show ?case
  proof cases
    case 1
    show ?thesis
    proof (cases "j = i")
      case True
      with 1 j(2) obtain ks where "range_order s1 ks" "s = s1" "p' = f (Store_List ks ns s1)"
        by (auto elim: thread_step_ListE)
      then have "shown (fst (s1, ps1)) ks ns f s (ps ! i)" using i True ps by (simp add: shown_def)
      from listed_step [OF _ st(1) _ st(2) this, where m' = 0] show ?thesis by simp
    qed (use 1 ps in simp)
  next
    case 2
    then obtain m m' c2 ks where
      m: "n = m + m'" "(conf_step ^^ m) (s0, hs) c2" "(conf_step ^^ m') c2 (s1, ps1)" "shown (fst c2) ks ns f s1 (ps1 ! i)"
      unfolding listed_def fst_conv snd_conv by blast
    have "shown (fst c2) ks ns f s (ps ! i)"
    proof (cases "j = i")
      case False
      then show ?thesis using shown_later [OF m(4) mono] by (simp add: ps)
    next
      case True
      have nd: "\<not> is_Done (ps1 ! i)" using j(2) True by (auto simp: is_Done_iff)
      with m(4) f [of "Store_List ks ns (fst c2)"] obtain g where
        g: "f (Store_List ks ns (fst c2)) = CallCurrentRV g" "ps1 ! i = CallCurrentRV g" "range_order (fst c2) ks"
        unfolding shown_def by auto
      with j(2) True have p': "p' = g (CurrentResourceVersion s1)" "s = s1" by (auto elim: thread_step_RVE)
      have "store_counter (fst c2) \<le> store_counter s1"
        using conc.steps_counter [OF m(3)] conc.steps_counter [OF m(2)] m(1) b(1) by auto
      moreover have "unat (CurrentResourceVersion s1) = store_counter s1"
        by (simp add: CurrentResourceVersion_def store_counter_def)
      ultimately show ?thesis using g p' i True ps by (auto simp: shown_def)
    qed
    from listed_step [OF m(1-3) st(2) this] show ?thesis ..
  qed
qed (use assms(3) in simp)

subsection \<open>The list handler\<close>

definition list_answer :: "((string, string) gomap \<Rightarrow> bool) \<Rightarrow> (go_error, runtime_object list) outcome \<Rightarrow> response prog" where
  "list_answer sel raw =
     map_prog ListResp (on_ok raw (\<lambda>raw. on_ok (list_items sel raw [] 0) (\<lambda>(items, maxRV).
       if maxRV = 0 then CallCurrentRV (\<lambda>rv. Done (Ok (task_list items rv))) else Done (Ok (task_list items maxRV)))))"

lemma list_handler:
  assumes "\<not> selects_field opts"
  shows "handler K V A (ListReq ctx opts) = CallList (fst (x_NamespaceFrom K ctx)) (list_answer (label_selector opts))"
  using assms unfolding handler.simps REST_List_def selects_field_def [symmetric] label_selector_def list_answer_def
  by (simp add: namespaceFromContext_def requestNamespace_def Let_def comp_def)

lemma list_handler_refuses:
  assumes "selects_field opts"
  shows "\<exists>e. handler K V A (ListReq ctx opts) = Done (ListResp (Err e))"
  using assms unfolding handler.simps REST_List_def selects_field_def [symmetric] by simp

lemma list_answer_calls:
  "is_Done (list_answer sel raw) \<or> (\<exists>g. list_answer sel raw = CallCurrentRV g \<and> (\<forall>rv. is_Done (g rv)))"
proof (cases raw)
  case (Ok objs)
  then show ?thesis
    by (cases "list_items sel objs [] 0") (auto simp: list_answer_def)
qed (simp_all add: list_answer_def)

lemma list_answer_Tasks:
  "list_answer sel (Ok (map TaskObj ts)) =
     (let ts = filter (\<lambda>t. sel (task_labels t)) ts; rv = fold max (map task_rv ts) 0
      in if rv = 0 then CallCurrentRV (\<lambda>rv. Done (ListResp (Ok (task_list ts rv)))) else Done (ListResp (Ok (task_list ts rv))))"
  by (simp add: list_answer_def list_items_Tasks Let_def comp_def)

text \<open>What is shown of a store that holds good tasks.\<close>

lemma shown_answer:
  assumes "shown s1 ks ns (list_answer sel) s (Done (ListResp (Ok l)))" "store_inv good_task s1"
  obtains ts rv where "l = task_list ts rv" "set ts = {t. \<exists>k. picked s1 ns sel k t}" "length ts = card {k. \<exists>t. picked s1 ns sel k t}"
    "if ts = [] then store_counter s1 \<le> unat rv \<and> unat rv \<le> store_counter s
     else rv = Max (task_rv ` set ts) \<and> unat rv \<le> store_counter s1"
proof -
  have o: "range_order s1 ks" using assms(1) by (simp add: shown_def)
  then have d: "distinct ks" "set ks = dom (s_items s1)" by (simp_all add: range_order_def)
  obtain ts0 where ts0: "list_loop ns (s_items s1) ks = map TaskObj ts0"
    using list_loop_all_tasks [of "s_items s1"] store_inv_all_tasks [OF assms(2)] unfolding all_tasks_def by blast
  let ?ts = "filter (\<lambda>t. sel (task_labels t)) ts0" and ?rv = "fold max (map task_rv (filter (\<lambda>t. sel (task_labels t)) ts0)) 0"
  have set: "set ?ts = {t. \<exists>k. picked s1 ns sel k t}" and len: "length ?ts = card {k. \<exists>t. picked s1 ns sel k t}"
    using picked_tasks [OF d ts0] by blast+
  have pos: "0 < task_rv t \<and> unat (task_rv t) \<le> store_counter s1" if t: "t \<in> set ?ts" for t
  proof -
    obtain k where "s_items s1 k = Some (TaskObj t)" using t unfolding set picked_def by blast
    with assms(2) version_ok_bounds [of "s_items s1" "store_counter s1" obj_version k "TaskObj t"]
    have "0 < unat (task_rv t) \<and> unat (task_rv t) \<le> store_counter s1"
      by (simp add: store_inv_def obj_version_def task_rv_def)
    then show ?thesis by (simp add: unat_gt_0 word_neq_0_conv)
  qed
  have "Store_List ks ns s1 = Ok (map TaskObj ts0)" by (simp add: Store_List_def ts0)
  then have ans: "list_answer sel (Store_List ks ns s1)
      = (if ?rv = 0 then CallCurrentRV (\<lambda>rv. Done (ListResp (Ok (task_list ?ts rv)))) else Done (ListResp (Ok (task_list ?ts ?rv))))"
    by (simp only: list_answer_Tasks Let_def)
  show thesis
  proof (cases "?ts = []")
    case True
    then have "?rv = 0" by simp
    with assms(1) ans obtain rv where "l = task_list ?ts rv" "store_counter s1 \<le> unat rv" "unat rv \<le> store_counter s"
      unfolding shown_def by auto
    with set len True show thesis by (intro that [of ?ts rv]) simp_all
  next
    case False
    then have M: "?rv = Max (task_rv ` set ?ts)" by (simp add: fold_max_0)
    have "Max (task_rv ` set ?ts) \<in> task_rv ` set ?ts" using False by (intro Max_in) (auto simp: filter_empty_conv)
    then obtain t where t: "t \<in> set ?ts" "?rv = task_rv t" unfolding M by blast
    have nz: "?rv \<noteq> 0" and le: "unat ?rv \<le> store_counter s1" using pos [OF t(1)] unfolding t(2) by auto
    from assms(1) ans nz have "l = task_list ?ts ?rv" unfolding shown_def by auto
    with set len M le False show thesis by (intro that [of ?ts ?rv]) simp_all
  qed
qed

text \<open>C13. A list beside other requests is a snapshot. However requests interleave, the tasks of a list
  that is answered are exactly the selected tasks that were in the store at one moment of the run, each
  once; if there are any, the list has the version of the newest of them. A list of none has a
  version that the store had at that moment or has taken since.\<close>

theorem concurrent_list_is_snapshot:
  assumes "library_contract K" "list_all request_ok reqs" "store_inv good_task s0" "store_counter s0 + n < request_bound"
    and "(conf_step ^^ n) (s0, map (handler K V A) reqs) (s, ps)"
    and "i < length reqs" "reqs ! i = ListReq ctx opts" "ps ! i = Done (ListResp (Ok l))"
    and "ns = fst (x_NamespaceFrom K ctx)" "sel = label_selector opts"
  shows "\<exists>m m' s1 ps1 ts rv. n = m + m' \<and> (conf_step ^^ m) (s0, map (handler K V A) reqs) (s1, ps1) \<and> (conf_step ^^ m') (s1, ps1) (s, ps)
    \<and> l = task_list ts rv \<and> set ts = {t. \<exists>k. picked s1 ns sel k t} \<and> length ts = card {k. \<exists>t. picked s1 ns sel k t}
    \<and> (if ts = [] then store_counter s1 \<le> unat rv \<and> unat rv \<le> store_counter s
       else rv = Max (task_rv ` set ts) \<and> unat rv \<le> store_counter s1)"
proof -
  have b: "store_counter s0 + n \<le> max_rv" using assms(4) by (simp add: request_bound_def max_rv_def)
  let ?hs = "map (handler K V A) reqs"
  have g: "guarantees good_task request_bound (store_counter s0) p" if "p \<in> set ?hs" for p
    using that handler_guarantees [OF assms(1)] assms(2) by (auto simp: list_all_iff)
  have nf: "\<not> selects_field opts"
  proof
    assume "selects_field opts"
    from list_handler_refuses [OF this, of K V A ctx] obtain e where "?hs ! i = Done (ListResp (Err e))" using assms(6,7) by auto
    from done_stays [OF assms(5) _ this] assms(6,8) show False by simp
  qed
  have "?hs ! i = CallList ns (list_answer sel)" using assms(6,7) list_handler [OF nf] assms(9,10) by simp
  from list_calls_in_run [OF assms(5) _ this list_answer_calls b] assms(6,8)
  have "listed (s0, ?hs) n (s, ps) i ns (list_answer sel)" by simp
  then obtain m m' s1 ps1 ks where m: "n = m + m'" "(conf_step ^^ m) (s0, ?hs) (s1, ps1)" "(conf_step ^^ m') (s1, ps1) (s, ps)"
    and sh: "shown s1 ks ns (list_answer sel) s (Done (ListResp (Ok l)))"
    unfolding listed_def using assms(8) by auto
  have "store_counter s0 + m < request_bound" using m(1) assms(4) by simp
  from tasks.conf_steps_inv [OF m(2) assms(3) g this] have "store_inv good_task s1" by blast
  from shown_answer [OF sh this] obtain ts rv where
    r: "l = task_list ts rv" "set ts = {t. \<exists>k. picked s1 ns sel k t}" "length ts = card {k. \<exists>t. picked s1 ns sel k t}"
    "if ts = [] then store_counter s1 \<le> unat rv \<and> unat rv \<le> store_counter s
     else rv = Max (task_rv ` set ts) \<and> unat rv \<le> store_counter s1" by blast
  show ?thesis
    by (intro exI conjI, rule m(1), rule m(2), rule m(3), rule r(1), rule r(2), rule r(3), rule r(4))
qed

theorem concurrent_list_is_snapshot_witness:
  "\<exists>n m m' l s1 ps1. n = m + m'
     \<and> (conf_step ^^ n) (sample_store, map (handler plain_k8s plain_validators plain_api) [ListReq ''ns'' None])
         (sample_store, [Done (ListResp (Ok l))])
     \<and> (conf_step ^^ m) (sample_store, map (handler plain_k8s plain_validators plain_api) [ListReq ''ns'' None]) (s1, ps1)
     \<and> set (elems (tl_Items l)) = {t. \<exists>k. picked s1 ''ns'' (label_selector None) k t}"
proof -
  let ?reqs = "[ListReq ''ns'' None] :: string request list" and ?A = plain_api
  let ?hs = "map (handler plain_k8s plain_validators ?A) ?reqs"
  have fin: "finite (dom (s_items sample_store))" by simp
  have nf: "\<not> selects_field None" by (simp add: selects_field_def)
  obtain ts rv where l: "exec sorted_order (REST_List plain_k8s (api_rest ?A) ''ns'' None) sample_store = (Ok (task_list ts rv), sample_store)"
    using list_result [where ord = sorted_order and K = plain_k8s and ctx = "''ns''" and r = "api_rest ?A",
        OF all_tasks_sample range_order_sorted [OF fin] nf refl refl] by blast
  from alone_is_an_interleaving [where ord = sorted_order, OF range_order_sorted fin, of plain_k8s plain_validators ?A "ListReq ''ns'' None"]
  obtain n where run: "(conf_step ^^ n) (sample_store, ?hs) (sample_store, [Done (ListResp (Ok (task_list ts rv)))])"
    by (auto simp: exec_map l)
  have "n \<le> 2"
    using conf_steps_budget [OF run handlers_budget] by auto
  then have b: "store_counter sample_store + n < request_bound" by (simp add: store_counter_def request_bound_def)
  have ok: "list_all request_ok ?reqs" "0 < length ?reqs" "?reqs ! 0 = ListReq ''ns'' None"
    "[Done (ListResp (Ok (task_list ts rv)))] ! 0 = Done (ListResp (Ok (task_list ts rv)))" by simp_all
  from concurrent_list_is_snapshot [OF plain_library ok(1) sample_store_inv b run ok(2-4) refl refl]
  obtain m m' s1 ps1 us rv' where m: "n = m + m'" "(conf_step ^^ m) (sample_store, ?hs) (s1, ps1)"
    and us: "task_list ts rv = task_list us rv'" "set us = {t. \<exists>k. picked s1 (fst (x_NamespaceFrom plain_k8s ''ns'')) (label_selector None) k t}"
    by (elim exE conjE)
  have "set (elems (tl_Items (task_list ts rv))) = {t. \<exists>k. picked s1 ''ns'' (label_selector None) k t}"
    unfolding us(1) using us(2) by (simp add: task_list_def)
  with m run show ?thesis by blast
qed

end
