(* ===== verification/GoHeap.thy ===== *)
theory GoHeap
  imports TaskTypes
begin

section \<open>Go memory and deep copies\<close>

text \<open>
  The other theories treat objects as values. This one has the memory behind them: a heap of
  cells, values that hold references into it, and what a deep copy promises. It is the
  interface between the generated copy functions (theory DeepCopy), which provide the promise,
  and the store (theory StoreHeap), which relies on it.
\<close>

type_synonym addr = nat

text \<open>A slice header: the backing array and the length; nil is \<open>None\<close>.\<close>

type_synonym hslice = "(addr \<times> nat) option"

subsection \<open>Objects in memory\<close>

record hTaskSpec =
  hsp_Image :: string
  hsp_Command :: hslice
  hsp_Args :: hslice

record hTaskStatus =
  hst_Phase :: TaskPhase
  hst_Conditions :: hslice
  hst_ObservedGeneration :: i64

text \<open>
  \<open>'m\<close> and \<open>'l\<close> are the in-memory forms of \<open>metav1.ObjectMeta\<close> and \<open>metav1.ListMeta\<close>, whose
  references lead to cells of the library's own sort \<open>'x\<close>.
\<close>

record 'm hTask =
  ht_TypeMeta :: TypeMeta
  ht_ObjectMeta :: 'm
  ht_Spec :: hTaskSpec
  ht_Status :: hTaskStatus

record 'l hTaskList =
  hl_TypeMeta :: TypeMeta
  hl_ListMeta :: 'l
  hl_Items :: hslice

datatype ('m, 'l, 'x) cell =
    StrCell "string list"
  | CondCell "Condition list"
  | TaskCell "'m hTask"
  | TasksCell "'m hTask list"
  | ListCell "'l hTaskList"
  | SpecCell hTaskSpec
  | StatusCell hTaskStatus
  | LibCell 'x

record ('m, 'l, 'x) heap =
  h_cells :: "addr \<rightharpoonup> ('m, 'l, 'x) cell"
  h_next :: addr

definition heap_wf :: "('m, 'l, 'x) heap \<Rightarrow> bool" where
  "heap_wf h \<longleftrightarrow> (\<forall>a. h_next h \<le> a \<longrightarrow> h_cells h a = None)"

definition alloc :: "('m, 'l, 'x) cell \<Rightarrow> ('m, 'l, 'x) heap \<Rightarrow> addr \<times> ('m, 'l, 'x) heap" where
  "alloc c h = (h_next h, \<lparr>h_cells = (h_cells h)(h_next h \<mapsto> c), h_next = Suc (h_next h)\<rparr>)"

text \<open>Everything that was allocated is still there, unchanged.\<close>

definition extends :: "('m, 'l, 'x) heap \<Rightarrow> ('m, 'l, 'x) heap \<Rightarrow> bool" where
  "extends h h' \<longleftrightarrow> h_next h \<le> h_next h' \<and> heap_wf h' \<and> (\<forall>a < h_next h. h_cells h' a = h_cells h a)"

lemma extends_refl [simp]: "extends h h \<longleftrightarrow> heap_wf h"
  by (simp add: extends_def)

lemma extends_trans: "extends h h1 \<Longrightarrow> extends h1 h2 \<Longrightarrow> extends h h2"
  by (auto simp: extends_def)

lemma extends_wf: "extends h h' \<Longrightarrow> heap_wf h'"
  by (simp add: extends_def)

lemma extends_next: "extends h h' \<Longrightarrow> h_next h \<le> h_next h'"
  by (simp add: extends_def)

lemma alloc_extends: "heap_wf h \<Longrightarrow> extends h (snd (alloc c h))"
  by (auto simp: extends_def alloc_def heap_wf_def)

lemma alloc_simps [simp]:
  "fst (alloc c h) = h_next h" "h_next (snd (alloc c h)) = Suc (h_next h)"
  "h_cells (snd (alloc c h)) = (h_cells h)(h_next h \<mapsto> c)"
  by (simp_all add: alloc_def)

subsection \<open>Interface: values with references, and their deep copies\<close>

text \<open>
  \<open>read\<close> gives the value that an in-memory form stands for in a heap, if all its references
  are good; \<open>reach\<close> gives the addresses that can be reached from it. What reading depends on
  is within reach.
\<close>

locale heap_value =
  fixes read :: "('m, 'l, 'x) heap \<Rightarrow> 'a \<Rightarrow> 'v option"
    and reach :: "('m, 'l, 'x) heap \<Rightarrow> 'a \<Rightarrow> addr set"
  assumes read_local:
      "read h a = Some v \<Longrightarrow> (\<And>b. b \<in> reach h a \<Longrightarrow> h_cells h' b = h_cells h b)
         \<Longrightarrow> read h' a = Some v \<and> reach h' a = reach h a"
    and reach_allocated: "read h a = Some v \<Longrightarrow> b \<in> reach h a \<Longrightarrow> h_cells h b \<noteq> None"
begin

lemma reach_lt: "heap_wf h \<Longrightarrow> read h a = Some v \<Longrightarrow> b \<in> reach h a \<Longrightarrow> b < h_next h"
  using reach_allocated unfolding heap_wf_def by (metis not_le)

lemma read_extends:
  assumes "extends h h'" "heap_wf h" "read h a = Some v"
  shows "read h' a = Some v \<and> reach h' a = reach h a"
  by (rule read_local [OF assms(3)]) (use assms reach_lt in \<open>auto simp: extends_def\<close>)

end

text \<open>
  A deep copy reads as the original did, leaves everything that existed alone, and reaches
  only memory that did not exist before.
\<close>

locale deep_copier = heap_value read reach
  for read :: "('m, 'l, 'x) heap \<Rightarrow> 'a \<Rightarrow> 'v option"
    and reach :: "('m, 'l, 'x) heap \<Rightarrow> 'a \<Rightarrow> addr set" +
  fixes copy :: "'a \<Rightarrow> ('m, 'l, 'x) heap \<Rightarrow> 'a \<times> ('m, 'l, 'x) heap"
  assumes copy_extends: "heap_wf h \<Longrightarrow> read h a = Some v \<Longrightarrow> extends h (snd (copy a h))"
    and copy_read: "heap_wf h \<Longrightarrow> read h a = Some v \<Longrightarrow> read (snd (copy a h)) (fst (copy a h)) = Some v"
    and copy_fresh: "heap_wf h \<Longrightarrow> read h a = Some v \<Longrightarrow>
        b \<in> reach (snd (copy a h)) (fst (copy a h)) \<Longrightarrow> h_next h \<le> b"
begin

text \<open>Original and copy are independent: writing to one never shows in the other.\<close>

lemma copy_independent:
  assumes "heap_wf h" "read h a = Some v" "copy a h = (a', h1)"
  shows "reach h1 a \<inter> reach h1 a' = {}
    \<and> ((\<forall>b. b \<notin> reach h1 a' \<longrightarrow> h_cells h2 b = h_cells h1 b) \<longrightarrow> read h2 a = Some v)
    \<and> ((\<forall>b. b \<notin> reach h1 a \<longrightarrow> h_cells h2 b = h_cells h1 b) \<longrightarrow> read h2 a' = Some v)"
proof -
  have ext: "extends h h1" and r': "read h1 a' = Some v" using copy_extends copy_read assms by fastforce+
  have r: "read h1 a = Some v" "reach h1 a = reach h a"
    using read_extends [OF ext assms(1,2)] by auto
  have dis: "reach h1 a \<inter> reach h1 a' = {}"
    using reach_lt [OF assms(1,2)] copy_fresh [OF assms(1,2)] assms(3) r(2) by fastforce
  show ?thesis
    using dis read_local [OF r(1), of h2] read_local [OF r', of h2] by blast
qed

end

text \<open>The laws of a copier in the form its users and providers meet them.\<close>

lemma copier_result:
  assumes "deep_copier read reach copy" "heap_wf h" "read h a = Some v" "copy a h = (a', h')"
  shows "extends h h' \<and> read h' a' = Some v \<and> (\<forall>b \<in> reach h' a'. h_next h \<le> b)"
  using deep_copier.copy_extends [OF assms(1-3)] deep_copier.copy_read [OF assms(1-3)]
    deep_copier.copy_fresh [OF assms(1-3)] assms(4) by simp

lemma copierI:
  assumes "heap_value read reach"
    and "\<And>h a v a' h'. heap_wf h \<Longrightarrow> read h a = Some v \<Longrightarrow> copy a h = (a', h') \<Longrightarrow>
      extends h h' \<and> read h' a' = Some v \<and> (\<forall>b \<in> reach h' a'. h_next h \<le> b)"
  shows "deep_copier read reach copy"
  using assms(1)
proof (rule deep_copier.intro, unfold_locales, goal_cases)
  case (1 h a v)
  from assms(2) [OF 1(2,3) prod.collapse [symmetric]] show ?case by simp
next
  case (2 h a v)
  from assms(2) [OF 2(2,3) prod.collapse [symmetric]] show ?case by simp
next
  case (3 h a v b)
  from assms(2) [OF 3(2,3) prod.collapse [symmetric]] 3(4) show ?case by simp
qed

end
