(* ===== verification/DeepCopy.thy ===== *)
theory DeepCopy
  imports GoHeap
begin

section \<open>The generated copy functions: \<open>zz_generated.deepcopy.go\<close>\<close>

text \<open>
  The functions are translated statement by statement: the shallow assignment \<open>*out = *in\<close>,
  then a fresh copy of whatever it left shared. The copy functions of the library types that
  a Task embeds (\<open>ObjectMeta\<close>, \<open>ListMeta\<close>) are parameters. The theory shows that the
  functions are deep copiers if the library's are.
\<close>

subsection \<open>The copy functions\<close>

fun as_strs :: "('m, 'l, 'x) cell \<Rightarrow> string list option" where
  "as_strs (StrCell xs) = Some xs" | "as_strs _ = None"

fun as_conds :: "('m, 'l, 'x) cell \<Rightarrow> Condition list option" where
  "as_conds (CondCell xs) = Some xs" | "as_conds _ = None"

fun as_tasks :: "('m, 'l, 'x) cell \<Rightarrow> 'm hTask list option" where
  "as_tasks (TasksCell xs) = Some xs" | "as_tasks _ = None"

fun as_task :: "('m, 'l, 'x) cell \<Rightarrow> 'm hTask option" where
  "as_task (TaskCell t) = Some t" | "as_task _ = None"

fun as_list :: "('m, 'l, 'x) cell \<Rightarrow> 'l hTaskList option" where
  "as_list (ListCell t) = Some t" | "as_list _ = None"

fun as_spec :: "('m, 'l, 'x) cell \<Rightarrow> hTaskSpec option" where
  "as_spec (SpecCell s) = Some s" | "as_spec _ = None"

fun as_status :: "('m, 'l, 'x) cell \<Rightarrow> hTaskStatus option" where
  "as_status (StatusCell s) = Some s" | "as_status _ = None"

text \<open>The elements a slice header shows of its backing array.\<close>

definition view :: "(('m, 'l, 'x) cell \<Rightarrow> 'e list option) \<Rightarrow> ('m, 'l, 'x) heap \<Rightarrow> hslice \<Rightarrow> 'e list option" where
  "view get h sl =
     (case sl of
        None \<Rightarrow> Some []
      | Some (a, n) \<Rightarrow>
          (case h_cells h a of
             None \<Rightarrow> None
           | Some c \<Rightarrow> (case get c of None \<Rightarrow> None | Some xs \<Rightarrow> if n \<le> length xs then Some (take n xs) else None)))"

text \<open>\<open>if in != nil { *out = make([]T, len(*in)); copy(*out, *in) }\<close>, for elements without
  references. The loop over Conditions, whose fields are all plain values, does the same.\<close>

definition copy_slice ::
    "(('m, 'l, 'x) cell \<Rightarrow> 'e list option) \<Rightarrow> ('e list \<Rightarrow> ('m, 'l, 'x) cell) \<Rightarrow> hslice
       \<Rightarrow> ('m, 'l, 'x) heap \<Rightarrow> hslice \<times> ('m, 'l, 'x) heap" where
  "copy_slice get mk sl h =
     (case sl of
        None \<Rightarrow> (None, h)
      | Some (a, n) \<Rightarrow>
          let xs = (case view get h sl of None \<Rightarrow> [] | Some xs \<Rightarrow> xs); (b, h) = alloc (mk xs) h
          in (Some (b, n), h))"

definition TaskSpec_DeepCopyInto ::
    "hTaskSpec \<Rightarrow> ('m, 'l, 'x) heap \<Rightarrow> hTaskSpec \<times> ('m, 'l, 'x) heap" where
  "TaskSpec_DeepCopyInto inn h =
     (let out = inn;
          (command, h) = copy_slice as_strs StrCell (hsp_Command inn) h;
          out = out\<lparr>hsp_Command := command\<rparr>;
          (args, h) = copy_slice as_strs StrCell (hsp_Args inn) h;
          out = out\<lparr>hsp_Args := args\<rparr>
      in (out, h))"

definition TaskStatus_DeepCopyInto ::
    "hTaskStatus \<Rightarrow> ('m, 'l, 'x) heap \<Rightarrow> hTaskStatus \<times> ('m, 'l, 'x) heap" where
  "TaskStatus_DeepCopyInto inn h =
     (let out = inn;
          (conditions, h) = copy_slice as_conds CondCell (hst_Conditions inn) h;
          out = out\<lparr>hst_Conditions := conditions\<rparr>
      in (out, h))"

definition Task_DeepCopyInto ::
    "('m \<Rightarrow> ('m, 'l, 'x) heap \<Rightarrow> 'm \<times> ('m, 'l, 'x) heap)
       \<Rightarrow> 'm hTask \<Rightarrow> ('m, 'l, 'x) heap \<Rightarrow> 'm hTask \<times> ('m, 'l, 'x) heap" where
  "Task_DeepCopyInto ObjectMeta_DeepCopyInto inn h =
     (let out = inn;
          out = out\<lparr>ht_TypeMeta := ht_TypeMeta inn\<rparr>;
          (m, h) = ObjectMeta_DeepCopyInto (ht_ObjectMeta inn) h;
          out = out\<lparr>ht_ObjectMeta := m\<rparr>;
          (spec, h) = TaskSpec_DeepCopyInto (ht_Spec inn) h;
          out = out\<lparr>ht_Spec := spec\<rparr>;
          (status, h) = TaskStatus_DeepCopyInto (ht_Status inn) h;
          out = out\<lparr>ht_Status := status\<rparr>
      in (out, h))"

text \<open>The loop \<open>for i := range *in { (*in)[i].DeepCopyInto(&(*out)[i]) }\<close>.\<close>

fun copy_each :: "('a \<Rightarrow> 'h \<Rightarrow> 'a \<times> 'h) \<Rightarrow> 'a list \<Rightarrow> 'h \<Rightarrow> 'a list \<times> 'h" where
  "copy_each copy [] h = ([], h)"
| "copy_each copy (x # xs) h =
     (let (y, h) = copy x h; (ys, h) = copy_each copy xs h in (y # ys, h))"

definition TaskList_DeepCopyInto ::
    "('m \<Rightarrow> ('m, 'l, 'x) heap \<Rightarrow> 'm \<times> ('m, 'l, 'x) heap)
       \<Rightarrow> ('l \<Rightarrow> ('m, 'l, 'x) heap \<Rightarrow> 'l \<times> ('m, 'l, 'x) heap)
       \<Rightarrow> 'l hTaskList \<Rightarrow> ('m, 'l, 'x) heap \<Rightarrow> 'l hTaskList \<times> ('m, 'l, 'x) heap" where
  "TaskList_DeepCopyInto ObjectMeta_DeepCopyInto ListMeta_DeepCopyInto inn h =
     (let out = inn;
          out = out\<lparr>hl_TypeMeta := hl_TypeMeta inn\<rparr>;
          (m, h) = ListMeta_DeepCopyInto (hl_ListMeta inn) h;
          out = out\<lparr>hl_ListMeta := m\<rparr>
      in case hl_Items inn of
           None \<Rightarrow> (out, h)
         | Some (a, n) \<Rightarrow>
             let ts = (case view as_tasks h (hl_Items inn) of None \<Rightarrow> [] | Some ts \<Rightarrow> ts);
                 (items, h) = copy_each (Task_DeepCopyInto ObjectMeta_DeepCopyInto) ts h;
                 (b, h) = alloc (TasksCell items) h
             in (out\<lparr>hl_Items := Some (b, n)\<rparr>, h))"

text \<open>
  \<open>DeepCopy\<close> allocates the struct and fills it; a nil receiver gives nil. \<open>DeepCopyObject\<close>
  turns a nil pointer into a nil interface, so that \<open>== nil\<close> holds of it; here both are
  \<open>None\<close>.
\<close>

definition new_copy ::
    "(('m, 'l, 'x) cell \<Rightarrow> 'a option) \<Rightarrow> ('a \<Rightarrow> ('m, 'l, 'x) cell)
       \<Rightarrow> ('a \<Rightarrow> ('m, 'l, 'x) heap \<Rightarrow> 'a \<times> ('m, 'l, 'x) heap)
       \<Rightarrow> addr option \<Rightarrow> ('m, 'l, 'x) heap \<Rightarrow> addr option \<times> ('m, 'l, 'x) heap" where
  "new_copy get mk deep_copy_into inn h =
     (case inn of
        None \<Rightarrow> (None, h)
      | Some p \<Rightarrow>
          (case Option.bind (h_cells h p) get of
             None \<Rightarrow> (None, h)
           | Some x \<Rightarrow> let (out, h) = deep_copy_into x h; (q, h) = alloc (mk out) h in (Some q, h)))"

definition TaskSpec_DeepCopy where
  "TaskSpec_DeepCopy = new_copy as_spec SpecCell TaskSpec_DeepCopyInto"

definition TaskStatus_DeepCopy where
  "TaskStatus_DeepCopy = new_copy as_status StatusCell TaskStatus_DeepCopyInto"

definition Task_DeepCopy where
  "Task_DeepCopy ObjectMeta_DeepCopyInto =
     new_copy as_task TaskCell (Task_DeepCopyInto ObjectMeta_DeepCopyInto)"

definition Task_DeepCopyObject where
  "Task_DeepCopyObject ObjectMeta_DeepCopyInto inn h =
     (case Task_DeepCopy ObjectMeta_DeepCopyInto inn h of
        (Some c, h) \<Rightarrow> (Some c, h)
      | (None, h) \<Rightarrow> (None, h))"

definition TaskList_DeepCopy where
  "TaskList_DeepCopy ObjectMeta_DeepCopyInto ListMeta_DeepCopyInto =
     new_copy as_list ListCell (TaskList_DeepCopyInto ObjectMeta_DeepCopyInto ListMeta_DeepCopyInto)"

definition TaskList_DeepCopyObject where
  "TaskList_DeepCopyObject ObjectMeta_DeepCopyInto ListMeta_DeepCopyInto inn h =
     (case TaskList_DeepCopy ObjectMeta_DeepCopyInto ListMeta_DeepCopyInto inn h of
        (Some c, h) \<Rightarrow> (Some c, h)
      | (None, h) \<Rightarrow> (None, h))"

lemma DeepCopyObject_eq:
  "Task_DeepCopyObject cm = new_copy as_task TaskCell (Task_DeepCopyInto cm)"
  "TaskList_DeepCopyObject cm cl = new_copy as_list ListCell (TaskList_DeepCopyInto cm cl)"
  by (auto simp: fun_eq_iff Task_DeepCopyObject_def TaskList_DeepCopyObject_def Task_DeepCopy_def TaskList_DeepCopy_def
      split: prod.split option.split)

subsection \<open>Slices of plain values\<close>

definition read_slice ::
    "(('m, 'l, 'x) cell \<Rightarrow> 'e list option) \<Rightarrow> ('m, 'l, 'x) heap \<Rightarrow> hslice \<Rightarrow> 'e slice option" where
  "read_slice get h sl =
     (case sl of None \<Rightarrow> Some None | Some _ \<Rightarrow> map_option Some (view get h sl))"

definition reach_slice :: "('m, 'l, 'x) heap \<Rightarrow> hslice \<Rightarrow> addr set" where
  "reach_slice h sl = (case sl of None \<Rightarrow> {} | Some (a, n) \<Rightarrow> {a})"

lemma slice_copier:
  fixes get :: "('m, 'l, 'x) cell \<Rightarrow> 'e list option"
  assumes "\<And>xs. get (mk xs) = Some xs"
  shows "deep_copier (read_slice get) reach_slice (copy_slice get mk)"
proof unfold_locales
  fix h h' :: "('m, 'l, 'x) heap" and a v
  assume "read_slice get h a = Some v" "\<And>b. b \<in> reach_slice h a \<Longrightarrow> h_cells h' b = h_cells h b"
  then show "read_slice get h' a = Some v \<and> reach_slice h' a = reach_slice h a"
    by (auto simp: read_slice_def reach_slice_def view_def split: option.splits)
next
  fix h :: "('m, 'l, 'x) heap" and a v b
  assume "read_slice get h a = Some v" "b \<in> reach_slice h a"
  then show "h_cells h b \<noteq> None"
    by (auto simp: read_slice_def reach_slice_def view_def split: option.splits)
next
  fix h :: "('m, 'l, 'x) heap" and a v
  assume wf: "heap_wf h" and r: "read_slice get h a = Some v"
  show "extends h (snd (copy_slice get mk a h))"
    using wf alloc_extends [OF wf] by (auto simp: copy_slice_def Let_def alloc_def split: option.split)
  show "read_slice get (snd (copy_slice get mk a h)) (fst (copy_slice get mk a h)) = Some v"
    using r assms
    by (auto simp: copy_slice_def read_slice_def view_def alloc_def split: option.splits if_splits)
  fix b
  assume "b \<in> reach_slice (snd (copy_slice get mk a h)) (fst (copy_slice get mk a h))"
  then show "h_next h \<le> b"
    by (auto simp: copy_slice_def reach_slice_def alloc_def split: option.splits)
qed

interpretation strs: deep_copier "read_slice as_strs" reach_slice "copy_slice as_strs StrCell"
  by (rule slice_copier) simp

interpretation conds: deep_copier "read_slice as_conds" reach_slice "copy_slice as_conds CondCell"
  by (rule slice_copier) simp

subsection \<open>Pairs, records and sequences of copyable values\<close>

definition read_pair where
  "read_pair ra rb h p =
     (case ra h (fst p) of None \<Rightarrow> None
      | Some v \<Rightarrow> (case rb h (snd p) of None \<Rightarrow> None | Some w \<Rightarrow> Some (v, w)))"

definition reach_pair where
  "reach_pair ra rb h p = ra h (fst p) \<union> rb h (snd p)"

definition copy_pair where
  "copy_pair ca cb p h = (let (a, h) = ca (fst p) h; (b, h) = cb (snd p) h in ((a, b), h))"

lemma read_pair_Some:
  "read_pair ra rb h p = Some v \<longleftrightarrow> ra h (fst p) = Some (fst v) \<and> rb h (snd p) = Some (snd v)"
  by (cases v) (auto simp: read_pair_def split: option.splits)

lemma pair_value:
  assumes A: "heap_value ra reach_a" and B: "heap_value rb reach_b"
  shows "heap_value (read_pair ra rb) (reach_pair reach_a reach_b)"
proof (unfold_locales, goal_cases)
  case (1 h p v h')
  then show ?case
    using heap_value.read_local [OF A, of h "fst p" "fst v" h']
      heap_value.read_local [OF B, of h "snd p" "snd v" h']
    by (auto simp: read_pair_Some reach_pair_def)
next
  case (2 h p v b)
  then show ?case
    using heap_value.reach_allocated [OF A, of h "fst p" "fst v" b]
      heap_value.reach_allocated [OF B, of h "snd p" "snd v" b]
    by (auto simp: read_pair_Some reach_pair_def)
qed

lemma pair_copier:
  assumes A: "deep_copier ra reach_a ca" and B: "deep_copier rb reach_b cb"
  shows "deep_copier (read_pair ra rb) (reach_pair reach_a reach_b) (copy_pair ca cb)"
proof (rule copierI [OF pair_value [OF deep_copier.axioms(1) [OF A] deep_copier.axioms(1) [OF B]]])
  fix h p v p' h'
  assume wf: "heap_wf h" and r: "read_pair ra rb h p = Some v" and c: "copy_pair ca cb p h = (p', h')"
  obtain a h1 where a: "ca (fst p) h = (a, h1)" by fastforce
  obtain b h2 where b: "cb (snd p) h1 = (b, h2)" by fastforce
  have p': "p' = (a, b)" "h' = h2" using c by (simp_all add: copy_pair_def a b)
  have ra: "ra h (fst p) = Some (fst v)" and rb: "rb h (snd p) = Some (snd v)"
    using r by (simp_all add: read_pair_Some)
  have A1: "extends h h1" "ra h1 a = Some (fst v)" "\<forall>x \<in> reach_a h1 a. h_next h \<le> x"
    using copier_result [OF A wf ra a] by auto
  have rb1: "rb h1 (snd p) = Some (snd v)"
    using heap_value.read_extends [OF deep_copier.axioms(1) [OF B] A1(1) wf rb] by simp
  have B1: "extends h1 h2" "rb h2 b = Some (snd v)" "\<forall>x \<in> reach_b h2 b. h_next h1 \<le> x"
    using copier_result [OF B extends_wf [OF A1(1)] rb1 b] by auto
  have a2: "ra h2 a = Some (fst v)" "reach_a h2 a = reach_a h1 a"
    using heap_value.read_extends [OF deep_copier.axioms(1) [OF A] B1(1) extends_wf [OF A1(1)] A1(2)] by auto
  show "extends h h' \<and> read_pair ra rb h' p' = Some v
      \<and> (\<forall>x \<in> reach_pair reach_a reach_b h' p'. h_next h \<le> x)"
    using extends_trans [OF A1(1) B1(1)] a2 B1(2,3) A1(3) extends_next [OF A1(1)]
    by (auto simp: p' read_pair_Some reach_pair_def)
qed

text \<open>A record is copied through the part of it that holds references.\<close>

definition read_via where
  "read_via get build r h x = map_option (build x) (r h (get x))"

definition reach_via where
  "reach_via get rch h x = rch h (get x)"

lemma via_value:
  assumes "heap_value r rch"
  shows "heap_value (read_via get build r) (reach_via get rch)"
proof (unfold_locales, goal_cases)
  case (1 h x v h')
  then show ?case
    using heap_value.read_local [OF assms, of h "get x" _ h'] by (auto simp: read_via_def reach_via_def)
next
  case (2 h x v b)
  then show ?case
    using heap_value.reach_allocated [OF assms, of h "get x"] by (auto simp: read_via_def reach_via_def)
qed

lemma via_copier:
  assumes C: "deep_copier r rch c"
    and "\<And>x y. get (put y x) = y" "\<And>x y v. build (put y x) v = build x v"
    and "\<And>x h. copy x h = (put (fst (c (get x) h)) x, snd (c (get x) h))"
  shows "deep_copier (read_via get build r) (reach_via get rch) copy"
proof (rule copierI [OF via_value [OF deep_copier.axioms(1) [OF C]]])
  fix h x v x' h'
  assume wf: "heap_wf h" and r: "read_via get build r h x = Some v" and c: "copy x h = (x', h')"
  obtain w where w: "r h (get x) = Some w" "v = build x w" using r by (auto simp: read_via_def)
  show "extends h h' \<and> read_via get build r h' x' = Some v \<and> (\<forall>b \<in> reach_via get rch h' x'. h_next h \<le> b)"
    using copier_result [OF C wf w(1) prod.collapse [symmetric]] c w(2)
    by (auto simp: assms(2-4) read_via_def reach_via_def)
qed

subsection \<open>The copy functions are deep copiers\<close>

definition read_spec :: "('m, 'l, 'x) heap \<Rightarrow> hTaskSpec \<Rightarrow> TaskSpec option" where
  "read_spec = read_via (\<lambda>s. (hsp_Command s, hsp_Args s))
     (\<lambda>s (c, a). \<lparr>ts_Image = hsp_Image s, ts_Command = c, ts_Args = a\<rparr>)
     (read_pair (read_slice as_strs) (read_slice as_strs))"

definition reach_spec :: "('m, 'l, 'x) heap \<Rightarrow> hTaskSpec \<Rightarrow> addr set" where
  "reach_spec = reach_via (\<lambda>s. (hsp_Command s, hsp_Args s)) (reach_pair reach_slice reach_slice)"

interpretation spec: deep_copier read_spec reach_spec TaskSpec_DeepCopyInto
  unfolding read_spec_def reach_spec_def
  by (rule via_copier [where put = "\<lambda>p s. s\<lparr>hsp_Command := fst p, hsp_Args := snd p\<rparr>",
        OF pair_copier [OF strs.deep_copier_axioms strs.deep_copier_axioms]])
    (simp_all add: TaskSpec_DeepCopyInto_def copy_pair_def split: prod.split)

definition read_status :: "('m, 'l, 'x) heap \<Rightarrow> hTaskStatus \<Rightarrow> TaskStatus option" where
  "read_status = read_via hst_Conditions
     (\<lambda>s c. \<lparr>st_Phase = hst_Phase s, st_Conditions = c, st_ObservedGeneration = hst_ObservedGeneration s\<rparr>)
     (read_slice as_conds)"

definition reach_status :: "('m, 'l, 'x) heap \<Rightarrow> hTaskStatus \<Rightarrow> addr set" where
  "reach_status = reach_via hst_Conditions reach_slice"

interpretation status: deep_copier read_status reach_status TaskStatus_DeepCopyInto
  unfolding read_status_def reach_status_def
  by (rule via_copier [where put = "\<lambda>c s. s\<lparr>hst_Conditions := c\<rparr>", OF conds.deep_copier_axioms])
    (simp_all add: TaskStatus_DeepCopyInto_def split: prod.split)

text \<open>The in-memory form of the metadata is the library's, and so is its copy function.\<close>

definition read_task :: "(('m, 'l, 'x) heap \<Rightarrow> 'm \<Rightarrow> ObjectMeta option) \<Rightarrow> ('m, 'l, 'x) heap \<Rightarrow> 'm hTask \<Rightarrow> Task option" where
  "read_task rm = read_via (\<lambda>t. (ht_ObjectMeta t, (ht_Spec t, ht_Status t)))
     (\<lambda>t (m, (s, st)). \<lparr>t_TypeMeta = ht_TypeMeta t, t_ObjectMeta = m, t_Spec = s, t_Status = st\<rparr>)
     (read_pair rm (read_pair read_spec read_status))"

definition reach_task :: "(('m, 'l, 'x) heap \<Rightarrow> 'm \<Rightarrow> addr set) \<Rightarrow> ('m, 'l, 'x) heap \<Rightarrow> 'm hTask \<Rightarrow> addr set" where
  "reach_task rch = reach_via (\<lambda>t. (ht_ObjectMeta t, (ht_Spec t, ht_Status t)))
     (reach_pair rch (reach_pair reach_spec reach_status))"

lemma task_copier:
  assumes "deep_copier rm rch cm"
  shows "deep_copier (read_task rm) (reach_task rch) (Task_DeepCopyInto cm)"
  unfolding read_task_def reach_task_def
  by (rule via_copier [where put = "\<lambda>(m, (s, st)) t. t\<lparr>ht_ObjectMeta := m, ht_Spec := s, ht_Status := st\<rparr>",
        OF pair_copier [OF assms pair_copier [OF spec.deep_copier_axioms status.deep_copier_axioms]]])
    (auto simp: Task_DeepCopyInto_def copy_pair_def split: prod.split)

text \<open>A pointer to a struct, and \<open>DeepCopy\<close> of it.\<close>

definition read_ptr where
  "read_ptr get r h p =
     (case p of None \<Rightarrow> Some None
      | Some a \<Rightarrow> (case Option.bind (h_cells h a) get of None \<Rightarrow> None | Some x \<Rightarrow> map_option Some (r h x)))"

definition reach_ptr where
  "reach_ptr get rch h p =
     (case p of None \<Rightarrow> {}
      | Some a \<Rightarrow> insert a (case Option.bind (h_cells h a) get of None \<Rightarrow> {} | Some x \<Rightarrow> rch h x))"

lemma read_ptr_Some:
  "read_ptr get r h (Some a) = Some v \<longleftrightarrow>
     (\<exists>c x w. h_cells h a = Some c \<and> get c = Some x \<and> r h x = Some w \<and> v = Some w)"
  by (auto simp: read_ptr_def split: option.splits bind_splits)

lemma ptr_value:
  assumes "heap_value r rch"
  shows "heap_value (read_ptr get r) (reach_ptr get rch)"
proof (unfold_locales, goal_cases)
  case (1 h p v h')
  show ?case
  proof (cases p)
    case (Some a)
    with 1(1) obtain c x w where c: "h_cells h a = Some c" "get c = Some x" "r h x = Some w" "v = Some w"
      by (auto simp: read_ptr_Some)
    have "reach_ptr get rch h p = insert a (rch h x)" using Some c by (simp add: reach_ptr_def)
    with 1(2) have same: "h_cells h' a = Some c" "\<And>b. b \<in> rch h x \<Longrightarrow> h_cells h' b = h_cells h b"
      using c(1) by auto
    from heap_value.read_local [OF assms c(3), of h'] same c Some show ?thesis
      by (auto simp: read_ptr_Some reach_ptr_def)
  qed (use 1 in \<open>simp add: read_ptr_def reach_ptr_def\<close>)
next
  case (2 h p v b)
  then obtain a where a: "p = Some a" by (cases p) (auto simp: reach_ptr_def)
  with 2(1) obtain c x w where c: "h_cells h a = Some c" "get c = Some x" "r h x = Some w"
    by (auto simp: read_ptr_Some)
  then show ?case
    using 2(2) heap_value.reach_allocated [OF assms c(3)] by (auto simp: a reach_ptr_def)
qed

lemma ptr_copier:
  assumes C: "deep_copier r rch c" and get: "\<And>x. get (mk x) = Some x"
  shows "deep_copier (read_ptr get r) (reach_ptr get rch) (new_copy get mk c)"
proof (rule copierI [OF ptr_value [OF deep_copier.axioms(1) [OF C]]])
  fix h p v p' h'
  assume wf: "heap_wf h" and r: "read_ptr get r h p = Some v" and cp: "new_copy get mk c p h = (p', h')"
  show "extends h h' \<and> read_ptr get r h' p' = Some v \<and> (\<forall>b \<in> reach_ptr get rch h' p'. h_next h \<le> b)"
  proof (cases p)
    case None
    with wf r cp show ?thesis by (auto simp: read_ptr_def new_copy_def reach_ptr_def)
  next
    case (Some a)
    with r obtain cl x w where x: "h_cells h a = Some cl" "get cl = Some x" "r h x = Some w" "v = Some w"
      by (auto simp: read_ptr_Some)
    obtain y h1 where y: "c x h = (y, h1)" by fastforce
    have y1: "extends h h1" "r h1 y = Some w" "\<forall>b \<in> rch h1 y. h_next h \<le> b"
      using copier_result [OF C wf x(3) y] by auto
    have p': "p' = Some (h_next h1)" "h' = snd (alloc (mk y) h1)"
      using cp Some x y by (auto simp: new_copy_def alloc_def)
    have e: "extends h1 h'" unfolding p' by (rule alloc_extends [OF extends_wf [OF y1(1)]])
    from heap_value.read_extends [OF deep_copier.axioms(1) [OF C] e extends_wf [OF y1(1)] y1(2)]
    have "r h' y = Some w" "rch h' y = rch h1 y" by auto
    moreover have "h_cells h' (h_next h1) = Some (mk y)" by (simp add: p'(2))
    ultimately show ?thesis
      using extends_trans [OF y1(1) e] y1(3) extends_next [OF y1(1)] x(4)
      by (auto simp: p'(1) read_ptr_Some reach_ptr_def get)
  qed
qed

text \<open>A sequence of structs, and the loop that copies it.\<close>

fun read_each where
  "read_each r h [] = Some []"
| "read_each r h (x # xs) =
     (case r h x of None \<Rightarrow> None
      | Some v \<Rightarrow> (case read_each r h xs of None \<Rightarrow> None | Some vs \<Rightarrow> Some (v # vs)))"

definition reach_each where
  "reach_each rch h xs = (\<Union>x \<in> set xs. rch h x)"

lemma read_each_Cons:
  "read_each r h (x # xs) = Some v \<longleftrightarrow> (\<exists>w vs. r h x = Some w \<and> read_each r h xs = Some vs \<and> v = w # vs)"
  by (auto split: option.splits)

lemma each_value:
  assumes "heap_value r rch"
  shows "heap_value (read_each r) (reach_each rch)"
proof (unfold_locales, goal_cases)
  case (1 h xs v h')
  then show ?case
  proof (induction xs arbitrary: v)
    case (Cons x xs)
    from Cons.prems(1) obtain w vs where w: "r h x = Some w" "read_each r h xs = Some vs" "v = w # vs"
      by (auto simp: read_each_Cons simp del: read_each.simps)
    have "r h' x = Some w \<and> rch h' x = rch h x"
      by (rule heap_value.read_local [OF assms w(1)]) (use Cons.prems(2) in \<open>simp add: reach_each_def\<close>)
    moreover have "read_each r h' xs = Some vs \<and> reach_each rch h' xs = reach_each rch h xs"
      by (rule Cons.IH [OF w(2)]) (use Cons.prems(2) in \<open>simp add: reach_each_def\<close>)
    ultimately show ?case by (simp add: w(3) reach_each_def)
  qed (simp add: reach_each_def)
next
  case (2 h xs v b)
  then show ?case
  proof (induction xs arbitrary: v)
    case (Cons x xs)
    from Cons.prems(1) obtain w vs where w: "r h x = Some w" "read_each r h xs = Some vs"
      by (auto simp: read_each_Cons simp del: read_each.simps)
    show ?case
      using Cons.prems(2) heap_value.reach_allocated [OF assms w(1)] Cons.IH [OF w(2)]
      by (auto simp: reach_each_def)
  qed (simp add: reach_each_def)
qed

lemma each_copier:
  assumes C: "deep_copier r rch c"
  shows "deep_copier (read_each r) (reach_each rch) (copy_each c)"
proof (rule copierI [OF each_value [OF deep_copier.axioms(1) [OF C]]])
  fix h xs v ys h'
  assume "heap_wf h" "read_each r h xs = Some v" "copy_each c xs h = (ys, h')"
  then show "extends h h' \<and> read_each r h' ys = Some v \<and> (\<forall>b \<in> reach_each rch h' ys. h_next h \<le> b)"
  proof (induction xs arbitrary: h v ys)
    case (Cons x xs)
    from Cons.prems(2) obtain w vs where w: "r h x = Some w" "read_each r h xs = Some vs" "v = w # vs"
      by (auto simp: read_each_Cons simp del: read_each.simps)
    obtain y h1 where y: "c x h = (y, h1)" by fastforce
    obtain zs h2 where zs: "copy_each c xs h1 = (zs, h2)" by fastforce
    have ys: "ys = y # zs" "h' = h2" using Cons.prems(3) by (simp_all add: y zs)
    have y1: "extends h h1" "r h1 y = Some w" "\<forall>b \<in> rch h1 y. h_next h \<le> b"
      using copier_result [OF C Cons.prems(1) w(1) y] by auto
    have "read_each r h1 xs = Some vs"
      using heap_value.read_extends [OF each_value [OF deep_copier.axioms(1) [OF C]] y1(1) Cons.prems(1) w(2)] by simp
    from Cons.IH [OF extends_wf [OF y1(1)] this zs [folded ys(2)]]
    have z: "extends h1 h'" "read_each r h' zs = Some vs" "\<forall>b \<in> reach_each rch h' zs. h_next h1 \<le> b" by auto
    have "r h' y = Some w \<and> rch h' y = rch h1 y"
      by (rule heap_value.read_extends [OF deep_copier.axioms(1) [OF C] z(1) extends_wf [OF y1(1)] y1(2)])
    moreover have "\<forall>x \<in> set zs. \<forall>b \<in> rch h' x. h_next h \<le> b"
      using z(3) extends_next [OF y1(1)] unfolding reach_each_def by (meson UN_I order_trans)
    ultimately show ?case
      using extends_trans [OF y1(1) z(1)] z(2) y1(3) w(3) by (auto simp: ys(1) reach_each_def)
  qed (simp add: reach_each_def)
qed

text \<open>\<open>Items []Task\<close>: an array of structs, copied by allocating a new array.\<close>

definition read_items where
  "read_items r h sl =
     (case sl of None \<Rightarrow> Some None
      | Some _ \<Rightarrow> (case view as_tasks h sl of None \<Rightarrow> None | Some ts \<Rightarrow> map_option Some (read_each r h ts)))"

definition reach_items where
  "reach_items rch h sl =
     (case sl of None \<Rightarrow> {}
      | Some (a, n) \<Rightarrow> insert a (case view as_tasks h sl of None \<Rightarrow> {} | Some ts \<Rightarrow> reach_each rch h ts))"

definition copy_items where
  "copy_items c sl h =
     (case sl of None \<Rightarrow> (None, h)
      | Some (a, n) \<Rightarrow>
          let ts = (case view as_tasks h sl of None \<Rightarrow> [] | Some ts \<Rightarrow> ts);
              (items, h) = copy_each c ts h;
              (b, h) = alloc (TasksCell items) h
          in (Some (b, n), h))"

lemma view_Some:
  "view get h (Some (a, n)) = Some ts \<longleftrightarrow>
     (\<exists>c xs. h_cells h a = Some c \<and> get c = Some xs \<and> n \<le> length xs \<and> ts = take n xs)"
  by (auto simp: view_def split: option.splits)

lemma items_value:
  assumes "heap_value r rch"
  shows "heap_value (read_items r) (reach_items rch)"
proof (unfold_locales, goal_cases)
  case (1 h sl v h')
  show ?case
  proof (cases sl)
    case (Some an)
    obtain a n where an: "an = (a, n)" by fastforce
    with 1(1) Some obtain ts vs where v: "view as_tasks h (Some (a, n)) = Some ts" "read_each r h ts = Some vs" "v = Some vs"
      by (auto simp: read_items_def split: option.splits)
    have rch: "reach_items rch h sl = insert a (reach_each rch h ts)" using Some an v by (simp add: reach_items_def)
    with 1(2) have same: "h_cells h' a = h_cells h a" "\<And>b. b \<in> reach_each rch h ts \<Longrightarrow> h_cells h' b = h_cells h b"
      by auto
    have "view as_tasks h' (Some (a, n)) = Some ts" using v(1) same(1) by (simp add: view_Some)
    with heap_value.read_local [OF each_value [OF assms] v(2), of h'] same(2) v(3) Some an rch
    show ?thesis by (auto simp: read_items_def reach_items_def)
  qed (use 1 in \<open>simp add: read_items_def reach_items_def\<close>)
next
  case (2 h sl v b)
  then obtain a n where an: "sl = Some (a, n)" by (cases sl) (auto simp: reach_items_def)
  with 2(1) obtain ts vs where v: "view as_tasks h (Some (a, n)) = Some ts" "read_each r h ts = Some vs"
    by (auto simp: read_items_def split: option.splits)
  have "reach_items rch h sl = insert a (reach_each rch h ts)" using an v(1) by (simp add: reach_items_def)
  moreover have "h_cells h a \<noteq> None" using v(1) by (auto simp: view_Some)
  ultimately show ?case
    using 2(2) heap_value.reach_allocated [OF each_value [OF assms] v(2)] by auto
qed

lemma length_copy_each: "copy_each c xs h = (ys, h') \<Longrightarrow> length ys = length xs"
  by (induction xs arbitrary: h ys) (auto split: prod.splits)

lemma items_copier:
  assumes C: "deep_copier r rch c"
  shows "deep_copier (read_items r) (reach_items rch) (copy_items c)"
proof (rule copierI [OF items_value [OF deep_copier.axioms(1) [OF C]]])
  fix h sl v sl' h'
  assume wf: "heap_wf h" and r: "read_items r h sl = Some v" and cp: "copy_items c sl h = (sl', h')"
  show "extends h h' \<and> read_items r h' sl' = Some v \<and> (\<forall>b \<in> reach_items rch h' sl'. h_next h \<le> b)"
  proof (cases sl)
    case None
    with wf r cp show ?thesis by (auto simp: read_items_def copy_items_def reach_items_def)
  next
    case (Some an)
    obtain a n where an: "an = (a, n)" by fastforce
    with r Some obtain ts vs where v: "view as_tasks h (Some (a, n)) = Some ts" "read_each r h ts = Some vs" "v = Some vs"
      by (auto simp: read_items_def split: option.splits)
    obtain ys h1 where ys: "copy_each c ts h = (ys, h1)" by fastforce
    have y1: "extends h h1" "read_each r h1 ys = Some vs" "\<forall>b \<in> reach_each rch h1 ys. h_next h \<le> b"
      using copier_result [OF each_copier [OF C] wf v(2) ys] by auto
    have sl': "sl' = Some (h_next h1, n)" "h' = snd (alloc (TasksCell ys) h1)"
      using cp Some an v(1) ys by (auto simp: copy_items_def alloc_def)
    have e: "extends h1 h'" unfolding sl' by (rule alloc_extends [OF extends_wf [OF y1(1)]])
    have "length ys = n" using length_copy_each [OF ys] v(1) by (auto simp: view_Some)
    then have w: "view as_tasks h' sl' = Some ys" by (simp add: sl' view_Some)
    from heap_value.read_extends [OF each_value [OF deep_copier.axioms(1) [OF C]] e extends_wf [OF y1(1)] y1(2)]
    have "read_each r h' ys = Some vs" "reach_each rch h' ys = reach_each rch h1 ys" by auto
    with w show ?thesis
      using extends_trans [OF y1(1) e] y1(3) extends_next [OF y1(1)] v(3)
      by (auto simp: sl'(1) read_items_def reach_items_def)
  qed
qed

definition read_list ::
    "(('m, 'l, 'x) heap \<Rightarrow> 'm \<Rightarrow> ObjectMeta option) \<Rightarrow> (('m, 'l, 'x) heap \<Rightarrow> 'l \<Rightarrow> ListMeta option)
       \<Rightarrow> ('m, 'l, 'x) heap \<Rightarrow> 'l hTaskList \<Rightarrow> TaskList option" where
  "read_list rm rl = read_via (\<lambda>l. (hl_ListMeta l, hl_Items l))
     (\<lambda>l (m, ts). \<lparr>tl_TypeMeta = hl_TypeMeta l, tl_ListMeta = m, tl_Items = ts\<rparr>)
     (read_pair rl (read_items (read_task rm)))"

definition reach_list ::
    "(('m, 'l, 'x) heap \<Rightarrow> 'm \<Rightarrow> addr set) \<Rightarrow> (('m, 'l, 'x) heap \<Rightarrow> 'l \<Rightarrow> addr set)
       \<Rightarrow> ('m, 'l, 'x) heap \<Rightarrow> 'l hTaskList \<Rightarrow> addr set" where
  "reach_list rch rchl = reach_via (\<lambda>l. (hl_ListMeta l, hl_Items l))
     (reach_pair rchl (reach_items (reach_task rch)))"

lemma TaskList_copy_eq:
  "TaskList_DeepCopyInto cm cl inn h =
     (inn\<lparr>hl_ListMeta := fst (fst (copy_pair cl (copy_items (Task_DeepCopyInto cm)) (hl_ListMeta inn, hl_Items inn) h)),
          hl_Items := snd (fst (copy_pair cl (copy_items (Task_DeepCopyInto cm)) (hl_ListMeta inn, hl_Items inn) h))\<rparr>,
      snd (copy_pair cl (copy_items (Task_DeepCopyInto cm)) (hl_ListMeta inn, hl_Items inn) h))"
  by (cases "hl_Items inn")
    (auto simp: TaskList_DeepCopyInto_def copy_pair_def copy_items_def Let_def split: prod.split)

lemma list_copier:
  assumes M: "deep_copier rm rch cm" and L: "deep_copier rl rchl cl"
  shows "deep_copier (read_list rm rl) (reach_list rch rchl) (TaskList_DeepCopyInto cm cl)"
  unfolding read_list_def reach_list_def
  by (rule via_copier [where put = "\<lambda>(m, ts) l. l\<lparr>hl_ListMeta := m, hl_Items := ts\<rparr>",
        OF pair_copier [OF L items_copier [OF task_copier [OF M]]]])
    (auto simp: TaskList_copy_eq split: prod.split)

end
