(* ===== verification/StoreHeap.thy ===== *)
theory StoreHeap
  imports DeepCopy StoreSpec
begin

section \<open>The store in memory\<close>

text \<open>
  The methods of \<open>store.go\<close> once more, now on pointers: the map holds addresses of Tasks, the
  deep copies on the way in and out are calls of the generated copy functions, and the
  resource version is stamped in place on the stored copy. The theory shows that this
  store refines the one over values, in the presence of clients that write to every object
  they ever passed in or got out. Stored objects are Tasks: other kinds of objects would bring
  copy functions of their own.
\<close>

subsection \<open>The library's metadata in memory\<close>

record ('m, 'l, 'x) meta_lib =
  ml_read :: "('m, 'l, 'x) heap \<Rightarrow> 'm \<Rightarrow> ObjectMeta option"
  ml_reach :: "('m, 'l, 'x) heap \<Rightarrow> 'm \<Rightarrow> addr set"
  ml_DeepCopyInto :: "'m \<Rightarrow> ('m, 'l, 'x) heap \<Rightarrow> 'm \<times> ('m, 'l, 'x) heap"
  ml_SetResourceVersion :: "string \<Rightarrow> 'm \<Rightarrow> 'm"

text \<open>\<open>ObjectMeta.DeepCopyInto\<close> is a deep copy, and setting the version sets just that field.\<close>

definition meta_lib_ok :: "('m, 'l, 'x) meta_lib \<Rightarrow> bool" where
  "meta_lib_ok L \<longleftrightarrow> deep_copier (ml_read L) (ml_reach L) (ml_DeepCopyInto L)
     \<and> (\<forall>h m v om. ml_read L h m = Some om \<longrightarrow>
          ml_read L h (ml_SetResourceVersion L v m) = Some (om\<lparr>om_ResourceVersion := v\<rparr>)
          \<and> ml_reach L h (ml_SetResourceVersion L v m) = ml_reach L h m)"

definition task_at :: "('m, 'l, 'x) meta_lib \<Rightarrow> ('m, 'l, 'x) heap \<Rightarrow> addr \<Rightarrow> Task option" where
  "task_at L h a = Option.bind (read_ptr as_task (read_task (ml_read L)) h (Some a)) id"

definition foot :: "('m, 'l, 'x) meta_lib \<Rightarrow> ('m, 'l, 'x) heap \<Rightarrow> addr \<Rightarrow> addr set" where
  "foot L h a = reach_ptr as_task (reach_task (ml_reach L)) h (Some a)"

subsection \<open>State and operations\<close>

record hstore =
  hs_items :: "Key \<rightharpoonup> addr"
  hs_rv :: u64
  hs_gr :: GroupResource

definition hStore_New :: "GroupResource \<Rightarrow> hstore" where
  "hStore_New gr = \<lparr>hs_items = Map.empty, hs_rv = 0, hs_gr = gr\<rparr>"

definition hDeepCopyObject where
  "hDeepCopyObject L p h = Task_DeepCopyObject (ml_DeepCopyInto L) (Some p) h"

text \<open>\<open>bumpAndStampLocked\<close>: a \<open>*Task\<close> has metadata, so the accessor does not fail.\<close>

definition h_bumpAndStamp ::
    "('m, 'l, 'x) meta_lib \<Rightarrow> addr \<Rightarrow> hstore \<Rightarrow> ('m, 'l, 'x) heap \<Rightarrow> hstore \<times> ('m, 'l, 'x) heap" where
  "h_bumpAndStamp L p s h =
     (let s = s\<lparr>hs_rv := hs_rv s + 1\<rparr>
      in case Option.bind (h_cells h p) as_task of
           None \<Rightarrow> (s, h)
         | Some t \<Rightarrow>
             (s, h\<lparr>h_cells := (h_cells h)(p \<mapsto> TaskCell
                (t\<lparr>ht_ObjectMeta := ml_SetResourceVersion L (FormatUint (hs_rv s)) (ht_ObjectMeta t)\<rparr>))\<rparr>))"

definition nil_panic :: "('e, 'a) outcome" where
  "nil_panic = Panic ''nil pointer dereference''"

definition hStore_Create ::
    "('m, 'l, 'x) meta_lib \<Rightarrow> Key \<Rightarrow> addr \<Rightarrow> hstore \<Rightarrow> ('m, 'l, 'x) heap
       \<Rightarrow> (go_error, addr) outcome \<times> hstore \<times> ('m, 'l, 'x) heap" where
  "hStore_Create L key p s h =
     (if hs_items s key \<noteq> None then (Err (AlreadyExists (hs_gr s) (k_Name key)), s, h)
      else case hDeepCopyObject L p h of
             (None, h) \<Rightarrow> (nil_panic, s, h)
           | (Some stored, h) \<Rightarrow>
               let (s, h) = h_bumpAndStamp L stored s h;
                   s = s\<lparr>hs_items := (hs_items s)(key \<mapsto> stored)\<rparr>
               in case hDeepCopyObject L stored h of
                    (None, h) \<Rightarrow> (nil_panic, s, h)
                  | (Some r, h) \<Rightarrow> (Ok r, s, h))"

definition hStore_Get ::
    "('m, 'l, 'x) meta_lib \<Rightarrow> Key \<Rightarrow> hstore \<Rightarrow> ('m, 'l, 'x) heap
       \<Rightarrow> (go_error, addr) outcome \<times> hstore \<times> ('m, 'l, 'x) heap" where
  "hStore_Get L key s h =
     (case hs_items s key of
        None \<Rightarrow> (Err (NotFound (hs_gr s) (k_Name key)), s, h)
      | Some obj \<Rightarrow>
          (case hDeepCopyObject L obj h of
             (None, h) \<Rightarrow> (nil_panic, s, h)
           | (Some r, h) \<Rightarrow> (Ok r, s, h)))"

definition hStore_Update ::
    "('m, 'l, 'x) meta_lib \<Rightarrow> Key \<Rightarrow> addr \<Rightarrow> hstore \<Rightarrow> ('m, 'l, 'x) heap
       \<Rightarrow> (go_error, addr) outcome \<times> hstore \<times> ('m, 'l, 'x) heap" where
  "hStore_Update L key p s h =
     (if hs_items s key = None then (Err (NotFound (hs_gr s) (k_Name key)), s, h)
      else case hDeepCopyObject L p h of
             (None, h) \<Rightarrow> (nil_panic, s, h)
           | (Some stored, h) \<Rightarrow>
               let (s, h) = h_bumpAndStamp L stored s h;
                   s = s\<lparr>hs_items := (hs_items s)(key \<mapsto> stored)\<rparr>
               in case hDeepCopyObject L stored h of
                    (None, h) \<Rightarrow> (nil_panic, s, h)
                  | (Some r, h) \<Rightarrow> (Ok r, s, h))"

definition hStore_Delete ::
    "('m, 'l, 'x) meta_lib \<Rightarrow> Key \<Rightarrow> hstore \<Rightarrow> ('m, 'l, 'x) heap
       \<Rightarrow> (go_error, addr) outcome \<times> hstore \<times> ('m, 'l, 'x) heap" where
  "hStore_Delete L key s h =
     (case hs_items s key of
        None \<Rightarrow> (Err (NotFound (hs_gr s) (k_Name key)), s, h)
      | Some obj \<Rightarrow>
          let s = s\<lparr>hs_items := (hs_items s)(key := None), hs_rv := hs_rv s + 1\<rparr>
          in case hDeepCopyObject L obj h of
               (None, h) \<Rightarrow> (nil_panic, s, h)
             | (Some r, h) \<Rightarrow> (Ok r, s, h))"

text \<open>\<open>List\<close> copies the objects that it selects, in the order in which the map is ranged over.\<close>

fun hStore_List ::
    "('m, 'l, 'x) meta_lib \<Rightarrow> Key list \<Rightarrow> string \<Rightarrow> hstore \<Rightarrow> ('m, 'l, 'x) heap
       \<Rightarrow> addr option list \<times> ('m, 'l, 'x) heap" where
  "hStore_List L [] ns s h = ([], h)"
| "hStore_List L (k # ks) ns s h =
     (case hs_items s k of
        None \<Rightarrow> hStore_List L ks ns s h
      | Some v \<Rightarrow>
          if ns \<noteq> [] \<and> k_Namespace k \<noteq> ns then hStore_List L ks ns s h
          else let (p, h) = hDeepCopyObject L v h; (ps, h) = hStore_List L ks ns s h in (p # ps, h))"

subsection \<open>What a heap store stands for\<close>

definition abs_store :: "('m, 'l, 'x) meta_lib \<Rightarrow> hstore \<Rightarrow> ('m, 'l, 'x) heap \<Rightarrow> store" where
  "abs_store L s h =
     \<lparr>s_items = (\<lambda>k. Option.bind (hs_items s k) (\<lambda>a. map_option TaskObj (task_at L h a))),
      s_rv = hs_rv s, s_gr = hs_gr s\<rparr>"

definition hstore_inv :: "('m, 'l, 'x) meta_lib \<Rightarrow> hstore \<Rightarrow> ('m, 'l, 'x) heap \<Rightarrow> bool" where
  "hstore_inv L s h \<longleftrightarrow> heap_wf h \<and> (\<forall>k a. hs_items s k = Some a \<longrightarrow> task_at L h a \<noteq> None)"

definition store_foot :: "('m, 'l, 'x) meta_lib \<Rightarrow> hstore \<Rightarrow> ('m, 'l, 'x) heap \<Rightarrow> addr set" where
  "store_foot L s h = (\<Union>a \<in> ran (hs_items s). foot L h a)"

subsection \<open>Reading tasks in memory\<close>

lemma task_at_read:
  "task_at L h a = Some t \<longleftrightarrow> read_ptr as_task (read_task (ml_read L)) h (Some a) = Some (Some t)"
  by (auto simp: task_at_def read_ptr_def split: option.splits bind_splits)

lemma meta_copier: "meta_lib_ok L \<Longrightarrow> deep_copier (ml_read L) (ml_reach L) (ml_DeepCopyInto L)"
  by (simp add: meta_lib_ok_def)

lemma object_copier:
  assumes "meta_lib_ok L"
  shows "deep_copier (read_ptr as_task (read_task (ml_read L))) (reach_ptr as_task (reach_task (ml_reach L)))
    (Task_DeepCopyObject (ml_DeepCopyInto L))"
  unfolding DeepCopyObject_eq
  by (rule ptr_copier [OF task_copier [OF meta_copier [OF assms]]]) simp

lemma task_at_local:
  assumes "meta_lib_ok L" "task_at L h a = Some t" "\<And>b. b \<in> foot L h a \<Longrightarrow> h_cells h' b = h_cells h b"
  shows "task_at L h' a = Some t \<and> foot L h' a = foot L h a"
  using heap_value.read_local [OF deep_copier.axioms(1) [OF object_copier [OF assms(1)]], of h "Some a" "Some t" h']
    assms(2,3) by (simp add: task_at_read foot_def)

lemma foot_lt:
  assumes "meta_lib_ok L" "heap_wf h" "task_at L h a = Some t" "b \<in> foot L h a"
  shows "b < h_next h"
  using heap_value.reach_lt [OF deep_copier.axioms(1) [OF object_copier [OF assms(1)]] assms(2)]
    assms(3,4) by (simp add: task_at_read foot_def)

lemma task_at_extends:
  assumes "meta_lib_ok L" "extends h h'" "heap_wf h" "task_at L h a = Some t"
  shows "task_at L h' a = Some t \<and> foot L h' a = foot L h a"
  by (rule task_at_local [OF assms(1,4)])
    (use assms(2) foot_lt [OF assms(1,3,4)] in \<open>simp add: extends_def\<close>)

lemma copy_object:
  assumes "meta_lib_ok L" "heap_wf h" "task_at L h p = Some t"
  obtains q h' where "hDeepCopyObject L p h = (Some q, h')" "extends h h'" "task_at L h' q = Some t"
    "\<forall>b \<in> foot L h' q. h_next h \<le> b"
proof -
  obtain r h' where r: "hDeepCopyObject L p h = (r, h')" by fastforce
  then have "Task_DeepCopyObject (ml_DeepCopyInto L) (Some p) h = (r, h')" by (simp add: hDeepCopyObject_def)
  from copier_result [OF object_copier [OF assms(1)] assms(2) assms(3) [unfolded task_at_read] this]
  have c: "extends h h'" "read_ptr as_task (read_task (ml_read L)) h' r = Some (Some t)"
    "\<forall>b \<in> reach_ptr as_task (reach_task (ml_reach L)) h' r. h_next h \<le> b" by auto
  then obtain q where "r = Some q" by (cases r) (auto simp: read_ptr_def)
  with c r that show thesis by (auto simp: task_at_read foot_def)
qed

subsection \<open>A stamped copy\<close>

definition with_version :: "u64 \<Rightarrow> Task \<Rightarrow> Task" where
  "with_version rv t = t\<lparr>t_ObjectMeta := (t_ObjectMeta t)\<lparr>om_ResourceVersion := FormatUint rv\<rparr>\<rparr>"

lemma stamped_with_version: "stamped s (TaskObj t) = TaskObj (with_version (s_rv s + 1) t)"
  by (simp add: with_version_def)

lemma read_set_version:
  assumes "meta_lib_ok L" "read_task (ml_read L) h x = Some t"
    and "x' = x\<lparr>ht_ObjectMeta := ml_SetResourceVersion L (FormatUint rv) (ht_ObjectMeta x)\<rparr>"
  shows "read_task (ml_read L) h x' = Some (with_version rv t)
    \<and> reach_task (ml_reach L) h x' = reach_task (ml_reach L) h x"
proof -
  from assms(2) obtain om s st where r: "ml_read L h (ht_ObjectMeta x) = Some om"
    "read_spec h (ht_Spec x) = Some s" "read_status h (ht_Status x) = Some st"
    "t = \<lparr>t_TypeMeta = ht_TypeMeta x, t_ObjectMeta = om, t_Spec = s, t_Status = st\<rparr>"
    by (auto simp: read_task_def read_via_def read_pair_Some)
  moreover have "ml_read L h (ml_SetResourceVersion L (FormatUint rv) (ht_ObjectMeta x))
      = Some (om\<lparr>om_ResourceVersion := FormatUint rv\<rparr>)
    \<and> ml_reach L h (ml_SetResourceVersion L (FormatUint rv) (ht_ObjectMeta x)) = ml_reach L h (ht_ObjectMeta x)"
    using assms(1) r(1) unfolding meta_lib_ok_def by blast
  ultimately show ?thesis
    unfolding assms(3)
    by (simp add: read_task_def read_via_def read_pair_def reach_task_def reach_via_def reach_pair_def with_version_def)
qed

lemma copy_stamped:
  assumes L: "meta_lib_ok L" and wf: "heap_wf h" and t: "task_at L h p = Some t"
  obtains q h1 h2 where "hDeepCopyObject L p h = (Some q, h1)"
    "h_bumpAndStamp L q s h1 = (s\<lparr>hs_rv := hs_rv s + 1\<rparr>, h2)" "extends h h2"
    "task_at L h2 q = Some (with_version (hs_rv s + 1) t)" "\<forall>b \<in> foot L h2 q. h_next h \<le> b"
proof -
  from t obtain x where x: "Option.bind (h_cells h p) as_task = Some x" "read_task (ml_read L) h x = Some t"
    by (auto simp: task_at_read read_ptr_def split: option.splits)
  obtain y h0 where y: "Task_DeepCopyInto (ml_DeepCopyInto L) x h = (y, h0)" by fastforce
  have c: "extends h h0" "read_task (ml_read L) h0 y = Some t"
    "\<forall>b \<in> reach_task (ml_reach L) h0 y. h_next h \<le> b"
    using copier_result [OF task_copier [OF meta_copier [OF L]] wf x(2) y] by auto
  define y' where "y' = y\<lparr>ht_ObjectMeta := ml_SetResourceVersion L (FormatUint (hs_rv s + 1)) (ht_ObjectMeta y)\<rparr>"
  define h2 where "h2 = snd (alloc (TaskCell y') h0)"
  have copy: "hDeepCopyObject L p h = (Some (h_next h0), snd (alloc (TaskCell y) h0))"
    using x(1) y by (simp add: hDeepCopyObject_def DeepCopyObject_eq new_copy_def alloc_def)
  have stamp: "h_bumpAndStamp L (h_next h0) s (snd (alloc (TaskCell y) h0)) = (s\<lparr>hs_rv := hs_rv s + 1\<rparr>, h2)"
    by (simp add: h_bumpAndStamp_def h2_def y'_def Let_def alloc_def)
  have e: "extends h0 h2" unfolding h2_def by (rule alloc_extends [OF extends_wf [OF c(1)]])
  have y'0: "read_task (ml_read L) h0 y' = Some (with_version (hs_rv s + 1) t)"
    "reach_task (ml_reach L) h0 y' = reach_task (ml_reach L) h0 y"
    using read_set_version [OF L c(2) y'_def] by auto
  have y'2: "read_task (ml_read L) h2 y' = Some (with_version (hs_rv s + 1) t)"
    "reach_task (ml_reach L) h2 y' = reach_task (ml_reach L) h0 y"
    using heap_value.read_extends [OF deep_copier.axioms(1) [OF task_copier [OF meta_copier [OF L]]]
        e extends_wf [OF c(1)] y'0(1)] y'0(2) by auto
  have cell: "h_cells h2 (h_next h0) = Some (TaskCell y')" by (simp add: h2_def)
  have "task_at L h2 (h_next h0) = Some (with_version (hs_rv s + 1) t)"
    using cell y'2(1) by (simp add: task_at_read read_ptr_def)
  moreover have "h_next h \<le> b" if "b \<in> foot L h2 (h_next h0)" for b
    using that cell y'2(2) c(3) extends_next [OF c(1)] by (auto simp: foot_def reach_ptr_def)
  ultimately show thesis using that copy stamp extends_trans [OF c(1) e] by blast
qed

subsection \<open>Each method refines its value-level model\<close>

text \<open>
  What a method leaves behind: the invariant, the abstract store it should have, a result
  that stands for the abstract result, and nothing shared between the result and the store.
  Memory that existed before is not written to.
\<close>

definition refines ::
    "('m, 'l, 'x) meta_lib \<Rightarrow> ('m, 'l, 'x) heap \<Rightarrow> addr set
       \<Rightarrow> (go_error, addr) outcome \<times> hstore \<times> ('m, 'l, 'x) heap
       \<Rightarrow> (go_error, runtime_object) outcome \<times> store \<Rightarrow> bool" where
  "refines L h F c a \<longleftrightarrow>
     (case c of (r, s', h') \<Rightarrow>
        hstore_inv L s' h' \<and> abs_store L s' h' = snd a \<and> extends h h'
        \<and> store_foot L s' h' \<subseteq> F \<union> {h_next h..<h_next h'}
        \<and> (case r of
             Ok p \<Rightarrow> (\<exists>t. task_at L h' p = Some t \<and> fst a = Ok (TaskObj t))
                     \<and> store_foot L s' h' \<inter> foot L h' p = {} \<and> foot L h' p \<subseteq> {h_next h..<h_next h'}
           | Err e \<Rightarrow> fst a = Err e
           | Panic m \<Rightarrow> False))"

lemma abs_items_Some:
  "s_items (abs_store L s h) k = Some obj \<longleftrightarrow> (\<exists>a t. hs_items s k = Some a \<and> task_at L h a = Some t \<and> obj = TaskObj t)"
  by (auto simp: abs_store_def bind_eq_Some_conv)

lemma abs_items_None:
  assumes "hstore_inv L s h"
  shows "s_items (abs_store L s h) k = None \<longleftrightarrow> hs_items s k = None"
  using assms by (auto simp: abs_store_def hstore_inv_def split: bind_splits)

lemma abs_simps [simp]: "s_rv (abs_store L s h) = hs_rv s" "s_gr (abs_store L s h) = hs_gr s"
  by (simp_all add: abs_store_def)

text \<open>Growing the heap changes nothing for the store.\<close>

lemma store_extends:
  assumes L: "meta_lib_ok L" and inv: "hstore_inv L s h" and e: "extends h h'"
  shows "hstore_inv L s h' \<and> s_items (abs_store L s h') = s_items (abs_store L s h)
    \<and> store_foot L s h' = store_foot L s h \<and> store_foot L s h \<subseteq> {..<h_next h}"
proof -
  have wf: "heap_wf h" using inv by (simp add: hstore_inv_def)
  have at: "task_at L h' a = task_at L h a \<and> foot L h' a = foot L h a \<and> foot L h a \<subseteq> {..<h_next h}
      \<and> task_at L h a \<noteq> None" if "hs_items s k = Some a" for k a
  proof -
    obtain t where t: "task_at L h a = Some t" using inv \<open>hs_items s k = Some a\<close> by (auto simp: hstore_inv_def)
    show ?thesis using task_at_extends [OF L e wf t] foot_lt [OF L wf t] t by auto
  qed
  have "s_items (abs_store L s h') k = s_items (abs_store L s h) k" for k
    using at [of k] by (cases "hs_items s k") (auto simp: abs_store_def)
  moreover have "store_foot L s h' = store_foot L s h" "store_foot L s h \<subseteq> {..<h_next h}"
    using at by (auto simp: store_foot_def ran_def)
  ultimately show ?thesis using at extends_wf [OF e] by (auto simp: hstore_inv_def)
qed

lemma refines_error:
  "hstore_inv L s h \<Longrightarrow> refines L h (store_foot L s h) (Err e, s, h) (Err e, abs_store L s h)"
  by (simp add: refines_def hstore_inv_def)

text \<open>The reply to a method that ended in store \<open>s\<close> and replies with a copy of \<open>obj\<close>.\<close>

lemma reply_copy:
  assumes L: "meta_lib_ok L" and inv: "hstore_inv L s h" and t: "task_at L h obj = Some t"
    and e: "extends h0 h" and F: "store_foot L s h \<subseteq> F \<union> {h_next h0..<h_next h}"
  shows "\<exists>r h'. hDeepCopyObject L obj h = (Some r, h')
    \<and> refines L h0 F (Ok r, s, h') (Ok (TaskObj t), abs_store L s h)"
proof -
  have wf: "heap_wf h" using inv by (simp add: hstore_inv_def)
  obtain r h' where r: "hDeepCopyObject L obj h = (Some r, h')" "extends h h'" "task_at L h' r = Some t"
    "\<forall>b \<in> foot L h' r. h_next h \<le> b" by (rule copy_object [OF L wf t])
  note st = store_extends [OF L inv r(2)]
  have "foot L h' r \<subseteq> {h_next h..<h_next h'}"
    using r(4) foot_lt [OF L extends_wf [OF r(2)] r(3)] by fastforce
  moreover have "abs_store L s h' = abs_store L s h" using st by (intro store.equality) simp_all
  ultimately have "refines L h0 F (Ok r, s, h') (Ok (TaskObj t), abs_store L s h)"
    using st r(3) F extends_trans [OF e r(2)] extends_next [OF e] extends_next [OF r(2)]
    by (fastforce simp: refines_def)
  with r(1) show ?thesis by blast
qed

lemma get_refines:
  assumes L: "meta_lib_ok L" and inv: "hstore_inv L s h"
  shows "refines L h (store_foot L s h) (hStore_Get L key s h) (Store_Get key (abs_store L s h), abs_store L s h)"
proof (cases "hs_items s key")
  case None
  then show ?thesis
    using refines_error [OF inv] abs_items_None [OF inv, of key] by (simp add: hStore_Get_def store_rules)
next
  case (Some obj)
  with inv obtain t where t: "task_at L h obj = Some t" by (auto simp: hstore_inv_def)
  have "s_items (abs_store L s h) key = Some (TaskObj t)" using Some t by (auto simp: abs_items_Some)
  moreover have "heap_wf h" using inv by (simp add: hstore_inv_def)
  ultimately show ?thesis
    using reply_copy [OF L inv t, of h "store_foot L s h"] Some
    by (auto simp: hStore_Get_def store_rules)
qed

lemma delete_refines:
  assumes L: "meta_lib_ok L" and inv: "hstore_inv L s h"
  shows "refines L h (store_foot L s h) (hStore_Delete L key s h) (Store_Delete key (abs_store L s h))"
proof (cases "hs_items s key")
  case None
  then show ?thesis
    using refines_error [OF inv] abs_items_None [OF inv, of key] by (simp add: hStore_Delete_def store_rules)
next
  case (Some obj)
  with inv obtain t where t: "task_at L h obj = Some t" by (auto simp: hstore_inv_def)
  let ?s = "s\<lparr>hs_items := (hs_items s)(key := None), hs_rv := hs_rv s + 1\<rparr>"
  have "s_items (abs_store L s h) key = Some (TaskObj t)" using Some t by (auto simp: abs_items_Some)
  then have a: "Store_Delete key (abs_store L s h) = (Ok (TaskObj t), abs_store L ?s h)"
    by (auto simp: store_rules abs_store_def fun_eq_iff)
  have inv': "hstore_inv L ?s h" using inv by (auto simp: hstore_inv_def split: if_splits)
  have "store_foot L ?s h \<subseteq> store_foot L s h" by (auto simp: store_foot_def ran_def split: if_splits)
  moreover have "heap_wf h" using inv by (simp add: hstore_inv_def)
  ultimately show ?thesis
    using reply_copy [OF L inv' t, of h "store_foot L s h"] Some
    by (auto simp: hStore_Delete_def a)
qed

text \<open>The part that create and update share.\<close>

lemma store_foot_put:
  "store_foot L (s\<lparr>hs_rv := rv, hs_items := (hs_items s)(key \<mapsto> q)\<rparr>) h \<subseteq> store_foot L s h \<union> foot L h q"
  by (auto simp: store_foot_def ran_def split: if_splits)

lemma put_refines:
  assumes L: "meta_lib_ok L" and inv: "hstore_inv L s h" and t: "task_at L h p = Some t"
    and put: "\<And>stored h1 s1 h2 r h3. hDeepCopyObject L p h = (Some stored, h1) \<Longrightarrow>
      h_bumpAndStamp L stored s h1 = (s1, h2) \<Longrightarrow> hDeepCopyObject L stored h2 = (Some r, h3) \<Longrightarrow>
      run = (Ok r, s1\<lparr>hs_items := (hs_items s1)(key \<mapsto> stored)\<rparr>, h3)"
  shows "refines L h (store_foot L s h) run
    (Ok (stamped (abs_store L s h) (TaskObj t)),
     (abs_store L s h)\<lparr>s_items := (s_items (abs_store L s h))(key \<mapsto> stamped (abs_store L s h) (TaskObj t)),
                       s_rv := s_rv (abs_store L s h) + 1\<rparr>)"
proof -
  have wf: "heap_wf h" using inv by (simp add: hstore_inv_def)
  obtain q h1 h2 where q: "hDeepCopyObject L p h = (Some q, h1)"
    "h_bumpAndStamp L q s h1 = (s\<lparr>hs_rv := hs_rv s + 1\<rparr>, h2)" "extends h h2"
    "task_at L h2 q = Some (with_version (hs_rv s + 1) t)" "\<forall>b \<in> foot L h2 q. h_next h \<le> b"
    by (rule copy_stamped [where s = s, OF L wf t])
  let ?s = "s\<lparr>hs_rv := hs_rv s + 1, hs_items := (hs_items s)(key \<mapsto> q)\<rparr>"
  note st = store_extends [OF L inv q(3)]
  have inv': "hstore_inv L ?s h2" using st q(4) by (auto simp: hstore_inv_def split: if_splits)
  have "foot L h2 q \<subseteq> {h_next h..<h_next h2}"
    using q(5) foot_lt [OF L extends_wf [OF q(3)] q(4)] by fastforce
  then have F: "store_foot L ?s h2 \<subseteq> store_foot L s h \<union> {h_next h..<h_next h2}"
    using conjunct1 [OF conjunct2 [OF conjunct2 [OF st]]] store_foot_put [of L s key q "hs_rv s + 1" h2] by blast
  have obj: "stamped (abs_store L s h) (TaskObj t) = TaskObj (with_version (hs_rv s + 1) t)"
    by (simp only: stamped_with_version abs_simps)
  have items: "s_items (abs_store L ?s h2) = (s_items (abs_store L s h))(key \<mapsto> TaskObj (with_version (hs_rv s + 1) t))"
    using st q(4) by (auto simp: abs_store_def fun_eq_iff)
  have a: "abs_store L ?s h2 = (abs_store L s h)\<lparr>s_items := (s_items (abs_store L s h))
      (key \<mapsto> TaskObj (with_version (hs_rv s + 1) t)), s_rv := hs_rv s + 1\<rparr>"
    using items by (intro store.equality) simp_all
  obtain r h3 where r: "hDeepCopyObject L q h2 = (Some r, h3)"
    "refines L h (store_foot L s h) (Ok r, ?s, h3) (Ok (TaskObj (with_version (hs_rv s + 1) t)), abs_store L ?s h2)"
    using reply_copy [OF L inv' q(4,3) F] by blast
  have "run = (Ok r, ?s, h3)" using put [OF q(1,2) r(1)] by simp
  with r(2) show ?thesis unfolding obj a abs_simps by simp
qed

lemma create_refines:
  assumes L: "meta_lib_ok L" and inv: "hstore_inv L s h" and t: "task_at L h p = Some t"
  shows "refines L h (store_foot L s h) (hStore_Create L key p s h)
    (Store_Create key (TaskObj t) (abs_store L s h))"
proof (cases "hs_items s key")
  case None
  then have n: "s_items (abs_store L s h) key = None" using abs_items_None [OF inv] by simp
  show ?thesis
    unfolding Store_Create_simps(3) [OF n, of "TaskObj t" "t_ObjectMeta t", simplified object_meta.simps, OF refl]
    by (rule put_refines [OF L inv t]) (simp add: hStore_Create_def None)
next
  case (Some a)
  with inv obtain t0 where "s_items (abs_store L s h) key = Some (TaskObj t0)"
    by (auto simp: abs_items_Some hstore_inv_def)
  then show ?thesis using refines_error [OF inv] Some by (simp add: hStore_Create_def store_rules)
qed

lemma update_refines:
  assumes L: "meta_lib_ok L" and inv: "hstore_inv L s h" and t: "task_at L h p = Some t"
  shows "refines L h (store_foot L s h) (hStore_Update L key p s h)
    (Store_Update key (TaskObj t) (abs_store L s h))"
proof (cases "hs_items s key")
  case None
  then show ?thesis
    using refines_error [OF inv] abs_items_None [OF inv, of key] by (simp add: hStore_Update_def store_rules)
next
  case (Some a)
  with inv obtain t0 where n: "s_items (abs_store L s h) key = Some (TaskObj t0)"
    by (auto simp: abs_items_Some hstore_inv_def)
  show ?thesis
    unfolding Store_Update_simps(3) [OF n, of "TaskObj t" "t_ObjectMeta t", simplified object_meta.simps, OF refl]
    by (rule put_refines [OF L inv t]) (simp add: hStore_Update_def Some)
qed

end
