(* ===== verification/StoreAlias.thy ===== *)
theory StoreAlias
  imports StoreHeap
begin

section \<open>The aliasing contract of the store\<close>

text \<open>
  \<open>store.go\<close> promises that it deep-copies on the way in and out, so that nobody outside can
  reach what it holds. Here clients are as hostile as Go lets them be: between calls they write
  whatever they like to every object they passed in, got back or made themselves. The theory
  shows that the store behaves as the store over values all the same.
\<close>

subsection \<open>List\<close>

text \<open>The objects that the replies of a list stand for.\<close>

definition tasks_at :: "('m, 'l, 'x) meta_lib \<Rightarrow> ('m, 'l, 'x) heap \<Rightarrow> addr option list \<Rightarrow> Task option list" where
  "tasks_at L h ps = map (\<lambda>p. Option.bind p (task_at L h)) ps"

definition feet :: "('m, 'l, 'x) meta_lib \<Rightarrow> ('m, 'l, 'x) heap \<Rightarrow> addr option list \<Rightarrow> addr set" where
  "feet L h ps = (\<Union>p \<in> set ps. case p of None \<Rightarrow> {} | Some a \<Rightarrow> foot L h a)"

lemma feet_simps [simp]:
  "feet L h [] = {}" "feet L h (Some a # ps) = foot L h a \<union> feet L h ps"
  "tasks_at L h [] = []" "tasks_at L h (Some a # ps) = task_at L h a # tasks_at L h ps"
  by (auto simp: feet_def tasks_at_def)

lemma store_extends_abs:
  assumes "meta_lib_ok L" "hstore_inv L s h" "extends h h'"
  shows "hstore_inv L s h'" "abs_store L s h' = abs_store L s h" "store_foot L s h' = store_foot L s h"
    "store_foot L s h \<subseteq> {..<h_next h}"
  using store_extends [OF assms] by (auto intro: store.equality)

lemma list_refines:
  assumes L: "meta_lib_ok L" and inv: "hstore_inv L s h"
    and run: "hStore_List L ks ns s h = (ps, h')"
  shows "extends h h' \<and> map TaskObj (map the (tasks_at L h' ps)) = list_loop ns (s_items (abs_store L s h)) ks
    \<and> None \<notin> set (tasks_at L h' ps) \<and> feet L h' ps \<subseteq> {h_next h..<h_next h'}"
  using inv run
proof (induction ks arbitrary: h ps)
  case Nil
  then show ?case by (simp add: hstore_inv_def)
next
  case (Cons k ks)
  show ?case
  proof (cases "\<exists>a. hs_items s k = Some a \<and> \<not> (ns \<noteq> [] \<and> k_Namespace k \<noteq> ns)")
    case False
    then have skip: "hStore_List L (k # ks) ns s h = hStore_List L ks ns s h"
      "list_loop ns (s_items (abs_store L s h)) (k # ks) = list_loop ns (s_items (abs_store L s h)) ks"
      by (auto simp: abs_store_def split: option.splits)
    from Cons.IH [OF Cons.prems(1)] Cons.prems(2) show ?thesis unfolding skip by simp
  next
    case True
    then obtain a where a: "hs_items s k = Some a" "\<not> (ns \<noteq> [] \<and> k_Namespace k \<noteq> ns)" by blast
    with Cons.prems(1) obtain t where t: "task_at L h a = Some t" by (auto simp: hstore_inv_def)
    have wf: "heap_wf h" using Cons.prems(1) by (simp add: hstore_inv_def)
    obtain q h1 where q: "hDeepCopyObject L a h = (Some q, h1)" "extends h h1" "task_at L h1 q = Some t"
      "\<forall>b \<in> foot L h1 q. h_next h \<le> b" by (rule copy_object [OF L wf t])
    obtain qs h2 where qs: "hStore_List L ks ns s h1 = (qs, h2)" by fastforce
    have ps: "ps = Some q # qs" "h' = h2" using Cons.prems(2) a q(1) qs by auto
    note ext = store_extends_abs [OF L Cons.prems(1) q(2)]
    from Cons.IH [OF ext(1)] qs ps(2) have IH: "extends h1 h'"
      "map TaskObj (map the (tasks_at L h' qs)) = list_loop ns (s_items (abs_store L s h1)) ks"
      "None \<notin> set (tasks_at L h' qs)" "feet L h' qs \<subseteq> {h_next h1..<h_next h'}" by auto
    have q': "task_at L h' q = Some t" "foot L h' q = foot L h1 q"
      using task_at_extends [OF L IH(1) extends_wf [OF q(2)] q(3)] by auto
    have "foot L h1 q \<subseteq> {h_next h..<h_next h'}"
      using q(4) foot_lt [OF L extends_wf [OF q(2)] q(3)] extends_next [OF IH(1)] by fastforce
    moreover have "feet L h' qs \<subseteq> {h_next h..<h_next h'}"
      using IH(4) extends_next [OF q(2)] by fastforce
    moreover have "list_loop ns (s_items (abs_store L s h)) (k # ks)
        = TaskObj t # list_loop ns (s_items (abs_store L s h)) ks"
      using a t by (auto simp: abs_store_def)
    ultimately show ?thesis
      using extends_trans [OF q(2) IH(1)] IH(2,3) q' ext(2) by (simp add: ps(1))
  qed
qed

subsection \<open>Calls, and clients that write to what they hold\<close>

datatype hcall =
    HCreate Key addr
  | HGet Key
  | HUpdate Key addr
  | HDelete Key
  | HList "Key list" string

type_synonym hreply = "(go_error, addr option list) outcome"

fun single :: "(go_error, addr) outcome \<times> 's \<times> 'h \<Rightarrow> hreply \<times> 's \<times> 'h" where
  "single (r, s, h) = (map_outcome id (\<lambda>p. [Some p]) r, s, h)"

fun run_call ::
    "('m, 'l, 'x) meta_lib \<Rightarrow> hcall \<Rightarrow> hstore \<Rightarrow> ('m, 'l, 'x) heap \<Rightarrow> hreply \<times> hstore \<times> ('m, 'l, 'x) heap" where
  "run_call L (HCreate k p) s h = single (hStore_Create L k p s h)"
| "run_call L (HGet k) s h = single (hStore_Get L k s h)"
| "run_call L (HUpdate k p) s h = single (hStore_Update L k p s h)"
| "run_call L (HDelete k) s h = single (hStore_Delete L k s h)"
| "run_call L (HList ks ns) s h = (case hStore_List L ks ns s h of (ps, h') \<Rightarrow> (Ok ps, s, h'))"

text \<open>The operation over values that a call stands for, its answer there, and what the caller
sees of a reply.\<close>

fun value_op :: "('m, 'l, 'x) meta_lib \<Rightarrow> ('m, 'l, 'x) heap \<Rightarrow> hcall \<Rightarrow> store_op option" where
  "value_op L h (HCreate k p) = map_option (\<lambda>t. OpCreate k (TaskObj t)) (task_at L h p)"
| "value_op L h (HGet k) = Some (OpGet k)"
| "value_op L h (HUpdate k p) = map_option (\<lambda>t. OpUpdate k (TaskObj t)) (task_at L h p)"
| "value_op L h (HDelete k) = Some (OpDelete k)"
| "value_op L h (HList ks ns) = Some (OpList ks ns)"

fun answer_op :: "store_op \<Rightarrow> store \<Rightarrow> (go_error, runtime_object option list) outcome" where
  "answer_op (OpCreate k obj) s = map_outcome id (\<lambda>r. [Some r]) (fst (Store_Create k obj s))"
| "answer_op (OpUpdate k obj) s = map_outcome id (\<lambda>r. [Some r]) (fst (Store_Update k obj s))"
| "answer_op (OpDelete k) s = map_outcome id (\<lambda>r. [Some r]) (fst (Store_Delete k s))"
| "answer_op (OpGet k) s = map_outcome id (\<lambda>r. [Some r]) (Store_Get k s)"
| "answer_op (OpList ks ns) s = map_outcome id (map Some) (Store_List ks ns s)"

definition seen :: "('m, 'l, 'x) meta_lib \<Rightarrow> ('m, 'l, 'x) heap \<Rightarrow> hreply \<Rightarrow> (go_error, runtime_object option list) outcome" where
  "seen L h r = map_outcome id (\<lambda>ps. map (map_option TaskObj) (tasks_at L h ps)) r"

definition reply_feet :: "('m, 'l, 'x) meta_lib \<Rightarrow> ('m, 'l, 'x) heap \<Rightarrow> hreply \<Rightarrow> addr set" where
  "reply_feet L h r = (case r of Ok ps \<Rightarrow> feet L h ps | _ \<Rightarrow> {})"

text \<open>
  A state is the store, the memory, and the addresses \<open>C\<close> that clients can reach. A call may
  pass objects of the clients, who keep them, and its reply belongs to them as well. A client
  step writes anything to \<open>C\<close>, and may allocate. The label of a call is its operation over
  values and what the caller sees.
\<close>

inductive hstep ::
    "('m, 'l, 'x) meta_lib \<Rightarrow> hstore \<Rightarrow> ('m, 'l, 'x) heap \<Rightarrow> addr set
       \<Rightarrow> (store_op \<times> (go_error, runtime_object option list) outcome) option
       \<Rightarrow> hstore \<Rightarrow> ('m, 'l, 'x) heap \<Rightarrow> addr set \<Rightarrow> bool"
  for L where
  call: "value_op L h c = Some opn \<Longrightarrow> run_call L c s h = (r, s', h') \<Longrightarrow>
    hstep L s h C (Some (opn, seen L h' r)) s' h' (C \<union> reply_feet L h' r)"
| client: "h_next h \<le> h_next h' \<Longrightarrow> heap_wf h' \<Longrightarrow> (\<And>a. a < h_next h \<Longrightarrow> a \<notin> C \<Longrightarrow> h_cells h' a = h_cells h a) \<Longrightarrow>
    hstep L s h C None s h' (C \<union> {h_next h..<h_next h'})"

inductive htrace ::
    "('m, 'l, 'x) meta_lib \<Rightarrow> hstore \<Rightarrow> ('m, 'l, 'x) heap \<Rightarrow> addr set
       \<Rightarrow> (store_op \<times> (go_error, runtime_object option list) outcome) list
       \<Rightarrow> hstore \<Rightarrow> ('m, 'l, 'x) heap \<Rightarrow> addr set \<Rightarrow> bool"
  for L where
  start: "htrace L s h C [] s h C"
| step: "htrace L s h C tr s1 h1 C1 \<Longrightarrow> hstep L s1 h1 C1 l s2 h2 C2 \<Longrightarrow>
    htrace L s h C (tr @ (case l of None \<Rightarrow> [] | Some x \<Rightarrow> [x])) s2 h2 C2"

subsection \<open>No step is visible to the other side\<close>

definition isolated :: "('m, 'l, 'x) meta_lib \<Rightarrow> hstore \<Rightarrow> ('m, 'l, 'x) heap \<Rightarrow> addr set \<Rightarrow> bool" where
  "isolated L s h C \<longleftrightarrow> hstore_inv L s h \<and> store_foot L s h \<inter> C = {} \<and> C \<subseteq> {..<h_next h}"

lemma single_refines:
  assumes "refines L h (store_foot L s h) run a" "single run = (r, s', h')"
  shows "hstore_inv L s' h' \<and> abs_store L s' h' = snd a \<and> extends h h'
    \<and> store_foot L s' h' \<subseteq> store_foot L s h \<union> {h_next h..<h_next h'}
    \<and> store_foot L s' h' \<inter> reply_feet L h' r = {} \<and> reply_feet L h' r \<subseteq> {h_next h..<h_next h'}
    \<and> seen L h' r = map_outcome id (\<lambda>r. [Some r]) (fst a)"
proof -
  obtain r0 where run: "run = (r0, s', h')" "r = map_outcome id (\<lambda>p. [Some p]) r0"
    using assms(2) by (cases run) auto
  show ?thesis
    using assms(1) run by (cases r0) (auto simp: refines_def reply_feet_def seen_def tasks_at_def feet_def)
qed

lemma call_refines:
  assumes L: "meta_lib_ok L" and inv: "hstore_inv L s h"
    and opn: "value_op L h c = Some opn" and run: "run_call L c s h = (r, s', h')"
  shows "hstore_inv L s' h' \<and> abs_store L s' h' = apply_op opn (abs_store L s h) \<and> extends h h'
    \<and> store_foot L s' h' \<subseteq> store_foot L s h \<union> {h_next h..<h_next h'}
    \<and> store_foot L s' h' \<inter> reply_feet L h' r = {} \<and> reply_feet L h' r \<subseteq> {h_next h..<h_next h'}
    \<and> seen L h' r = answer_op opn (abs_store L s h)"
proof (cases c)
  case (HCreate k p)
  with opn obtain t where t: "task_at L h p = Some t" "opn = OpCreate k (TaskObj t)" by auto
  from single_refines [OF create_refines [OF L inv t(1)]] run [unfolded HCreate run_call.simps]
  show ?thesis unfolding t(2) apply_op.simps answer_op.simps .
next
  case (HGet k)
  with opn have o: "opn = OpGet k" by simp
  from single_refines [OF get_refines [OF L inv]] run [unfolded HGet run_call.simps]
  show ?thesis unfolding o apply_op.simps answer_op.simps by simp
next
  case (HUpdate k p)
  with opn obtain t where t: "task_at L h p = Some t" "opn = OpUpdate k (TaskObj t)" by auto
  from single_refines [OF update_refines [OF L inv t(1)]] run [unfolded HUpdate run_call.simps]
  show ?thesis unfolding t(2) apply_op.simps answer_op.simps .
next
  case (HDelete k)
  with opn have o: "opn = OpDelete k" by simp
  from single_refines [OF delete_refines [OF L inv]] run [unfolded HDelete run_call.simps]
  show ?thesis unfolding o apply_op.simps answer_op.simps .
next
  case (HList ks ns)
  with opn have o: "opn = OpList ks ns" by simp
  obtain ps h2 where ps: "hStore_List L ks ns s h = (ps, h2)" by fastforce
  with run HList have r: "r = Ok ps" "s' = s" "h' = h2" by auto
  from list_refines [OF L inv ps [folded r(3)]]
  have l: "extends h h'" "map TaskObj (map the (tasks_at L h' ps)) = list_loop ns (s_items (abs_store L s h)) ks"
    "None \<notin> set (tasks_at L h' ps)" "feet L h' ps \<subseteq> {h_next h..<h_next h'}" by auto
  note ext = store_extends_abs [OF L inv l(1)]
  have "map (map_option TaskObj) (tasks_at L h' ps) = map Some (list_loop ns (s_items (abs_store L s h)) ks)"
    unfolding l(2) [symmetric] using l(3) by (auto simp: in_set_conv_nth)
  moreover have "store_foot L s h \<inter> feet L h' ps = {}" using l(4) ext(4) by fastforce
  ultimately show ?thesis
    using ext l(1,4) by (auto simp: o r seen_def reply_feet_def Store_List_def)
qed

lemma step_isolated:
  assumes L: "meta_lib_ok L" and iso: "isolated L s h C" and st: "hstep L s h C l s' h' C'"
  shows "isolated L s' h' C' \<and>
    (case l of
       None \<Rightarrow> abs_store L s' h' = abs_store L s h
     | Some (opn, a) \<Rightarrow> abs_store L s' h' = apply_op opn (abs_store L s h) \<and> a = answer_op opn (abs_store L s h))"
  using st
proof cases
  case (call c opn r)
  have inv: "hstore_inv L s h" and C: "store_foot L s h \<inter> C = {}" "C \<subseteq> {..<h_next h}"
    using iso by (auto simp: isolated_def)
  note R = call_refines [OF L inv call(3,4)]
  have "store_foot L s' h' \<inter> C = {}" using R C by fastforce
  moreover have "C \<subseteq> {..<h_next h'}" "reply_feet L h' r \<subseteq> {..<h_next h'}"
    using R C(2) extends_next [of h h'] by fastforce+
  ultimately show ?thesis using R by (auto simp: isolated_def call(1,2))
next
  case client
  have inv: "hstore_inv L s h" and C: "store_foot L s h \<inter> C = {}" "C \<subseteq> {..<h_next h}"
    using iso by (auto simp: isolated_def)
  have wf: "heap_wf h" using inv by (simp add: hstore_inv_def)
  have at: "task_at L h' a = task_at L h a \<and> foot L h' a = foot L h a \<and> task_at L h a \<noteq> None"
    if a: "hs_items s k = Some a" for k a
  proof -
    obtain t where t: "task_at L h a = Some t" using inv a by (auto simp: hstore_inv_def)
    have "h_cells h' b = h_cells h b" if b: "b \<in> foot L h a" for b
    proof (rule client(6))
      show "b < h_next h" by (rule foot_lt [OF L wf t b])
      show "b \<notin> C" using C(1) a b by (auto simp: store_foot_def ran_def)
    qed
    from task_at_local [OF L t this] t show ?thesis by simp
  qed
  have foot: "store_foot L s h' = store_foot L s h" using at by (auto simp: store_foot_def ran_def)
  have "store_foot L s h \<subseteq> {..<h_next h}"
    using store_extends_abs(4) [OF L inv, of h] wf by simp
  then have "store_foot L s h \<inter> {h_next h..<h_next h'} = {}" by fastforce
  moreover have "hstore_inv L s h'" using at client(5) by (auto simp: hstore_inv_def)
  moreover have "s_items (abs_store L s h') k = s_items (abs_store L s h) k" for k
    using at by (cases "hs_items s k") (auto simp: abs_store_def)
  then have "abs_store L s h' = abs_store L s h" by (intro store.equality) auto
  ultimately show ?thesis using C client(4) foot by (auto simp: isolated_def client(1,2,3))
qed

fun answers :: "store_op list \<Rightarrow> store \<Rightarrow> (go_error, runtime_object option list) outcome list" where
  "answers [] s = []"
| "answers (x # xs) s = answer_op x s # answers xs (apply_op x s)"

lemma answers_snoc: "answers (xs @ [x]) s = answers xs s @ [answer_op x (run_ops xs s)]"
  by (induction xs arbitrary: s) auto

lemma run_ops_snoc: "run_ops (xs @ [x]) s = apply_op x (run_ops xs s)"
  by (simp add: run_ops_def)

lemma trace_isolated:
  assumes L: "meta_lib_ok L" and tr: "htrace L s0 h0 C0 tr s h C" and iso: "isolated L s0 h0 C0"
  shows "isolated L s h C \<and> abs_store L s h = run_ops (map fst tr) (abs_store L s0 h0)
    \<and> map snd tr = answers (map fst tr) (abs_store L s0 h0)"
  using tr iso
proof (induction rule: htrace.induct)
  case (step s h C tr s1 h1 C1 l s2 h2 C2)
  then show ?case
    using step_isolated [OF L _ step.hyps(2)]
    by (cases l) (auto simp: answers_snoc run_ops_snoc)
qed simp

end
