(* ===== verification/HeapProperties.thy ===== *)
theory HeapProperties
  imports StoreAlias
begin

section \<open>Properties of the copies and of the store in memory\<close>

subsection \<open>A sample library\<close>

text \<open>
  Metadata with one reference: the labels live in a cell of their own, everything else is
  plain. List metadata is plain. It is used to evaluate the properties below.
\<close>

type_synonym sample_meta = "ObjectMeta \<times> addr option"
type_synonym sample_heap = "(sample_meta, ListMeta, (string \<rightharpoonup> string)) heap"

definition sample_read :: "sample_heap \<Rightarrow> sample_meta \<Rightarrow> ObjectMeta option" where
  "sample_read h m =
     (case snd m of
        None \<Rightarrow> Some (fst m)
      | Some a \<Rightarrow>
          (case h_cells h a of Some (LibCell ls) \<Rightarrow> Some ((fst m)\<lparr>om_Labels := Some ls\<rparr>) | _ \<Rightarrow> None))"

definition sample_reach :: "sample_heap \<Rightarrow> sample_meta \<Rightarrow> addr set" where
  "sample_reach h m = set_option (snd m)"

definition sample_copy :: "sample_meta \<Rightarrow> sample_heap \<Rightarrow> sample_meta \<times> sample_heap" where
  "sample_copy m h =
     (case Option.bind (snd m) (h_cells h) of
        None \<Rightarrow> (m, h)
      | Some c \<Rightarrow> let (b, h) = alloc c h in ((fst m, Some b), h))"

definition sample_lib :: "(sample_meta, ListMeta, (string \<rightharpoonup> string)) meta_lib" where
  "sample_lib =
     \<lparr>ml_read = sample_read, ml_reach = sample_reach, ml_DeepCopyInto = sample_copy,
      ml_SetResourceVersion = (\<lambda>v m. ((fst m)\<lparr>om_ResourceVersion := v\<rparr>, snd m))\<rparr>"

lemma sample_copier: "deep_copier sample_read sample_reach sample_copy"
proof (rule copierI)
  show "heap_value sample_read sample_reach"
    by unfold_locales (auto simp: sample_read_def sample_reach_def split: option.splits cell.splits)
  fix h a v a' h'
  assume "heap_wf h" "sample_read h a = Some v" "sample_copy a h = (a', h')"
  then show "extends h h' \<and> sample_read h' a' = Some v \<and> (\<forall>b \<in> sample_reach h' a'. h_next h \<le> b)"
    using alloc_extends [of h]
    by (cases "snd a") (auto simp: sample_read_def sample_reach_def sample_copy_def alloc_def
        split: option.splits cell.splits)
qed

lemma sample_lib_ok: "meta_lib_ok sample_lib"
  using sample_copier
  by (auto simp: meta_lib_ok_def sample_lib_def sample_read_def sample_reach_def split: option.splits cell.splits)

lemma plain_copier: "deep_copier (\<lambda>h m. Some m) (\<lambda>h m. {}) (\<lambda>m h. (m, h))"
  by (rule copierI; unfold_locales?) simp_all

subsection \<open>Deep copies\<close>

text \<open>A copy \<open>q\<close> of \<open>p\<close> in memory \<open>h\<close>: it stands for the same value, shares no address with
the original, and neither shows what is written to the other later.\<close>

definition independent_copy where
  "independent_copy read reach h p q v \<longleftrightarrow>
     read h p = Some v \<and> read h q = Some v \<and> reach h p \<inter> reach h q = {}
     \<and> (\<forall>h'. (\<forall>b. b \<notin> reach h q \<longrightarrow> h_cells h' b = h_cells h b) \<longrightarrow> read h' p = Some v)
     \<and> (\<forall>h'. (\<forall>b. b \<notin> reach h p \<longrightarrow> h_cells h' b = h_cells h b) \<longrightarrow> read h' q = Some v)"

lemma copier_independent:
  assumes "deep_copier read reach copy" "heap_wf h" "read h p = Some v"
  shows "independent_copy read reach (snd (copy p h)) p (fst (copy p h)) v"
proof -
  obtain q h1 where c: "copy p h = (q, h1)" by fastforce
  have e: "extends h h1" "read h1 q = Some v" using copier_result [OF assms c] by auto
  have r: "read h1 p = Some v"
    using heap_value.read_extends [OF deep_copier.axioms(1) [OF assms(1)] e(1) assms(2,3)] by simp
  show ?thesis
    using deep_copier.copy_independent [OF assms c] e(2) r by (simp add: independent_copy_def c)
qed

text \<open>C18. The generated \<open>DeepCopyObject\<close> of a Task and of a TaskList, in any memory in which the
  original can be read: nil gives nil, and else the copy reads as the same value, shares no
  address with the original, and neither shows what is written to the other later.\<close>

theorem deep_copies_are_independent:
  assumes "deep_copier rm rch cm" "deep_copier rl rchl cl" "heap_wf h"
    and "read_ptr as_task (read_task rm) h p = Some t" "read_ptr as_list (read_list rm rl) h l = Some ts"
  shows "independent_copy (read_ptr as_task (read_task rm)) (reach_ptr as_task (reach_task rch))
      (snd (Task_DeepCopyObject cm p h)) p (fst (Task_DeepCopyObject cm p h)) t
    \<and> independent_copy (read_ptr as_list (read_list rm rl)) (reach_ptr as_list (reach_list rch rchl))
      (snd (TaskList_DeepCopyObject cm cl l h)) l (fst (TaskList_DeepCopyObject cm cl l h)) ts
    \<and> (fst (Task_DeepCopyObject cm p h) = None \<longleftrightarrow> p = None)
    \<and> (fst (TaskList_DeepCopyObject cm cl l h) = None \<longleftrightarrow> l = None)"
proof (intro conjI)
  show "independent_copy (read_ptr as_task (read_task rm)) (reach_ptr as_task (reach_task rch))
      (snd (Task_DeepCopyObject cm p h)) p (fst (Task_DeepCopyObject cm p h)) t"
    unfolding DeepCopyObject_eq
    by (rule copier_independent [OF ptr_copier [OF task_copier [OF assms(1)]] assms(3,4)]) simp
  show "independent_copy (read_ptr as_list (read_list rm rl)) (reach_ptr as_list (reach_list rch rchl))
      (snd (TaskList_DeepCopyObject cm cl l h)) l (fst (TaskList_DeepCopyObject cm cl l h)) ts"
    unfolding DeepCopyObject_eq
    by (rule copier_independent [OF ptr_copier [OF list_copier [OF assms(1,2)]] assms(3,5)]) simp
  show "fst (Task_DeepCopyObject cm p h) = None \<longleftrightarrow> p = None"
    using assms(4) by (auto simp: DeepCopyObject_eq new_copy_def read_ptr_def alloc_def
        split: option.splits bind_splits prod.splits)
  show "fst (TaskList_DeepCopyObject cm cl l h) = None \<longleftrightarrow> l = None"
    using assms(5) by (auto simp: DeepCopyObject_eq new_copy_def read_ptr_def alloc_def
        split: option.splits bind_splits prod.splits)
qed

text \<open>A task with labels and a command, and a list of it, in a memory of four cells.\<close>

definition sample_hTask :: "sample_meta hTask" where
  "sample_hTask =
     \<lparr>ht_TypeMeta = zero_TypeMeta, ht_ObjectMeta = (zero_ObjectMeta\<lparr>om_Name := ''t''\<rparr>, Some 0),
      ht_Spec = \<lparr>hsp_Image = ''alpine'', hsp_Command = Some (1, 1), hsp_Args = None\<rparr>,
      ht_Status = \<lparr>hst_Phase = [], hst_Conditions = None, hst_ObservedGeneration = 0\<rparr>\<rparr>"

definition sample_value :: Task where
  "sample_value =
     \<lparr>t_TypeMeta = zero_TypeMeta,
      t_ObjectMeta = zero_ObjectMeta\<lparr>om_Name := ''t'', om_Labels := Some [''app'' \<mapsto> ''x'']\<rparr>,
      t_Spec = \<lparr>ts_Image = ''alpine'', ts_Command = Some [''run''], ts_Args = None\<rparr>,
      t_Status = \<lparr>st_Phase = [], st_Conditions = None, st_ObservedGeneration = 0\<rparr>\<rparr>"

definition sample_memory :: sample_heap where
  "sample_memory =
     \<lparr>h_cells = [0 \<mapsto> LibCell [''app'' \<mapsto> ''x''], 1 \<mapsto> StrCell [''run''], 2 \<mapsto> TaskCell sample_hTask,
        3 \<mapsto> TasksCell [sample_hTask],
        4 \<mapsto> ListCell \<lparr>hl_TypeMeta = zero_TypeMeta, hl_ListMeta = zero_ListMeta, hl_Items = Some (3, 1)\<rparr>],
      h_next = 5\<rparr>"

lemma sample_memory_wf: "heap_wf sample_memory"
  by (auto simp: heap_wf_def sample_memory_def)

lemmas read_defs = read_ptr_def read_task_def read_via_def read_pair_def read_spec_def read_status_def
  read_slice_def view_def read_list_def read_items_def

lemma sample_hTask_reads: "read_task sample_read sample_memory sample_hTask = Some sample_value"
  by (simp add: read_defs sample_hTask_def sample_memory_def sample_read_def sample_value_def)

lemma sample_task_reads:
  "read_ptr as_task (read_task sample_read) sample_memory (Some 2) = Some (Some sample_value)"
  using sample_hTask_reads by (simp add: read_ptr_def sample_memory_def)

lemma sample_list_reads:
  "read_ptr as_list (read_list sample_read (\<lambda>h m. Some m)) sample_memory (Some 4)
     = Some (Some \<lparr>tl_TypeMeta = zero_TypeMeta, tl_ListMeta = zero_ListMeta, tl_Items = Some [sample_value]\<rparr>)"
proof -
  have "read_items (read_task sample_read) sample_memory (Some (3, 1)) = Some (Some [sample_value])"
    using sample_hTask_reads by (simp add: read_items_def view_def sample_memory_def)
  then have "read_list sample_read (\<lambda>h m. Some m) sample_memory
      \<lparr>hl_TypeMeta = zero_TypeMeta, hl_ListMeta = zero_ListMeta, hl_Items = Some (3, 1)\<rparr>
    = Some \<lparr>tl_TypeMeta = zero_TypeMeta, tl_ListMeta = zero_ListMeta, tl_Items = Some [sample_value]\<rparr>"
    by (simp add: read_list_def read_via_def read_pair_def)
  moreover have "h_cells sample_memory 4
      = Some (ListCell \<lparr>hl_TypeMeta = zero_TypeMeta, hl_ListMeta = zero_ListMeta, hl_Items = Some (3, 1)\<rparr>)"
    by (simp add: sample_memory_def)
  ultimately show ?thesis by (simp add: read_ptr_def)
qed

theorem deep_copies_are_independent_witness:
  "independent_copy (read_ptr as_task (read_task sample_read)) (reach_ptr as_task (reach_task sample_reach))
     (snd (Task_DeepCopyObject sample_copy (Some 2) sample_memory)) (Some 2)
     (fst (Task_DeepCopyObject sample_copy (Some 2) sample_memory)) (Some sample_value)"
  by (rule conjunct1 [OF deep_copies_are_independent [OF sample_copier plain_copier sample_memory_wf
        sample_task_reads sample_list_reads]])

subsection \<open>The store\<close>

text \<open>C4. Aliasing contract: start with an empty store and let clients create, read, update, delete
  and list objects, and in between write anything to any memory that they ever passed in, got
  back, or allocated. Then every call answers exactly as the store over values does on the
  values passed in, the store stands for the result of those operations, and no client can
  reach memory that it uses.\<close>

theorem store_isolated_from_clients:
  assumes "meta_lib_ok L" "heap_wf h0" "C0 \<subseteq> {..<h_next h0}"
    and "htrace L (hStore_New gr) h0 C0 tr s h C"
  shows "map snd tr = answers (map fst tr) (Store_New gr)
    \<and> abs_store L s h = run_ops (map fst tr) (Store_New gr)
    \<and> store_foot L s h \<inter> C = {}"
proof -
  have "isolated L (hStore_New gr) h0 C0"
    using assms(2,3) by (simp add: isolated_def hStore_New_def hstore_inv_def store_foot_def)
  moreover have "abs_store L (hStore_New gr) h0 = Store_New gr"
    by (simp add: abs_store_def hStore_New_def Store_New_def)
  ultimately show ?thesis using trace_isolated [OF assms(1,4)] by (simp add: isolated_def)
qed

text \<open>A client that creates a task, destroys the object it passed in and the one it got back, and
asks for the task.\<close>

definition scribble :: "addr set \<Rightarrow> sample_heap \<Rightarrow> sample_heap" where
  "scribble C h = h\<lparr>h_cells := (\<lambda>a. if a \<in> C then None else h_cells h a)\<rparr>"

theorem store_isolated_from_clients_witness:
  "\<exists>tr s h C. htrace sample_lib (hStore_New (Resource ''tasks'')) sample_memory {..<5} tr s h C
     \<and> map snd tr = [Ok [Some (TaskObj (with_version 1 sample_value))], Ok [Some (TaskObj (with_version 1 sample_value))]]
     \<and> {..<5} \<subseteq> C \<and> (\<forall>a \<in> {..<5}. h_cells h a = None)"
proof -
  let ?k = "Key ''ns'' ''t''" and ?s0 = "hStore_New (Resource ''tasks'')"
  obtain r1 s1 h1 where c: "run_call sample_lib (HCreate ?k 2) ?s0 sample_memory = (r1, s1, h1)" by (metis prod_cases3)
  define C1 where "C1 = {..<5} \<union> reply_feet sample_lib h1 r1"
  obtain r2 s2 h2 where g: "run_call sample_lib (HGet ?k) s1 (scribble C1 h1) = (r2, s2, h2)" by (metis prod_cases3)
  have "task_at sample_lib sample_memory 2 = Some sample_value"
    using sample_task_reads by (simp add: task_at_def sample_lib_def)
  then have v: "value_op sample_lib sample_memory (HCreate ?k 2) = Some (OpCreate ?k (TaskObj sample_value))" by simp
  have t1: "htrace sample_lib ?s0 sample_memory {..<5} [(OpCreate ?k (TaskObj sample_value), seen sample_lib h1 r1)] s1 h1 C1"
    using htrace.step [OF htrace.start hstep.call [OF v c]] by (simp add: C1_def)
  have iso0: "isolated sample_lib ?s0 sample_memory {..<5}"
    using sample_memory_wf by (simp add: isolated_def hstore_inv_def hStore_New_def store_foot_def sample_memory_def)
  have iso1: "isolated sample_lib s1 h1 C1" using trace_isolated [OF sample_lib_ok t1 iso0] by simp
  have "hstep sample_lib s1 h1 C1 None s1 (scribble C1 h1) (C1 \<union> {h_next h1..<h_next (scribble C1 h1)})"
    by (rule hstep.client) (use iso1 in \<open>auto simp: scribble_def isolated_def hstore_inv_def heap_wf_def\<close>)
  then have "hstep sample_lib s1 h1 C1 None s1 (scribble C1 h1) C1" by (simp add: scribble_def)
  from htrace.step [OF htrace.step [OF t1 this] hstep.call [OF _ g]]
  have tr: "htrace sample_lib ?s0 sample_memory {..<5}
      [(OpCreate ?k (TaskObj sample_value), seen sample_lib h1 r1), (OpGet ?k, seen sample_lib h2 r2)]
      s2 h2 (C1 \<union> reply_feet sample_lib h2 r2)" by simp
  have "{..<5} \<subseteq> {..<h_next sample_memory}" by (simp add: sample_memory_def)
  from store_isolated_from_clients [OF sample_lib_ok sample_memory_wf this tr]
  have ans: "[seen sample_lib h1 r1, seen sample_lib h2 r2]
      = answers [OpCreate ?k (TaskObj sample_value), OpGet ?k] (Store_New (Resource ''tasks''))" by simp
  have stamp: "stamped (Store_New (Resource ''tasks'')) (TaskObj sample_value) = TaskObj (with_version 1 sample_value)"
    by (simp only: stamped_with_version) (simp add: Store_New_def)
  have "fst (Store_Create ?k (TaskObj sample_value) (Store_New (Resource ''tasks''))) = Ok (TaskObj (with_version 1 sample_value))"
    "s_items (snd (Store_Create ?k (TaskObj sample_value) (Store_New (Resource ''tasks'')))) ?k
      = Some (TaskObj (with_version 1 sample_value))"
    using Store_Create_simps(3) [of "Store_New (Resource ''tasks'')" ?k "TaskObj sample_value" "t_ObjectMeta sample_value"]
    by (simp_all add: stamp del: stamped_TaskObj) (simp_all add: Store_New_def)
  then have "[seen sample_lib h1 r1, seen sample_lib h2 r2]
      = [Ok [Some (TaskObj (with_version 1 sample_value))], Ok [Some (TaskObj (with_version 1 sample_value))]]"
    unfolding ans by (simp add: Store_Get_def)
  moreover have "h_cells h2 a = None" if "a < 5" for a
  proof -
    have "isolated sample_lib s1 (scribble C1 h1) C1"
      using step_isolated [OF sample_lib_ok iso1 \<open>hstep sample_lib s1 h1 C1 None s1 (scribble C1 h1) C1\<close>] by simp
    then have "extends (scribble C1 h1) h2"
      using call_refines [OF sample_lib_ok _ _ g] by (simp add: isolated_def)
    moreover have "5 \<le> h_next h1" using iso1 unfolding isolated_def C1_def by fastforce
    ultimately show ?thesis using that by (simp add: extends_def scribble_def C1_def)
  qed
  ultimately show ?thesis using tr
    by (intro exI [of _ "[(OpCreate ?k (TaskObj sample_value), seen sample_lib h1 r1), (OpGet ?k, seen sample_lib h2 r2)]"]
        exI [of _ s2] exI [of _ h2] exI [of _ "C1 \<union> reply_feet sample_lib h2 r2"]) (auto simp: C1_def)
qed

end
