(* ===== verification/Schema.thy ===== *)
theory Schema
  imports TaskTypes
begin

section \<open>JSON and OpenAPI schemas\<close>

text \<open>
  The data that an OpenAPI document is made of, and what it means: \<open>conforms\<close> decides whether
  a JSON value is one that a schema describes. The theory is the reference against which
  the generated document and the encoding of the API types are checked.
\<close>

subsection \<open>JSON values\<close>

datatype json =
    JNull
  | JBool bool
  | JInt int
  | JStr string
  | JArr "json list"
  | JObj "(string \<times> json) list"

fun json_type :: "json \<Rightarrow> string" where
  "json_type JNull = ''null''"
| "json_type (JBool b) = ''boolean''"
| "json_type (JInt i) = ''integer''"
| "json_type (JStr s) = ''string''"
| "json_type (JArr xs) = ''array''"
| "json_type (JObj fs) = ''object''"

subsection \<open>Schemas\<close>

text \<open>
  The fields of \<open>spec.Schema\<close> that the generated code sets, with Go's zero value for the others.
  References are of the type \<open>'r\<close> that the caller of the document chooses.
\<close>

datatype 'r schema = Schema
  (sc_Description: string)
  (sc_Type: "string list")
  (sc_Format: string)
  (sc_Default: "json option")
  (sc_Ref: "'r option")
  (sc_Items: "'r schema option")
  (sc_Properties: "(string \<times> 'r schema) list")
  (sc_Required: "string list")
  (sc_AdditionalProperties: "(bool \<times> 'r schema) option")
  (sc_OneOf: "'r schema list")
  (sc_Extensions: "(string \<times> json) list")

definition zero_schema :: "'r schema" where
  "zero_schema = Schema [] [] [] None None None [] [] None [] []"

definition of_type :: "string list \<Rightarrow> string \<Rightarrow> 'r schema" where
  "of_type ts fmt = Schema [] ts fmt None None None [] [] None [] []"

text \<open>The fields of a composite literal.\<close>

primrec set_Description :: "string \<Rightarrow> 'r schema \<Rightarrow> 'r schema" where
  "set_Description ds (Schema ds0 t f d r i p q a v e) = Schema ds t f d r i p q a v e"

primrec set_Default :: "json \<Rightarrow> 'r schema \<Rightarrow> 'r schema" where
  "set_Default d (Schema ds t f d0 r i p q a v e) = Schema ds t f (Some d) r i p q a v e"

primrec set_Ref :: "'r \<Rightarrow> 'r schema \<Rightarrow> 'r schema" where
  "set_Ref r (Schema ds t f d r0 i p q a v e) = Schema ds t f d (Some r) i p q a v e"

primrec set_Items :: "'r schema \<Rightarrow> 'r schema \<Rightarrow> 'r schema" where
  "set_Items i (Schema ds t f d r i0 p q a v e) = Schema ds t f d r (Some i) p q a v e"

primrec set_Properties :: "(string \<times> 'r schema) list \<Rightarrow> 'r schema \<Rightarrow> 'r schema" where
  "set_Properties p (Schema ds t f d r i p0 q a v e) = Schema ds t f d r i p q a v e"

primrec set_Required :: "string list \<Rightarrow> 'r schema \<Rightarrow> 'r schema" where
  "set_Required q (Schema ds t f d r i p q0 a v e) = Schema ds t f d r i p q a v e"

primrec set_AdditionalProperties :: "bool \<Rightarrow> 'r schema \<Rightarrow> 'r schema \<Rightarrow> 'r schema" where
  "set_AdditionalProperties b s (Schema ds t f d r i p q a0 v e) = Schema ds t f d r i p q (Some (b, s)) v e"

primrec set_OneOf :: "'r schema list \<Rightarrow> 'r schema \<Rightarrow> 'r schema" where
  "set_OneOf v (Schema ds t f d r i p q a v0 e) = Schema ds t f d r i p q a v e"

primrec set_Extensions :: "(string \<times> json) list \<Rightarrow> 'r schema \<Rightarrow> 'r schema" where
  "set_Extensions e (Schema ds t f d r i p q a v e0) = Schema ds t f d r i p q a v e"

datatype 'r OpenAPIDefinition = OpenAPIDefinition
  (od_Schema: "'r schema")
  (od_Dependencies: "string list")

text \<open>
  What the generated code calls in libraries: the model name of a Go type, the schema type and
  format that a type with its own JSON form declares, the alternatives for OpenAPI v3, and the
  function that packs the v2 form of a definition into an extension of the v3 form.
\<close>

record 'r oa_lib =
  ol_ModelName :: "string \<Rightarrow> string"
  ol_SchemaType :: "string \<Rightarrow> string list"
  ol_SchemaFormat :: "string \<Rightarrow> string"
  ol_OneOfTypes :: "string \<Rightarrow> string list"
  ol_OneOfSchema :: "string list \<Rightarrow> 'r schema list"
  ol_EmbedV2 :: "'r OpenAPIDefinition \<Rightarrow> 'r OpenAPIDefinition \<Rightarrow> 'r OpenAPIDefinition"

subsection \<open>Well-formed schemas\<close>

text \<open>The references in a schema, anywhere in it.\<close>

fun schema_refs :: "'r schema \<Rightarrow> 'r list" where
  "schema_refs (Schema ds t f d r i p q a v e) =
     (case r of None \<Rightarrow> [] | Some x \<Rightarrow> [x])
     @ (case i of None \<Rightarrow> [] | Some s \<Rightarrow> schema_refs s)
     @ concat (map (\<lambda>(n, s). schema_refs s) p)
     @ (case a of None \<Rightarrow> [] | Some (b, s) \<Rightarrow> schema_refs s)
     @ concat (map schema_refs v)"

text \<open>
  A schema is well formed if its properties have different names, everything required is one
  of them, arrays say what their elements are, and only objects have properties; the same of
  all schemas in it.
\<close>

fun schema_wf :: "'r schema \<Rightarrow> bool" where
  "schema_wf (Schema ds t f d r i p q a v e) \<longleftrightarrow>
     distinct (map fst p) \<and> list_all (\<lambda>x. x \<in> set (map fst p)) q
     \<and> (t = [''array''] \<longleftrightarrow> i \<noteq> None) \<and> (p \<noteq> [] \<or> a \<noteq> None \<longrightarrow> t = [''object''])
     \<and> (case d of None \<Rightarrow> True | Some j \<Rightarrow> r \<noteq> None \<and> j = JObj [] \<or> list_all (\<lambda>x. json_type j = x) t)
     \<and> (case i of None \<Rightarrow> True | Some s \<Rightarrow> schema_wf s)
     \<and> list_all (\<lambda>(n, s). schema_wf s) p
     \<and> (case a of None \<Rightarrow> True | Some (b, s) \<Rightarrow> schema_wf s)
     \<and> list_all schema_wf v"

subsection \<open>Conformance\<close>

fun fits_format :: "string \<Rightarrow> json \<Rightarrow> bool" where
  "fits_format fmt (JInt i) \<longleftrightarrow>
     (fmt = ''int64'' \<longrightarrow> - (2 ^ 63) \<le> i \<and> i < 2 ^ 63) \<and> (fmt = ''int32'' \<longrightarrow> - (2 ^ 31) \<le> i \<and> i < 2 ^ 31)"
| "fits_format fmt _ \<longleftrightarrow> True"

text \<open>
  \<open>D\<close> is the table that references are looked up in. Every reference that is followed and
  every level of nesting costs one unit of fuel.
\<close>

fun conforms :: "nat \<Rightarrow> (string \<times> string OpenAPIDefinition) list \<Rightarrow> string schema \<Rightarrow> json \<Rightarrow> bool" where
  "conforms 0 D s j \<longleftrightarrow> False"
| "conforms (Suc n) D (Schema ds ts fmt d ref items props req addl oneOf ext) j \<longleftrightarrow>
     (case ref of
        None \<Rightarrow> True
      | Some r \<Rightarrow> (case map_of D r of None \<Rightarrow> False | Some d \<Rightarrow> conforms n D (od_Schema d) j))
     \<and> (ts = [] \<or> json_type j \<in> set ts) \<and> fits_format fmt j
     \<and> (oneOf = [] \<or> length (filter (\<lambda>t. conforms n D t j) oneOf) = 1)
     \<and> (case j of
          JArr js \<Rightarrow> (case items of None \<Rightarrow> True | Some it \<Rightarrow> list_all (conforms n D it) js)
        | JObj fs \<Rightarrow>
            list_all (\<lambda>x. x \<in> set (map fst fs)) req
            \<and> list_all (\<lambda>(k, v).
                 case map_of props k of
                   Some p \<Rightarrow> conforms n D p v
                 | None \<Rightarrow> (case addl of None \<Rightarrow> True | Some (allowed, p) \<Rightarrow> allowed \<and> conforms n D p v)) fs
        | _ \<Rightarrow> True)"

lemmas schema_literals = zero_schema_def of_type_def

end
