(* ===== verification/OpenApiTexts.thy ===== *)
theory OpenApiTexts
  imports Schema
begin

section \<open>The descriptions in \<open>zz_generated.openapi.go\<close>\<close>

text \<open>
  The \<open>Description\<close> fields of the file, one table per function: that of the schema itself under
  the empty key, those of its properties under their names. Go strings are byte strings, so
  characters beyond ASCII stand as their UTF-8 bytes.
\<close>

definition texts :: "(string \<times> string) list \<Rightarrow> string \<Rightarrow> string" where
  "texts rows key = (case map_of rows key of None \<Rightarrow> [] | Some t \<Rightarrow> t)"

definition text_pkg_apis_tasks_v1alpha1_Task :: "string \<Rightarrow> string" where
  "text_pkg_apis_tasks_v1alpha1_Task = texts
    [([],
      ''Task is a unit of asynchronous work scheduled through this aggregated APIServer.''),
     (''kind'',
      ''Kind is a string value representing the REST resource this object represents. Servers may infer this from the endpoint the client submits requests to. Cannot be updated. In CamelCase. More info: https://git.k8s.io/community/contributors/devel/sig-architecture/api-conventions.md#types-kinds''),
     (''apiVersion'',
      ''APIVersion defines the versioned schema of this representation of an object. Servers should convert recognized schemas to the latest internal value, and may reject unrecognized values. More info: https://git.k8s.io/community/contributors/devel/sig-architecture/api-conventions.md#resources''),
     (''spec'',
      ''Spec is the user-supplied desired state.''),
     (''status'',
      ''Status is the observed state. Only writable via the /status subresource.'')]"

definition text_pkg_apis_tasks_v1alpha1_TaskList :: "string \<Rightarrow> string" where
  "text_pkg_apis_tasks_v1alpha1_TaskList = texts
    [([],
      ''TaskList is a list of Task objects.''),
     (''kind'',
      ''Kind is a string value representing the REST resource this object represents. Servers may infer this from the endpoint the client submits requests to. Cannot be updated. In CamelCase. More info: https://git.k8s.io/community/contributors/devel/sig-architecture/api-conventions.md#types-kinds''),
     (''apiVersion'',
      ''APIVersion defines the versioned schema of this representation of an object. Servers should convert recognized schemas to the latest internal value, and may reject unrecognized values. More info: https://git.k8s.io/community/contributors/devel/sig-architecture/api-conventions.md#resources'')]"

definition text_pkg_apis_tasks_v1alpha1_TaskSpec :: "string \<Rightarrow> string" where
  "text_pkg_apis_tasks_v1alpha1_TaskSpec = texts
    [([],
      ''TaskSpec is the user-facing intent for a Task.''),
     (''image'',
      ''Image is the container image to run. Required.''),
     (''command'',
      ''Command optionally overrides the image entrypoint.''),
     (''args'',
      ''Args optionally overrides the image command arguments.'')]"

definition text_pkg_apis_tasks_v1alpha1_TaskStatus :: "string \<Rightarrow> string" where
  "text_pkg_apis_tasks_v1alpha1_TaskStatus = texts
    [([],
      (''TaskStatus reports the observed state of a Task. Only mutable via the /status subresource '' @ [CHR 0xE2, CHR 0x80, CHR 0x94] @ '' never via plain updates to the resource.'')),
     (''phase'',
      ''Phase is a high-level summary of where the Task is in its lifecycle.''),
     (''conditions'',
      ''Conditions are detailed status reports using the standard metav1.Condition shape (Type, Status, Reason, Message, LastTransitionTime, ObservedGeneration).''),
     (''observedGeneration'',
      ''ObservedGeneration is the .metadata.generation last reconciled by a controller. Status updates must set this to track lag between user intent and observed state.'')]"

definition text_apimachinery_pkg_api_resource_Quantity :: "string \<Rightarrow> string" where
  "text_apimachinery_pkg_api_resource_Quantity = texts
    [([],
      (''Quantity is a fixed-point representation of a number. It provides convenient marshaling/unmarshaling in JSON and YAML, in addition to String() and AsInt64() accessors.'' @ [CHR 0x0A, CHR 0x0A] @ ''The serialization format is:'' @ [CHR 0x0A, CHR 0x0A, CHR 0x60, CHR 0x60, CHR 0x60] @ '' <quantity>        ::= <signedNumber><suffix>'' @ [CHR 0x0A, CHR 0x0A, CHR 0x09] @ ''(Note that <suffix> may be empty, from the '' @ [CHR 0x22, CHR 0x22] @ '' case in <decimalSI>.)'' @ [CHR 0x0A, CHR 0x0A] @ ''<digit>           ::= 0 | 1 | ... | 9 <digits>          ::= <digit> | <digit><digits> <number>          ::= <digits> | <digits>.<digits> | <digits>. | .<digits> <sign>            ::= '' @ [CHR 0x22] @ ''+'' @ [CHR 0x22] @ '' | '' @ [CHR 0x22] @ ''-'' @ [CHR 0x22] @ '' <signedNumber>    ::= <number> | <sign><number> <suffix>          ::= <binarySI> | <decimalExponent> | <decimalSI> <binarySI>        ::= Ki | Mi | Gi | Ti | Pi | Ei'' @ [CHR 0x0A, CHR 0x0A, CHR 0x09] @ ''(International System of units; See: http://physics.nist.gov/cuu/Units/binary.html)'' @ [CHR 0x0A, CHR 0x0A] @ ''<decimalSI>       ::= m | '' @ [CHR 0x22, CHR 0x22] @ '' | k | M | G | T | P | E'' @ [CHR 0x0A, CHR 0x0A, CHR 0x09] @ ''(Note that 1024 = 1Ki but 1000 = 1k; I didn't choose the capitalization.)'' @ [CHR 0x0A, CHR 0x0A] @ ''<decimalExponent> ::= '' @ [CHR 0x22] @ ''e'' @ [CHR 0x22] @ '' <signedNumber> | '' @ [CHR 0x22] @ ''E'' @ [CHR 0x22] @ '' <signedNumber> '' @ [CHR 0x60, CHR 0x60, CHR 0x60, CHR 0x0A, CHR 0x0A] @ ''No matter which of the three exponent forms is used, no quantity may represent a number greater than 2^63-1 in magnitude, nor may it have more than 3 decimal places. Numbers larger or more precise will be capped or rounded up. (E.g.: 0.1m will rounded up to 1m.) This may be extended in the future if we require larger or smaller quantities.'' @ [CHR 0x0A, CHR 0x0A] @ ''When a Quantity is parsed from a string, it will remember the type of suffix it had, and will use the same type again when it is serialized.'' @ [CHR 0x0A, CHR 0x0A] @ ''Before serializing, Quantity will be put in '' @ [CHR 0x22] @ ''canonical form'' @ [CHR 0x22] @ ''. This means that Exponent/suffix will be adjusted up or down (with a corresponding increase or decrease in Mantissa) such that:'' @ [CHR 0x0A, CHR 0x0A] @ ''- No precision is lost - No fractional digits will be emitted - The exponent (or suffix) is as large as possible.'' @ [CHR 0x0A, CHR 0x0A] @ ''The sign will be omitted unless the number is negative.'' @ [CHR 0x0A, CHR 0x0A] @ ''Examples:'' @ [CHR 0x0A, CHR 0x0A] @ ''- 1.5 will be serialized as '' @ [CHR 0x22] @ ''1500m'' @ [CHR 0x22] @ '' - 1.5Gi will be serialized as '' @ [CHR 0x22] @ ''1536Mi'' @ [CHR 0x22, CHR 0x0A, CHR 0x0A] @ ''Note that the quantity will NEVER be internally represented by a floating point number. That is the whole point of this exercise.'' @ [CHR 0x0A, CHR 0x0A] @ ''Non-canonical values will still parse as long as they are well formed, but will be re-emitted in their canonical form. (So always use canonical form, or don't diff.)'' @ [CHR 0x0A, CHR 0x0A] @ ''This format is intended to make it difficult to use these numbers without writing some sort of special handling code in the hopes that that will cause implementors to also use a fixed point implementation.''))]"

definition text_apimachinery_pkg_api_resource_int64Amount :: "string \<Rightarrow> string" where
  "text_apimachinery_pkg_api_resource_int64Amount = texts
    [([],
      ''int64Amount represents a fixed precision numerator and arbitrary scale exponent. It is faster than operations on inf.Dec for values that can be represented as int64.'')]"

definition text_pkg_apis_meta_v1_APIGroup :: "string \<Rightarrow> string" where
  "text_pkg_apis_meta_v1_APIGroup = texts
    [([],
      ''APIGroup contains the name, the supported versions, and the preferred version of a group.''),
     (''kind'',
      ''Kind is a string value representing the REST resource this object represents. Servers may infer this from the endpoint the client submits requests to. Cannot be updated. In CamelCase. More info: https://git.k8s.io/community/contributors/devel/sig-architecture/api-conventions.md#types-kinds''),
     (''apiVersion'',
      ''APIVersion defines the versioned schema of this representation of an object. Servers should convert recognized schemas to the latest internal value, and may reject unrecognized values. More info: https://git.k8s.io/community/contributors/devel/sig-architecture/api-conventions.md#resources''),
     (''name'',
      ''name is the name of the group.''),
     (''versions'',
      ''versions are the versions supported in this group.''),
     (''preferredVersion'',
      ''preferredVersion is the version preferred by the API server, which probably is the storage version.''),
     (''serverAddressByClientCIDRs'',
      ''a map of client CIDR to server address that is serving this group. This is to help clients reach servers in the most network-efficient way possible. Clients can use the appropriate server address as per the CIDR that they match. In case of multiple matches, clients should use the longest matching CIDR. The server returns only those CIDRs that it thinks that the client can match. For example: the master will return an internal IP CIDR only, if the client reaches the server using an internal IP. Server looks at X-Forwarded-For header or X-Real-Ip header or request.RemoteAddr (in that order) to get the client IP.'')]"

definition text_pkg_apis_meta_v1_APIGroupList :: "string \<Rightarrow> string" where
  "text_pkg_apis_meta_v1_APIGroupList = texts
    [([],
      ''APIGroupList is a list of APIGroup, to allow clients to discover the API at /apis.''),
     (''kind'',
      ''Kind is a string value representing the REST resource this object represents. Servers may infer this from the endpoint the client submits requests to. Cannot be updated. In CamelCase. More info: https://git.k8s.io/community/contributors/devel/sig-architecture/api-conventions.md#types-kinds''),
     (''apiVersion'',
      ''APIVersion defines the versioned schema of this representation of an object. Servers should convert recognized schemas to the latest internal value, and may reject unrecognized values. More info: https://git.k8s.io/community/contributors/devel/sig-architecture/api-conventions.md#resources''),
     (''groups'',
      ''groups is a list of APIGroup.'')]"

definition text_pkg_apis_meta_v1_APIResource :: "string \<Rightarrow> string" where
  "text_pkg_apis_meta_v1_APIResource = texts
    [([],
      ''APIResource specifies the name of a resource and whether it is namespaced.''),
     (''name'',
      ''name is the plural name of the resource.''),
     (''singularName'',
      ''singularName is the singular name of the resource.  This allows clients to handle plural and singular opaquely. The singularName is more correct for reporting status on a single item and both singular and plural are allowed from the kubectl CLI interface.''),
     (''namespaced'',
      ''namespaced indicates if a resource is namespaced or not.''),
     (''group'',
      (''group is the preferred group of the resource.  Empty implies the group of the containing resource list. For subresources, this may have a different value, for example: Scale'' @ [CHR 0x22] @ ''.'')),
     (''version'',
      (''version is the preferred version of the resource.  Empty implies the version of the containing resource list For subresources, this may have a different value, for example: v1 (while inside a v1beta1 version of the core resource's group)'' @ [CHR 0x22] @ ''.'')),
     (''kind'',
      ''kind is the kind for the resource (e.g. 'Foo' is the kind for a resource 'foo')''),
     (''verbs'',
      ''verbs is a list of supported kube verbs (this includes get, list, watch, create, update, patch, delete, deletecollection, and proxy)''),
     (''shortNames'',
      ''shortNames is a list of suggested short names of the resource.''),
     (''categories'',
      ''categories is a list of the grouped resources this resource belongs to (e.g. 'all')''),
     (''storageVersionHash'',
      ''The hash value of the storage version, the version this resource is converted to when written to the data store. Value must be treated as opaque by clients. Only equality comparison on the value is valid. This is an alpha feature and may change or be removed in the future. The field is populated by the apiserver only if the StorageVersionHash feature gate is enabled. This field will remain optional even if it graduates.'')]"

definition text_pkg_apis_meta_v1_APIResourceList :: "string \<Rightarrow> string" where
  "text_pkg_apis_meta_v1_APIResourceList = texts
    [([],
      ''APIResourceList is a list of APIResource, it is used to expose the name of the resources supported in a specific group and version, and if the resource is namespaced.''),
     (''kind'',
      ''Kind is a string value representing the REST resource this object represents. Servers may infer this from the endpoint the client submits requests to. Cannot be updated. In CamelCase. More info: https://git.k8s.io/community/contributors/devel/sig-architecture/api-conventions.md#types-kinds''),
     (''apiVersion'',
      ''APIVersion defines the versioned schema of this representation of an object. Servers should convert recognized schemas to the latest internal value, and may reject unrecognized values. More info: https://git.k8s.io/community/contributors/devel/sig-architecture/api-conventions.md#resources''),
     (''groupVersion'',
      ''groupVersion is the group and version this APIResourceList is for.''),
     (''resources'',
      ''resources contains the name of the resources and if they are namespaced.'')]"

definition text_pkg_apis_meta_v1_APIVersions :: "string \<Rightarrow> string" where
  "text_pkg_apis_meta_v1_APIVersions = texts
    [([],
      ''APIVersions lists the versions that are available, to allow clients to discover the API at /api, which is the root path of the legacy v1 API.''),
     (''kind'',
      ''Kind is a string value representing the REST resource this object represents. Servers may infer this from the endpoint the client submits requests to. Cannot be updated. In CamelCase. More info: https://git.k8s.io/community/contributors/devel/sig-architecture/api-conventions.md#types-kinds''),
     (''apiVersion'',
      ''APIVersion defines the versioned schema of this representation of an object. Servers should convert recognized schemas to the latest internal value, and may reject unrecognized values. More info: https://git.k8s.io/community/contributors/devel/sig-architecture/api-conventions.md#resources''),
     (''versions'',
      ''versions are the api versions that are available.''),
     (''serverAddressByClientCIDRs'',
      ''a map of client CIDR to server address that is serving this group. This is to help clients reach servers in the most network-efficient way possible. Clients can use the appropriate server address as per the CIDR that they match. In case of multiple matches, clients should use the longest matching CIDR. The server returns only those CIDRs that it thinks that the client can match. For example: the master will return an internal IP CIDR only, if the client reaches the server using an internal IP. Server looks at X-Forwarded-For header or X-Real-Ip header or request.RemoteAddr (in that order) to get the client IP.'')]"

definition text_pkg_apis_meta_v1_ApplyOptions :: "string \<Rightarrow> string" where
  "text_pkg_apis_meta_v1_ApplyOptions = texts
    [([],
      ''ApplyOptions may be provided when applying an API object. FieldManager is required for apply requests. ApplyOptions is equivalent to PatchOptions. It is provided as a convenience with documentation that speaks specifically to how the options fields relate to apply.''),
     (''kind'',
      ''Kind is a string value representing the REST resource this object represents. Servers may infer this from the endpoint the client submits requests to. Cannot be updated. In CamelCase. More info: https://git.k8s.io/community/contributors/devel/sig-architecture/api-conventions.md#types-kinds''),
     (''apiVersion'',
      ''APIVersion defines the versioned schema of this representation of an object. Servers should convert recognized schemas to the latest internal value, and may reject unrecognized values. More info: https://git.k8s.io/community/contributors/devel/sig-architecture/api-conventions.md#resources''),
     (''dryRun'',
      ''When present, indicates that modifications should not be persisted. An invalid or unrecognized dryRun directive will result in an error response and no further processing of the request. Valid values are: - All: all dry run stages will be processed''),
     (''force'',
      (''Force is going to '' @ [CHR 0x22] @ ''force'' @ [CHR 0x22] @ '' Apply requests. It means user will re-acquire conflicting fields owned by other people.'')),
     (''fieldManager'',
      ''fieldManager is a name associated with the actor or entity that is making these changes. The value must be less than or 128 characters long, and only contain printable characters, as defined by https://golang.org/pkg/unicode/#IsPrint. This field is required.'')]"

definition text_pkg_apis_meta_v1_Condition :: "string \<Rightarrow> string" where
  "text_pkg_apis_meta_v1_Condition = texts
    [([],
      ''Condition contains details for one aspect of the current state of this API Resource.''),
     (''type'',
      ''type of condition in CamelCase or in foo.example.com/CamelCase.''),
     (''status'',
      ''status of the condition, one of True, False, Unknown.''),
     (''observedGeneration'',
      ''observedGeneration represents the .metadata.generation that the condition was set based upon. For instance, if .metadata.generation is currently 12, but the .status.conditions[x].observedGeneration is 9, the condition is out of date with respect to the current state of the instance.''),
     (''lastTransitionTime'',
      ''lastTransitionTime is the last time the condition transitioned from one status to another. This should be when the underlying condition changed.  If that is not known, then using the time when the API field changed is acceptable.''),
     (''reason'',
      ''reason contains a programmatic identifier indicating the reason for the condition's last transition. Producers of specific condition types may define expected values and meanings for this field, and whether the values are considered a guaranteed API. The value should be a CamelCase string. This field may not be empty.''),
     (''message'',
      ''message is a human readable message indicating details about the transition. This may be an empty string.'')]"

definition text_pkg_apis_meta_v1_CreateOptions :: "string \<Rightarrow> string" where
  "text_pkg_apis_meta_v1_CreateOptions = texts
    [([],
      ''CreateOptions may be provided when creating an API object.''),
     (''kind'',
      ''Kind is a string value representing the REST resource this object represents. Servers may infer this from the endpoint the client submits requests to. Cannot be updated. In CamelCase. More info: https://git.k8s.io/community/contributors/devel/sig-architecture/api-conventions.md#types-kinds''),
     (''apiVersion'',
      ''APIVersion defines the versioned schema of this representation of an object. Servers should convert recognized schemas to the latest internal value, and may reject unrecognized values. More info: https://git.k8s.io/community/contributors/devel/sig-architecture/api-conventions.md#resources''),
     (''dryRun'',
      ''When present, indicates that modifications should not be persisted. An invalid or unrecognized dryRun directive will result in an error response and no further processing of the request. Valid values are: - All: all dry run stages will be processed''),
     (''fieldManager'',
      ''fieldManager is a name associated with the actor or entity that is making these changes. The value must be less than or 128 characters long, and only contain printable characters, as defined by https://golang.org/pkg/unicode/#IsPrint.''),
     (''fieldValidation'',
      ''fieldValidation instructs the server on how to handle objects in the request (POST/PUT/PATCH) containing unknown or duplicate fields. Valid values are: - Ignore: This will ignore any unknown fields that are silently dropped from the object, and will ignore all but the last duplicate field that the decoder encounters. This is the default behavior prior to v1.23. - Warn: This will send a warning via the standard warning response header for each unknown field that is dropped from the object, and for each duplicate field that is encountered. The request will still succeed if there are no other errors, and will only persist the last of any duplicate fields. This is the default in v1.23+ - Strict: This will fail the request with a BadRequest error if any unknown fields would be dropped from the object, or if any duplicate fields are present. The error returned from the server will contain all unknown and duplicate fields encountered.'')]"

definition text_pkg_apis_meta_v1_DeleteOptions :: "string \<Rightarrow> string" where
  "text_pkg_apis_meta_v1_DeleteOptions = texts
    [([],
      ''DeleteOptions may be provided when deleting an API object.''),
     (''kind'',
      ''Kind is a string value representing the REST resource this object represents. Servers may infer this from the endpoint the client submits requests to. Cannot be updated. In CamelCase. More info: https://git.k8s.io/community/contributors/devel/sig-architecture/api-conventions.md#types-kinds''),
     (''apiVersion'',
      ''APIVersion defines the versioned schema of this representation of an object. Servers should convert recognized schemas to the latest internal value, and may reject unrecognized values. More info: https://git.k8s.io/community/contributors/devel/sig-architecture/api-conventions.md#resources''),
     (''gracePeriodSeconds'',
      ''The duration in seconds before the object should be deleted. Value must be non-negative integer. The value zero indicates delete immediately. If this value is nil, the default grace period for the specified type will be used. Defaults to a per object value if not specified. zero means delete immediately.''),
     (''preconditions'',
      ''Must be fulfilled before a deletion is carried out. If not possible, a 409 Conflict status will be returned.''),
     (''orphanDependents'',
      (''Deprecated: please use the PropagationPolicy, this field will be deprecated in 1.7. Should the dependent objects be orphaned. If true/false, the '' @ [CHR 0x22] @ ''orphan'' @ [CHR 0x22] @ '' finalizer will be added to/removed from the object's finalizers list. Either this field or PropagationPolicy may be set, but not both.'')),
     (''propagationPolicy'',
      ''Whether and how garbage collection will be performed. Either this field or OrphanDependents may be set, but not both. The default policy is decided by the existing finalizer set in the metadata.finalizers and the resource-specific default policy. Acceptable values are: 'Orphan' - orphan the dependents; 'Background' - allow the garbage collector to delete the dependents in the background; 'Foreground' - a cascading policy that deletes all dependents in the foreground.''),
     (''dryRun'',
      ''When present, indicates that modifications should not be persisted. An invalid or unrecognized dryRun directive will result in an error response and no further processing of the request. Valid values are: - All: all dry run stages will be processed''),
     (''ignoreStoreReadErrorWithClusterBreakingPotential'',
      ''if set to true, it will trigger an unsafe deletion of the resource in case the normal deletion flow fails with a corrupt object error. A resource is considered corrupt if it can not be retrieved from the underlying storage successfully because of a) its data can not be transformed e.g. decryption failure, or b) it fails to decode into an object. NOTE: unsafe deletion ignores finalizer constraints, skips precondition checks, and removes the object from the storage. WARNING: This may potentially break the cluster if the workload associated with the resource being unsafe-deleted relies on normal deletion flow. Use only if you REALLY know what you are doing. The default value is false, and the user must opt in to enable it'')]"

definition text_pkg_apis_meta_v1_Duration :: "string \<Rightarrow> string" where
  "text_pkg_apis_meta_v1_Duration = texts
    [([],
      ''Duration is a wrapper around time.Duration which supports correct marshaling to YAML and JSON. In particular, it marshals into strings, which can be used as map keys in json.'')]"

definition text_pkg_apis_meta_v1_FieldSelectorRequirement :: "string \<Rightarrow> string" where
  "text_pkg_apis_meta_v1_FieldSelectorRequirement = texts
    [([],
      ''FieldSelectorRequirement is a selector that contains values, a key, and an operator that relates the key and values.''),
     (''key'',
      ''key is the field selector key that the requirement applies to.''),
     (''operator'',
      ''operator represents a key's relationship to a set of values. Valid operators are In, NotIn, Exists, DoesNotExist. The list of operators may grow in the future.''),
     (''values'',
      ''values is an array of string values. If the operator is In or NotIn, the values array must be non-empty. If the operator is Exists or DoesNotExist, the values array must be empty.'')]"

definition text_pkg_apis_meta_v1_FieldsV1 :: "string \<Rightarrow> string" where
  "text_pkg_apis_meta_v1_FieldsV1 = texts
    [([],
      (''FieldsV1 stores a set of fields in a data structure like a Trie, in JSON format.'' @ [CHR 0x0A, CHR 0x0A] @ ''Each key is either a '.' representing the field itself, and will always map to an empty set, or a string representing a sub-field or item. The string will follow one of these four formats: 'f:<name>', where <name> is the name of a field in a struct, or key in a map 'v:<value>', where <value> is the exact json formatted value of a list item 'i:<index>', where <index> is position of a item in a list 'k:<keys>', where <keys> is a map of  a list item's key fields to their unique values If a key maps to an empty Fields value, the field that key represents is part of the set.'' @ [CHR 0x0A, CHR 0x0A] @ ''The exact format is defined in sigs.k8s.io/structured-merge-diff''))]"

definition text_pkg_apis_meta_v1_GetOptions :: "string \<Rightarrow> string" where
  "text_pkg_apis_meta_v1_GetOptions = texts
    [([],
      ''GetOptions is the standard query options to the standard REST get call.''),
     (''kind'',
      ''Kind is a string value representing the REST resource this object represents. Servers may infer this from the endpoint the client submits requests to. Cannot be updated. In CamelCase. More info: https://git.k8s.io/community/contributors/devel/sig-architecture/api-conventions.md#types-kinds''),
     (''apiVersion'',
      ''APIVersion defines the versioned schema of this representation of an object. Servers should convert recognized schemas to the latest internal value, and may reject unrecognized values. More info: https://git.k8s.io/community/contributors/devel/sig-architecture/api-conventions.md#resources''),
     (''resourceVersion'',
      (''resourceVersion sets a constraint on what resource versions a request may be served from. See https://kubernetes.io/docs/reference/using-api/api-concepts/#resource-versions for details.'' @ [CHR 0x0A, CHR 0x0A] @ ''Defaults to unset''))]"

definition text_pkg_apis_meta_v1_GroupKind :: "string \<Rightarrow> string" where
  "text_pkg_apis_meta_v1_GroupKind = texts
    [([],
      ''GroupKind specifies a Group and a Kind, but does not force a version.  This is useful for identifying concepts during lookup stages without having partially valid types'')]"

definition text_pkg_apis_meta_v1_GroupResource :: "string \<Rightarrow> string" where
  "text_pkg_apis_meta_v1_GroupResource = texts
    [([],
      ''GroupResource specifies a Group and a Resource, but does not force a version.  This is useful for identifying concepts during lookup stages without having partially valid types'')]"

definition text_pkg_apis_meta_v1_GroupVersion :: "string \<Rightarrow> string" where
  "text_pkg_apis_meta_v1_GroupVersion = texts
    [([],
      (''GroupVersion contains the '' @ [CHR 0x22] @ ''group'' @ [CHR 0x22] @ '' and the '' @ [CHR 0x22] @ ''version'' @ [CHR 0x22] @ '', which uniquely identifies the API.''))]"

definition text_pkg_apis_meta_v1_GroupVersionForDiscovery :: "string \<Rightarrow> string" where
  "text_pkg_apis_meta_v1_GroupVersionForDiscovery = texts
    [([],
      (''GroupVersion contains the '' @ [CHR 0x22] @ ''group/version'' @ [CHR 0x22] @ '' and '' @ [CHR 0x22] @ ''version'' @ [CHR 0x22] @ '' string of a version. It is made a struct to keep extensibility.'')),
     (''groupVersion'',
      (''groupVersion specifies the API group and version in the form '' @ [CHR 0x22] @ ''group/version'' @ [CHR 0x22])),
     (''version'',
      (''version specifies the version in the form of '' @ [CHR 0x22] @ ''version'' @ [CHR 0x22] @ ''. This is to save the clients the trouble of splitting the GroupVersion.''))]"

definition text_pkg_apis_meta_v1_GroupVersionKind :: "string \<Rightarrow> string" where
  "text_pkg_apis_meta_v1_GroupVersionKind = texts
    [([],
      ''GroupVersionKind unambiguously identifies a kind.  It doesn't anonymously include GroupVersion to avoid automatic coercion.  It doesn't use a GroupVersion to avoid custom marshalling'')]"

definition text_pkg_apis_meta_v1_GroupVersionResource :: "string \<Rightarrow> string" where
  "text_pkg_apis_meta_v1_GroupVersionResource = texts
    [([],
      ''GroupVersionResource unambiguously identifies a resource.  It doesn't anonymously include GroupVersion to avoid automatic coercion.  It doesn't use a GroupVersion to avoid custom marshalling'')]"

definition text_pkg_apis_meta_v1_InternalEvent :: "string \<Rightarrow> string" where
  "text_pkg_apis_meta_v1_InternalEvent = texts
    [([],
      ''InternalEvent makes watch.Event versioned''),
     (''Object'',
      (''Object is:'' @ [CHR 0x0A] @ '' * If Type is Added or Modified: the new state of the object.'' @ [CHR 0x0A] @ '' * If Type is Deleted: the state of the object immediately before deletion.'' @ [CHR 0x0A] @ '' * If Type is Bookmark: the object (instance of a type being watched) where'' @ [CHR 0x0A] @ ''   only ResourceVersion field is set. On successful restart of watch from a'' @ [CHR 0x0A] @ ''   bookmark resourceVersion, client is guaranteed to not get repeat event'' @ [CHR 0x0A] @ ''   nor miss any events.'' @ [CHR 0x0A] @ '' * If Type is Error: *api.Status is recommended; other types may make sense'' @ [CHR 0x0A] @ ''   depending on context.''))]"

definition text_pkg_apis_meta_v1_LabelSelector :: "string \<Rightarrow> string" where
  "text_pkg_apis_meta_v1_LabelSelector = texts
    [([],
      ''A label selector is a label query over a set of resources. The result of matchLabels and matchExpressions are ANDed. An empty label selector matches all objects. A null label selector matches no objects.''),
     (''matchLabels'',
      (''matchLabels is a map of {key,value} pairs. A single {key,value} in the matchLabels map is equivalent to an element of matchExpressions, whose key field is '' @ [CHR 0x22] @ ''key'' @ [CHR 0x22] @ '', the operator is '' @ [CHR 0x22] @ ''In'' @ [CHR 0x22] @ '', and the values array contains only '' @ [CHR 0x22] @ ''value'' @ [CHR 0x22] @ ''. The requirements are ANDed.'')),
     (''matchExpressions'',
      ''matchExpressions is a list of label selector requirements. The requirements are ANDed.'')]"

definition text_pkg_apis_meta_v1_LabelSelectorRequirement :: "string \<Rightarrow> string" where
  "text_pkg_apis_meta_v1_LabelSelectorRequirement = texts
    [([],
      ''A label selector requirement is a selector that contains values, a key, and an operator that relates the key and values.''),
     (''key'',
      ''key is the label key that the selector applies to.''),
     (''operator'',
      ''operator represents a key's relationship to a set of values. Valid operators are In, NotIn, Exists and DoesNotExist.''),
     (''values'',
      ''values is an array of string values. If the operator is In or NotIn, the values array must be non-empty. If the operator is Exists or DoesNotExist, the values array must be empty. This array is replaced during a strategic merge patch.'')]"

definition text_pkg_apis_meta_v1_List :: "string \<Rightarrow> string" where
  "text_pkg_apis_meta_v1_List = texts
    [([],
      ''List holds a list of objects, which may not be known by the server.''),
     (''kind'',
      ''Kind is a string value representing the REST resource this object represents. Servers may infer this from the endpoint the client submits requests to. Cannot be updated. In CamelCase. More info: https://git.k8s.io/community/contributors/devel/sig-architecture/api-conventions.md#types-kinds''),
     (''apiVersion'',
      ''APIVersion defines the versioned schema of this representation of an object. Servers should convert recognized schemas to the latest internal value, and may reject unrecognized values. More info: https://git.k8s.io/community/contributors/devel/sig-architecture/api-conventions.md#resources''),
     (''metadata'',
      ''Standard list metadata. More info: https://git.k8s.io/community/contributors/devel/sig-architecture/api-conventions.md#types-kinds''),
     (''items'',
      ''List of objects'')]"

definition text_pkg_apis_meta_v1_ListMeta :: "string \<Rightarrow> string" where
  "text_pkg_apis_meta_v1_ListMeta = texts
    [([],
      ''ListMeta describes metadata that synthetic resources must have, including lists and various status objects. A resource may have only one of {ObjectMeta, ListMeta}.''),
     (''selfLink'',
      ''Deprecated: selfLink is a legacy read-only field that is no longer populated by the system.''),
     (''resourceVersion'',
      ''String that identifies the server's internal version of this object that can be used by clients to determine when objects have changed. Value must be treated as opaque by clients and passed unmodified back to the server. Populated by the system. Read-only. More info: https://git.k8s.io/community/contributors/devel/sig-architecture/api-conventions.md#concurrency-control-and-consistency''),
     (''continue'',
      ''continue may be set if the user set a limit on the number of items returned, and indicates that the server has more data available. The value is opaque and may be used to issue another request to the endpoint that served this list to retrieve the next set of available objects. Continuing a consistent list may not be possible if the server configuration has changed or more than a few minutes have passed. The resourceVersion field returned when using this continue value will be identical to the value in the first response, unless you have received this token from an error message.''),
     (''remainingItemCount'',
      ''remainingItemCount is the number of subsequent items in the list which are not included in this list response. If the list request contained label or field selectors, then the number of remaining items is unknown and the field will be left unset and omitted during serialization. If the list is complete (either because it is not chunking or because this is the last chunk), then there are no more remaining items and this field will be left unset and omitted during serialization. Servers older than v1.15 do not set this field. The intended use of the remainingItemCount is *estimating* the size of a collection. Clients should not rely on the remainingItemCount to be set or to be exact.''),
     (''shardInfo'',
      (''shardInfo is set when the list is a filtered subset of the full collection, as selected by a shard selector on the request. It echoes back the selector so clients can verify which shard they received and merge sharded responses. Clients should not cache sharded list responses as a full representation of the collection.'' @ [CHR 0x0A, CHR 0x0A] @ ''This is an alpha field and requires enabling the ShardedListAndWatch feature gate.''))]"

definition text_pkg_apis_meta_v1_ListOptions :: "string \<Rightarrow> string" where
  "text_pkg_apis_meta_v1_ListOptions = texts
    [([],
      ''ListOptions is the query options to a standard REST list call.''),
     (''kind'',
      ''Kind is a string value representing the REST resource this object represents. Servers may infer this from the endpoint the client submits requests to. Cannot be updated. In CamelCase. More info: https://git.k8s.io/community/contributors/devel/sig-architecture/api-conventions.md#types-kinds''),
     (''apiVersion'',
      ''APIVersion defines the versioned schema of this representation of an object. Servers should convert recognized schemas to the latest internal value, and may reject unrecognized values. More info: https://git.k8s.io/community/contributors/devel/sig-architecture/api-conventions.md#resources''),
     (''labelSelector'',
      ''A selector to restrict the list of returned objects by their labels. Defaults to everything.''),
     (''fieldSelector'',
      ''A selector to restrict the list of returned objects by their fields. Defaults to everything.''),
     (''watch'',
      ''Watch for changes to the described resources and return them as a stream of add, update, and remove notifications. Specify resourceVersion.''),
     (''allowWatchBookmarks'',
      (''allowWatchBookmarks requests watch events with type '' @ [CHR 0x22] @ ''BOOKMARK'' @ [CHR 0x22] @ ''. Servers that do not implement bookmarks may ignore this flag and bookmarks are sent at the server's discretion. Clients should not assume bookmarks are returned at any specific interval, nor may they assume the server will send any BOOKMARK event during a session. If this is not a watch, this field is ignored.'')),
     (''resourceVersion'',
      (''resourceVersion sets a constraint on what resource versions a request may be served from. See https://kubernetes.io/docs/reference/using-api/api-concepts/#resource-versions for details.'' @ [CHR 0x0A, CHR 0x0A] @ ''Defaults to unset'')),
     (''resourceVersionMatch'',
      (''resourceVersionMatch determines how resourceVersion is applied to list calls. It is highly recommended that resourceVersionMatch be set for list calls where resourceVersion is set See https://kubernetes.io/docs/reference/using-api/api-concepts/#resource-versions for details.'' @ [CHR 0x0A, CHR 0x0A] @ ''Defaults to unset'')),
     (''timeoutSeconds'',
      ''Timeout for the list/watch call. This limits the duration of the call, regardless of any activity or inactivity.''),
     (''limit'',
      (''limit is a maximum number of responses to return for a list call. If more items exist, the server will set the '' @ [CHR 0x60] @ ''continue'' @ [CHR 0x60] @ '' field on the list metadata to a value that can be used with the same initial query to retrieve the next set of results. Setting a limit may return fewer than the requested amount of items (up to zero items) in the event all requested objects are filtered out and clients should only use the presence of the continue field to determine whether more results are available. Servers may choose not to support the limit argument and will return all of the available results. If limit is specified and the continue field is empty, clients may assume that no more results are available. This field is not supported if watch is true.'' @ [CHR 0x0A, CHR 0x0A] @ ''The server guarantees that the objects returned when using continue will be identical to issuing a single list call without a limit - that is, no objects created, modified, or deleted after the first request is issued will be included in any subsequent continued requests. This is sometimes referred to as a consistent snapshot, and ensures that a client that is using limit to receive smaller chunks of a very large result can ensure they see all possible objects. If objects are updated during a chunked list the version of the object that was present at the time the first list result was calculated is returned.'')),
     (''continue'',
      (''The continue option should be set when retrieving more results from the server. Since this value is server defined, clients may only use the continue value from a previous query result with identical query parameters (except for the value of continue) and the server may reject a continue value it does not recognize. If the specified continue value is no longer valid whether due to expiration (generally five to fifteen minutes) or a configuration change on the server, the server will respond with a 410 ResourceExpired error together with a continue token. If the client needs a consistent list, it must restart their list without the continue field. Otherwise, the client may send another list request with the token received with the 410 error, the server will respond with a list starting from the next key, but from the latest snapshot, which is inconsistent from the previous list results - objects that are created, modified, or deleted after the first list request will be included in the response, as long as their keys are after the '' @ [CHR 0x22] @ ''next key'' @ [CHR 0x22] @ ''.'' @ [CHR 0x0A, CHR 0x0A] @ ''This field is not supported when watch is true. Clients may start a watch from the last resourceVersion value returned by the server and not miss any modifications.'')),
     (''sendInitialEvents'',
      ([CHR 0x60] @ ''sendInitialEvents=true'' @ [CHR 0x60] @ '' may be set together with '' @ [CHR 0x60] @ ''watch=true'' @ [CHR 0x60] @ ''. In that case, the watch stream will begin with synthetic events to produce the current state of objects in the collection. Once all such events have been sent, a synthetic '' @ [CHR 0x22] @ ''Bookmark'' @ [CHR 0x22] @ '' event  will be sent. The bookmark will report the ResourceVersion (RV) corresponding to the set of objects, and be marked with '' @ [CHR 0x60, CHR 0x22] @ ''k8s.io/initial-events-end'' @ [CHR 0x22] @ '': '' @ [CHR 0x22] @ ''true'' @ [CHR 0x22, CHR 0x60] @ '' annotation. Afterwards, the watch stream will proceed as usual, sending watch events corresponding to changes (subsequent to the RV) to objects watched.'' @ [CHR 0x0A, CHR 0x0A] @ ''When '' @ [CHR 0x60] @ ''sendInitialEvents'' @ [CHR 0x60] @ '' option is set, we require '' @ [CHR 0x60] @ ''resourceVersionMatch'' @ [CHR 0x60] @ '' option to also be set. The semantic of the watch request is as following: - '' @ [CHR 0x60] @ ''resourceVersionMatch'' @ [CHR 0x60] @ '' = NotOlderThan'' @ [CHR 0x0A] @ ''  is interpreted as '' @ [CHR 0x22] @ ''data at least as new as the provided '' @ [CHR 0x60] @ ''resourceVersion'' @ [CHR 0x60, CHR 0x22, CHR 0x0A] @ ''  and the bookmark event is send when the state is synced'' @ [CHR 0x0A] @ ''  to a '' @ [CHR 0x60] @ ''resourceVersion'' @ [CHR 0x60] @ '' at least as fresh as the one provided by the ListOptions.'' @ [CHR 0x0A] @ ''  If '' @ [CHR 0x60] @ ''resourceVersion'' @ [CHR 0x60] @ '' is unset, this is interpreted as '' @ [CHR 0x22] @ ''consistent read'' @ [CHR 0x22] @ '' and the'' @ [CHR 0x0A] @ ''  bookmark event is send when the state is synced at least to the moment'' @ [CHR 0x0A] @ ''  when request started being processed.'' @ [CHR 0x0A] @ ''- '' @ [CHR 0x60] @ ''resourceVersionMatch'' @ [CHR 0x60] @ '' set to any other value or unset'' @ [CHR 0x0A] @ ''  Invalid error is returned.'' @ [CHR 0x0A, CHR 0x0A] @ ''Defaults to true if '' @ [CHR 0x60] @ ''resourceVersion='' @ [CHR 0x22, CHR 0x22, CHR 0x60] @ '' or '' @ [CHR 0x60] @ ''resourceVersion='' @ [CHR 0x22] @ ''0'' @ [CHR 0x22, CHR 0x60] @ '' (for backward compatibility reasons) and to false otherwise.'')),
     (''shardSelector'',
      (''shardSelector restricts the list of returned objects using a CEL-based shard selector expression. The format uses the shardRange() function combined with || (logical OR) to specify one or more hash ranges:'' @ [CHR 0x0A, CHR 0x0A] @ ''  shardRange(object.metadata.uid, '0x0', '0x8000000000000000')'' @ [CHR 0x0A] @ ''  shardRange(object.metadata.uid, '0x0', '0x8000000000000000') || shardRange(object.metadata.uid, '0x8000000000000000', '0x10000000000000000')'' @ [CHR 0x0A, CHR 0x0A] @ ''Field paths use CEL-style object-rooted syntax (e.g. '' @ [CHR 0x22] @ ''object.metadata.uid'' @ [CHR 0x22] @ ''), NOT the fieldSelector format ('' @ [CHR 0x22] @ ''metadata.uid'' @ [CHR 0x22] @ ''). Currently supported paths:'' @ [CHR 0x0A] @ ''  - object.metadata.uid'' @ [CHR 0x0A] @ ''  - object.metadata.namespace'' @ [CHR 0x0A, CHR 0x0A] @ ''hexStart and hexEnd are single-quoted CEL string literals with a '0x' prefix, defining the inclusive lower and exclusive upper bounds over the 64-bit FNV-1a hash space. The full range is [0x0, 0x10000000000000000), where the exclusive upper bound equals 2^64.'' @ [CHR 0x0A, CHR 0x0A] @ ''Examples:'' @ [CHR 0x0A] @ ''  2-shard split:'' @ [CHR 0x0A] @ ''    shard 0: shardRange(object.metadata.uid, '0x0000000000000000', '0x8000000000000000')'' @ [CHR 0x0A] @ ''    shard 1: shardRange(object.metadata.uid, '0x8000000000000000', '0x10000000000000000')'' @ [CHR 0x0A] @ ''  4-shard split:'' @ [CHR 0x0A] @ ''    shard 0: shardRange(object.metadata.uid, '0x0000000000000000', '0x4000000000000000')'' @ [CHR 0x0A] @ ''    shard 1: shardRange(object.metadata.uid, '0x4000000000000000', '0x8000000000000000')'' @ [CHR 0x0A] @ ''    shard 2: shardRange(object.metadata.uid, '0x8000000000000000', '0xc000000000000000')'' @ [CHR 0x0A] @ ''    shard 3: shardRange(object.metadata.uid, '0xc000000000000000', '0x10000000000000000')'' @ [CHR 0x0A, CHR 0x0A] @ ''This is an alpha field and requires enabling the ShardedListAndWatch feature gate.''))]"

definition text_pkg_apis_meta_v1_ManagedFieldsEntry :: "string \<Rightarrow> string" where
  "text_pkg_apis_meta_v1_ManagedFieldsEntry = texts
    [([],
      ''ManagedFieldsEntry is a workflow-id, a FieldSet and the group version of the resource that the fieldset applies to.''),
     (''manager'',
      ''Manager is an identifier of the workflow managing these fields.''),
     (''operation'',
      ''Operation is the type of operation which lead to this ManagedFieldsEntry being created. The only valid values for this field are 'Apply' and 'Update'.''),
     (''apiVersion'',
      (''APIVersion defines the version of this resource that this field set applies to. The format is '' @ [CHR 0x22] @ ''group/version'' @ [CHR 0x22] @ '' just like the top-level APIVersion field. It is necessary to track the version of a field set because it cannot be automatically converted.'')),
     (''time'',
      ''Time is the timestamp of when the ManagedFields entry was added. The timestamp will also be updated if a field is added, the manager changes any of the owned fields value or removes a field. The timestamp does not update when a field is removed from the entry because another manager took it over.''),
     (''fieldsType'',
      (''FieldsType is the discriminator for the different fields format and version. There is currently only one possible value: '' @ [CHR 0x22] @ ''FieldsV1'' @ [CHR 0x22])),
     (''fieldsV1'',
      (''FieldsV1 holds the first JSON version format as described in the '' @ [CHR 0x22] @ ''FieldsV1'' @ [CHR 0x22] @ '' type.'')),
     (''subresource'',
      ''Subresource is the name of the subresource used to update that object, or empty string if the object was updated through the main resource. The value of this field is used to distinguish between managers, even if they share the same name. For example, a status update will be distinct from a regular update using the same manager name. Note that the APIVersion field is not related to the Subresource field and it always corresponds to the version of the main resource.'')]"

definition text_pkg_apis_meta_v1_MicroTime :: "string \<Rightarrow> string" where
  "text_pkg_apis_meta_v1_MicroTime = texts
    [([],
      ''MicroTime is version of Time with microsecond level precision.'')]"

definition text_pkg_apis_meta_v1_ObjectMeta :: "string \<Rightarrow> string" where
  "text_pkg_apis_meta_v1_ObjectMeta = texts
    [([],
      ''ObjectMeta is metadata that all persisted resources must have, which includes all objects users must create.''),
     (''name'',
      ''Name must be unique within a namespace. Is required when creating resources, although some resources may allow a client to request the generation of an appropriate name automatically. Name is primarily intended for creation idempotence and configuration definition. Cannot be updated. More info: https://kubernetes.io/docs/concepts/overview/working-with-objects/names#names''),
     (''generateName'',
      (''GenerateName is an optional prefix, used by the server, to generate a unique name ONLY IF the Name field has not been provided. If this field is used, the name returned to the client will be different than the name passed. This value will also be combined with a unique suffix. The provided value has the same validation rules as the Name field, and may be truncated by the length of the suffix required to make the value unique on the server.'' @ [CHR 0x0A, CHR 0x0A] @ ''If this field is specified and the generated name exists, the server will return a 409.'' @ [CHR 0x0A, CHR 0x0A] @ ''Applied only if Name is not specified. More info: https://git.k8s.io/community/contributors/devel/sig-architecture/api-conventions.md#idempotency'')),
     (''namespace'',
      (''Namespace defines the space within which each name must be unique. An empty namespace is equivalent to the '' @ [CHR 0x22] @ ''default'' @ [CHR 0x22] @ '' namespace, but '' @ [CHR 0x22] @ ''default'' @ [CHR 0x22] @ '' is the canonical representation. Not all objects are required to be scoped to a namespace - the value of this field for those objects will be empty.'' @ [CHR 0x0A, CHR 0x0A] @ ''Must be a DNS_LABEL. Cannot be updated. More info: https://kubernetes.io/docs/concepts/overview/working-with-objects/namespaces'')),
     (''selfLink'',
      ''Deprecated: selfLink is a legacy read-only field that is no longer populated by the system.''),
     (''uid'',
      (''UID is the unique in time and space value for this object. It is typically generated by the server on successful creation of a resource and is not allowed to change on PUT operations.'' @ [CHR 0x0A, CHR 0x0A] @ ''Populated by the system. Read-only. More info: https://kubernetes.io/docs/concepts/overview/working-with-objects/names#uids'')),
     (''resourceVersion'',
      (''An opaque value that represents the internal version of this object that can be used by clients to determine when objects have changed. May be used for optimistic concurrency, change detection, and the watch operation on a resource or set of resources. Clients must treat these values as opaque and passed unmodified back to the server. They may only be valid for a particular resource or set of resources.'' @ [CHR 0x0A, CHR 0x0A] @ ''Populated by the system. Read-only. Value must be treated as opaque by clients and . More info: https://git.k8s.io/community/contributors/devel/sig-architecture/api-conventions.md#concurrency-control-and-consistency'')),
     (''generation'',
      ''A sequence number representing a specific generation of the desired state. Populated by the system. Read-only.''),
     (''creationTimestamp'',
      (''CreationTimestamp is a timestamp representing the server time when this object was created. It is not guaranteed to be set in happens-before order across separate operations. Clients may not set this value. It is represented in RFC3339 form and is in UTC.'' @ [CHR 0x0A, CHR 0x0A] @ ''Populated by the system. Read-only. Null for lists. More info: https://git.k8s.io/community/contributors/devel/sig-architecture/api-conventions.md#metadata'')),
     (''deletionTimestamp'',
      (''DeletionTimestamp is RFC 3339 date and time at which this resource will be deleted. This field is set by the server when a graceful deletion is requested by the user, and is not directly settable by a client. The resource is expected to be deleted (no longer visible from resource lists, and not reachable by name) after the time in this field, once the finalizers list is empty. As long as the finalizers list contains items, deletion is blocked. Once the deletionTimestamp is set, this value may not be unset or be set further into the future, although it may be shortened or the resource may be deleted prior to this time. For example, a user may request that a pod is deleted in 30 seconds. The Kubelet will react by sending a graceful termination signal to the containers in the pod. After that 30 seconds, the Kubelet will send a hard termination signal (SIGKILL) to the container and after cleanup, remove the pod from the API. In the presence of network partitions, this object may still exist after this timestamp, until an administrator or automated process can determine the resource is fully terminated. If not set, graceful deletion of the object has not been requested.'' @ [CHR 0x0A, CHR 0x0A] @ ''Populated by the system when a graceful deletion is requested. Read-only. More info: https://git.k8s.io/community/contributors/devel/sig-architecture/api-conventions.md#metadata'')),
     (''deletionGracePeriodSeconds'',
      ''Number of seconds allowed for this object to gracefully terminate before it will be removed from the system. Only set when deletionTimestamp is also set. May only be shortened. Read-only.''),
     (''labels'',
      ''Map of string keys and values that can be used to organize and categorize (scope and select) objects. May match selectors of replication controllers and services. More info: https://kubernetes.io/docs/concepts/overview/working-with-objects/labels''),
     (''annotations'',
      ''Annotations is an unstructured key value map stored with a resource that may be set by external tools to store and retrieve arbitrary metadata. They are not queryable and should be preserved when modifying objects. More info: https://kubernetes.io/docs/concepts/overview/working-with-objects/annotations''),
     (''ownerReferences'',
      ''List of objects depended by this object. If ALL objects in the list have been deleted, this object will be garbage collected. If this object is managed by a controller, then an entry in this list will point to this controller, with the controller field set to true. There cannot be more than one managing controller.''),
     (''finalizers'',
      ''Must be empty before the object is deleted from the registry. Each entry is an identifier for the responsible component that will remove the entry from the list. If the deletionTimestamp of the object is non-nil, entries in this list can only be removed. Finalizers may be processed and removed in any order.  Order is NOT enforced because it introduces significant risk of stuck finalizers. finalizers is a shared field, any actor with permission can reorder it. If the finalizer list is processed in order, then this can lead to a situation in which the component responsible for the first finalizer in the list is waiting for a signal (field value, external system, or other) produced by a component responsible for a finalizer later in the list, resulting in a deadlock. Without enforced ordering finalizers are free to order amongst themselves and are not vulnerable to ordering changes in the list.''),
     (''managedFields'',
      (''ManagedFields maps workflow-id and version to the set of fields that are managed by that workflow. This is mostly for internal housekeeping, and users typically shouldn't need to set or understand this field. A workflow can be the user's name, a controller's name, or the name of a specific apply path like '' @ [CHR 0x22] @ ''ci-cd'' @ [CHR 0x22] @ ''. The set of fields is always in the version that the workflow used when modifying the object.''))]"

definition text_pkg_apis_meta_v1_OwnerReference :: "string \<Rightarrow> string" where
  "text_pkg_apis_meta_v1_OwnerReference = texts
    [([],
      ''OwnerReference contains enough information to let you identify an owning object. An owning object must be in the same namespace as the dependent, or be cluster-scoped, so there is no namespace field.''),
     (''apiVersion'',
      ''API version of the referent.''),
     (''kind'',
      ''Kind of the referent. More info: https://git.k8s.io/community/contributors/devel/sig-architecture/api-conventions.md#types-kinds''),
     (''name'',
      ''Name of the referent. More info: https://kubernetes.io/docs/concepts/overview/working-with-objects/names#names''),
     (''uid'',
      ''UID of the referent. More info: https://kubernetes.io/docs/concepts/overview/working-with-objects/names#uids''),
     (''controller'',
      ''If true, this reference points to the managing controller.''),
     (''blockOwnerDeletion'',
      (''If true, AND if the owner has the '' @ [CHR 0x22] @ ''foregroundDeletion'' @ [CHR 0x22] @ '' finalizer, then the owner cannot be deleted from the key-value store until this reference is removed. See https://kubernetes.io/docs/concepts/architecture/garbage-collection/#foreground-deletion for how the garbage collector interacts with this field and enforces the foreground deletion. Defaults to false. To set this field, a user needs '' @ [CHR 0x22] @ ''delete'' @ [CHR 0x22] @ '' permission of the owner, otherwise 422 (Unprocessable Entity) will be returned.''))]"

definition text_pkg_apis_meta_v1_PartialObjectMetadata :: "string \<Rightarrow> string" where
  "text_pkg_apis_meta_v1_PartialObjectMetadata = texts
    [([],
      ''PartialObjectMetadata is a generic representation of any object with ObjectMeta. It allows clients to get access to a particular ObjectMeta schema without knowing the details of the version.''),
     (''kind'',
      ''Kind is a string value representing the REST resource this object represents. Servers may infer this from the endpoint the client submits requests to. Cannot be updated. In CamelCase. More info: https://git.k8s.io/community/contributors/devel/sig-architecture/api-conventions.md#types-kinds''),
     (''apiVersion'',
      ''APIVersion defines the versioned schema of this representation of an object. Servers should convert recognized schemas to the latest internal value, and may reject unrecognized values. More info: https://git.k8s.io/community/contributors/devel/sig-architecture/api-conventions.md#resources''),
     (''metadata'',
      ''Standard object's metadata. More info: https://git.k8s.io/community/contributors/devel/sig-architecture/api-conventions.md#metadata'')]"

definition text_pkg_apis_meta_v1_PartialObjectMetadataList :: "string \<Rightarrow> string" where
  "text_pkg_apis_meta_v1_PartialObjectMetadataList = texts
    [([],
      ''PartialObjectMetadataList contains a list of objects containing only their metadata''),
     (''kind'',
      ''Kind is a string value representing the REST resource this object represents. Servers may infer this from the endpoint the client submits requests to. Cannot be updated. In CamelCase. More info: https://git.k8s.io/community/contributors/devel/sig-architecture/api-conventions.md#types-kinds''),
     (''apiVersion'',
      ''APIVersion defines the versioned schema of this representation of an object. Servers should convert recognized schemas to the latest internal value, and may reject unrecognized values. More info: https://git.k8s.io/community/contributors/devel/sig-architecture/api-conventions.md#resources''),
     (''metadata'',
      ''Standard list metadata. More info: https://git.k8s.io/community/contributors/devel/sig-architecture/api-conventions.md#types-kinds''),
     (''items'',
      ''items contains each of the included items.'')]"

definition text_pkg_apis_meta_v1_Patch :: "string \<Rightarrow> string" where
  "text_pkg_apis_meta_v1_Patch = texts
    [([],
      ''Patch is provided to give a concrete name and type to the Kubernetes PATCH request body.'')]"

definition text_pkg_apis_meta_v1_PatchOptions :: "string \<Rightarrow> string" where
  "text_pkg_apis_meta_v1_PatchOptions = texts
    [([],
      ''PatchOptions may be provided when patching an API object. PatchOptions is meant to be a superset of UpdateOptions.''),
     (''kind'',
      ''Kind is a string value representing the REST resource this object represents. Servers may infer this from the endpoint the client submits requests to. Cannot be updated. In CamelCase. More info: https://git.k8s.io/community/contributors/devel/sig-architecture/api-conventions.md#types-kinds''),
     (''apiVersion'',
      ''APIVersion defines the versioned schema of this representation of an object. Servers should convert recognized schemas to the latest internal value, and may reject unrecognized values. More info: https://git.k8s.io/community/contributors/devel/sig-architecture/api-conventions.md#resources''),
     (''dryRun'',
      ''When present, indicates that modifications should not be persisted. An invalid or unrecognized dryRun directive will result in an error response and no further processing of the request. Valid values are: - All: all dry run stages will be processed''),
     (''force'',
      (''Force is going to '' @ [CHR 0x22] @ ''force'' @ [CHR 0x22] @ '' Apply requests. It means user will re-acquire conflicting fields owned by other people. Force flag must be unset for non-apply patch requests.'')),
     (''fieldManager'',
      ''fieldManager is a name associated with the actor or entity that is making these changes. The value must be less than or 128 characters long, and only contain printable characters, as defined by https://golang.org/pkg/unicode/#IsPrint. This field is required for apply requests (application/apply-patch) but optional for non-apply patch types (JsonPatch, MergePatch, StrategicMergePatch).''),
     (''fieldValidation'',
      ''fieldValidation instructs the server on how to handle objects in the request (POST/PUT/PATCH) containing unknown or duplicate fields. Valid values are: - Ignore: This will ignore any unknown fields that are silently dropped from the object, and will ignore all but the last duplicate field that the decoder encounters. This is the default behavior prior to v1.23. - Warn: This will send a warning via the standard warning response header for each unknown field that is dropped from the object, and for each duplicate field that is encountered. The request will still succeed if there are no other errors, and will only persist the last of any duplicate fields. This is the default in v1.23+ - Strict: This will fail the request with a BadRequest error if any unknown fields would be dropped from the object, or if any duplicate fields are present. The error returned from the server will contain all unknown and duplicate fields encountered.'')]"

definition text_pkg_apis_meta_v1_Preconditions :: "string \<Rightarrow> string" where
  "text_pkg_apis_meta_v1_Preconditions = texts
    [([],
      ''Preconditions must be fulfilled before an operation (update, delete, etc.) is carried out.''),
     (''uid'',
      ''Specifies the target UID.''),
     (''resourceVersion'',
      ''Specifies the target ResourceVersion'')]"

definition text_pkg_apis_meta_v1_RootPaths :: "string \<Rightarrow> string" where
  "text_pkg_apis_meta_v1_RootPaths = texts
    [([],
      (''RootPaths lists the paths available at root. For example: '' @ [CHR 0x22] @ ''/healthz'' @ [CHR 0x22] @ '', '' @ [CHR 0x22] @ ''/apis'' @ [CHR 0x22] @ ''.'')),
     (''paths'',
      ''paths are the paths available at root.'')]"

definition text_pkg_apis_meta_v1_ServerAddressByClientCIDR :: "string \<Rightarrow> string" where
  "text_pkg_apis_meta_v1_ServerAddressByClientCIDR = texts
    [([],
      ''ServerAddressByClientCIDR helps the client to determine the server address that they should use, depending on the clientCIDR that they match.''),
     (''clientCIDR'',
      ''The CIDR with which clients can match their IP to figure out the server address that they should use.''),
     (''serverAddress'',
      ''Address of this server, suitable for a client that matches the above CIDR. This can be a hostname, hostname:port, IP or IP:port.'')]"

definition text_pkg_apis_meta_v1_ShardInfo :: "string \<Rightarrow> string" where
  "text_pkg_apis_meta_v1_ShardInfo = texts
    [([],
      ''ShardInfo describes the shard selector that was applied to produce a list response. Its presence on a list response indicates the list is a filtered subset.''),
     (''selector'',
      ''selector is the shard selector string from the request, echoed back so clients can verify which shard they received and merge responses from multiple shards.'')]"

definition text_pkg_apis_meta_v1_Status :: "string \<Rightarrow> string" where
  "text_pkg_apis_meta_v1_Status = texts
    [([],
      ''Status is a return value for calls that don't return other objects.''),
     (''kind'',
      ''Kind is a string value representing the REST resource this object represents. Servers may infer this from the endpoint the client submits requests to. Cannot be updated. In CamelCase. More info: https://git.k8s.io/community/contributors/devel/sig-architecture/api-conventions.md#types-kinds''),
     (''apiVersion'',
      ''APIVersion defines the versioned schema of this representation of an object. Servers should convert recognized schemas to the latest internal value, and may reject unrecognized values. More info: https://git.k8s.io/community/contributors/devel/sig-architecture/api-conventions.md#resources''),
     (''metadata'',
      ''Standard list metadata. More info: https://git.k8s.io/community/contributors/devel/sig-architecture/api-conventions.md#types-kinds''),
     (''status'',
      (''Status of the operation. One of: '' @ [CHR 0x22] @ ''Success'' @ [CHR 0x22] @ '' or '' @ [CHR 0x22] @ ''Failure'' @ [CHR 0x22] @ ''. More info: https://git.k8s.io/community/contributors/devel/sig-architecture/api-conventions.md#spec-and-status'')),
     (''message'',
      ''A human-readable description of the status of this operation.''),
     (''reason'',
      (''A machine-readable description of why this operation is in the '' @ [CHR 0x22] @ ''Failure'' @ [CHR 0x22] @ '' status. If this value is empty there is no information available. A Reason clarifies an HTTP status code but does not override it.'')),
     (''details'',
      ''Extended data associated with the reason.  Each reason may define its own extended details. This field is optional and the data returned is not guaranteed to conform to any schema except that defined by the reason type.''),
     (''code'',
      ''Suggested HTTP return code for this status, 0 if not set.'')]"

definition text_pkg_apis_meta_v1_StatusCause :: "string \<Rightarrow> string" where
  "text_pkg_apis_meta_v1_StatusCause = texts
    [([],
      ''StatusCause provides more information about an api.Status failure, including cases when multiple errors are encountered.''),
     (''reason'',
      ''A machine-readable description of the cause of the error. If this value is empty there is no information available.''),
     (''message'',
      ''A human-readable description of the cause of the error.  This field may be presented as-is to a reader.''),
     (''field'',
      (''The field of the resource that has caused this error, as named by its JSON serialization. May include dot and postfix notation for nested attributes. Arrays are zero-indexed.  Fields may appear more than once in an array of causes due to fields having multiple errors. Optional.'' @ [CHR 0x0A, CHR 0x0A] @ ''Examples:'' @ [CHR 0x0A] @ ''  '' @ [CHR 0x22] @ ''name'' @ [CHR 0x22] @ '' - the field '' @ [CHR 0x22] @ ''name'' @ [CHR 0x22] @ '' on the current resource'' @ [CHR 0x0A] @ ''  '' @ [CHR 0x22] @ ''items[0].name'' @ [CHR 0x22] @ '' - the field '' @ [CHR 0x22] @ ''name'' @ [CHR 0x22] @ '' on the first array entry in '' @ [CHR 0x22] @ ''items'' @ [CHR 0x22]))]"

definition text_pkg_apis_meta_v1_StatusDetails :: "string \<Rightarrow> string" where
  "text_pkg_apis_meta_v1_StatusDetails = texts
    [([],
      ''StatusDetails is a set of additional properties that MAY be set by the server to provide additional information about a response. The Reason field of a Status object defines what attributes will be set. Clients must ignore fields that do not match the defined type of each attribute, and should assume that any attribute may be empty, invalid, or under defined.''),
     (''name'',
      ''The name attribute of the resource associated with the status StatusReason (when there is a single name which can be described).''),
     (''group'',
      ''The group attribute of the resource associated with the status StatusReason.''),
     (''kind'',
      ''The kind attribute of the resource associated with the status StatusReason. On some operations may differ from the requested resource Kind. More info: https://git.k8s.io/community/contributors/devel/sig-architecture/api-conventions.md#types-kinds''),
     (''uid'',
      ''UID of the resource. (when there is a single resource which can be described). More info: https://kubernetes.io/docs/concepts/overview/working-with-objects/names#uids''),
     (''causes'',
      ''The Causes array includes more details associated with the StatusReason failure. Not all StatusReasons may provide detailed causes.''),
     (''retryAfterSeconds'',
      ''If specified, the time in seconds before the operation should be retried. Some errors may indicate the client must take an alternate action - for those errors this field may indicate how long to wait before taking the alternate action.'')]"

definition text_pkg_apis_meta_v1_Table :: "string \<Rightarrow> string" where
  "text_pkg_apis_meta_v1_Table = texts
    [([],
      ''Table is a tabular representation of a set of API resources. The server transforms the object into a set of preferred columns for quickly reviewing the objects.''),
     (''kind'',
      ''Kind is a string value representing the REST resource this object represents. Servers may infer this from the endpoint the client submits requests to. Cannot be updated. In CamelCase. More info: https://git.k8s.io/community/contributors/devel/sig-architecture/api-conventions.md#types-kinds''),
     (''apiVersion'',
      ''APIVersion defines the versioned schema of this representation of an object. Servers should convert recognized schemas to the latest internal value, and may reject unrecognized values. More info: https://git.k8s.io/community/contributors/devel/sig-architecture/api-conventions.md#resources''),
     (''metadata'',
      ''Standard list metadata. More info: https://git.k8s.io/community/contributors/devel/sig-architecture/api-conventions.md#types-kinds''),
     (''columnDefinitions'',
      ''columnDefinitions describes each column in the returned items array. The number of cells per row will always match the number of column definitions.''),
     (''rows'',
      ''rows is the list of items in the table.'')]"

definition text_pkg_apis_meta_v1_TableColumnDefinition :: "string \<Rightarrow> string" where
  "text_pkg_apis_meta_v1_TableColumnDefinition = texts
    [([],
      ''TableColumnDefinition contains information about a column returned in the Table.''),
     (''name'',
      ''name is a human readable name for the column.''),
     (''type'',
      ''type is an OpenAPI type definition for this column, such as number, integer, string, or array. See https://github.com/OAI/OpenAPI-Specification/blob/master/versions/2.0.md#data-types for more.''),
     (''format'',
      ''format is an optional OpenAPI type modifier for this column. A format modifies the type and imposes additional rules, like date or time formatting for a string. The 'name' format is applied to the primary identifier column which has type 'string' to assist in clients identifying column is the resource name. See https://github.com/OAI/OpenAPI-Specification/blob/master/versions/2.0.md#data-types for more.''),
     (''description'',
      ''description is a human readable description of this column.''),
     (''priority'',
      ''priority is an integer defining the relative importance of this column compared to others. Lower numbers are considered higher priority. Columns that may be omitted in limited space scenarios should be given a higher priority.'')]"

definition text_pkg_apis_meta_v1_TableOptions :: "string \<Rightarrow> string" where
  "text_pkg_apis_meta_v1_TableOptions = texts
    [([],
      ''TableOptions are used when a Table is requested by the caller.''),
     (''kind'',
      ''Kind is a string value representing the REST resource this object represents. Servers may infer this from the endpoint the client submits requests to. Cannot be updated. In CamelCase. More info: https://git.k8s.io/community/contributors/devel/sig-architecture/api-conventions.md#types-kinds''),
     (''apiVersion'',
      ''APIVersion defines the versioned schema of this representation of an object. Servers should convert recognized schemas to the latest internal value, and may reject unrecognized values. More info: https://git.k8s.io/community/contributors/devel/sig-architecture/api-conventions.md#resources''),
     (''includeObject'',
      (''includeObject decides whether to include each object along with its columnar information. Specifying '' @ [CHR 0x22] @ ''None'' @ [CHR 0x22] @ '' will return no object, specifying '' @ [CHR 0x22] @ ''Object'' @ [CHR 0x22] @ '' will return the full object contents, and specifying '' @ [CHR 0x22] @ ''Metadata'' @ [CHR 0x22] @ '' (the default) will return the object's metadata in the PartialObjectMetadata kind in version v1beta1 of the meta.k8s.io API group.''))]"

definition text_pkg_apis_meta_v1_TableRow :: "string \<Rightarrow> string" where
  "text_pkg_apis_meta_v1_TableRow = texts
    [([],
      ''TableRow is an individual row in a table.''),
     (''cells'',
      ''cells will be as wide as the column definitions array and may contain strings, numbers (float64 or int64), booleans, simple maps, lists, or null. See the type field of the column definition for a more detailed description.''),
     (''conditions'',
      ''conditions describe additional status of a row that are relevant for a human user. These conditions apply to the row, not to the object, and will be specific to table output. The only defined condition type is 'Completed', for a row that indicates a resource that has run to completion and can be given less visual priority.''),
     (''object'',
      (''This field contains the requested additional information about each object based on the includeObject policy when requesting the Table. If '' @ [CHR 0x22] @ ''None'' @ [CHR 0x22] @ '', this field is empty, if '' @ [CHR 0x22] @ ''Object'' @ [CHR 0x22] @ '' this will be the default serialization of the object for the current API version, and if '' @ [CHR 0x22] @ ''Metadata'' @ [CHR 0x22] @ '' (the default) will contain the object metadata. Check the returned kind and apiVersion of the object before parsing. The media type of the object will always match the enclosing list - if this as a JSON table, these will be JSON encoded objects.''))]"

definition text_pkg_apis_meta_v1_TableRowCondition :: "string \<Rightarrow> string" where
  "text_pkg_apis_meta_v1_TableRowCondition = texts
    [([],
      ''TableRowCondition allows a row to be marked with additional information.''),
     (''type'',
      ''Type of row condition. The only defined value is 'Completed' indicating that the object this row represents has reached a completed state and may be given less visual priority than other rows. Clients are not required to honor any conditions but should be consistent where possible about handling the conditions.''),
     (''status'',
      ''Status of the condition, one of True, False, Unknown.''),
     (''reason'',
      ''(brief) machine readable reason for the condition's last transition.''),
     (''message'',
      ''Human readable message indicating details about last transition.'')]"

definition text_pkg_apis_meta_v1_Time :: "string \<Rightarrow> string" where
  "text_pkg_apis_meta_v1_Time = texts
    [([],
      ''Time is a wrapper around time.Time which supports correct marshaling to YAML and JSON.  Wrappers are provided for many of the factory methods that the time package offers.'')]"

definition text_pkg_apis_meta_v1_Timestamp :: "string \<Rightarrow> string" where
  "text_pkg_apis_meta_v1_Timestamp = texts
    [([],
      ''Timestamp is a struct that is equivalent to Time, but intended for protobuf marshalling/unmarshalling. It is generated into a serialization that matches Time. Do not use in Go structs.''),
     (''seconds'',
      ''Represents seconds of UTC time since Unix epoch 1970-01-01T00:00:00Z. Must be from 0001-01-01T00:00:00Z to 9999-12-31T23:59:59Z inclusive.''),
     (''nanos'',
      ''Non-negative fractions of a second at nanosecond resolution. Negative second values with fractions must still have non-negative nanos values that count forward in time. Must be from 0 to 999,999,999 inclusive. This field may be limited in precision depending on context.'')]"

definition text_pkg_apis_meta_v1_TypeMeta :: "string \<Rightarrow> string" where
  "text_pkg_apis_meta_v1_TypeMeta = texts
    [([],
      ''TypeMeta describes an individual object in an API response or request with strings representing the type of the object and its API schema version. Structures that are versioned or persisted should inline TypeMeta.''),
     (''kind'',
      ''Kind is a string value representing the REST resource this object represents. Servers may infer this from the endpoint the client submits requests to. Cannot be updated. In CamelCase. More info: https://git.k8s.io/community/contributors/devel/sig-architecture/api-conventions.md#types-kinds''),
     (''apiVersion'',
      ''APIVersion defines the versioned schema of this representation of an object. Servers should convert recognized schemas to the latest internal value, and may reject unrecognized values. More info: https://git.k8s.io/community/contributors/devel/sig-architecture/api-conventions.md#resources'')]"

definition text_pkg_apis_meta_v1_UpdateOptions :: "string \<Rightarrow> string" where
  "text_pkg_apis_meta_v1_UpdateOptions = texts
    [([],
      ''UpdateOptions may be provided when updating an API object. All fields in UpdateOptions should also be present in PatchOptions.''),
     (''kind'',
      ''Kind is a string value representing the REST resource this object represents. Servers may infer this from the endpoint the client submits requests to. Cannot be updated. In CamelCase. More info: https://git.k8s.io/community/contributors/devel/sig-architecture/api-conventions.md#types-kinds''),
     (''apiVersion'',
      ''APIVersion defines the versioned schema of this representation of an object. Servers should convert recognized schemas to the latest internal value, and may reject unrecognized values. More info: https://git.k8s.io/community/contributors/devel/sig-architecture/api-conventions.md#resources''),
     (''dryRun'',
      ''When present, indicates that modifications should not be persisted. An invalid or unrecognized dryRun directive will result in an error response and no further processing of the request. Valid values are: - All: all dry run stages will be processed''),
     (''fieldManager'',
      ''fieldManager is a name associated with the actor or entity that is making these changes. The value must be less than or 128 characters long, and only contain printable characters, as defined by https://golang.org/pkg/unicode/#IsPrint.''),
     (''fieldValidation'',
      ''fieldValidation instructs the server on how to handle objects in the request (POST/PUT/PATCH) containing unknown or duplicate fields. Valid values are: - Ignore: This will ignore any unknown fields that are silently dropped from the object, and will ignore all but the last duplicate field that the decoder encounters. This is the default behavior prior to v1.23. - Warn: This will send a warning via the standard warning response header for each unknown field that is dropped from the object, and for each duplicate field that is encountered. The request will still succeed if there are no other errors, and will only persist the last of any duplicate fields. This is the default in v1.23+ - Strict: This will fail the request with a BadRequest error if any unknown fields would be dropped from the object, or if any duplicate fields are present. The error returned from the server will contain all unknown and duplicate fields encountered.'')]"

definition text_pkg_apis_meta_v1_WatchEvent :: "string \<Rightarrow> string" where
  "text_pkg_apis_meta_v1_WatchEvent = texts
    [([],
      ''Event represents a single event to a watched resource.''),
     (''object'',
      (''Object is:'' @ [CHR 0x0A] @ '' * If Type is Added or Modified: the new state of the object.'' @ [CHR 0x0A] @ '' * If Type is Deleted: the state of the object immediately before deletion.'' @ [CHR 0x0A] @ '' * If Type is Error: *Status is recommended; other types may make sense'' @ [CHR 0x0A] @ ''   depending on context.''))]"

definition text_k8sio_apimachinery_pkg_runtime_RawExtension :: "string \<Rightarrow> string" where
  "text_k8sio_apimachinery_pkg_runtime_RawExtension = texts
    [([],
      (''RawExtension is used to hold extensions in external versions.'' @ [CHR 0x0A, CHR 0x0A] @ ''To use this, make a field which has RawExtension as its type in your external, versioned struct, and Object in your internal struct. You also need to register your various plugin types.'' @ [CHR 0x0A, CHR 0x0A] @ ''// Internal package:'' @ [CHR 0x0A, CHR 0x0A, CHR 0x09] @ ''type MyAPIObject struct {'' @ [CHR 0x0A, CHR 0x09, CHR 0x09] @ ''runtime.TypeMeta '' @ [CHR 0x60] @ ''json:'' @ [CHR 0x22] @ '',inline'' @ [CHR 0x22, CHR 0x60, CHR 0x0A, CHR 0x09, CHR 0x09] @ ''MyPlugin runtime.Object '' @ [CHR 0x60] @ ''json:'' @ [CHR 0x22] @ ''myPlugin'' @ [CHR 0x22, CHR 0x60, CHR 0x0A, CHR 0x09] @ ''}'' @ [CHR 0x0A, CHR 0x0A, CHR 0x09] @ ''type PluginA struct {'' @ [CHR 0x0A, CHR 0x09, CHR 0x09] @ ''AOption string '' @ [CHR 0x60] @ ''json:'' @ [CHR 0x22] @ ''aOption'' @ [CHR 0x22, CHR 0x60, CHR 0x0A, CHR 0x09] @ ''}'' @ [CHR 0x0A, CHR 0x0A] @ ''// External package:'' @ [CHR 0x0A, CHR 0x0A, CHR 0x09] @ ''type MyAPIObject struct {'' @ [CHR 0x0A, CHR 0x09, CHR 0x09] @ ''runtime.TypeMeta '' @ [CHR 0x60] @ ''json:'' @ [CHR 0x22] @ '',inline'' @ [CHR 0x22, CHR 0x60, CHR 0x0A, CHR 0x09, CHR 0x09] @ ''MyPlugin runtime.RawExtension '' @ [CHR 0x60] @ ''json:'' @ [CHR 0x22] @ ''myPlugin'' @ [CHR 0x22, CHR 0x60, CHR 0x0A, CHR 0x09] @ ''}'' @ [CHR 0x0A, CHR 0x0A, CHR 0x09] @ ''type PluginA struct {'' @ [CHR 0x0A, CHR 0x09, CHR 0x09] @ ''AOption string '' @ [CHR 0x60] @ ''json:'' @ [CHR 0x22] @ ''aOption'' @ [CHR 0x22, CHR 0x60, CHR 0x0A, CHR 0x09] @ ''}'' @ [CHR 0x0A, CHR 0x0A] @ ''// On the wire, the JSON will look something like this:'' @ [CHR 0x0A, CHR 0x0A, CHR 0x09] @ ''{'' @ [CHR 0x0A, CHR 0x09, CHR 0x09, CHR 0x22] @ ''kind'' @ [CHR 0x22] @ '':'' @ [CHR 0x22] @ ''MyAPIObject'' @ [CHR 0x22] @ '','' @ [CHR 0x0A, CHR 0x09, CHR 0x09, CHR 0x22] @ ''apiVersion'' @ [CHR 0x22] @ '':'' @ [CHR 0x22] @ ''v1'' @ [CHR 0x22] @ '','' @ [CHR 0x0A, CHR 0x09, CHR 0x09, CHR 0x22] @ ''myPlugin'' @ [CHR 0x22] @ '': {'' @ [CHR 0x0A, CHR 0x09, CHR 0x09, CHR 0x09, CHR 0x22] @ ''kind'' @ [CHR 0x22] @ '':'' @ [CHR 0x22] @ ''PluginA'' @ [CHR 0x22] @ '','' @ [CHR 0x0A, CHR 0x09, CHR 0x09, CHR 0x09, CHR 0x22] @ ''aOption'' @ [CHR 0x22] @ '':'' @ [CHR 0x22] @ ''foo'' @ [CHR 0x22] @ '','' @ [CHR 0x0A, CHR 0x09, CHR 0x09] @ ''},'' @ [CHR 0x0A, CHR 0x09] @ ''}'' @ [CHR 0x0A, CHR 0x0A] @ ''So what happens? Decode first uses json or yaml to unmarshal the serialized data into your external MyAPIObject. That causes the raw JSON to be stored, but not unpacked. The next step is to copy (using pkg/conversion) into the internal struct. The runtime package's DefaultScheme has conversion functions installed which will unpack the JSON stored in RawExtension, turning it into the correct object type, and storing it in the Object. (TODO: In the case where the object is of an unknown type, a runtime.Unknown object will be created and stored.)''))]"

definition text_k8sio_apimachinery_pkg_runtime_TypeMeta :: "string \<Rightarrow> string" where
  "text_k8sio_apimachinery_pkg_runtime_TypeMeta = texts
    [([],
      (''TypeMeta is shared by all top level objects. The proper way to use it is to inline it in your type, like this:'' @ [CHR 0x0A, CHR 0x0A, CHR 0x09] @ ''type MyAwesomeAPIObject struct {'' @ [CHR 0x0A, CHR 0x09] @ ''     runtime.TypeMeta    '' @ [CHR 0x60] @ ''json:'' @ [CHR 0x22] @ '',inline'' @ [CHR 0x22, CHR 0x60, CHR 0x0A, CHR 0x09] @ ''     ... // other fields'' @ [CHR 0x0A, CHR 0x09] @ ''}'' @ [CHR 0x0A, CHR 0x0A] @ ''func (obj *MyAwesomeAPIObject) SetGroupVersionKind(gvk *metav1.GroupVersionKind) { metav1.UpdateTypeMeta(obj,gvk) }; GroupVersionKind() *GroupVersionKind'' @ [CHR 0x0A, CHR 0x0A] @ ''TypeMeta is provided here for convenience. You may use it directly from this package or define your own with the same fields.''))]"

definition text_k8sio_apimachinery_pkg_runtime_Unknown :: "string \<Rightarrow> string" where
  "text_k8sio_apimachinery_pkg_runtime_Unknown = texts
    [([],
      ''Unknown allows api objects with unknown types to be passed-through. This can be used to deal with the API objects from a plug-in. Unknown objects still have functioning TypeMeta features-- kind, version, etc. metadata and field mutatation.''),
     (''ContentEncoding'',
      ''ContentEncoding is encoding used to encode 'Raw' data. Unspecified means no encoding.''),
     (''ContentType'',
      ''ContentType  is serialization method used to serialize 'Raw'. Unspecified means ContentTypeJSON.'')]"

definition text_k8sio_apimachinery_pkg_version_Info :: "string \<Rightarrow> string" where
  "text_k8sio_apimachinery_pkg_version_Info = texts
    [([],
      ''Info contains versioning information. how we'll want to distribute that information.''),
     (''major'',
      ''Major is the major version of the binary version''),
     (''minor'',
      ''Minor is the minor version of the binary version''),
     (''emulationMajor'',
      ''EmulationMajor is the major version of the emulation version''),
     (''emulationMinor'',
      ''EmulationMinor is the minor version of the emulation version''),
     (''minCompatibilityMajor'',
      ''MinCompatibilityMajor is the major version of the minimum compatibility version''),
     (''minCompatibilityMinor'',
      ''MinCompatibilityMinor is the minor version of the minimum compatibility version'')]"

end
