(* ===== verification/OpenApiDefinitions.thy ===== *)
theory OpenApiDefinitions
  imports OpenApiTexts
begin

section \<open>The generated OpenAPI document: \<open>zz_generated.openapi.go\<close>\<close>

text \<open>
  One definition per function of the file, field by field; descriptions are in OpenApiTexts.
  \<open>ref\<close> is the callback that makes references, \<open>L\<close> holds the library functions that the
  file calls.
\<close>

definition schema_pkg_apis_tasks_v1alpha1_Task :: "'r oa_lib \<Rightarrow> (string \<Rightarrow> 'r) \<Rightarrow> 'r OpenAPIDefinition" where
  "schema_pkg_apis_tasks_v1alpha1_Task L ref =
     OpenAPIDefinition
     (set_Description (text_pkg_apis_tasks_v1alpha1_Task []) (set_Properties
       [(''kind'', set_Description (text_pkg_apis_tasks_v1alpha1_Task ''kind'') (of_type
         [''string''] [])),
       (''apiVersion'', set_Description (text_pkg_apis_tasks_v1alpha1_Task ''apiVersion'')
         (of_type [''string''] [])),
       (''metadata'', set_Default (JObj []) (set_Ref (ref (ol_ModelName L ''v1.ObjectMeta''))
         zero_schema)),
       (''spec'', set_Description (text_pkg_apis_tasks_v1alpha1_Task ''spec'') (set_Default (JObj
         []) (set_Ref (ref
         ''github.com/eapolinario/simple-api-server/pkg/apis/tasks/v1alpha1.TaskSpec'')
         zero_schema))),
       (''status'', set_Description (text_pkg_apis_tasks_v1alpha1_Task ''status'') (set_Default
         (JObj []) (set_Ref (ref
         ''github.com/eapolinario/simple-api-server/pkg/apis/tasks/v1alpha1.TaskStatus'')
         zero_schema)))] (of_type [''object''] [])))
     [''github.com/eapolinario/simple-api-server/pkg/apis/tasks/v1alpha1.TaskSpec'',
       ''github.com/eapolinario/simple-api-server/pkg/apis/tasks/v1alpha1.TaskStatus'',
       (ol_ModelName L ''v1.ObjectMeta'')]"

definition schema_pkg_apis_tasks_v1alpha1_TaskList :: "'r oa_lib \<Rightarrow> (string \<Rightarrow> 'r) \<Rightarrow> 'r OpenAPIDefinition" where
  "schema_pkg_apis_tasks_v1alpha1_TaskList L ref =
     OpenAPIDefinition
     (set_Description (text_pkg_apis_tasks_v1alpha1_TaskList []) (set_Required [''items'']
       (set_Properties
       [(''kind'', set_Description (text_pkg_apis_tasks_v1alpha1_TaskList ''kind'') (of_type
         [''string''] [])),
       (''apiVersion'', set_Description (text_pkg_apis_tasks_v1alpha1_TaskList ''apiVersion'')
         (of_type [''string''] [])),
       (''metadata'', set_Default (JObj []) (set_Ref (ref (ol_ModelName L ''v1.ListMeta''))
         zero_schema)),
       (''items'', set_Items (set_Default (JObj []) (set_Ref (ref
         ''github.com/eapolinario/simple-api-server/pkg/apis/tasks/v1alpha1.Task'') zero_schema))
         (of_type [''array''] []))] (of_type [''object''] []))))
     [''github.com/eapolinario/simple-api-server/pkg/apis/tasks/v1alpha1.Task'', (ol_ModelName L
       ''v1.ListMeta'')]"

definition schema_pkg_apis_tasks_v1alpha1_TaskSpec :: "'r oa_lib \<Rightarrow> (string \<Rightarrow> 'r) \<Rightarrow> 'r OpenAPIDefinition" where
  "schema_pkg_apis_tasks_v1alpha1_TaskSpec L ref =
     OpenAPIDefinition
     (set_Description (text_pkg_apis_tasks_v1alpha1_TaskSpec []) (set_Required [''image'']
       (set_Properties
       [(''image'', set_Description (text_pkg_apis_tasks_v1alpha1_TaskSpec ''image'') (set_Default
         (JStr []) (of_type [''string''] []))),
       (''command'', set_Description (text_pkg_apis_tasks_v1alpha1_TaskSpec ''command'')
         (set_Extensions [(''x-kubernetes-list-type'', JStr ''atomic'')] (set_Items (set_Default
         (JStr []) (of_type [''string''] [])) (of_type [''array''] [])))),
       (''args'', set_Description (text_pkg_apis_tasks_v1alpha1_TaskSpec ''args'') (set_Extensions
         [(''x-kubernetes-list-type'', JStr ''atomic'')] (set_Items (set_Default (JStr [])
         (of_type [''string''] [])) (of_type [''array''] []))))] (of_type [''object''] []))))
     []"

definition schema_pkg_apis_tasks_v1alpha1_TaskStatus :: "'r oa_lib \<Rightarrow> (string \<Rightarrow> 'r) \<Rightarrow> 'r OpenAPIDefinition" where
  "schema_pkg_apis_tasks_v1alpha1_TaskStatus L ref =
     OpenAPIDefinition
     (set_Description (text_pkg_apis_tasks_v1alpha1_TaskStatus []) (set_Properties
       [(''phase'', set_Description (text_pkg_apis_tasks_v1alpha1_TaskStatus ''phase'') (of_type
         [''string''] [])),
       (''conditions'', set_Description (text_pkg_apis_tasks_v1alpha1_TaskStatus ''conditions'')
         (set_Extensions [(''x-kubernetes-list-map-keys'', JArr [JStr ''type'']),
         (''x-kubernetes-list-type'', JStr ''map''), (''x-kubernetes-patch-merge-key'', JStr
         ''type''), (''x-kubernetes-patch-strategy'', JStr ''merge'')] (set_Items (set_Default
         (JObj []) (set_Ref (ref (ol_ModelName L ''v1.Condition'')) zero_schema)) (of_type
         [''array''] [])))),
       (''observedGeneration'', set_Description (text_pkg_apis_tasks_v1alpha1_TaskStatus
         ''observedGeneration'') (of_type [''integer''] ''int64''))] (of_type [''object''] [])))
     [(ol_ModelName L ''v1.Condition'')]"

definition schema_apimachinery_pkg_api_resource_Quantity :: "'r oa_lib \<Rightarrow> (string \<Rightarrow> 'r) \<Rightarrow> 'r OpenAPIDefinition" where
  "schema_apimachinery_pkg_api_resource_Quantity L ref =
     ol_EmbedV2 L
     (OpenAPIDefinition
      (set_Description (text_apimachinery_pkg_api_resource_Quantity []) (set_OneOf (ol_OneOfSchema
        L (ol_OneOfTypes L ''resource.Quantity'')) (of_type [] (ol_SchemaFormat L
        ''resource.Quantity''))))
      [])
     (OpenAPIDefinition
      (set_Description (text_apimachinery_pkg_api_resource_Quantity []) (of_type (ol_SchemaType L
        ''resource.Quantity'') (ol_SchemaFormat L ''resource.Quantity'')))
      [])"

definition schema_apimachinery_pkg_api_resource_int64Amount :: "'r oa_lib \<Rightarrow> (string \<Rightarrow> 'r) \<Rightarrow> 'r OpenAPIDefinition" where
  "schema_apimachinery_pkg_api_resource_int64Amount L ref =
     OpenAPIDefinition
     (set_Description (text_apimachinery_pkg_api_resource_int64Amount []) (set_Required
       [''value'', ''scale''] (set_Properties
       [(''value'', set_Default (JInt 0) (of_type [''integer''] ''int64'')),
       (''scale'', set_Default (JInt 0) (of_type [''integer''] ''int32''))] (of_type [''object'']
         []))))
     []"

definition schema_pkg_apis_meta_v1_APIGroup :: "'r oa_lib \<Rightarrow> (string \<Rightarrow> 'r) \<Rightarrow> 'r OpenAPIDefinition" where
  "schema_pkg_apis_meta_v1_APIGroup L ref =
     OpenAPIDefinition
     (set_Description (text_pkg_apis_meta_v1_APIGroup []) (set_Required [''name'', ''versions'']
       (set_Properties
       [(''kind'', set_Description (text_pkg_apis_meta_v1_APIGroup ''kind'') (of_type [''string'']
         [])),
       (''apiVersion'', set_Description (text_pkg_apis_meta_v1_APIGroup ''apiVersion'') (of_type
         [''string''] [])),
       (''name'', set_Description (text_pkg_apis_meta_v1_APIGroup ''name'') (set_Default (JStr [])
         (of_type [''string''] []))),
       (''versions'', set_Description (text_pkg_apis_meta_v1_APIGroup ''versions'')
         (set_Extensions [(''x-kubernetes-list-type'', JStr ''atomic'')] (set_Items (set_Default
         (JObj []) (set_Ref (ref (ol_ModelName L ''v1.GroupVersionForDiscovery'')) zero_schema))
         (of_type [''array''] [])))),
       (''preferredVersion'', set_Description (text_pkg_apis_meta_v1_APIGroup
         ''preferredVersion'') (set_Default (JObj []) (set_Ref (ref (ol_ModelName L
         ''v1.GroupVersionForDiscovery'')) zero_schema))),
       (''serverAddressByClientCIDRs'', set_Description (text_pkg_apis_meta_v1_APIGroup
         ''serverAddressByClientCIDRs'') (set_Extensions [(''x-kubernetes-list-type'', JStr
         ''atomic'')] (set_Items (set_Default (JObj []) (set_Ref (ref (ol_ModelName L
         ''v1.ServerAddressByClientCIDR'')) zero_schema)) (of_type [''array''] []))))] (of_type
         [''object''] []))))
     [(ol_ModelName L ''v1.GroupVersionForDiscovery''), (ol_ModelName L
       ''v1.ServerAddressByClientCIDR'')]"

definition schema_pkg_apis_meta_v1_APIGroupList :: "'r oa_lib \<Rightarrow> (string \<Rightarrow> 'r) \<Rightarrow> 'r OpenAPIDefinition" where
  "schema_pkg_apis_meta_v1_APIGroupList L ref =
     OpenAPIDefinition
     (set_Description (text_pkg_apis_meta_v1_APIGroupList []) (set_Required [''groups'']
       (set_Properties
       [(''kind'', set_Description (text_pkg_apis_meta_v1_APIGroupList ''kind'') (of_type
         [''string''] [])),
       (''apiVersion'', set_Description (text_pkg_apis_meta_v1_APIGroupList ''apiVersion'')
         (of_type [''string''] [])),
       (''groups'', set_Description (text_pkg_apis_meta_v1_APIGroupList ''groups'')
         (set_Extensions [(''x-kubernetes-list-type'', JStr ''atomic'')] (set_Items (set_Default
         (JObj []) (set_Ref (ref (ol_ModelName L ''v1.APIGroup'')) zero_schema)) (of_type
         [''array''] []))))] (of_type [''object''] []))))
     [(ol_ModelName L ''v1.APIGroup'')]"

definition schema_pkg_apis_meta_v1_APIResource :: "'r oa_lib \<Rightarrow> (string \<Rightarrow> 'r) \<Rightarrow> 'r OpenAPIDefinition" where
  "schema_pkg_apis_meta_v1_APIResource L ref =
     OpenAPIDefinition
     (set_Description (text_pkg_apis_meta_v1_APIResource []) (set_Required [''name'',
       ''singularName'', ''namespaced'', ''kind'', ''verbs''] (set_Properties
       [(''name'', set_Description (text_pkg_apis_meta_v1_APIResource ''name'') (set_Default (JStr
         []) (of_type [''string''] []))),
       (''singularName'', set_Description (text_pkg_apis_meta_v1_APIResource ''singularName'')
         (set_Default (JStr []) (of_type [''string''] []))),
       (''namespaced'', set_Description (text_pkg_apis_meta_v1_APIResource ''namespaced'')
         (set_Default (JBool False) (of_type [''boolean''] []))),
       (''group'', set_Description (text_pkg_apis_meta_v1_APIResource ''group'') (of_type
         [''string''] [])),
       (''version'', set_Description (text_pkg_apis_meta_v1_APIResource ''version'') (of_type
         [''string''] [])),
       (''kind'', set_Description (text_pkg_apis_meta_v1_APIResource ''kind'') (set_Default (JStr
         []) (of_type [''string''] []))),
       (''verbs'', set_Description (text_pkg_apis_meta_v1_APIResource ''verbs'') (set_Items
         (set_Default (JStr []) (of_type [''string''] [])) (of_type [''array''] []))),
       (''shortNames'', set_Description (text_pkg_apis_meta_v1_APIResource ''shortNames'')
         (set_Extensions [(''x-kubernetes-list-type'', JStr ''atomic'')] (set_Items (set_Default
         (JStr []) (of_type [''string''] [])) (of_type [''array''] [])))),
       (''categories'', set_Description (text_pkg_apis_meta_v1_APIResource ''categories'')
         (set_Extensions [(''x-kubernetes-list-type'', JStr ''atomic'')] (set_Items (set_Default
         (JStr []) (of_type [''string''] [])) (of_type [''array''] [])))),
       (''storageVersionHash'', set_Description (text_pkg_apis_meta_v1_APIResource
         ''storageVersionHash'') (of_type [''string''] []))] (of_type [''object''] []))))
     []"

definition schema_pkg_apis_meta_v1_APIResourceList :: "'r oa_lib \<Rightarrow> (string \<Rightarrow> 'r) \<Rightarrow> 'r OpenAPIDefinition" where
  "schema_pkg_apis_meta_v1_APIResourceList L ref =
     OpenAPIDefinition
     (set_Description (text_pkg_apis_meta_v1_APIResourceList []) (set_Required [''groupVersion'',
       ''resources''] (set_Properties
       [(''kind'', set_Description (text_pkg_apis_meta_v1_APIResourceList ''kind'') (of_type
         [''string''] [])),
       (''apiVersion'', set_Description (text_pkg_apis_meta_v1_APIResourceList ''apiVersion'')
         (of_type [''string''] [])),
       (''groupVersion'', set_Description (text_pkg_apis_meta_v1_APIResourceList ''groupVersion'')
         (set_Default (JStr []) (of_type [''string''] []))),
       (''resources'', set_Description (text_pkg_apis_meta_v1_APIResourceList ''resources'')
         (set_Extensions [(''x-kubernetes-list-type'', JStr ''atomic'')] (set_Items (set_Default
         (JObj []) (set_Ref (ref (ol_ModelName L ''v1.APIResource'')) zero_schema)) (of_type
         [''array''] []))))] (of_type [''object''] []))))
     [(ol_ModelName L ''v1.APIResource'')]"

definition schema_pkg_apis_meta_v1_APIVersions :: "'r oa_lib \<Rightarrow> (string \<Rightarrow> 'r) \<Rightarrow> 'r OpenAPIDefinition" where
  "schema_pkg_apis_meta_v1_APIVersions L ref =
     OpenAPIDefinition
     (set_Description (text_pkg_apis_meta_v1_APIVersions []) (set_Required [''versions'',
       ''serverAddressByClientCIDRs''] (set_Properties
       [(''kind'', set_Description (text_pkg_apis_meta_v1_APIVersions ''kind'') (of_type
         [''string''] [])),
       (''apiVersion'', set_Description (text_pkg_apis_meta_v1_APIVersions ''apiVersion'')
         (of_type [''string''] [])),
       (''versions'', set_Description (text_pkg_apis_meta_v1_APIVersions ''versions'')
         (set_Extensions [(''x-kubernetes-list-type'', JStr ''atomic'')] (set_Items (set_Default
         (JStr []) (of_type [''string''] [])) (of_type [''array''] [])))),
       (''serverAddressByClientCIDRs'', set_Description (text_pkg_apis_meta_v1_APIVersions
         ''serverAddressByClientCIDRs'') (set_Extensions [(''x-kubernetes-list-type'', JStr
         ''atomic'')] (set_Items (set_Default (JObj []) (set_Ref (ref (ol_ModelName L
         ''v1.ServerAddressByClientCIDR'')) zero_schema)) (of_type [''array''] []))))] (of_type
         [''object''] []))))
     [(ol_ModelName L ''v1.ServerAddressByClientCIDR'')]"

definition schema_pkg_apis_meta_v1_ApplyOptions :: "'r oa_lib \<Rightarrow> (string \<Rightarrow> 'r) \<Rightarrow> 'r OpenAPIDefinition" where
  "schema_pkg_apis_meta_v1_ApplyOptions L ref =
     OpenAPIDefinition
     (set_Description (text_pkg_apis_meta_v1_ApplyOptions []) (set_Required [''force'',
       ''fieldManager''] (set_Properties
       [(''kind'', set_Description (text_pkg_apis_meta_v1_ApplyOptions ''kind'') (of_type
         [''string''] [])),
       (''apiVersion'', set_Description (text_pkg_apis_meta_v1_ApplyOptions ''apiVersion'')
         (of_type [''string''] [])),
       (''dryRun'', set_Description (text_pkg_apis_meta_v1_ApplyOptions ''dryRun'')
         (set_Extensions [(''x-kubernetes-list-type'', JStr ''atomic'')] (set_Items (set_Default
         (JStr []) (of_type [''string''] [])) (of_type [''array''] [])))),
       (''force'', set_Description (text_pkg_apis_meta_v1_ApplyOptions ''force'') (set_Default
         (JBool False) (of_type [''boolean''] []))),
       (''fieldManager'', set_Description (text_pkg_apis_meta_v1_ApplyOptions ''fieldManager'')
         (set_Default (JStr []) (of_type [''string''] [])))] (of_type [''object''] []))))
     []"

definition schema_pkg_apis_meta_v1_Condition :: "'r oa_lib \<Rightarrow> (string \<Rightarrow> 'r) \<Rightarrow> 'r OpenAPIDefinition" where
  "schema_pkg_apis_meta_v1_Condition L ref =
     OpenAPIDefinition
     (set_Description (text_pkg_apis_meta_v1_Condition []) (set_Required [''type'', ''status'',
       ''lastTransitionTime'', ''reason'', ''message''] (set_Properties
       [(''type'', set_Description (text_pkg_apis_meta_v1_Condition ''type'') (set_Default (JStr
         []) (of_type [''string''] []))),
       (''status'', set_Description (text_pkg_apis_meta_v1_Condition ''status'') (set_Default
         (JStr []) (of_type [''string''] []))),
       (''observedGeneration'', set_Description (text_pkg_apis_meta_v1_Condition
         ''observedGeneration'') (of_type [''integer''] ''int64'')),
       (''lastTransitionTime'', set_Description (text_pkg_apis_meta_v1_Condition
         ''lastTransitionTime'') (set_Ref (ref (ol_ModelName L ''v1.Time'')) zero_schema)),
       (''reason'', set_Description (text_pkg_apis_meta_v1_Condition ''reason'') (set_Default
         (JStr []) (of_type [''string''] []))),
       (''message'', set_Description (text_pkg_apis_meta_v1_Condition ''message'') (set_Default
         (JStr []) (of_type [''string''] [])))] (of_type [''object''] []))))
     [(ol_ModelName L ''v1.Time'')]"

definition schema_pkg_apis_meta_v1_CreateOptions :: "'r oa_lib \<Rightarrow> (string \<Rightarrow> 'r) \<Rightarrow> 'r OpenAPIDefinition" where
  "schema_pkg_apis_meta_v1_CreateOptions L ref =
     OpenAPIDefinition
     (set_Description (text_pkg_apis_meta_v1_CreateOptions []) (set_Properties
       [(''kind'', set_Description (text_pkg_apis_meta_v1_CreateOptions ''kind'') (of_type
         [''string''] [])),
       (''apiVersion'', set_Description (text_pkg_apis_meta_v1_CreateOptions ''apiVersion'')
         (of_type [''string''] [])),
       (''dryRun'', set_Description (text_pkg_apis_meta_v1_CreateOptions ''dryRun'')
         (set_Extensions [(''x-kubernetes-list-type'', JStr ''atomic'')] (set_Items (set_Default
         (JStr []) (of_type [''string''] [])) (of_type [''array''] [])))),
       (''fieldManager'', set_Description (text_pkg_apis_meta_v1_CreateOptions ''fieldManager'')
         (of_type [''string''] [])),
       (''fieldValidation'', set_Description (text_pkg_apis_meta_v1_CreateOptions
         ''fieldValidation'') (of_type [''string''] []))] (of_type [''object''] [])))
     []"

definition schema_pkg_apis_meta_v1_DeleteOptions :: "'r oa_lib \<Rightarrow> (string \<Rightarrow> 'r) \<Rightarrow> 'r OpenAPIDefinition" where
  "schema_pkg_apis_meta_v1_DeleteOptions L ref =
     OpenAPIDefinition
     (set_Description (text_pkg_apis_meta_v1_DeleteOptions []) (set_Properties
       [(''kind'', set_Description (text_pkg_apis_meta_v1_DeleteOptions ''kind'') (of_type
         [''string''] [])),
       (''apiVersion'', set_Description (text_pkg_apis_meta_v1_DeleteOptions ''apiVersion'')
         (of_type [''string''] [])),
       (''gracePeriodSeconds'', set_Description (text_pkg_apis_meta_v1_DeleteOptions
         ''gracePeriodSeconds'') (of_type [''integer''] ''int64'')),
       (''preconditions'', set_Description (text_pkg_apis_meta_v1_DeleteOptions ''preconditions'')
         (set_Ref (ref (ol_ModelName L ''v1.Preconditions'')) zero_schema)),
       (''orphanDependents'', set_Description (text_pkg_apis_meta_v1_DeleteOptions
         ''orphanDependents'') (of_type [''boolean''] [])),
       (''propagationPolicy'', set_Description (text_pkg_apis_meta_v1_DeleteOptions
         ''propagationPolicy'') (of_type [''string''] [])),
       (''dryRun'', set_Description (text_pkg_apis_meta_v1_DeleteOptions ''dryRun'')
         (set_Extensions [(''x-kubernetes-list-type'', JStr ''atomic'')] (set_Items (set_Default
         (JStr []) (of_type [''string''] [])) (of_type [''array''] [])))),
       (''ignoreStoreReadErrorWithClusterBreakingPotential'', set_Description
         (text_pkg_apis_meta_v1_DeleteOptions
         ''ignoreStoreReadErrorWithClusterBreakingPotential'') (of_type [''boolean''] []))]
         (of_type [''object''] [])))
     [(ol_ModelName L ''v1.Preconditions'')]"

definition schema_pkg_apis_meta_v1_Duration :: "'r oa_lib \<Rightarrow> (string \<Rightarrow> 'r) \<Rightarrow> 'r OpenAPIDefinition" where
  "schema_pkg_apis_meta_v1_Duration L ref =
     OpenAPIDefinition
     (set_Description (text_pkg_apis_meta_v1_Duration []) (of_type (ol_SchemaType L
       ''v1.Duration'') (ol_SchemaFormat L ''v1.Duration'')))
     []"

definition schema_pkg_apis_meta_v1_FieldSelectorRequirement :: "'r oa_lib \<Rightarrow> (string \<Rightarrow> 'r) \<Rightarrow> 'r OpenAPIDefinition" where
  "schema_pkg_apis_meta_v1_FieldSelectorRequirement L ref =
     OpenAPIDefinition
     (set_Description (text_pkg_apis_meta_v1_FieldSelectorRequirement []) (set_Required [''key'',
       ''operator''] (set_Properties
       [(''key'', set_Description (text_pkg_apis_meta_v1_FieldSelectorRequirement ''key'')
         (set_Default (JStr []) (of_type [''string''] []))),
       (''operator'', set_Description (text_pkg_apis_meta_v1_FieldSelectorRequirement
         ''operator'') (set_Default (JStr []) (of_type [''string''] []))),
       (''values'', set_Description (text_pkg_apis_meta_v1_FieldSelectorRequirement ''values'')
         (set_Extensions [(''x-kubernetes-list-type'', JStr ''atomic'')] (set_Items (set_Default
         (JStr []) (of_type [''string''] [])) (of_type [''array''] []))))] (of_type [''object'']
         []))))
     []"

definition schema_pkg_apis_meta_v1_FieldsV1 :: "'r oa_lib \<Rightarrow> (string \<Rightarrow> 'r) \<Rightarrow> 'r OpenAPIDefinition" where
  "schema_pkg_apis_meta_v1_FieldsV1 L ref =
     OpenAPIDefinition
     (set_Description (text_pkg_apis_meta_v1_FieldsV1 []) (of_type [''object''] []))
     []"

definition schema_pkg_apis_meta_v1_GetOptions :: "'r oa_lib \<Rightarrow> (string \<Rightarrow> 'r) \<Rightarrow> 'r OpenAPIDefinition" where
  "schema_pkg_apis_meta_v1_GetOptions L ref =
     OpenAPIDefinition
     (set_Description (text_pkg_apis_meta_v1_GetOptions []) (set_Properties
       [(''kind'', set_Description (text_pkg_apis_meta_v1_GetOptions ''kind'') (of_type
         [''string''] [])),
       (''apiVersion'', set_Description (text_pkg_apis_meta_v1_GetOptions ''apiVersion'') (of_type
         [''string''] [])),
       (''resourceVersion'', set_Description (text_pkg_apis_meta_v1_GetOptions
         ''resourceVersion'') (of_type [''string''] []))] (of_type [''object''] [])))
     []"

definition schema_pkg_apis_meta_v1_GroupKind :: "'r oa_lib \<Rightarrow> (string \<Rightarrow> 'r) \<Rightarrow> 'r OpenAPIDefinition" where
  "schema_pkg_apis_meta_v1_GroupKind L ref =
     OpenAPIDefinition
     (set_Description (text_pkg_apis_meta_v1_GroupKind []) (set_Required [''group'', ''kind'']
       (set_Properties
       [(''group'', set_Default (JStr []) (of_type [''string''] [])),
       (''kind'', set_Default (JStr []) (of_type [''string''] []))] (of_type [''object''] []))))
     []"

definition schema_pkg_apis_meta_v1_GroupResource :: "'r oa_lib \<Rightarrow> (string \<Rightarrow> 'r) \<Rightarrow> 'r OpenAPIDefinition" where
  "schema_pkg_apis_meta_v1_GroupResource L ref =
     OpenAPIDefinition
     (set_Description (text_pkg_apis_meta_v1_GroupResource []) (set_Required [''group'',
       ''resource''] (set_Properties
       [(''group'', set_Default (JStr []) (of_type [''string''] [])),
       (''resource'', set_Default (JStr []) (of_type [''string''] []))] (of_type [''object'']
         []))))
     []"

definition schema_pkg_apis_meta_v1_GroupVersion :: "'r oa_lib \<Rightarrow> (string \<Rightarrow> 'r) \<Rightarrow> 'r OpenAPIDefinition" where
  "schema_pkg_apis_meta_v1_GroupVersion L ref =
     OpenAPIDefinition
     (set_Description (text_pkg_apis_meta_v1_GroupVersion []) (set_Required [''group'',
       ''version''] (set_Properties
       [(''group'', set_Default (JStr []) (of_type [''string''] [])),
       (''version'', set_Default (JStr []) (of_type [''string''] []))] (of_type [''object'']
         []))))
     []"

definition schema_pkg_apis_meta_v1_GroupVersionForDiscovery :: "'r oa_lib \<Rightarrow> (string \<Rightarrow> 'r) \<Rightarrow> 'r OpenAPIDefinition" where
  "schema_pkg_apis_meta_v1_GroupVersionForDiscovery L ref =
     OpenAPIDefinition
     (set_Description (text_pkg_apis_meta_v1_GroupVersionForDiscovery []) (set_Required
       [''groupVersion'', ''version''] (set_Properties
       [(''groupVersion'', set_Description (text_pkg_apis_meta_v1_GroupVersionForDiscovery
         ''groupVersion'') (set_Default (JStr []) (of_type [''string''] []))),
       (''version'', set_Description (text_pkg_apis_meta_v1_GroupVersionForDiscovery ''version'')
         (set_Default (JStr []) (of_type [''string''] [])))] (of_type [''object''] []))))
     []"

definition schema_pkg_apis_meta_v1_GroupVersionKind :: "'r oa_lib \<Rightarrow> (string \<Rightarrow> 'r) \<Rightarrow> 'r OpenAPIDefinition" where
  "schema_pkg_apis_meta_v1_GroupVersionKind L ref =
     OpenAPIDefinition
     (set_Description (text_pkg_apis_meta_v1_GroupVersionKind []) (set_Required [''group'',
       ''version'', ''kind''] (set_Properties
       [(''group'', set_Default (JStr []) (of_type [''string''] [])),
       (''version'', set_Default (JStr []) (of_type [''string''] [])),
       (''kind'', set_Default (JStr []) (of_type [''string''] []))] (of_type [''object''] []))))
     []"

definition schema_pkg_apis_meta_v1_GroupVersionResource :: "'r oa_lib \<Rightarrow> (string \<Rightarrow> 'r) \<Rightarrow> 'r OpenAPIDefinition" where
  "schema_pkg_apis_meta_v1_GroupVersionResource L ref =
     OpenAPIDefinition
     (set_Description (text_pkg_apis_meta_v1_GroupVersionResource []) (set_Required [''group'',
       ''version'', ''resource''] (set_Properties
       [(''group'', set_Default (JStr []) (of_type [''string''] [])),
       (''version'', set_Default (JStr []) (of_type [''string''] [])),
       (''resource'', set_Default (JStr []) (of_type [''string''] []))] (of_type [''object'']
         []))))
     []"

definition schema_pkg_apis_meta_v1_InternalEvent :: "'r oa_lib \<Rightarrow> (string \<Rightarrow> 'r) \<Rightarrow> 'r OpenAPIDefinition" where
  "schema_pkg_apis_meta_v1_InternalEvent L ref =
     OpenAPIDefinition
     (set_Description (text_pkg_apis_meta_v1_InternalEvent []) (set_Required [''Type'',
       ''Object''] (set_Properties
       [(''Type'', set_Default (JStr []) (of_type [''string''] [])),
       (''Object'', set_Description (text_pkg_apis_meta_v1_InternalEvent ''Object'') zero_schema)]
         (of_type [''object''] []))))
     []"

definition schema_pkg_apis_meta_v1_LabelSelector :: "'r oa_lib \<Rightarrow> (string \<Rightarrow> 'r) \<Rightarrow> 'r OpenAPIDefinition" where
  "schema_pkg_apis_meta_v1_LabelSelector L ref =
     OpenAPIDefinition
     (set_Description (text_pkg_apis_meta_v1_LabelSelector []) (set_Extensions
       [(''x-kubernetes-map-type'', JStr ''atomic'')] (set_Properties
       [(''matchLabels'', set_Description (text_pkg_apis_meta_v1_LabelSelector ''matchLabels'')
         (set_AdditionalProperties True (set_Default (JStr []) (of_type [''string''] [])) (of_type
         [''object''] []))),
       (''matchExpressions'', set_Description (text_pkg_apis_meta_v1_LabelSelector
         ''matchExpressions'') (set_Extensions [(''x-kubernetes-list-type'', JStr ''atomic'')]
         (set_Items (set_Default (JObj []) (set_Ref (ref (ol_ModelName L
         ''v1.LabelSelectorRequirement'')) zero_schema)) (of_type [''array''] []))))] (of_type
         [''object''] []))))
     [(ol_ModelName L ''v1.LabelSelectorRequirement'')]"

definition schema_pkg_apis_meta_v1_LabelSelectorRequirement :: "'r oa_lib \<Rightarrow> (string \<Rightarrow> 'r) \<Rightarrow> 'r OpenAPIDefinition" where
  "schema_pkg_apis_meta_v1_LabelSelectorRequirement L ref =
     OpenAPIDefinition
     (set_Description (text_pkg_apis_meta_v1_LabelSelectorRequirement []) (set_Required [''key'',
       ''operator''] (set_Properties
       [(''key'', set_Description (text_pkg_apis_meta_v1_LabelSelectorRequirement ''key'')
         (set_Default (JStr []) (of_type [''string''] []))),
       (''operator'', set_Description (text_pkg_apis_meta_v1_LabelSelectorRequirement
         ''operator'') (set_Default (JStr []) (of_type [''string''] []))),
       (''values'', set_Description (text_pkg_apis_meta_v1_LabelSelectorRequirement ''values'')
         (set_Extensions [(''x-kubernetes-list-type'', JStr ''atomic'')] (set_Items (set_Default
         (JStr []) (of_type [''string''] [])) (of_type [''array''] []))))] (of_type [''object'']
         []))))
     []"

definition schema_pkg_apis_meta_v1_List :: "'r oa_lib \<Rightarrow> (string \<Rightarrow> 'r) \<Rightarrow> 'r OpenAPIDefinition" where
  "schema_pkg_apis_meta_v1_List L ref =
     OpenAPIDefinition
     (set_Description (text_pkg_apis_meta_v1_List []) (set_Required [''items''] (set_Properties
       [(''kind'', set_Description (text_pkg_apis_meta_v1_List ''kind'') (of_type [''string'']
         [])),
       (''apiVersion'', set_Description (text_pkg_apis_meta_v1_List ''apiVersion'') (of_type
         [''string''] [])),
       (''metadata'', set_Description (text_pkg_apis_meta_v1_List ''metadata'') (set_Default (JObj
         []) (set_Ref (ref (ol_ModelName L ''v1.ListMeta'')) zero_schema))),
       (''items'', set_Description (text_pkg_apis_meta_v1_List ''items'') (set_Items (set_Ref (ref
         (ol_ModelName L ''runtime.RawExtension'')) zero_schema) (of_type [''array''] [])))]
         (of_type [''object''] []))))
     [(ol_ModelName L ''v1.ListMeta''), (ol_ModelName L ''runtime.RawExtension'')]"

definition schema_pkg_apis_meta_v1_ListMeta :: "'r oa_lib \<Rightarrow> (string \<Rightarrow> 'r) \<Rightarrow> 'r OpenAPIDefinition" where
  "schema_pkg_apis_meta_v1_ListMeta L ref =
     OpenAPIDefinition
     (set_Description (text_pkg_apis_meta_v1_ListMeta []) (set_Properties
       [(''selfLink'', set_Description (text_pkg_apis_meta_v1_ListMeta ''selfLink'') (of_type
         [''string''] [])),
       (''resourceVersion'', set_Description (text_pkg_apis_meta_v1_ListMeta ''resourceVersion'')
         (of_type [''string''] [])),
       (''continue'', set_Description (text_pkg_apis_meta_v1_ListMeta ''continue'') (of_type
         [''string''] [])),
       (''remainingItemCount'', set_Description (text_pkg_apis_meta_v1_ListMeta
         ''remainingItemCount'') (of_type [''integer''] ''int64'')),
       (''shardInfo'', set_Description (text_pkg_apis_meta_v1_ListMeta ''shardInfo'') (set_Ref
         (ref (ol_ModelName L ''v1.ShardInfo'')) zero_schema))] (of_type [''object''] [])))
     [(ol_ModelName L ''v1.ShardInfo'')]"

definition schema_pkg_apis_meta_v1_ListOptions :: "'r oa_lib \<Rightarrow> (string \<Rightarrow> 'r) \<Rightarrow> 'r OpenAPIDefinition" where
  "schema_pkg_apis_meta_v1_ListOptions L ref =
     OpenAPIDefinition
     (set_Description (text_pkg_apis_meta_v1_ListOptions []) (set_Properties
       [(''kind'', set_Description (text_pkg_apis_meta_v1_ListOptions ''kind'') (of_type
         [''string''] [])),
       (''apiVersion'', set_Description (text_pkg_apis_meta_v1_ListOptions ''apiVersion'')
         (of_type [''string''] [])),
       (''labelSelector'', set_Description (text_pkg_apis_meta_v1_ListOptions ''labelSelector'')
         (of_type [''string''] [])),
       (''fieldSelector'', set_Description (text_pkg_apis_meta_v1_ListOptions ''fieldSelector'')
         (of_type [''string''] [])),
       (''watch'', set_Description (text_pkg_apis_meta_v1_ListOptions ''watch'') (of_type
         [''boolean''] [])),
       (''allowWatchBookmarks'', set_Description (text_pkg_apis_meta_v1_ListOptions
         ''allowWatchBookmarks'') (of_type [''boolean''] [])),
       (''resourceVersion'', set_Description (text_pkg_apis_meta_v1_ListOptions
         ''resourceVersion'') (of_type [''string''] [])),
       (''resourceVersionMatch'', set_Description (text_pkg_apis_meta_v1_ListOptions
         ''resourceVersionMatch'') (of_type [''string''] [])),
       (''timeoutSeconds'', set_Description (text_pkg_apis_meta_v1_ListOptions ''timeoutSeconds'')
         (of_type [''integer''] ''int64'')),
       (''limit'', set_Description (text_pkg_apis_meta_v1_ListOptions ''limit'') (of_type
         [''integer''] ''int64'')),
       (''continue'', set_Description (text_pkg_apis_meta_v1_ListOptions ''continue'') (of_type
         [''string''] [])),
       (''sendInitialEvents'', set_Description (text_pkg_apis_meta_v1_ListOptions
         ''sendInitialEvents'') (of_type [''boolean''] [])),
       (''shardSelector'', set_Description (text_pkg_apis_meta_v1_ListOptions ''shardSelector'')
         (of_type [''string''] []))] (of_type [''object''] [])))
     []"

definition schema_pkg_apis_meta_v1_ManagedFieldsEntry :: "'r oa_lib \<Rightarrow> (string \<Rightarrow> 'r) \<Rightarrow> 'r OpenAPIDefinition" where
  "schema_pkg_apis_meta_v1_ManagedFieldsEntry L ref =
     OpenAPIDefinition
     (set_Description (text_pkg_apis_meta_v1_ManagedFieldsEntry []) (set_Properties
       [(''manager'', set_Description (text_pkg_apis_meta_v1_ManagedFieldsEntry ''manager'')
         (of_type [''string''] [])),
       (''operation'', set_Description (text_pkg_apis_meta_v1_ManagedFieldsEntry ''operation'')
         (of_type [''string''] [])),
       (''apiVersion'', set_Description (text_pkg_apis_meta_v1_ManagedFieldsEntry ''apiVersion'')
         (of_type [''string''] [])),
       (''time'', set_Description (text_pkg_apis_meta_v1_ManagedFieldsEntry ''time'') (set_Ref
         (ref (ol_ModelName L ''v1.Time'')) zero_schema)),
       (''fieldsType'', set_Description (text_pkg_apis_meta_v1_ManagedFieldsEntry ''fieldsType'')
         (of_type [''string''] [])),
       (''fieldsV1'', set_Description (text_pkg_apis_meta_v1_ManagedFieldsEntry ''fieldsV1'')
         (set_Ref (ref (ol_ModelName L ''v1.FieldsV1'')) zero_schema)),
       (''subresource'', set_Description (text_pkg_apis_meta_v1_ManagedFieldsEntry
         ''subresource'') (of_type [''string''] []))] (of_type [''object''] [])))
     [(ol_ModelName L ''v1.FieldsV1''), (ol_ModelName L ''v1.Time'')]"

definition schema_pkg_apis_meta_v1_MicroTime :: "'r oa_lib \<Rightarrow> (string \<Rightarrow> 'r) \<Rightarrow> 'r OpenAPIDefinition" where
  "schema_pkg_apis_meta_v1_MicroTime L ref =
     OpenAPIDefinition
     (set_Description (text_pkg_apis_meta_v1_MicroTime []) (of_type (ol_SchemaType L
       ''v1.MicroTime'') (ol_SchemaFormat L ''v1.MicroTime'')))
     []"

definition schema_pkg_apis_meta_v1_ObjectMeta :: "'r oa_lib \<Rightarrow> (string \<Rightarrow> 'r) \<Rightarrow> 'r OpenAPIDefinition" where
  "schema_pkg_apis_meta_v1_ObjectMeta L ref =
     OpenAPIDefinition
     (set_Description (text_pkg_apis_meta_v1_ObjectMeta []) (set_Properties
       [(''name'', set_Description (text_pkg_apis_meta_v1_ObjectMeta ''name'') (of_type
         [''string''] [])),
       (''generateName'', set_Description (text_pkg_apis_meta_v1_ObjectMeta ''generateName'')
         (of_type [''string''] [])),
       (''namespace'', set_Description (text_pkg_apis_meta_v1_ObjectMeta ''namespace'') (of_type
         [''string''] [])),
       (''selfLink'', set_Description (text_pkg_apis_meta_v1_ObjectMeta ''selfLink'') (of_type
         [''string''] [])),
       (''uid'', set_Description (text_pkg_apis_meta_v1_ObjectMeta ''uid'') (of_type [''string'']
         [])),
       (''resourceVersion'', set_Description (text_pkg_apis_meta_v1_ObjectMeta
         ''resourceVersion'') (of_type [''string''] [])),
       (''generation'', set_Description (text_pkg_apis_meta_v1_ObjectMeta ''generation'') (of_type
         [''integer''] ''int64'')),
       (''creationTimestamp'', set_Description (text_pkg_apis_meta_v1_ObjectMeta
         ''creationTimestamp'') (set_Ref (ref (ol_ModelName L ''v1.Time'')) zero_schema)),
       (''deletionTimestamp'', set_Description (text_pkg_apis_meta_v1_ObjectMeta
         ''deletionTimestamp'') (set_Ref (ref (ol_ModelName L ''v1.Time'')) zero_schema)),
       (''deletionGracePeriodSeconds'', set_Description (text_pkg_apis_meta_v1_ObjectMeta
         ''deletionGracePeriodSeconds'') (of_type [''integer''] ''int64'')),
       (''labels'', set_Description (text_pkg_apis_meta_v1_ObjectMeta ''labels'')
         (set_AdditionalProperties True (set_Default (JStr []) (of_type [''string''] [])) (of_type
         [''object''] []))),
       (''annotations'', set_Description (text_pkg_apis_meta_v1_ObjectMeta ''annotations'')
         (set_AdditionalProperties True (set_Default (JStr []) (of_type [''string''] [])) (of_type
         [''object''] []))),
       (''ownerReferences'', set_Description (text_pkg_apis_meta_v1_ObjectMeta
         ''ownerReferences'') (set_Extensions [(''x-kubernetes-list-map-keys'', JArr [JStr
         ''uid'']), (''x-kubernetes-list-type'', JStr ''map''), (''x-kubernetes-patch-merge-key'',
         JStr ''uid''), (''x-kubernetes-patch-strategy'', JStr ''merge'')] (set_Items (set_Default
         (JObj []) (set_Ref (ref (ol_ModelName L ''v1.OwnerReference'')) zero_schema)) (of_type
         [''array''] [])))),
       (''finalizers'', set_Description (text_pkg_apis_meta_v1_ObjectMeta ''finalizers'')
         (set_Extensions [(''x-kubernetes-list-type'', JStr ''set''),
         (''x-kubernetes-patch-strategy'', JStr ''merge'')] (set_Items (set_Default (JStr [])
         (of_type [''string''] [])) (of_type [''array''] [])))),
       (''managedFields'', set_Description (text_pkg_apis_meta_v1_ObjectMeta ''managedFields'')
         (set_Extensions [(''x-kubernetes-list-type'', JStr ''atomic'')] (set_Items (set_Default
         (JObj []) (set_Ref (ref (ol_ModelName L ''v1.ManagedFieldsEntry'')) zero_schema))
         (of_type [''array''] []))))] (of_type [''object''] [])))
     [(ol_ModelName L ''v1.ManagedFieldsEntry''), (ol_ModelName L ''v1.OwnerReference''),
       (ol_ModelName L ''v1.Time'')]"

definition schema_pkg_apis_meta_v1_OwnerReference :: "'r oa_lib \<Rightarrow> (string \<Rightarrow> 'r) \<Rightarrow> 'r OpenAPIDefinition" where
  "schema_pkg_apis_meta_v1_OwnerReference L ref =
     OpenAPIDefinition
     (set_Description (text_pkg_apis_meta_v1_OwnerReference []) (set_Extensions
       [(''x-kubernetes-map-type'', JStr ''atomic'')] (set_Required [''apiVersion'', ''kind'',
       ''name'', ''uid''] (set_Properties
       [(''apiVersion'', set_Description (text_pkg_apis_meta_v1_OwnerReference ''apiVersion'')
         (set_Default (JStr []) (of_type [''string''] []))),
       (''kind'', set_Description (text_pkg_apis_meta_v1_OwnerReference ''kind'') (set_Default
         (JStr []) (of_type [''string''] []))),
       (''name'', set_Description (text_pkg_apis_meta_v1_OwnerReference ''name'') (set_Default
         (JStr []) (of_type [''string''] []))),
       (''uid'', set_Description (text_pkg_apis_meta_v1_OwnerReference ''uid'') (set_Default (JStr
         []) (of_type [''string''] []))),
       (''controller'', set_Description (text_pkg_apis_meta_v1_OwnerReference ''controller'')
         (of_type [''boolean''] [])),
       (''blockOwnerDeletion'', set_Description (text_pkg_apis_meta_v1_OwnerReference
         ''blockOwnerDeletion'') (of_type [''boolean''] []))] (of_type [''object''] [])))))
     []"

definition schema_pkg_apis_meta_v1_PartialObjectMetadata :: "'r oa_lib \<Rightarrow> (string \<Rightarrow> 'r) \<Rightarrow> 'r OpenAPIDefinition" where
  "schema_pkg_apis_meta_v1_PartialObjectMetadata L ref =
     OpenAPIDefinition
     (set_Description (text_pkg_apis_meta_v1_PartialObjectMetadata []) (set_Properties
       [(''kind'', set_Description (text_pkg_apis_meta_v1_PartialObjectMetadata ''kind'') (of_type
         [''string''] [])),
       (''apiVersion'', set_Description (text_pkg_apis_meta_v1_PartialObjectMetadata
         ''apiVersion'') (of_type [''string''] [])),
       (''metadata'', set_Description (text_pkg_apis_meta_v1_PartialObjectMetadata ''metadata'')
         (set_Default (JObj []) (set_Ref (ref (ol_ModelName L ''v1.ObjectMeta'')) zero_schema)))]
         (of_type [''object''] [])))
     [(ol_ModelName L ''v1.ObjectMeta'')]"

definition schema_pkg_apis_meta_v1_PartialObjectMetadataList :: "'r oa_lib \<Rightarrow> (string \<Rightarrow> 'r) \<Rightarrow> 'r OpenAPIDefinition" where
  "schema_pkg_apis_meta_v1_PartialObjectMetadataList L ref =
     OpenAPIDefinition
     (set_Description (text_pkg_apis_meta_v1_PartialObjectMetadataList []) (set_Required
       [''items''] (set_Properties
       [(''kind'', set_Description (text_pkg_apis_meta_v1_PartialObjectMetadataList ''kind'')
         (of_type [''string''] [])),
       (''apiVersion'', set_Description (text_pkg_apis_meta_v1_PartialObjectMetadataList
         ''apiVersion'') (of_type [''string''] [])),
       (''metadata'', set_Description (text_pkg_apis_meta_v1_PartialObjectMetadataList
         ''metadata'') (set_Default (JObj []) (set_Ref (ref (ol_ModelName L ''v1.ListMeta''))
         zero_schema))),
       (''items'', set_Description (text_pkg_apis_meta_v1_PartialObjectMetadataList ''items'')
         (set_Items (set_Default (JObj []) (set_Ref (ref (ol_ModelName L
         ''v1.PartialObjectMetadata'')) zero_schema)) (of_type [''array''] [])))] (of_type
         [''object''] []))))
     [(ol_ModelName L ''v1.ListMeta''), (ol_ModelName L ''v1.PartialObjectMetadata'')]"

definition schema_pkg_apis_meta_v1_Patch :: "'r oa_lib \<Rightarrow> (string \<Rightarrow> 'r) \<Rightarrow> 'r OpenAPIDefinition" where
  "schema_pkg_apis_meta_v1_Patch L ref =
     OpenAPIDefinition
     (set_Description (text_pkg_apis_meta_v1_Patch []) (of_type [''object''] []))
     []"

definition schema_pkg_apis_meta_v1_PatchOptions :: "'r oa_lib \<Rightarrow> (string \<Rightarrow> 'r) \<Rightarrow> 'r OpenAPIDefinition" where
  "schema_pkg_apis_meta_v1_PatchOptions L ref =
     OpenAPIDefinition
     (set_Description (text_pkg_apis_meta_v1_PatchOptions []) (set_Properties
       [(''kind'', set_Description (text_pkg_apis_meta_v1_PatchOptions ''kind'') (of_type
         [''string''] [])),
       (''apiVersion'', set_Description (text_pkg_apis_meta_v1_PatchOptions ''apiVersion'')
         (of_type [''string''] [])),
       (''dryRun'', set_Description (text_pkg_apis_meta_v1_PatchOptions ''dryRun'')
         (set_Extensions [(''x-kubernetes-list-type'', JStr ''atomic'')] (set_Items (set_Default
         (JStr []) (of_type [''string''] [])) (of_type [''array''] [])))),
       (''force'', set_Description (text_pkg_apis_meta_v1_PatchOptions ''force'') (of_type
         [''boolean''] [])),
       (''fieldManager'', set_Description (text_pkg_apis_meta_v1_PatchOptions ''fieldManager'')
         (of_type [''string''] [])),
       (''fieldValidation'', set_Description (text_pkg_apis_meta_v1_PatchOptions
         ''fieldValidation'') (of_type [''string''] []))] (of_type [''object''] [])))
     []"

definition schema_pkg_apis_meta_v1_Preconditions :: "'r oa_lib \<Rightarrow> (string \<Rightarrow> 'r) \<Rightarrow> 'r OpenAPIDefinition" where
  "schema_pkg_apis_meta_v1_Preconditions L ref =
     OpenAPIDefinition
     (set_Description (text_pkg_apis_meta_v1_Preconditions []) (set_Properties
       [(''uid'', set_Description (text_pkg_apis_meta_v1_Preconditions ''uid'') (of_type
         [''string''] [])),
       (''resourceVersion'', set_Description (text_pkg_apis_meta_v1_Preconditions
         ''resourceVersion'') (of_type [''string''] []))] (of_type [''object''] [])))
     []"

definition schema_pkg_apis_meta_v1_RootPaths :: "'r oa_lib \<Rightarrow> (string \<Rightarrow> 'r) \<Rightarrow> 'r OpenAPIDefinition" where
  "schema_pkg_apis_meta_v1_RootPaths L ref =
     OpenAPIDefinition
     (set_Description (text_pkg_apis_meta_v1_RootPaths []) (set_Required [''paths'']
       (set_Properties
       [(''paths'', set_Description (text_pkg_apis_meta_v1_RootPaths ''paths'') (set_Extensions
         [(''x-kubernetes-list-type'', JStr ''atomic'')] (set_Items (set_Default (JStr [])
         (of_type [''string''] [])) (of_type [''array''] []))))] (of_type [''object''] []))))
     []"

definition schema_pkg_apis_meta_v1_ServerAddressByClientCIDR :: "'r oa_lib \<Rightarrow> (string \<Rightarrow> 'r) \<Rightarrow> 'r OpenAPIDefinition" where
  "schema_pkg_apis_meta_v1_ServerAddressByClientCIDR L ref =
     OpenAPIDefinition
     (set_Description (text_pkg_apis_meta_v1_ServerAddressByClientCIDR []) (set_Required
       [''clientCIDR'', ''serverAddress''] (set_Properties
       [(''clientCIDR'', set_Description (text_pkg_apis_meta_v1_ServerAddressByClientCIDR
         ''clientCIDR'') (set_Default (JStr []) (of_type [''string''] []))),
       (''serverAddress'', set_Description (text_pkg_apis_meta_v1_ServerAddressByClientCIDR
         ''serverAddress'') (set_Default (JStr []) (of_type [''string''] [])))] (of_type
         [''object''] []))))
     []"

definition schema_pkg_apis_meta_v1_ShardInfo :: "'r oa_lib \<Rightarrow> (string \<Rightarrow> 'r) \<Rightarrow> 'r OpenAPIDefinition" where
  "schema_pkg_apis_meta_v1_ShardInfo L ref =
     OpenAPIDefinition
     (set_Description (text_pkg_apis_meta_v1_ShardInfo []) (set_Required [''selector'']
       (set_Properties
       [(''selector'', set_Description (text_pkg_apis_meta_v1_ShardInfo ''selector'') (set_Default
         (JStr []) (of_type [''string''] [])))] (of_type [''object''] []))))
     []"

definition schema_pkg_apis_meta_v1_Status :: "'r oa_lib \<Rightarrow> (string \<Rightarrow> 'r) \<Rightarrow> 'r OpenAPIDefinition" where
  "schema_pkg_apis_meta_v1_Status L ref =
     OpenAPIDefinition
     (set_Description (text_pkg_apis_meta_v1_Status []) (set_Properties
       [(''kind'', set_Description (text_pkg_apis_meta_v1_Status ''kind'') (of_type [''string'']
         [])),
       (''apiVersion'', set_Description (text_pkg_apis_meta_v1_Status ''apiVersion'') (of_type
         [''string''] [])),
       (''metadata'', set_Description (text_pkg_apis_meta_v1_Status ''metadata'') (set_Default
         (JObj []) (set_Ref (ref (ol_ModelName L ''v1.ListMeta'')) zero_schema))),
       (''status'', set_Description (text_pkg_apis_meta_v1_Status ''status'') (of_type
         [''string''] [])),
       (''message'', set_Description (text_pkg_apis_meta_v1_Status ''message'') (of_type
         [''string''] [])),
       (''reason'', set_Description (text_pkg_apis_meta_v1_Status ''reason'') (of_type
         [''string''] [])),
       (''details'', set_Description (text_pkg_apis_meta_v1_Status ''details'') (set_Ref (ref
         (ol_ModelName L ''v1.StatusDetails'')) zero_schema)),
       (''code'', set_Description (text_pkg_apis_meta_v1_Status ''code'') (of_type [''integer'']
         ''int32''))] (of_type [''object''] [])))
     [(ol_ModelName L ''v1.ListMeta''), (ol_ModelName L ''v1.StatusDetails'')]"

definition schema_pkg_apis_meta_v1_StatusCause :: "'r oa_lib \<Rightarrow> (string \<Rightarrow> 'r) \<Rightarrow> 'r OpenAPIDefinition" where
  "schema_pkg_apis_meta_v1_StatusCause L ref =
     OpenAPIDefinition
     (set_Description (text_pkg_apis_meta_v1_StatusCause []) (set_Properties
       [(''reason'', set_Description (text_pkg_apis_meta_v1_StatusCause ''reason'') (of_type
         [''string''] [])),
       (''message'', set_Description (text_pkg_apis_meta_v1_StatusCause ''message'') (of_type
         [''string''] [])),
       (''field'', set_Description (text_pkg_apis_meta_v1_StatusCause ''field'') (of_type
         [''string''] []))] (of_type [''object''] [])))
     []"

definition schema_pkg_apis_meta_v1_StatusDetails :: "'r oa_lib \<Rightarrow> (string \<Rightarrow> 'r) \<Rightarrow> 'r OpenAPIDefinition" where
  "schema_pkg_apis_meta_v1_StatusDetails L ref =
     OpenAPIDefinition
     (set_Description (text_pkg_apis_meta_v1_StatusDetails []) (set_Properties
       [(''name'', set_Description (text_pkg_apis_meta_v1_StatusDetails ''name'') (of_type
         [''string''] [])),
       (''group'', set_Description (text_pkg_apis_meta_v1_StatusDetails ''group'') (of_type
         [''string''] [])),
       (''kind'', set_Description (text_pkg_apis_meta_v1_StatusDetails ''kind'') (of_type
         [''string''] [])),
       (''uid'', set_Description (text_pkg_apis_meta_v1_StatusDetails ''uid'') (of_type
         [''string''] [])),
       (''causes'', set_Description (text_pkg_apis_meta_v1_StatusDetails ''causes'')
         (set_Extensions [(''x-kubernetes-list-type'', JStr ''atomic'')] (set_Items (set_Default
         (JObj []) (set_Ref (ref (ol_ModelName L ''v1.StatusCause'')) zero_schema)) (of_type
         [''array''] [])))),
       (''retryAfterSeconds'', set_Description (text_pkg_apis_meta_v1_StatusDetails
         ''retryAfterSeconds'') (of_type [''integer''] ''int32''))] (of_type [''object''] [])))
     [(ol_ModelName L ''v1.StatusCause'')]"

definition schema_pkg_apis_meta_v1_Table :: "'r oa_lib \<Rightarrow> (string \<Rightarrow> 'r) \<Rightarrow> 'r OpenAPIDefinition" where
  "schema_pkg_apis_meta_v1_Table L ref =
     OpenAPIDefinition
     (set_Description (text_pkg_apis_meta_v1_Table []) (set_Required [''columnDefinitions'',
       ''rows''] (set_Properties
       [(''kind'', set_Description (text_pkg_apis_meta_v1_Table ''kind'') (of_type [''string'']
         [])),
       (''apiVersion'', set_Description (text_pkg_apis_meta_v1_Table ''apiVersion'') (of_type
         [''string''] [])),
       (''metadata'', set_Description (text_pkg_apis_meta_v1_Table ''metadata'') (set_Default
         (JObj []) (set_Ref (ref (ol_ModelName L ''v1.ListMeta'')) zero_schema))),
       (''columnDefinitions'', set_Description (text_pkg_apis_meta_v1_Table ''columnDefinitions'')
         (set_Extensions [(''x-kubernetes-list-type'', JStr ''atomic'')] (set_Items (set_Default
         (JObj []) (set_Ref (ref (ol_ModelName L ''v1.TableColumnDefinition'')) zero_schema))
         (of_type [''array''] [])))),
       (''rows'', set_Description (text_pkg_apis_meta_v1_Table ''rows'') (set_Extensions
         [(''x-kubernetes-list-type'', JStr ''atomic'')] (set_Items (set_Default (JObj [])
         (set_Ref (ref (ol_ModelName L ''v1.TableRow'')) zero_schema)) (of_type [''array'']
         []))))] (of_type [''object''] []))))
     [(ol_ModelName L ''v1.ListMeta''), (ol_ModelName L ''v1.TableColumnDefinition''),
       (ol_ModelName L ''v1.TableRow'')]"

definition schema_pkg_apis_meta_v1_TableColumnDefinition :: "'r oa_lib \<Rightarrow> (string \<Rightarrow> 'r) \<Rightarrow> 'r OpenAPIDefinition" where
  "schema_pkg_apis_meta_v1_TableColumnDefinition L ref =
     OpenAPIDefinition
     (set_Description (text_pkg_apis_meta_v1_TableColumnDefinition []) (set_Required [''name'',
       ''type'', ''format'', ''description'', ''priority''] (set_Properties
       [(''name'', set_Description (text_pkg_apis_meta_v1_TableColumnDefinition ''name'')
         (set_Default (JStr []) (of_type [''string''] []))),
       (''type'', set_Description (text_pkg_apis_meta_v1_TableColumnDefinition ''type'')
         (set_Default (JStr []) (of_type [''string''] []))),
       (''format'', set_Description (text_pkg_apis_meta_v1_TableColumnDefinition ''format'')
         (set_Default (JStr []) (of_type [''string''] []))),
       (''description'', set_Description (text_pkg_apis_meta_v1_TableColumnDefinition
         ''description'') (set_Default (JStr []) (of_type [''string''] []))),
       (''priority'', set_Description (text_pkg_apis_meta_v1_TableColumnDefinition ''priority'')
         (set_Default (JInt 0) (of_type [''integer''] ''int32'')))] (of_type [''object''] []))))
     []"

definition schema_pkg_apis_meta_v1_TableOptions :: "'r oa_lib \<Rightarrow> (string \<Rightarrow> 'r) \<Rightarrow> 'r OpenAPIDefinition" where
  "schema_pkg_apis_meta_v1_TableOptions L ref =
     OpenAPIDefinition
     (set_Description (text_pkg_apis_meta_v1_TableOptions []) (set_Properties
       [(''kind'', set_Description (text_pkg_apis_meta_v1_TableOptions ''kind'') (of_type
         [''string''] [])),
       (''apiVersion'', set_Description (text_pkg_apis_meta_v1_TableOptions ''apiVersion'')
         (of_type [''string''] [])),
       (''includeObject'', set_Description (text_pkg_apis_meta_v1_TableOptions ''includeObject'')
         (of_type [''string''] []))] (of_type [''object''] [])))
     []"

definition schema_pkg_apis_meta_v1_TableRow :: "'r oa_lib \<Rightarrow> (string \<Rightarrow> 'r) \<Rightarrow> 'r OpenAPIDefinition" where
  "schema_pkg_apis_meta_v1_TableRow L ref =
     OpenAPIDefinition
     (set_Description (text_pkg_apis_meta_v1_TableRow []) (set_Required [''cells'']
       (set_Properties
       [(''cells'', set_Description (text_pkg_apis_meta_v1_TableRow ''cells'') (set_Extensions
         [(''x-kubernetes-list-type'', JStr ''atomic'')] (set_Items (of_type [''object''] [])
         (of_type [''array''] [])))),
       (''conditions'', set_Description (text_pkg_apis_meta_v1_TableRow ''conditions'')
         (set_Extensions [(''x-kubernetes-list-type'', JStr ''atomic'')] (set_Items (set_Default
         (JObj []) (set_Ref (ref (ol_ModelName L ''v1.TableRowCondition'')) zero_schema)) (of_type
         [''array''] [])))),
       (''object'', set_Description (text_pkg_apis_meta_v1_TableRow ''object'') (set_Ref (ref
         (ol_ModelName L ''runtime.RawExtension'')) zero_schema))] (of_type [''object''] []))))
     [(ol_ModelName L ''v1.TableRowCondition''), (ol_ModelName L ''runtime.RawExtension'')]"

definition schema_pkg_apis_meta_v1_TableRowCondition :: "'r oa_lib \<Rightarrow> (string \<Rightarrow> 'r) \<Rightarrow> 'r OpenAPIDefinition" where
  "schema_pkg_apis_meta_v1_TableRowCondition L ref =
     OpenAPIDefinition
     (set_Description (text_pkg_apis_meta_v1_TableRowCondition []) (set_Required [''type'',
       ''status''] (set_Properties
       [(''type'', set_Description (text_pkg_apis_meta_v1_TableRowCondition ''type'') (set_Default
         (JStr []) (of_type [''string''] []))),
       (''status'', set_Description (text_pkg_apis_meta_v1_TableRowCondition ''status'')
         (set_Default (JStr []) (of_type [''string''] []))),
       (''reason'', set_Description (text_pkg_apis_meta_v1_TableRowCondition ''reason'') (of_type
         [''string''] [])),
       (''message'', set_Description (text_pkg_apis_meta_v1_TableRowCondition ''message'')
         (of_type [''string''] []))] (of_type [''object''] []))))
     []"

definition schema_pkg_apis_meta_v1_Time :: "'r oa_lib \<Rightarrow> (string \<Rightarrow> 'r) \<Rightarrow> 'r OpenAPIDefinition" where
  "schema_pkg_apis_meta_v1_Time L ref =
     OpenAPIDefinition
     (set_Description (text_pkg_apis_meta_v1_Time []) (of_type (ol_SchemaType L ''v1.Time'')
       (ol_SchemaFormat L ''v1.Time'')))
     []"

definition schema_pkg_apis_meta_v1_Timestamp :: "'r oa_lib \<Rightarrow> (string \<Rightarrow> 'r) \<Rightarrow> 'r OpenAPIDefinition" where
  "schema_pkg_apis_meta_v1_Timestamp L ref =
     OpenAPIDefinition
     (set_Description (text_pkg_apis_meta_v1_Timestamp []) (set_Required [''seconds'', ''nanos'']
       (set_Properties
       [(''seconds'', set_Description (text_pkg_apis_meta_v1_Timestamp ''seconds'') (set_Default
         (JInt 0) (of_type [''integer''] ''int64''))),
       (''nanos'', set_Description (text_pkg_apis_meta_v1_Timestamp ''nanos'') (set_Default (JInt
         0) (of_type [''integer''] ''int32'')))] (of_type [''object''] []))))
     []"

definition schema_pkg_apis_meta_v1_TypeMeta :: "'r oa_lib \<Rightarrow> (string \<Rightarrow> 'r) \<Rightarrow> 'r OpenAPIDefinition" where
  "schema_pkg_apis_meta_v1_TypeMeta L ref =
     OpenAPIDefinition
     (set_Description (text_pkg_apis_meta_v1_TypeMeta []) (set_Properties
       [(''kind'', set_Description (text_pkg_apis_meta_v1_TypeMeta ''kind'') (of_type [''string'']
         [])),
       (''apiVersion'', set_Description (text_pkg_apis_meta_v1_TypeMeta ''apiVersion'') (of_type
         [''string''] []))] (of_type [''object''] [])))
     []"

definition schema_pkg_apis_meta_v1_UpdateOptions :: "'r oa_lib \<Rightarrow> (string \<Rightarrow> 'r) \<Rightarrow> 'r OpenAPIDefinition" where
  "schema_pkg_apis_meta_v1_UpdateOptions L ref =
     OpenAPIDefinition
     (set_Description (text_pkg_apis_meta_v1_UpdateOptions []) (set_Properties
       [(''kind'', set_Description (text_pkg_apis_meta_v1_UpdateOptions ''kind'') (of_type
         [''string''] [])),
       (''apiVersion'', set_Description (text_pkg_apis_meta_v1_UpdateOptions ''apiVersion'')
         (of_type [''string''] [])),
       (''dryRun'', set_Description (text_pkg_apis_meta_v1_UpdateOptions ''dryRun'')
         (set_Extensions [(''x-kubernetes-list-type'', JStr ''atomic'')] (set_Items (set_Default
         (JStr []) (of_type [''string''] [])) (of_type [''array''] [])))),
       (''fieldManager'', set_Description (text_pkg_apis_meta_v1_UpdateOptions ''fieldManager'')
         (of_type [''string''] [])),
       (''fieldValidation'', set_Description (text_pkg_apis_meta_v1_UpdateOptions
         ''fieldValidation'') (of_type [''string''] []))] (of_type [''object''] [])))
     []"

definition schema_pkg_apis_meta_v1_WatchEvent :: "'r oa_lib \<Rightarrow> (string \<Rightarrow> 'r) \<Rightarrow> 'r OpenAPIDefinition" where
  "schema_pkg_apis_meta_v1_WatchEvent L ref =
     OpenAPIDefinition
     (set_Description (text_pkg_apis_meta_v1_WatchEvent []) (set_Required [''type'', ''object'']
       (set_Properties
       [(''type'', set_Default (JStr []) (of_type [''string''] [])),
       (''object'', set_Description (text_pkg_apis_meta_v1_WatchEvent ''object'') (set_Ref (ref
         (ol_ModelName L ''runtime.RawExtension'')) zero_schema))] (of_type [''object''] []))))
     [(ol_ModelName L ''runtime.RawExtension'')]"

definition schema_k8sio_apimachinery_pkg_runtime_RawExtension :: "'r oa_lib \<Rightarrow> (string \<Rightarrow> 'r) \<Rightarrow> 'r OpenAPIDefinition" where
  "schema_k8sio_apimachinery_pkg_runtime_RawExtension L ref =
     OpenAPIDefinition
     (set_Description (text_k8sio_apimachinery_pkg_runtime_RawExtension []) (of_type [''object'']
       []))
     []"

definition schema_k8sio_apimachinery_pkg_runtime_TypeMeta :: "'r oa_lib \<Rightarrow> (string \<Rightarrow> 'r) \<Rightarrow> 'r OpenAPIDefinition" where
  "schema_k8sio_apimachinery_pkg_runtime_TypeMeta L ref =
     OpenAPIDefinition
     (set_Description (text_k8sio_apimachinery_pkg_runtime_TypeMeta []) (set_Properties
       [(''apiVersion'', of_type [''string''] []),
       (''kind'', of_type [''string''] [])] (of_type [''object''] [])))
     []"

definition schema_k8sio_apimachinery_pkg_runtime_Unknown :: "'r oa_lib \<Rightarrow> (string \<Rightarrow> 'r) \<Rightarrow> 'r OpenAPIDefinition" where
  "schema_k8sio_apimachinery_pkg_runtime_Unknown L ref =
     OpenAPIDefinition
     (set_Description (text_k8sio_apimachinery_pkg_runtime_Unknown []) (set_Required
       [''ContentEncoding'', ''ContentType''] (set_Properties
       [(''apiVersion'', of_type [''string''] []),
       (''kind'', of_type [''string''] []),
       (''ContentEncoding'', set_Description (text_k8sio_apimachinery_pkg_runtime_Unknown
         ''ContentEncoding'') (set_Default (JStr []) (of_type [''string''] []))),
       (''ContentType'', set_Description (text_k8sio_apimachinery_pkg_runtime_Unknown
         ''ContentType'') (set_Default (JStr []) (of_type [''string''] [])))] (of_type
         [''object''] []))))
     []"

definition schema_k8sio_apimachinery_pkg_version_Info :: "'r oa_lib \<Rightarrow> (string \<Rightarrow> 'r) \<Rightarrow> 'r OpenAPIDefinition" where
  "schema_k8sio_apimachinery_pkg_version_Info L ref =
     OpenAPIDefinition
     (set_Description (text_k8sio_apimachinery_pkg_version_Info []) (set_Required [''major'',
       ''minor'', ''gitVersion'', ''gitCommit'', ''gitTreeState'', ''buildDate'', ''goVersion'',
       ''compiler'', ''platform''] (set_Properties
       [(''major'', set_Description (text_k8sio_apimachinery_pkg_version_Info ''major'')
         (set_Default (JStr []) (of_type [''string''] []))),
       (''minor'', set_Description (text_k8sio_apimachinery_pkg_version_Info ''minor'')
         (set_Default (JStr []) (of_type [''string''] []))),
       (''emulationMajor'', set_Description (text_k8sio_apimachinery_pkg_version_Info
         ''emulationMajor'') (of_type [''string''] [])),
       (''emulationMinor'', set_Description (text_k8sio_apimachinery_pkg_version_Info
         ''emulationMinor'') (of_type [''string''] [])),
       (''minCompatibilityMajor'', set_Description (text_k8sio_apimachinery_pkg_version_Info
         ''minCompatibilityMajor'') (of_type [''string''] [])),
       (''minCompatibilityMinor'', set_Description (text_k8sio_apimachinery_pkg_version_Info
         ''minCompatibilityMinor'') (of_type [''string''] [])),
       (''gitVersion'', set_Default (JStr []) (of_type [''string''] [])),
       (''gitCommit'', set_Default (JStr []) (of_type [''string''] [])),
       (''gitTreeState'', set_Default (JStr []) (of_type [''string''] [])),
       (''buildDate'', set_Default (JStr []) (of_type [''string''] [])),
       (''goVersion'', set_Default (JStr []) (of_type [''string''] [])),
       (''compiler'', set_Default (JStr []) (of_type [''string''] [])),
       (''platform'', set_Default (JStr []) (of_type [''string''] []))] (of_type [''object'']
         []))))
     []"

definition GetOpenAPIDefinitions ::
    "'r oa_lib \<Rightarrow> (string \<Rightarrow> 'r) \<Rightarrow> (string \<times> 'r OpenAPIDefinition) list" where
  "GetOpenAPIDefinitions L ref =
     [(''github.com/eapolinario/simple-api-server/pkg/apis/tasks/v1alpha1.Task'',
  schema_pkg_apis_tasks_v1alpha1_Task L ref),
      (''github.com/eapolinario/simple-api-server/pkg/apis/tasks/v1alpha1.TaskList'',
  schema_pkg_apis_tasks_v1alpha1_TaskList L ref),
      (''github.com/eapolinario/simple-api-server/pkg/apis/tasks/v1alpha1.TaskSpec'',
  schema_pkg_apis_tasks_v1alpha1_TaskSpec L ref),
      (''github.com/eapolinario/simple-api-server/pkg/apis/tasks/v1alpha1.TaskStatus'',
  schema_pkg_apis_tasks_v1alpha1_TaskStatus L ref),
      (ol_ModelName L ''resource.Quantity'', schema_apimachinery_pkg_api_resource_Quantity L ref),
      (ol_ModelName L ''v1.APIGroup'', schema_pkg_apis_meta_v1_APIGroup L ref),
      (ol_ModelName L ''v1.APIGroupList'', schema_pkg_apis_meta_v1_APIGroupList L ref),
      (ol_ModelName L ''v1.APIResource'', schema_pkg_apis_meta_v1_APIResource L ref),
      (ol_ModelName L ''v1.APIResourceList'', schema_pkg_apis_meta_v1_APIResourceList L ref),
      (ol_ModelName L ''v1.APIVersions'', schema_pkg_apis_meta_v1_APIVersions L ref),
      (ol_ModelName L ''v1.ApplyOptions'', schema_pkg_apis_meta_v1_ApplyOptions L ref),
      (ol_ModelName L ''v1.Condition'', schema_pkg_apis_meta_v1_Condition L ref),
      (ol_ModelName L ''v1.CreateOptions'', schema_pkg_apis_meta_v1_CreateOptions L ref),
      (ol_ModelName L ''v1.DeleteOptions'', schema_pkg_apis_meta_v1_DeleteOptions L ref),
      (ol_ModelName L ''v1.Duration'', schema_pkg_apis_meta_v1_Duration L ref),
      (ol_ModelName L ''v1.FieldSelectorRequirement'', schema_pkg_apis_meta_v1_FieldSelectorRequirement
  L ref),
      (ol_ModelName L ''v1.FieldsV1'', schema_pkg_apis_meta_v1_FieldsV1 L ref),
      (ol_ModelName L ''v1.GetOptions'', schema_pkg_apis_meta_v1_GetOptions L ref),
      (ol_ModelName L ''v1.GroupKind'', schema_pkg_apis_meta_v1_GroupKind L ref),
      (ol_ModelName L ''v1.GroupResource'', schema_pkg_apis_meta_v1_GroupResource L ref),
      (ol_ModelName L ''v1.GroupVersion'', schema_pkg_apis_meta_v1_GroupVersion L ref),
      (ol_ModelName L ''v1.GroupVersionForDiscovery'', schema_pkg_apis_meta_v1_GroupVersionForDiscovery
  L ref),
      (ol_ModelName L ''v1.GroupVersionKind'', schema_pkg_apis_meta_v1_GroupVersionKind L ref),
      (ol_ModelName L ''v1.GroupVersionResource'', schema_pkg_apis_meta_v1_GroupVersionResource L ref),
      (ol_ModelName L ''v1.InternalEvent'', schema_pkg_apis_meta_v1_InternalEvent L ref),
      (ol_ModelName L ''v1.LabelSelector'', schema_pkg_apis_meta_v1_LabelSelector L ref),
      (ol_ModelName L ''v1.LabelSelectorRequirement'', schema_pkg_apis_meta_v1_LabelSelectorRequirement
  L ref),
      (ol_ModelName L ''v1.List'', schema_pkg_apis_meta_v1_List L ref),
      (ol_ModelName L ''v1.ListMeta'', schema_pkg_apis_meta_v1_ListMeta L ref),
      (ol_ModelName L ''v1.ListOptions'', schema_pkg_apis_meta_v1_ListOptions L ref),
      (ol_ModelName L ''v1.ManagedFieldsEntry'', schema_pkg_apis_meta_v1_ManagedFieldsEntry L ref),
      (ol_ModelName L ''v1.MicroTime'', schema_pkg_apis_meta_v1_MicroTime L ref),
      (ol_ModelName L ''v1.ObjectMeta'', schema_pkg_apis_meta_v1_ObjectMeta L ref),
      (ol_ModelName L ''v1.OwnerReference'', schema_pkg_apis_meta_v1_OwnerReference L ref),
      (ol_ModelName L ''v1.PartialObjectMetadata'', schema_pkg_apis_meta_v1_PartialObjectMetadata L ref),
      (ol_ModelName L ''v1.PartialObjectMetadataList'',
  schema_pkg_apis_meta_v1_PartialObjectMetadataList L ref),
      (ol_ModelName L ''v1.Patch'', schema_pkg_apis_meta_v1_Patch L ref),
      (ol_ModelName L ''v1.PatchOptions'', schema_pkg_apis_meta_v1_PatchOptions L ref),
      (ol_ModelName L ''v1.Preconditions'', schema_pkg_apis_meta_v1_Preconditions L ref),
      (ol_ModelName L ''v1.RootPaths'', schema_pkg_apis_meta_v1_RootPaths L ref),
      (ol_ModelName L ''v1.ServerAddressByClientCIDR'',
  schema_pkg_apis_meta_v1_ServerAddressByClientCIDR L ref),
      (ol_ModelName L ''v1.ShardInfo'', schema_pkg_apis_meta_v1_ShardInfo L ref),
      (ol_ModelName L ''v1.Status'', schema_pkg_apis_meta_v1_Status L ref),
      (ol_ModelName L ''v1.StatusCause'', schema_pkg_apis_meta_v1_StatusCause L ref),
      (ol_ModelName L ''v1.StatusDetails'', schema_pkg_apis_meta_v1_StatusDetails L ref),
      (ol_ModelName L ''v1.Table'', schema_pkg_apis_meta_v1_Table L ref),
      (ol_ModelName L ''v1.TableColumnDefinition'', schema_pkg_apis_meta_v1_TableColumnDefinition L ref),
      (ol_ModelName L ''v1.TableOptions'', schema_pkg_apis_meta_v1_TableOptions L ref),
      (ol_ModelName L ''v1.TableRow'', schema_pkg_apis_meta_v1_TableRow L ref),
      (ol_ModelName L ''v1.TableRowCondition'', schema_pkg_apis_meta_v1_TableRowCondition L ref),
      (ol_ModelName L ''v1.Time'', schema_pkg_apis_meta_v1_Time L ref),
      (ol_ModelName L ''v1.Timestamp'', schema_pkg_apis_meta_v1_Timestamp L ref),
      (ol_ModelName L ''v1.TypeMeta'', schema_pkg_apis_meta_v1_TypeMeta L ref),
      (ol_ModelName L ''v1.UpdateOptions'', schema_pkg_apis_meta_v1_UpdateOptions L ref),
      (ol_ModelName L ''v1.WatchEvent'', schema_pkg_apis_meta_v1_WatchEvent L ref),
      (ol_ModelName L ''runtime.RawExtension'', schema_k8sio_apimachinery_pkg_runtime_RawExtension L
  ref),
      (ol_ModelName L ''runtime.TypeMeta'', schema_k8sio_apimachinery_pkg_runtime_TypeMeta L ref),
      (ol_ModelName L ''runtime.Unknown'', schema_k8sio_apimachinery_pkg_runtime_Unknown L ref),
      (ol_ModelName L ''version.Info'', schema_k8sio_apimachinery_pkg_version_Info L ref)]"

lemmas schema_defs =
  schema_pkg_apis_tasks_v1alpha1_Task_def
  schema_pkg_apis_tasks_v1alpha1_TaskList_def
  schema_pkg_apis_tasks_v1alpha1_TaskSpec_def
  schema_pkg_apis_tasks_v1alpha1_TaskStatus_def
  schema_apimachinery_pkg_api_resource_Quantity_def
  schema_apimachinery_pkg_api_resource_int64Amount_def
  schema_pkg_apis_meta_v1_APIGroup_def
  schema_pkg_apis_meta_v1_APIGroupList_def
  schema_pkg_apis_meta_v1_APIResource_def
  schema_pkg_apis_meta_v1_APIResourceList_def
  schema_pkg_apis_meta_v1_APIVersions_def
  schema_pkg_apis_meta_v1_ApplyOptions_def
  schema_pkg_apis_meta_v1_Condition_def
  schema_pkg_apis_meta_v1_CreateOptions_def
  schema_pkg_apis_meta_v1_DeleteOptions_def
  schema_pkg_apis_meta_v1_Duration_def
  schema_pkg_apis_meta_v1_FieldSelectorRequirement_def
  schema_pkg_apis_meta_v1_FieldsV1_def
  schema_pkg_apis_meta_v1_GetOptions_def
  schema_pkg_apis_meta_v1_GroupKind_def
  schema_pkg_apis_meta_v1_GroupResource_def
  schema_pkg_apis_meta_v1_GroupVersion_def
  schema_pkg_apis_meta_v1_GroupVersionForDiscovery_def
  schema_pkg_apis_meta_v1_GroupVersionKind_def
  schema_pkg_apis_meta_v1_GroupVersionResource_def
  schema_pkg_apis_meta_v1_InternalEvent_def
  schema_pkg_apis_meta_v1_LabelSelector_def
  schema_pkg_apis_meta_v1_LabelSelectorRequirement_def
  schema_pkg_apis_meta_v1_List_def
  schema_pkg_apis_meta_v1_ListMeta_def
  schema_pkg_apis_meta_v1_ListOptions_def
  schema_pkg_apis_meta_v1_ManagedFieldsEntry_def
  schema_pkg_apis_meta_v1_MicroTime_def
  schema_pkg_apis_meta_v1_ObjectMeta_def
  schema_pkg_apis_meta_v1_OwnerReference_def
  schema_pkg_apis_meta_v1_PartialObjectMetadata_def
  schema_pkg_apis_meta_v1_PartialObjectMetadataList_def
  schema_pkg_apis_meta_v1_Patch_def
  schema_pkg_apis_meta_v1_PatchOptions_def
  schema_pkg_apis_meta_v1_Preconditions_def
  schema_pkg_apis_meta_v1_RootPaths_def
  schema_pkg_apis_meta_v1_ServerAddressByClientCIDR_def
  schema_pkg_apis_meta_v1_ShardInfo_def
  schema_pkg_apis_meta_v1_Status_def
  schema_pkg_apis_meta_v1_StatusCause_def
  schema_pkg_apis_meta_v1_StatusDetails_def
  schema_pkg_apis_meta_v1_Table_def
  schema_pkg_apis_meta_v1_TableColumnDefinition_def
  schema_pkg_apis_meta_v1_TableOptions_def
  schema_pkg_apis_meta_v1_TableRow_def
  schema_pkg_apis_meta_v1_TableRowCondition_def
  schema_pkg_apis_meta_v1_Time_def
  schema_pkg_apis_meta_v1_Timestamp_def
  schema_pkg_apis_meta_v1_TypeMeta_def
  schema_pkg_apis_meta_v1_UpdateOptions_def
  schema_pkg_apis_meta_v1_WatchEvent_def
  schema_k8sio_apimachinery_pkg_runtime_RawExtension_def
  schema_k8sio_apimachinery_pkg_runtime_TypeMeta_def
  schema_k8sio_apimachinery_pkg_runtime_Unknown_def
  schema_k8sio_apimachinery_pkg_version_Info_def

end
