(* ===== verification/TaskJson.thy ===== *)
theory TaskJson
  imports OpenApiDefinitions Strategy
begin

section \<open>The JSON form of the API types\<close>

text \<open>
  What \<open>encoding/json\<close> makes of the structs of \<open>types.go\<close>, following their field tags: a field
  with \<open>omitempty\<close> is left out if it is zero or has no elements, a struct is never left out, an
  embedded \<open>TypeMeta\<close> adds its fields to those of the object, and a nil slice without
  \<open>omitempty\<close> is null. How the library types encode themselves is a parameter.
\<close>

record json_lib =
  jl_TypeMeta :: "TypeMeta \<Rightarrow> (string \<times> json) list"
  jl_ObjectMeta :: "ObjectMeta \<Rightarrow> json"
  jl_ListMeta :: "ListMeta \<Rightarrow> json"
  jl_Condition :: "Condition \<Rightarrow> json"

definition omitempty_slice :: "string \<Rightarrow> ('a \<Rightarrow> json) \<Rightarrow> 'a slice \<Rightarrow> (string \<times> json) list" where
  "omitempty_slice name enc sl =
     (case sl of None \<Rightarrow> [] | Some xs \<Rightarrow> if xs = [] then [] else [(name, JArr (map enc xs))])"

definition json_TaskSpec :: "TaskSpec \<Rightarrow> json" where
  "json_TaskSpec s =
     JObj ((''image'', JStr (ts_Image s))
       # omitempty_slice ''command'' JStr (ts_Command s)
       @ omitempty_slice ''args'' JStr (ts_Args s))"

definition json_TaskStatus :: "json_lib \<Rightarrow> TaskStatus \<Rightarrow> json" where
  "json_TaskStatus J s =
     JObj ((if st_Phase s = [] then [] else [(''phase'', JStr (st_Phase s))])
       @ omitempty_slice ''conditions'' (jl_Condition J) (st_Conditions s)
       @ (if st_ObservedGeneration s = 0 then []
          else [(''observedGeneration'', JInt (sint (st_ObservedGeneration s)))]))"

definition json_Task :: "json_lib \<Rightarrow> Task \<Rightarrow> json" where
  "json_Task J t =
     JObj (jl_TypeMeta J (t_TypeMeta t)
       @ [(''metadata'', jl_ObjectMeta J (t_ObjectMeta t)),
          (''spec'', json_TaskSpec (t_Spec t)), (''status'', json_TaskStatus J (t_Status t))])"

definition json_TaskList :: "json_lib \<Rightarrow> TaskList \<Rightarrow> json" where
  "json_TaskList J l =
     JObj (jl_TypeMeta J (tl_TypeMeta l)
       @ [(''metadata'', jl_ListMeta J (tl_ListMeta l)),
          (''items'', case tl_Items l of None \<Rightarrow> JNull | Some ts \<Rightarrow> JArr (map (json_Task J) ts))])"

subsection \<open>Decoding\<close>

text \<open>
  The decoder of the API machinery, \<open>sigs.k8s.io/json\<close>, writes into a value that is there: the
  fields of an object are read in turn, under their exact names, each into the part of the
  value its tag names. Fields without a tag are skipped, fields that are absent keep what
  they hold, and so does any field with null, except that a slice becomes nil. The elements
  of an array are read into zero values. A value of another JSON type is an error, and the
  whole object is refused. How the library types decode is a parameter here too: the fields
  of the embedded \<open>TypeMeta\<close> come one by one, as they are fields of the outer object.
\<close>

type_synonym 'a decoder = "json \<Rightarrow> 'a \<Rightarrow> 'a option"

record json_dec =
  jd_TypeMeta :: "string \<Rightarrow> TypeMeta decoder"
  jd_ObjectMeta :: "ObjectMeta decoder"
  jd_ListMeta :: "ListMeta decoder"
  jd_Condition :: "Condition decoder"

fun decode_string :: "string decoder" where
  "decode_string JNull x = Some x"
| "decode_string (JStr s) x = Some s"
| "decode_string _ x = None"

fun decode_int64 :: "i64 decoder" where
  "decode_int64 JNull x = Some x"
| "decode_int64 (JInt i) x = (if - (2 ^ 63) \<le> i \<and> i < 2 ^ 63 then Some (word_of_int i) else None)"
| "decode_int64 _ x = None"

fun decode_all :: "'a \<Rightarrow> 'a decoder \<Rightarrow> json list \<Rightarrow> 'a list option" where
  "decode_all zero dec [] = Some []"
| "decode_all zero dec (j # js) =
     (case (dec j zero, decode_all zero dec js) of (Some x, Some xs) \<Rightarrow> Some (x # xs) | _ \<Rightarrow> None)"

fun decode_slice :: "'a \<Rightarrow> 'a decoder \<Rightarrow> 'a slice decoder" where
  "decode_slice zero dec JNull sl = Some None"
| "decode_slice zero dec (JArr js) sl = map_option Some (decode_all zero dec js)"
| "decode_slice zero dec _ sl = None"

fun decode_fields :: "(string \<Rightarrow> 'a decoder) \<Rightarrow> (string \<times> json) list \<Rightarrow> 'a \<Rightarrow> 'a option" where
  "decode_fields field [] x = Some x"
| "decode_fields field ((k, j) # fs) x =
     (case field k j x of None \<Rightarrow> None | Some y \<Rightarrow> decode_fields field fs y)"

fun decode_struct :: "(string \<Rightarrow> 'a decoder) \<Rightarrow> 'a decoder" where
  "decode_struct field JNull x = Some x"
| "decode_struct field (JObj fs) x = decode_fields field fs x"
| "decode_struct field _ x = None"

text \<open>The structs of \<open>types.go\<close>, field by field.\<close>

definition decode_TaskSpec :: "TaskSpec decoder" where
  "decode_TaskSpec = decode_struct (\<lambda>k j s.
     if k = ''image'' then map_option (\<lambda>x. s\<lparr>ts_Image := x\<rparr>) (decode_string j (ts_Image s))
     else if k = ''command'' then map_option (\<lambda>x. s\<lparr>ts_Command := x\<rparr>) (decode_slice [] decode_string j (ts_Command s))
     else if k = ''args'' then map_option (\<lambda>x. s\<lparr>ts_Args := x\<rparr>) (decode_slice [] decode_string j (ts_Args s))
     else Some s)"

definition zero_Condition :: Condition where
  "zero_Condition =
     \<lparr>c_Type = [], c_Status = [], c_ObservedGeneration = 0, c_LastTransitionTime = 0, c_Reason = [], c_Message = []\<rparr>"

definition decode_TaskStatus :: "json_dec \<Rightarrow> TaskStatus decoder" where
  "decode_TaskStatus D = decode_struct (\<lambda>k j s.
     if k = ''phase'' then map_option (\<lambda>x. s\<lparr>st_Phase := x\<rparr>) (decode_string j (st_Phase s))
     else if k = ''conditions''
     then map_option (\<lambda>x. s\<lparr>st_Conditions := x\<rparr>) (decode_slice zero_Condition (jd_Condition D) j (st_Conditions s))
     else if k = ''observedGeneration''
     then map_option (\<lambda>x. s\<lparr>st_ObservedGeneration := x\<rparr>) (decode_int64 j (st_ObservedGeneration s))
     else Some s)"

definition Task_field :: "json_dec \<Rightarrow> string \<Rightarrow> Task decoder" where
  "Task_field D k j t =
    (if k = ''metadata'' then map_option (\<lambda>x. t\<lparr>t_ObjectMeta := x\<rparr>) (jd_ObjectMeta D j (t_ObjectMeta t))
     else if k = ''spec'' then map_option (\<lambda>x. t\<lparr>t_Spec := x\<rparr>) (decode_TaskSpec j (t_Spec t))
     else if k = ''status'' then map_option (\<lambda>x. t\<lparr>t_Status := x\<rparr>) (decode_TaskStatus D j (t_Status t))
     else map_option (\<lambda>x. t\<lparr>t_TypeMeta := x\<rparr>) (jd_TypeMeta D k j (t_TypeMeta t)))"

definition decode_Task :: "json_dec \<Rightarrow> Task decoder" where
  "decode_Task D = decode_struct (Task_field D)"

definition TaskList_field :: "json_dec \<Rightarrow> string \<Rightarrow> TaskList decoder" where
  "TaskList_field D k j l =
    (if k = ''metadata'' then map_option (\<lambda>x. l\<lparr>tl_ListMeta := x\<rparr>) (jd_ListMeta D j (tl_ListMeta l))
     else if k = ''items'' then map_option (\<lambda>x. l\<lparr>tl_Items := x\<rparr>) (decode_slice zero_Task (decode_Task D) j (tl_Items l))
     else map_option (\<lambda>x. l\<lparr>tl_TypeMeta := x\<rparr>) (jd_TypeMeta D k j (tl_TypeMeta l)))"

definition decode_TaskList :: "json_dec \<Rightarrow> TaskList decoder" where
  "decode_TaskList D = decode_struct (TaskList_field D)"

subsection \<open>From a value to its JSON form and back\<close>

lemma decode_fields_append:
  "decode_fields field (fs @ gs) x
     = (case decode_fields field fs x of None \<Rightarrow> None | Some y \<Rightarrow> decode_fields field gs y)"
  by (induction fs arbitrary: x) (auto split: option.split)

text \<open>What each element makes of its own form, a list makes of its.\<close>

lemma decode_all_map:
  assumes "\<And>x. x \<in> set xs \<Longrightarrow> \<exists>y. dec (enc x) zero = Some y \<and> R x y"
  shows "\<exists>ys. decode_all zero dec (map enc xs) = Some ys \<and> list_all2 R xs ys"
  using assms
proof (induction xs)
  case (Cons x xs)
  from Cons.prems [of x] obtain y where "dec (enc x) zero = Some y" "R x y" by auto
  moreover from Cons obtain ys where "decode_all zero dec (map enc xs) = Some ys" "list_all2 R xs ys" by auto
  ultimately show ?case by auto
qed simp

lemma decode_strings [simp]: "decode_all [] decode_string (map JStr xs) = Some xs"
  by (induction xs) simp_all

lemma decode_int64_sint [simp]: "decode_int64 (JInt (sint w)) x = Some w"
  using sint_range_size [of w] by (simp add: word_size)

text \<open>A slice that comes back from its JSON form: an empty one has become nil.\<close>

definition nil_if_empty :: "'a slice \<Rightarrow> 'a slice" where
  "nil_if_empty sl = (if sl = Some [] then None else sl)"

lemma elems_nil_if_empty [simp]: "elems (nil_if_empty sl) = elems sl"
  by (cases sl) (auto simp: nil_if_empty_def)

text \<open>Fetching a task and sending it back is no change of intent: a spec decodes from its own
  JSON form to itself up to empty slices becoming nil, which \<open>specEqual\<close> does not distinguish.\<close>

lemma decode_encode_TaskSpec:
  "decode_TaskSpec (json_TaskSpec s) zero_TaskSpec
     = Some (s\<lparr>ts_Command := nil_if_empty (ts_Command s), ts_Args := nil_if_empty (ts_Args s)\<rparr>)"
  by (cases "ts_Command s"; cases "ts_Args s")
    (auto simp: json_TaskSpec_def decode_TaskSpec_def omitempty_slice_def nil_if_empty_def zero_TaskSpec_def)

lemma spec_json_roundtrip:
  "\<exists>s'. decode_TaskSpec (json_TaskSpec (t_Spec old)) zero_TaskSpec = Some s'
     \<and> specEqual s' (t_Spec old)
     \<and> (s' = t_Spec old \<longleftrightarrow> ts_Command (t_Spec old) \<noteq> Some [] \<and> ts_Args (t_Spec old) \<noteq> Some [])
     \<and> PrepareForUpdate ctx (TaskObj (new\<lparr>t_Spec := s'\<rparr>)) (TaskObj old)
       = Ok (TaskObj (set_generation (generation old) (new\<lparr>t_Spec := s', t_Status := t_Status old\<rparr>)))"
proof -
  let ?s = "(t_Spec old)\<lparr>ts_Command := nil_if_empty (ts_Command (t_Spec old)), ts_Args := nil_if_empty (ts_Args (t_Spec old))\<rparr>"
  have eq: "specEqual ?s (t_Spec old)" by (simp add: specEqual_iff)
  moreover have "?s = t_Spec old \<longleftrightarrow> ts_Command (t_Spec old) \<noteq> Some [] \<and> ts_Args (t_Spec old) \<noteq> Some []"
    by (cases "t_Spec old") (auto simp: nil_if_empty_def)
  moreover have "PrepareForUpdate ctx (TaskObj (new\<lparr>t_Spec := ?s\<rparr>)) (TaskObj old)
      = Ok (TaskObj (set_generation (generation old) (new\<lparr>t_Spec := ?s, t_Status := t_Status old\<rparr>)))"
    using eq by (simp add: PrepareForUpdate_def Let_def)
  ultimately show ?thesis using decode_encode_TaskSpec by blast
qed

end
