(* ===== verification/OpenApiProperties.thy ===== *)
theory OpenApiProperties
  imports TaskJson Handlers
begin

section \<open>The OpenAPI document is closed and describes what is served\<close>

subsection \<open>The library\<close>

definition task_models :: "string list" where
  "task_models = map (\<lambda>n. ''github.com/eapolinario/simple-api-server/pkg/apis/tasks/v1alpha1.'' @ n)
     [''Task'', ''TaskList'', ''TaskSpec'', ''TaskStatus'']"

text \<open>Library types have model names of their own. Go types that marshal themselves, all as strings.\<close>

definition oa_lib_ok :: "'r oa_lib \<Rightarrow> bool" where
  "oa_lib_ok L \<longleftrightarrow>
     (\<forall>x \<in> {''v1.Time'', ''v1.MicroTime'', ''v1.Duration'', ''resource.Quantity''}. ol_SchemaType L x = [''string''])
     \<and> (\<forall>ts. ol_OneOfSchema L ts = map (\<lambda>t. of_type [t] []) ts)
     \<and> ''array'' \<notin> set (ol_OneOfTypes L ''resource.Quantity'')
     \<and> inj (ol_ModelName L) \<and> range (ol_ModelName L) \<inter> set task_models = {}
     \<and> (\<forall>d v2. \<exists>e. ol_EmbedV2 L d v2 = OpenAPIDefinition (set_Extensions e (od_Schema d)) (od_Dependencies d))"

definition definition_ok :: "string list \<Rightarrow> string OpenAPIDefinition \<Rightarrow> bool" where
  "definition_ok names d \<longleftrightarrow>
     schema_wf (od_Schema d) \<and> set (schema_refs (od_Schema d)) = set (od_Dependencies d)
     \<and> set (od_Dependencies d) \<subseteq> set names"

lemmas document_defs = schema_defs GetOpenAPIDefinitions_def schema_literals

text \<open>The definition of Quantity is made of library parts.\<close>

lemma quantity_ok:
  assumes "oa_lib_ok L"
  shows "definition_ok names (schema_apimachinery_pkg_api_resource_Quantity L (\<lambda>n. n))"
proof -
  have t: "ol_SchemaType L ''resource.Quantity'' = [''string'']" and o: "ol_OneOfSchema L = map (\<lambda>t. of_type [t] [])"
    and a: "''array'' \<notin> set (ol_OneOfTypes L ''resource.Quantity'')"
    using assms by (auto simp: oa_lib_ok_def)
  have "list_all schema_wf (map (\<lambda>t. of_type [t] []) (ol_OneOfTypes L ''resource.Quantity''))"
    using a by (auto simp: list_all_iff of_type_def)
  moreover have "concat (map (schema_refs \<circ> (\<lambda>t. of_type [t] [])) (ol_OneOfTypes L ''resource.Quantity'')) = []"
    by (simp add: of_type_def)
  moreover obtain e where "schema_apimachinery_pkg_api_resource_Quantity L (\<lambda>n. n)
      = OpenAPIDefinition (set_Extensions e (set_Description (text_apimachinery_pkg_api_resource_Quantity [])
          (set_OneOf (map (\<lambda>t. of_type [t] []) (ol_OneOfTypes L ''resource.Quantity''))
            (of_type [] (ol_SchemaFormat L ''resource.Quantity''))))) []"
    using assms unfolding schema_apimachinery_pkg_api_resource_Quantity_def oa_lib_ok_def o
    by (metis OpenAPIDefinition.sel)
  ultimately show ?thesis by (simp add: definition_ok_def of_type_def)
qed

lemma definitions_ok:
  assumes L: "oa_lib_ok L"
  shows "list_all (definition_ok (map fst (GetOpenAPIDefinitions L (\<lambda>n. n))))
    (map snd (GetOpenAPIDefinitions L (\<lambda>n. n)))"
proof -
  have t: "ol_SchemaType L ''v1.Time'' = [''string'']" "ol_SchemaType L ''v1.MicroTime'' = [''string'']"
    "ol_SchemaType L ''v1.Duration'' = [''string'']" using L by (simp_all add: oa_lib_ok_def)
  note q = quantity_ok [OF L]
  show ?thesis
    unfolding GetOpenAPIDefinitions_def list.map list.pred_inject
    apply (intro conjI)
    apply (simp_all only: snd_conv fst_conv q TrueI)
    apply (simp_all add: schema_defs schema_literals definition_ok_def t insert_commute)
    done
qed

lemma model_names:
  assumes "oa_lib_ok L"
  shows "ol_ModelName L a = ol_ModelName L b \<longleftrightarrow> a = b"
    and "n \<in> set task_models \<Longrightarrow> ol_ModelName L a \<noteq> n" "n \<in> set task_models \<Longrightarrow> n \<noteq> ol_ModelName L a"
  using assms unfolding oa_lib_ok_def by (auto simp: inj_eq)

lemma names_distinct:
  assumes "oa_lib_ok L"
  shows "distinct (map fst (GetOpenAPIDefinitions L ref))"
proof -
  define ts where "ts = map (inv (ol_ModelName L)) (drop 4 (map fst (GetOpenAPIDefinitions L ref)))"
  have inj: "inj (ol_ModelName L)" and dis: "range (ol_ModelName L) \<inter> set task_models = {}"
    using assms by (simp_all add: oa_lib_ok_def)
  have "map fst (GetOpenAPIDefinitions L ref) = task_models @ map (ol_ModelName L) ts"
    using inj by (simp add: ts_def GetOpenAPIDefinitions_def task_models_def inv_f_f)
  moreover have "distinct ts" using inj by (simp add: ts_def GetOpenAPIDefinitions_def inv_f_f)
  then have "distinct (map (ol_ModelName L) ts)" using inj_on_subset [OF inj] by (simp add: distinct_map)
  moreover have "distinct task_models" by (simp add: task_models_def)
  ultimately show ?thesis using dis by auto
qed

text \<open>C34. The document is closed and well formed: each of its models has a name of its own; every
  reference, at any depth, in the schema of a model is the name of a model of the document and
  is declared as a dependency, and nothing else is; what a schema requires is one of its
  properties, arrays describe their elements, and defaults have the type of their schema.\<close>

theorem openapi_document_closed:
  assumes "oa_lib_ok L"
  shows "distinct (map fst (GetOpenAPIDefinitions L (\<lambda>n. n)))
    \<and> (\<forall>(name, d) \<in> set (GetOpenAPIDefinitions L (\<lambda>n. n)).
         schema_wf (od_Schema d)
         \<and> set (schema_refs (od_Schema d)) = set (od_Dependencies d)
         \<and> set (od_Dependencies d) \<subseteq> set (map fst (GetOpenAPIDefinitions L (\<lambda>n. n))))"
proof (intro conjI ballI)
  show "distinct (map fst (GetOpenAPIDefinitions L (\<lambda>n. n)))" by (rule names_distinct [OF assms])
  fix x
  assume "x \<in> set (GetOpenAPIDefinitions L (\<lambda>n. n))"
  then have "definition_ok (map fst (GetOpenAPIDefinitions L (\<lambda>n. n))) (snd x)"
    using definitions_ok [OF assms] by (simp add: list_all_iff)
  then show "case x of (name, d) \<Rightarrow> schema_wf (od_Schema d) \<and> set (schema_refs (od_Schema d)) = set (od_Dependencies d)
      \<and> set (od_Dependencies d) \<subseteq> set (map fst (GetOpenAPIDefinitions L (\<lambda>n. n)))"
    unfolding definition_ok_def by (cases x) simp
qed

definition sample_oa_lib :: "'r oa_lib" where
  "sample_oa_lib =
     \<lparr>ol_ModelName = (\<lambda>t. ''io.k8s.'' @ t), ol_SchemaType = (\<lambda>t. [''string'']), ol_SchemaFormat = (\<lambda>t. []),
      ol_OneOfTypes = (\<lambda>t. [''string'', ''number'']), ol_OneOfSchema = map (\<lambda>t. of_type [t] []),
      ol_EmbedV2 = (\<lambda>d v2. OpenAPIDefinition (set_Extensions [] (od_Schema d)) (od_Dependencies d))\<rparr>"

lemma sample_oa_lib_ok: "oa_lib_ok sample_oa_lib"
  by (auto simp: oa_lib_ok_def sample_oa_lib_def task_models_def inj_def)

theorem openapi_document_closed_witness:
  "schema_refs (od_Schema (schema_pkg_apis_tasks_v1alpha1_TaskStatus sample_oa_lib (\<lambda>n. n)))
     = [''io.k8s.v1.Condition'']
   \<and> distinct (map fst (GetOpenAPIDefinitions sample_oa_lib (\<lambda>n. n)))"
  using openapi_document_closed [OF sample_oa_lib_ok]
  by (simp add: schema_pkg_apis_tasks_v1alpha1_TaskStatus_def schema_literals sample_oa_lib_def)

subsection \<open>Served objects conform\<close>

lemma conforms_ref:
  "map_of D r = Some d \<Longrightarrow> conforms (Suc n) D (set_Ref r zero_schema) j = conforms n D (od_Schema d) j"
  by (cases j) (auto simp: zero_schema_def list_all_iff)

lemma conforms_Default [simp]: "conforms n D (set_Default d s) = conforms n D s"
  by (cases n; cases s) (simp_all add: fun_eq_iff split: json.split)

lemma conforms_Description [simp]: "conforms n D (set_Description ds s) = conforms n D s"
  by (cases n; cases s) (simp_all add: fun_eq_iff split: json.split)

lemma conforms_Extensions [simp]: "conforms n D (set_Extensions e s) = conforms n D s"
  by (cases n; cases s) (simp_all add: fun_eq_iff split: json.split)

text \<open>Objects and arrays, field by field.\<close>

definition field_conforms where
  "field_conforms n D props = (\<lambda>(k, v). case map_of props k of None \<Rightarrow> True | Some p \<Rightarrow> conforms n D p v)"

lemma object_conforms:
  "conforms (Suc n) D (set_Properties props (of_type [''object''] [])) (JObj fs)
     \<longleftrightarrow> list_all (field_conforms n D props) fs"
  "conforms (Suc n) D (set_Required req (set_Properties props (of_type [''object''] []))) (JObj fs)
     \<longleftrightarrow> list_all (\<lambda>x. x \<in> set (map fst fs)) req \<and> list_all (field_conforms n D props) fs"
  by (simp_all add: of_type_def field_conforms_def cong: option.case_cong)

lemma array_conforms:
  "conforms (Suc n) D (set_Items it (of_type [''array''] [])) (JArr js) \<longleftrightarrow> list_all (conforms n D it) js"
  "\<not> conforms (Suc n) D (set_Items it (of_type [''array''] [])) JNull"
  by (simp_all add: of_type_def)

text \<open>
  What the library is relied on for: a \<open>ListMeta\<close> conforms to its model, and \<open>TypeMeta\<close> has
  no fields but its two strings. Nothing is assumed of \<open>ObjectMeta\<close> and \<open>Condition\<close>, whose
  values need not conform: a time that is not set is sent as null where the schema wants a
  string.
\<close>

definition json_lib_ok :: "json_lib \<Rightarrow> string oa_lib \<Rightarrow> nat \<Rightarrow> bool" where
  "json_lib_ok J L n0 \<longleftrightarrow>
     (\<forall>n \<ge> n0. \<forall>m. conforms n (GetOpenAPIDefinitions L (\<lambda>n. n)) (set_Ref (ol_ModelName L ''v1.ListMeta'') zero_schema)
        (jl_ListMeta J m))
     \<and> (\<forall>tm. \<forall>(k, v) \<in> set (jl_TypeMeta J tm). k \<in> {''kind'', ''apiVersion''} \<and> (\<exists>s. v = JStr s))"

lemma spec_conforms:
  "conforms (Suc (Suc (Suc n))) D (od_Schema (schema_pkg_apis_tasks_v1alpha1_TaskSpec L ref)) (json_TaskSpec s)"
  by (auto simp: schema_pkg_apis_tasks_v1alpha1_TaskSpec_def json_TaskSpec_def omitempty_slice_def of_type_def
      list_all_iff split: option.split)

lemma status_conforms:
  "conforms (Suc (Suc (Suc n))) D (od_Schema (schema_pkg_apis_tasks_v1alpha1_TaskStatus L ref)) (json_TaskStatus J s)
    \<longleftrightarrow> (\<forall>c \<in> set (elems (st_Conditions s)).
          conforms (Suc n) D (set_Ref (ref (ol_ModelName L ''v1.Condition'')) zero_schema) (jl_Condition J c))"
proof -
  have "- (2 ^ 63) \<le> sint (st_ObservedGeneration s)" "sint (st_ObservedGeneration s) < 2 ^ 63"
    using sint_range_size [of "st_ObservedGeneration s"] by (simp_all add: word_size)
  then show ?thesis
    by (cases "st_Conditions s"; cases "elems (st_Conditions s) = []")
      (simp_all add: schema_pkg_apis_tasks_v1alpha1_TaskStatus_def json_TaskStatus_def omitempty_slice_def of_type_def
        list_all_iff elems_def ball_Un)
qed

text \<open>The models of the program's own types in the document.\<close>

lemma document_lookup:
  "map_of (GetOpenAPIDefinitions L ref) ''github.com/eapolinario/simple-api-server/pkg/apis/tasks/v1alpha1.Task''
     = Some (schema_pkg_apis_tasks_v1alpha1_Task L ref)"
  "map_of (GetOpenAPIDefinitions L ref) ''github.com/eapolinario/simple-api-server/pkg/apis/tasks/v1alpha1.TaskList''
     = Some (schema_pkg_apis_tasks_v1alpha1_TaskList L ref)"
  "map_of (GetOpenAPIDefinitions L ref) ''github.com/eapolinario/simple-api-server/pkg/apis/tasks/v1alpha1.TaskSpec''
     = Some (schema_pkg_apis_tasks_v1alpha1_TaskSpec L ref)"
  "map_of (GetOpenAPIDefinitions L ref) ''github.com/eapolinario/simple-api-server/pkg/apis/tasks/v1alpha1.TaskStatus''
     = Some (schema_pkg_apis_tasks_v1alpha1_TaskStatus L ref)"
  by (simp_all add: GetOpenAPIDefinitions_def)

lemma type_meta_fields:
  assumes "json_lib_ok J L n0" "(k, v) \<in> set (jl_TypeMeta J tm)"
  shows "(k = ''kind'' \<or> k = ''apiVersion'') \<and> (\<exists>s. v = JStr s)"
  using assms unfolding json_lib_ok_def by fast

text \<open>The parts of a Task that the library encodes.\<close>

definition parts_conform ::
    "nat \<Rightarrow> (string \<times> string OpenAPIDefinition) list \<Rightarrow> string oa_lib \<Rightarrow> json_lib \<Rightarrow> Task \<Rightarrow> bool" where
  "parts_conform n D L J t \<longleftrightarrow>
     conforms (n + 4) D (set_Ref (ol_ModelName L ''v1.ObjectMeta'') zero_schema) (jl_ObjectMeta J (t_ObjectMeta t))
     \<and> (\<forall>c \<in> set (elems (st_Conditions (t_Status t))).
          conforms (n + 1) D (set_Ref (ol_ModelName L ''v1.Condition'') zero_schema) (jl_Condition J c))"

lemma Task_conforms:
  assumes J: "json_lib_ok J L n0" and D: "D = GetOpenAPIDefinitions L (\<lambda>n. n)"
  shows "conforms (n + 6) D
    (set_Ref ''github.com/eapolinario/simple-api-server/pkg/apis/tasks/v1alpha1.Task'' zero_schema) (json_Task J t)
    \<longleftrightarrow> parts_conform n D L J t"
proof -
  let ?n = "Suc (Suc (Suc (Suc n)))"
  have spec: "conforms ?n D (set_Ref ''github.com/eapolinario/simple-api-server/pkg/apis/tasks/v1alpha1.TaskSpec'' zero_schema)
      (json_TaskSpec (t_Spec t))"
    unfolding D conforms_ref [OF document_lookup(3)] by (rule spec_conforms)
  have status: "conforms ?n D (set_Ref ''github.com/eapolinario/simple-api-server/pkg/apis/tasks/v1alpha1.TaskStatus'' zero_schema)
      (json_TaskStatus J (t_Status t))
    \<longleftrightarrow> (\<forall>c \<in> set (elems (st_Conditions (t_Status t))).
          conforms (Suc n) D (set_Ref (ol_ModelName L ''v1.Condition'') zero_schema) (jl_Condition J c))"
    unfolding D conforms_ref [OF document_lookup(4)] by (rule status_conforms)
  obtain props where sch: "od_Schema (schema_pkg_apis_tasks_v1alpha1_Task L (\<lambda>n. n))
      = set_Description (text_pkg_apis_tasks_v1alpha1_Task []) (set_Properties props (of_type [''object''] []))"
    and props: "map_of props ''kind'' = Some (set_Description (text_pkg_apis_tasks_v1alpha1_Task ''kind'') (of_type [''string''] []))"
      "map_of props ''apiVersion''
         = Some (set_Description (text_pkg_apis_tasks_v1alpha1_Task ''apiVersion'') (of_type [''string''] []))"
      "map_of props ''metadata'' = Some (set_Default (JObj []) (set_Ref (ol_ModelName L ''v1.ObjectMeta'') zero_schema))"
      "map_of props ''spec'' = Some (set_Description (text_pkg_apis_tasks_v1alpha1_Task ''spec'') (set_Default (JObj [])
         (set_Ref ''github.com/eapolinario/simple-api-server/pkg/apis/tasks/v1alpha1.TaskSpec'' zero_schema)))"
      "map_of props ''status'' = Some (set_Description (text_pkg_apis_tasks_v1alpha1_Task ''status'') (set_Default (JObj [])
         (set_Ref ''github.com/eapolinario/simple-api-server/pkg/apis/tasks/v1alpha1.TaskStatus'' zero_schema)))"
    by (simp add: schema_pkg_apis_tasks_v1alpha1_Task_def)
  have "list_all (field_conforms ?n D props) (jl_TypeMeta J (t_TypeMeta t))"
    using type_meta_fields [OF J] props(1,2) by (fastforce simp: list_all_iff field_conforms_def of_type_def)
  moreover have parts: "n + 4 = ?n" "n + 1 = Suc n" by simp_all
  ultimately have "conforms (Suc ?n) D (od_Schema (schema_pkg_apis_tasks_v1alpha1_Task L (\<lambda>n. n))) (json_Task J t)
      \<longleftrightarrow> parts_conform n D L J t"
    using spec status unfolding sch json_Task_def conforms_Description object_conforms parts_conform_def parts
    by (auto simp: field_conforms_def props simp del: conforms.simps)
  moreover have "n + 6 = Suc (Suc ?n)" by simp
  ultimately show ?thesis unfolding D by (simp only: conforms_ref [OF document_lookup(1)])
qed

lemma TaskList_conforms:
  assumes J: "json_lib_ok J L n0" and D: "D = GetOpenAPIDefinitions L (\<lambda>n. n)" and n: "n0 \<le> n"
  shows "conforms (n + 9) D
      (set_Ref ''github.com/eapolinario/simple-api-server/pkg/apis/tasks/v1alpha1.TaskList'' zero_schema) (json_TaskList J l)
    \<longleftrightarrow> (\<exists>ts. tl_Items l = Some ts \<and> (\<forall>t \<in> set ts. parts_conform n D L J t))"
proof -
  let ?m = "Suc (Suc (Suc (Suc (Suc (Suc n)))))"
  have six: "n + 6 = ?m" by simp
  have meta: "conforms (Suc ?m) D (set_Ref (ol_ModelName L ''v1.ListMeta'') zero_schema) (jl_ListMeta J (tl_ListMeta l))"
    using J n unfolding D json_lib_ok_def by simp
  have task: "list_all (conforms ?m D
      (set_Ref ''github.com/eapolinario/simple-api-server/pkg/apis/tasks/v1alpha1.Task'' zero_schema)) (map (json_Task J) ts)
    \<longleftrightarrow> (\<forall>t \<in> set ts. parts_conform n D L J t)" for ts
    using Task_conforms [OF J D, of n] unfolding six by (simp add: list_all_iff)
  have "conforms (Suc (Suc ?m)) D (od_Schema (schema_pkg_apis_tasks_v1alpha1_TaskList L (\<lambda>n. n))) (json_TaskList J l)
      \<longleftrightarrow> (\<exists>ts. tl_Items l = Some ts \<and> (\<forall>t \<in> set ts. parts_conform n D L J t))"
  proof -
    obtain props where sch: "od_Schema (schema_pkg_apis_tasks_v1alpha1_TaskList L (\<lambda>n. n))
        = set_Description (text_pkg_apis_tasks_v1alpha1_TaskList [])
            (set_Required [''items''] (set_Properties props (of_type [''object''] [])))"
      and props: "map_of props ''kind'' = Some (set_Description (text_pkg_apis_tasks_v1alpha1_TaskList ''kind'') (of_type [''string''] []))"
        "map_of props ''apiVersion''
           = Some (set_Description (text_pkg_apis_tasks_v1alpha1_TaskList ''apiVersion'') (of_type [''string''] []))"
        "map_of props ''metadata'' = Some (set_Default (JObj []) (set_Ref (ol_ModelName L ''v1.ListMeta'') zero_schema))"
        "map_of props ''items'' = Some (set_Items (set_Default (JObj [])
           (set_Ref ''github.com/eapolinario/simple-api-server/pkg/apis/tasks/v1alpha1.Task'' zero_schema)) (of_type [''array''] []))"
      by (simp add: schema_pkg_apis_tasks_v1alpha1_TaskList_def)
    have "list_all (field_conforms (Suc ?m) D props) (jl_TypeMeta J (tl_TypeMeta l))"
      using type_meta_fields [OF J] props(1,2)
      by (fastforce simp: list_all_iff field_conforms_def of_type_def)
    with meta show ?thesis
      unfolding sch json_TaskList_def conforms_Description object_conforms
      by (auto simp: field_conforms_def props array_conforms task simp del: conforms.simps split: option.split)
  qed
  moreover have "n + 9 = Suc (Suc (Suc ?m))" by simp
  ultimately show ?thesis unfolding D by (simp only: conforms_ref [OF document_lookup(2)])
qed

lemma served_list_items:
  assumes "fst (exec ord (REST_List K r ctx opts) s) = Ok reply"
  shows "tl_Items reply \<noteq> None"
proof -
  have "tl_Items reply \<noteq> None"
    if "fst (exec ord (on_ok (list_items sel raw [] 0) (\<lambda>(items, maxRV).
          if maxRV = 0 then CallCurrentRV (\<lambda>rv. Done (Ok (task_list items rv)))
          else Done (Ok (task_list items maxRV)))) s) = Ok reply" for sel raw
    using that by (cases "list_items sel raw [] 0") (auto simp: task_list_def split: if_splits)
  with assms show ?thesis by (auto simp: REST_List_def Let_def Store_List_def split: if_splits)
qed

text \<open>C20. What the server sends is what it says it sends, as far as the program decides it: the
  JSON form of a Task conforms to the published schema of Task exactly if its metadata and the
  conditions of its status do, which the library encodes; what the program adds to them always
  conforms. A TaskList conforms exactly if its items are not a nil slice and each of them does.
  The empty \<open>TaskList\<close> of \<open>NewList\<close> would be sent with null for items; but the handler never
  answers with nil items, so a list that it returns conforms if every task in it does, and a
  list of no tasks always conforms.\<close>

theorem served_objects_conform:
  assumes "json_lib_ok J L n0" "n0 \<le> n" "D = GetOpenAPIDefinitions L (\<lambda>n. n)"
    and "task_ref = set_Ref ''github.com/eapolinario/simple-api-server/pkg/apis/tasks/v1alpha1.Task'' zero_schema"
    and "list_ref = set_Ref ''github.com/eapolinario/simple-api-server/pkg/apis/tasks/v1alpha1.TaskList'' zero_schema"
    and "parts_ok = (\<lambda>t.
      conforms (n + 4) D (set_Ref (ol_ModelName L ''v1.ObjectMeta'') zero_schema) (jl_ObjectMeta J (t_ObjectMeta t))
      \<and> (\<forall>c \<in> set (elems (st_Conditions (t_Status t))).
           conforms (n + 1) D (set_Ref (ol_ModelName L ''v1.Condition'') zero_schema) (jl_Condition J c)))"
  shows "(conforms (n + 6) D task_ref (json_Task J t) \<longleftrightarrow> parts_ok t)
    \<and> (conforms (n + 9) D list_ref (json_TaskList J l)
         \<longleftrightarrow> (\<exists>ts. tl_Items l = Some ts \<and> (\<forall>t \<in> set ts. parts_ok t)))
    \<and> \<not> conforms (n + 9) D list_ref (json_TaskList J zero_TaskList)
    \<and> (\<forall>reply. fst (exec ord (REST_List K r ctx opts) s) = Ok reply \<longrightarrow>
         (\<exists>ts. tl_Items reply = Some ts
           \<and> (conforms (n + 9) D list_ref (json_TaskList J reply) \<longleftrightarrow> (\<forall>t \<in> set ts. parts_ok t))))"
proof -
  have ok: "parts_ok = parts_conform n D L J" by (simp add: fun_eq_iff parts_conform_def assms(6))
  note task = Task_conforms [OF assms(1,3), of n, folded assms(4) ok]
  note list = TaskList_conforms [OF assms(1,3,2), folded assms(5) ok]
  show ?thesis using served_list_items by (fastforce simp: task list zero_TaskList_def)
qed

text \<open>A sample library, in which a zero time is null, as in the real one.\<close>

definition sample_json :: json_lib where
  "sample_json =
     \<lparr>jl_TypeMeta = (\<lambda>tm. [(''kind'', JStr (tm_Kind tm)), (''apiVersion'', JStr (tm_APIVersion tm))]),
      jl_ObjectMeta = (\<lambda>m. JObj [(''name'', JStr (om_Name m)), (''generation'', JInt (sint (om_Generation m)))]),
      jl_ListMeta = (\<lambda>m. JObj [(''resourceVersion'', JStr (lm_ResourceVersion m))]),
      jl_Condition = (\<lambda>c. JObj [(''type'', JStr (c_Type c)), (''status'', JStr (c_Status c)),
         (''lastTransitionTime'', if c_LastTransitionTime c = 0 then JNull else JStr ''2026-01-01T00:00:00Z''),
         (''reason'', JStr (c_Reason c)), (''message'', JStr (c_Message c))])\<rparr>"

lemma sample_lookup:
  "map_of (GetOpenAPIDefinitions sample_oa_lib ref) ''io.k8s.v1.ObjectMeta'' = Some (schema_pkg_apis_meta_v1_ObjectMeta sample_oa_lib ref)"
  "map_of (GetOpenAPIDefinitions sample_oa_lib ref) ''io.k8s.v1.ListMeta'' = Some (schema_pkg_apis_meta_v1_ListMeta sample_oa_lib ref)"
  "map_of (GetOpenAPIDefinitions sample_oa_lib ref) ''io.k8s.v1.Condition'' = Some (schema_pkg_apis_meta_v1_Condition sample_oa_lib ref)"
  "map_of (GetOpenAPIDefinitions sample_oa_lib ref) ''io.k8s.v1.Time'' = Some (schema_pkg_apis_meta_v1_Time sample_oa_lib ref)"
  by (simp_all add: GetOpenAPIDefinitions_def sample_oa_lib_def)

lemma sample_name: "ol_ModelName sample_oa_lib t = ''io.k8s.'' @ t" "ol_SchemaType sample_oa_lib t = [''string'']"
  "ol_SchemaFormat sample_oa_lib t = []"
  by (simp_all add: sample_oa_lib_def)

lemma sample_json_ok: "json_lib_ok sample_json sample_oa_lib 6"
proof -
  let ?D = "GetOpenAPIDefinitions sample_oa_lib (\<lambda>n. n)"
  have "conforms n ?D (set_Ref ''io.k8s.v1.ListMeta'' zero_schema) (jl_ListMeta sample_json l)" if n: "6 \<le> n" for n l
  proof -
    obtain k where k: "n = Suc (Suc (Suc (Suc (Suc (Suc k)))))" using that [of "n - 6"] n by simp
    show ?thesis unfolding k conforms_ref [OF sample_lookup(2)]
      by (simp add: schema_pkg_apis_meta_v1_ListMeta_def sample_json_def of_type_def)
  qed
  then show ?thesis
    unfolding json_lib_ok_def sample_name by (auto simp: sample_json_def simp del: conforms.simps)
qed

lemma sample_meta_conforms:
  "conforms 10 (GetOpenAPIDefinitions sample_oa_lib (\<lambda>n. n)) (set_Ref ''io.k8s.v1.ObjectMeta'' zero_schema)
     (jl_ObjectMeta sample_json m)"
proof -
  have i: "- (2 ^ 63) \<le> sint g" "sint g < 2 ^ 63" for g :: i64
    using sint_range_size [of g] by (simp_all add: word_size)
  have ten: "(10 :: nat) = Suc (Suc (Suc (Suc (Suc (Suc (Suc (Suc (Suc (Suc 0)))))))))" by simp
  show ?thesis unfolding ten conforms_ref [OF sample_lookup(1)] using i
    by (simp add: schema_pkg_apis_meta_v1_ObjectMeta_def sample_json_def of_type_def)
qed

lemma sample_condition_conforms:
  "conforms 7 (GetOpenAPIDefinitions sample_oa_lib (\<lambda>n. n)) (set_Ref ''io.k8s.v1.Condition'' zero_schema)
     (jl_Condition sample_json c) \<longleftrightarrow> c_LastTransitionTime c \<noteq> 0"
proof -
  let ?D = "GetOpenAPIDefinitions sample_oa_lib (\<lambda>n. n)"
  have time: "conforms (Suc (Suc (Suc (Suc (Suc 0))))) ?D (set_Ref ''io.k8s.v1.Time'' zero_schema) j
      \<longleftrightarrow> json_type j = ''string''" for j
    unfolding conforms_ref [OF sample_lookup(4)]
    by (cases j) (simp_all add: schema_pkg_apis_meta_v1_Time_def sample_name of_type_def)
  have seven: "(7 :: nat) = Suc (Suc (Suc (Suc (Suc (Suc (Suc 0))))))" by simp
  show ?thesis unfolding seven conforms_ref [OF sample_lookup(3)]
    by (simp add: schema_pkg_apis_meta_v1_Condition_def sample_json_def of_type_def sample_name time)
qed

text \<open>A list of a task whose one condition has a time conforms, without the time it does not.\<close>

theorem served_objects_conform_witness:
  "conforms 15 (GetOpenAPIDefinitions sample_oa_lib (\<lambda>n. n))
     (set_Ref ''github.com/eapolinario/simple-api-server/pkg/apis/tasks/v1alpha1.TaskList'' zero_schema)
     (json_TaskList sample_json (zero_TaskList\<lparr>tl_Items :=
        Some [zero_Task\<lparr>t_Status := zero_TaskStatus\<lparr>st_Conditions := Some [zero_Condition\<lparr>c_LastTransitionTime := 1\<rparr>]\<rparr>\<rparr>]\<rparr>))
   \<and> \<not> conforms 15 (GetOpenAPIDefinitions sample_oa_lib (\<lambda>n. n))
     (set_Ref ''github.com/eapolinario/simple-api-server/pkg/apis/tasks/v1alpha1.TaskList'' zero_schema)
     (json_TaskList sample_json (zero_TaskList\<lparr>tl_Items :=
        Some [zero_Task\<lparr>t_Status := zero_TaskStatus\<lparr>st_Conditions := Some [zero_Condition]\<rparr>\<rparr>]\<rparr>))"
proof -
  note S = served_objects_conform [OF sample_json_ok order_refl refl refl refl refl, THEN conjunct2, THEN conjunct1]
  have n: "(15 :: nat) = 6 + 9" "(6 :: nat) + 4 = 10" "(6 :: nat) + 1 = 7" by simp_all
  show ?thesis
    unfolding n(1) S n(2,3) sample_name using sample_meta_conforms sample_condition_conforms
    by (auto simp: elems_def zero_Condition_def)
qed

end
