(* ===== verification/JsonProperties.thy ===== *)
theory JsonProperties
  imports OpenApiProperties RestProperties
begin

section \<open>Tasks on the wire\<close>

text \<open>
  A client fetches a task as JSON, decodes it, changes what it wants and sends the whole
  object back. Here the two directions of the JSON form meet the update handlers: what a
  task has become on that way, and that the handlers take it for the task that it was.
\<close>

subsection \<open>What the program relies on in the encoding of the library types\<close>

text \<open>
  \<open>TypeMeta\<close> has the fields kind and apiVersion and comes back as it was. Of the metadata,
  names, UID, version and generation come back, of a list's its version, and of a condition
  all but the transition time, which JSON has to the second only.
\<close>

definition same_ident :: "ObjectMeta \<Rightarrow> ObjectMeta \<Rightarrow> bool" where
  "same_ident m m' \<longleftrightarrow> om_Name m' = om_Name m \<and> om_Namespace m' = om_Namespace m \<and> om_UID m' = om_UID m
     \<and> om_ResourceVersion m' = om_ResourceVersion m \<and> om_Generation m' = om_Generation m"

definition same_condition :: "Condition \<Rightarrow> Condition \<Rightarrow> bool" where
  "same_condition c c' \<longleftrightarrow> c' = c\<lparr>c_LastTransitionTime := c_LastTransitionTime c'\<rparr>"

definition json_codec_ok :: "json_lib \<Rightarrow> json_dec \<Rightarrow> bool" where
  "json_codec_ok J D \<longleftrightarrow>
     (\<forall>tm. (\<forall>(k, v) \<in> set (jl_TypeMeta J tm). k \<in> {''kind'', ''apiVersion''})
        \<and> decode_fields (jd_TypeMeta D) (jl_TypeMeta J tm) zero_TypeMeta = Some tm)
     \<and> (\<forall>m. \<exists>m'. jd_ObjectMeta D (jl_ObjectMeta J m) zero_ObjectMeta = Some m' \<and> same_ident m m')
     \<and> (\<forall>m. \<exists>m'. jd_ListMeta D (jl_ListMeta J m) zero_ListMeta = Some m' \<and> lm_ResourceVersion m' = lm_ResourceVersion m)
     \<and> (\<forall>c. \<exists>c'. jd_Condition D (jl_Condition J c) zero_Condition = Some c' \<and> same_condition c c')"

lemma json_codec_okD:
  assumes "json_codec_ok J D"
  shows "(k, v) \<in> set (jl_TypeMeta J tm) \<Longrightarrow> k = ''kind'' \<or> k = ''apiVersion''"
    and "decode_fields (jd_TypeMeta D) (jl_TypeMeta J tm) zero_TypeMeta = Some tm"
    and "\<exists>m'. jd_ObjectMeta D (jl_ObjectMeta J m) zero_ObjectMeta = Some m' \<and> same_ident m m'"
    and "\<exists>l'. jd_ListMeta D (jl_ListMeta J l) zero_ListMeta = Some l' \<and> lm_ResourceVersion l' = lm_ResourceVersion l"
    and "\<exists>c'. jd_Condition D (jl_Condition J c) zero_Condition = Some c' \<and> same_condition c c'"
  using assms unfolding json_codec_ok_def by fast+

subsection \<open>A task and a list of tasks that come back\<close>

definition same_status :: "TaskStatus \<Rightarrow> TaskStatus \<Rightarrow> bool" where
  "same_status s s' \<longleftrightarrow> st_Phase s' = st_Phase s \<and> st_ObservedGeneration s' = st_ObservedGeneration s
     \<and> list_all2 same_condition (elems (st_Conditions s)) (elems (st_Conditions s'))"

definition same_task :: "Task \<Rightarrow> Task \<Rightarrow> bool" where
  "same_task t t' \<longleftrightarrow> t_TypeMeta t' = t_TypeMeta t \<and> same_ident (t_ObjectMeta t) (t_ObjectMeta t')
     \<and> specEqual (t_Spec t') (t_Spec t) \<and> same_status (t_Status t) (t_Status t')"

lemma decode_encode_TaskStatus:
  assumes "json_codec_ok J D"
  shows "\<exists>s'. decode_TaskStatus D (json_TaskStatus J s) zero_TaskStatus = Some s' \<and> same_status s s'"
proof -
  obtain cs where cs: "decode_all zero_Condition (jd_Condition D) (map (jl_Condition J) (elems (st_Conditions s))) = Some cs"
    "list_all2 same_condition (elems (st_Conditions s)) cs"
    using decode_all_map [of "elems (st_Conditions s)" "jd_Condition D" "jl_Condition J" zero_Condition same_condition]
      json_codec_okD(5) [OF assms] by blast
  show ?thesis
    using cs by (cases "st_Conditions s")
      (auto simp: decode_TaskStatus_def json_TaskStatus_def omitempty_slice_def same_status_def zero_TaskStatus_def
        simp del: decode_int64.simps)
qed

text \<open>The fields of the embedded \<open>TypeMeta\<close> go where they belong in the outer object.\<close>

lemma decode_inline:
  assumes "\<And>k v. (k, v) \<in> set fs \<Longrightarrow> k = ''kind'' \<or> k = ''apiVersion''"
    and "\<And>k j x. k = ''kind'' \<or> k = ''apiVersion'' \<Longrightarrow> field k j x = map_option (\<lambda>m. put_meta m x) (dec k j (get_meta x))"
    and "\<And>m x. get_meta (put_meta m x) = m" "\<And>m m' x. put_meta m (put_meta m' x) = put_meta m x"
    and "\<And>x. put_meta (get_meta x) x = x"
  shows "decode_fields field fs x = map_option (\<lambda>m. put_meta m x) (decode_fields dec fs (get_meta x))"
  using assms(1)
proof (induction fs arbitrary: x)
  case (Cons f fs)
  obtain k v where f: "f = (k, v)" by (cases f)
  have "k = ''kind'' \<or> k = ''apiVersion''" using Cons.prems f by auto
  then have step: "field k v x = map_option (\<lambda>m. put_meta m x) (dec k v (get_meta x))" by (rule assms(2))
  show ?case
  proof (cases "dec k v (get_meta x)")
    case (Some m)
    have "decode_fields field fs (put_meta m x)
        = map_option (\<lambda>m'. put_meta m' (put_meta m x)) (decode_fields dec fs (get_meta (put_meta m x)))"
      using Cons.prems by (intro Cons.IH) auto
    with step Some show ?thesis by (simp add: f assms(3,4))
  qed (simp add: f step)
qed (simp add: assms(5))

lemma decode_TypeMeta:
  assumes "json_codec_ok J D"
  shows "t_TypeMeta t = zero_TypeMeta \<Longrightarrow>
      decode_fields (Task_field D) (jl_TypeMeta J tm) t = Some (t\<lparr>t_TypeMeta := tm\<rparr>)"
    and "tl_TypeMeta l = zero_TypeMeta \<Longrightarrow>
      decode_fields (TaskList_field D) (jl_TypeMeta J tm) l = Some (l\<lparr>tl_TypeMeta := tm\<rparr>)"
proof -
  have "decode_fields (Task_field D) (jl_TypeMeta J tm) t
      = map_option (\<lambda>m. t\<lparr>t_TypeMeta := m\<rparr>) (decode_fields (jd_TypeMeta D) (jl_TypeMeta J tm) (t_TypeMeta t))"
    by (rule decode_inline, erule json_codec_okD(1) [OF assms]) (auto simp: Task_field_def)
  then show "t_TypeMeta t = zero_TypeMeta \<Longrightarrow>
      decode_fields (Task_field D) (jl_TypeMeta J tm) t = Some (t\<lparr>t_TypeMeta := tm\<rparr>)"
    using json_codec_okD(2) [OF assms, of tm] by simp
  have "decode_fields (TaskList_field D) (jl_TypeMeta J tm) l
      = map_option (\<lambda>m. l\<lparr>tl_TypeMeta := m\<rparr>) (decode_fields (jd_TypeMeta D) (jl_TypeMeta J tm) (tl_TypeMeta l))"
    by (rule decode_inline, erule json_codec_okD(1) [OF assms]) (auto simp: TaskList_field_def)
  then show "tl_TypeMeta l = zero_TypeMeta \<Longrightarrow> decode_fields (TaskList_field D) (jl_TypeMeta J tm) l = Some (l\<lparr>tl_TypeMeta := tm\<rparr>)"
    using json_codec_okD(2) [OF assms, of tm] by simp
qed

lemma decode_encode_Task:
  assumes "json_codec_ok J D"
  shows "\<exists>t'. decode_Task D (json_Task J t) zero_Task = Some t' \<and> same_task t t'"
proof -
  obtain m where m: "jd_ObjectMeta D (jl_ObjectMeta J (t_ObjectMeta t)) zero_ObjectMeta = Some m" "same_ident (t_ObjectMeta t) m"
    using json_codec_okD(3) [OF assms] by blast
  obtain st where st: "decode_TaskStatus D (json_TaskStatus J (t_Status t)) zero_TaskStatus = Some st" "same_status (t_Status t) st"
    using decode_encode_TaskStatus [OF assms] by blast
  have z: "t_TypeMeta zero_Task = zero_TypeMeta" by (simp add: zero_Task_def)
  have "decode_Task D (json_Task J t) zero_Task = Some \<lparr>t_TypeMeta = t_TypeMeta t, t_ObjectMeta = m,
        t_Spec = (t_Spec t)\<lparr>ts_Command := nil_if_empty (ts_Command (t_Spec t)), ts_Args := nil_if_empty (ts_Args (t_Spec t))\<rparr>,
        t_Status = st\<rparr>"
    by (simp add: decode_Task_def json_Task_def decode_fields_append decode_TypeMeta(1) [OF assms z])
      (simp add: Task_field_def zero_Task_def m st decode_encode_TaskSpec)
  then show ?thesis
    using m(2) st(2) by (simp add: same_task_def specEqual_iff)
qed

lemma decode_encode_TaskList:
  assumes "json_codec_ok J D"
  shows "\<exists>l'. decode_TaskList D (json_TaskList J l) zero_TaskList = Some l'
    \<and> tl_TypeMeta l' = tl_TypeMeta l \<and> lm_ResourceVersion (tl_ListMeta l') = lm_ResourceVersion (tl_ListMeta l)
    \<and> (tl_Items l' = None \<longleftrightarrow> tl_Items l = None) \<and> list_all2 same_task (elems (tl_Items l)) (elems (tl_Items l'))"
proof -
  obtain m where m: "jd_ListMeta D (jl_ListMeta J (tl_ListMeta l)) zero_ListMeta = Some m"
    "lm_ResourceVersion m = lm_ResourceVersion (tl_ListMeta l)"
    using json_codec_okD(4) [OF assms] by blast
  obtain ts where ts: "decode_all zero_Task (decode_Task D) (map (json_Task J) (elems (tl_Items l))) = Some ts"
    "list_all2 same_task (elems (tl_Items l)) ts"
    using decode_all_map [of "elems (tl_Items l)" "decode_Task D" "json_Task J" zero_Task same_task]
      decode_encode_Task [OF assms] by blast
  have z: "tl_TypeMeta zero_TaskList = zero_TypeMeta" by (simp add: zero_TaskList_def)
  show ?thesis
    using m ts
    by (cases "tl_Items l") (simp_all add: decode_TaskList_def json_TaskList_def decode_fields_append
        decode_TypeMeta(2) [OF assms z], simp_all add: TaskList_field_def zero_TaskList_def)
qed

subsection \<open>Sending back what was fetched\<close>

text \<open>C33. A client may send back the task it fetched. The task decodes from its JSON form with the
  same type, identity, version, generation and status, up to transition times, and with a
  spec that differs at most in an empty slice that became nil. So the version check lets it
  pass, and an update with it that succeeds is no change of intent: generation, status and
  identity stay as they are and the spec stays up to such slices. Sent to the status
  subresource, it keeps spec and generation, and the status up to transition times.\<close>

theorem fetched_task_can_be_sent_back:
  assumes "json_codec_ok J D" "library_contract K" "all_tasks s"
    and "keyFromContext K ctx name True (r_gr r) = Ok key" "s_items s key = Some (TaskObj t)"
    and "om_ResourceVersion (t_ObjectMeta t) \<noteq> []" "sr_gr sr = r_gr r"
  shows "\<exists>t'. decode_Task D (json_Task J t) zero_Task = Some t' \<and> same_task t t'
    \<and> checkResourceVersion (TaskObj t) (TaskObj t') (Strategy_update V (r_strategy r)) (r_gr r) = Ok ()
    \<and> (\<forall>obj created s'. exec ord (REST_Update K V r ctx name (put t') cv uv False opts) s = (Ok (obj, created), s') \<longrightarrow>
        (\<exists>q. obj = TaskObj q \<and> \<not> created \<and> specEqual (t_Spec q) (t_Spec t) \<and> t_Status q = t_Status t
           \<and> generation q = generation t \<and> om_Name (t_ObjectMeta q) = om_Name (t_ObjectMeta t)
           \<and> om_Namespace (t_ObjectMeta q) = om_Namespace (t_ObjectMeta t) \<and> om_UID (t_ObjectMeta q) = om_UID (t_ObjectMeta t)))
    \<and> (\<forall>obj created s'. exec ord (StatusREST_Update K V sr ctx name (put t') cv uv False opts) s = (Ok (obj, created), s') \<longrightarrow>
        (\<exists>q. obj = TaskObj q \<and> \<not> created \<and> t_Spec q = t_Spec t \<and> same_status (t_Status t) (t_Status q)
           \<and> generation q = generation t))"
proof -
  note B = library_contractD(2) [OF assms(2)]
  obtain t' where t': "decode_Task D (json_Task J t) zero_Task = Some t'" "same_task t t'"
    using decode_encode_Task [OF assms(1)] by blast
  have same: "specEqual (t_Spec t') (t_Spec t)" "same_status (t_Status t) (t_Status t')"
    "om_ResourceVersion (t_ObjectMeta t') = om_ResourceVersion (t_ObjectMeta t)"
    using t'(2) by (simp_all add: same_task_def same_ident_def)
  have "checkResourceVersion (TaskObj t) (TaskObj t') (Strategy_update V (r_strategy r)) (r_gr r) = Ok ()"
    using same(3) assms(6) by (simp add: registry_rules)
  moreover have "\<exists>q. obj = TaskObj q \<and> \<not> created \<and> specEqual (t_Spec q) (t_Spec t) \<and> t_Status q = t_Status t
      \<and> generation q = generation t \<and> om_Name (t_ObjectMeta q) = om_Name (t_ObjectMeta t)
      \<and> om_Namespace (t_ObjectMeta q) = om_Namespace (t_ObjectMeta t) \<and> om_UID (t_ObjectMeta q) = om_UID (t_ObjectMeta t)"
    if E: "exec ord (REST_Update K V r ctx name (put t') cv uv False opts) s = (Ok (obj, created), s')" for obj created s'
  proof -
    obtain q where "updated (Strategy_update V (r_strategy r)) ctx t t' q" "\<not> created" "obj = TaskObj (stamped_task s q)"
      using main_strategy.update_OkE [OF B assms(3) E [unfolded REST_Update_def]] assms(4,5)
      by (metis outcome.inject(1) option.inject put_simps(1) runtime_object.inject(1))
    with updated_main main_strategy.updated_identity same(1) show ?thesis
      by (intro exI [of _ "stamped_task s q"]) fastforce
  qed
  moreover have "\<exists>q. obj = TaskObj q \<and> \<not> created \<and> t_Spec q = t_Spec t \<and> same_status (t_Status t) (t_Status q)
      \<and> generation q = generation t"
    if E: "exec ord (StatusREST_Update K V sr ctx name (put t') cv uv False opts) s = (Ok (obj, created), s')" for obj created s'
  proof -
    obtain q where "updated (StatusStrategy_update V (sr_strategy sr)) ctx t t' q" "\<not> created" "obj = TaskObj (stamped_task s q)"
      using status_strategy.update_OkE [OF B assms(3) E [unfolded StatusREST_Update_def assms(7)]] assms(4,5)
      by (metis outcome.inject(1) option.inject put_simps(1) runtime_object.inject(1))
    with updated_status same(2) show ?thesis
      by (intro exI [of _ "stamped_task s q"]) fastforce
  qed
  ultimately show ?thesis using t' by blast
qed

text \<open>An encoding of the fields that count, and its decoder, to evaluate with.\<close>

definition wire_json :: json_lib where
  "wire_json =
     \<lparr>jl_TypeMeta = (\<lambda>tm. [(''kind'', JStr (tm_Kind tm)), (''apiVersion'', JStr (tm_APIVersion tm))]),
      jl_ObjectMeta = (\<lambda>m. JObj [(''name'', JStr (om_Name m)), (''namespace'', JStr (om_Namespace m)), (''uid'', JStr (om_UID m)),
         (''resourceVersion'', JStr (om_ResourceVersion m)), (''generation'', JInt (sint (om_Generation m)))]),
      jl_ListMeta = (\<lambda>m. JObj [(''resourceVersion'', JStr (lm_ResourceVersion m))]),
      jl_Condition = (\<lambda>c. JObj [(''type'', JStr (c_Type c)), (''status'', JStr (c_Status c)),
         (''observedGeneration'', JInt (sint (c_ObservedGeneration c))), (''reason'', JStr (c_Reason c)),
         (''message'', JStr (c_Message c))])\<rparr>"

definition wire_dec :: json_dec where
  "wire_dec =
     \<lparr>jd_TypeMeta = (\<lambda>k j m.
        if k = ''kind'' then map_option (\<lambda>x. m\<lparr>tm_Kind := x\<rparr>) (decode_string j [])
        else if k = ''apiVersion'' then map_option (\<lambda>x. m\<lparr>tm_APIVersion := x\<rparr>) (decode_string j []) else Some m),
      jd_ObjectMeta = decode_struct (\<lambda>k j m.
        if k = ''name'' then map_option (\<lambda>x. m\<lparr>om_Name := x\<rparr>) (decode_string j [])
        else if k = ''namespace'' then map_option (\<lambda>x. m\<lparr>om_Namespace := x\<rparr>) (decode_string j [])
        else if k = ''uid'' then map_option (\<lambda>x. m\<lparr>om_UID := x\<rparr>) (decode_string j [])
        else if k = ''resourceVersion'' then map_option (\<lambda>x. m\<lparr>om_ResourceVersion := x\<rparr>) (decode_string j [])
        else if k = ''generation'' then map_option (\<lambda>x. m\<lparr>om_Generation := x\<rparr>) (decode_int64 j 0) else Some m),
      jd_ListMeta = decode_struct (\<lambda>k j m.
        if k = ''resourceVersion'' then map_option (\<lambda>x. m\<lparr>lm_ResourceVersion := x\<rparr>) (decode_string j []) else Some m),
      jd_Condition = decode_struct (\<lambda>k j c.
        if k = ''type'' then map_option (\<lambda>x. c\<lparr>c_Type := x\<rparr>) (decode_string j [])
        else if k = ''status'' then map_option (\<lambda>x. c\<lparr>c_Status := x\<rparr>) (decode_string j [])
        else if k = ''observedGeneration'' then map_option (\<lambda>x. c\<lparr>c_ObservedGeneration := x\<rparr>) (decode_int64 j 0)
        else if k = ''reason'' then map_option (\<lambda>x. c\<lparr>c_Reason := x\<rparr>) (decode_string j [])
        else if k = ''message'' then map_option (\<lambda>x. c\<lparr>c_Message := x\<rparr>) (decode_string j []) else Some c)\<rparr>"

lemma wire_codec_ok: "json_codec_ok wire_json wire_dec"
proof -
  have "decode_fields (jd_TypeMeta wire_dec) (jl_TypeMeta wire_json tm) zero_TypeMeta = Some tm" for tm
    by (cases tm) (simp add: wire_json_def wire_dec_def zero_TypeMeta_def)
  moreover have "\<exists>m'. jd_ObjectMeta wire_dec (jl_ObjectMeta wire_json m) zero_ObjectMeta = Some m' \<and> same_ident m m'" for m
    by (simp add: wire_json_def wire_dec_def same_ident_def del: decode_int64.simps)
  moreover have "\<exists>m'. jd_ListMeta wire_dec (jl_ListMeta wire_json m) zero_ListMeta = Some m' \<and> lm_ResourceVersion m' = lm_ResourceVersion m" for m
    by (simp add: wire_json_def wire_dec_def)
  moreover have "\<exists>c'. jd_Condition wire_dec (jl_Condition wire_json c) zero_Condition = Some c' \<and> same_condition c c'" for c
    by (cases c) (simp add: wire_json_def wire_dec_def same_condition_def zero_Condition_def del: decode_int64.simps)
  ultimately show ?thesis by (simp add: json_codec_ok_def) (simp add: wire_json_def)
qed

theorem fetched_task_can_be_sent_back_witness:
  "\<exists>t' q. decode_Task wire_dec (json_Task wire_json sample_task) zero_Task = Some t'
    \<and> fst (exec sorted_order (REST_Update plain_k8s plain_validators plain_REST ''ns'' ''a'' (put t') None None False None)
        sample_store) = Ok (TaskObj q, False)
    \<and> generation q = 1 \<and> t_Status q = zero_TaskStatus"
proof -
  have k: "keyFromContext plain_k8s ''ns'' ''a'' True (r_gr plain_REST) = Ok sample_key" by simp
  have i: "s_items sample_store sample_key = Some (TaskObj sample_task)" by simp
  have v: "om_ResourceVersion (t_ObjectMeta sample_task) \<noteq> []" by simp
  have g: "sr_gr plain_StatusREST = r_gr plain_REST" by simp
  note F = fetched_task_can_be_sent_back [where ord = sorted_order and V = plain_validators and cv = None and uv = None and opts = None,
      OF wire_codec_ok plain_library all_tasks_sample k i v g]
  obtain t' where t': "decode_Task wire_dec (json_Task wire_json sample_task) zero_Task = Some t'" "same_task sample_task t'"
    and up: "\<And>obj created s'. exec sorted_order (REST_Update plain_k8s plain_validators plain_REST ''ns'' ''a'' (put t') None None False None)
        sample_store = (Ok (obj, created), s') \<Longrightarrow>
      \<exists>q. obj = TaskObj q \<and> \<not> created \<and> t_Status q = t_Status sample_task \<and> generation q = generation sample_task"
    using F by blast
  have same: "specEqual (t_Spec t') (t_Spec sample_task)" "om_Name (t_ObjectMeta t') = ''a''"
    "om_Namespace (t_ObjectMeta t') = ''ns''" "om_UID (t_ObjectMeta t') = ''uid''"
    "om_ResourceVersion (t_ObjectMeta t') = ''1''" "ts_Image (t_Spec t') \<noteq> []"
    using t'(2) by (simp_all add: same_task_def same_ident_def specEqual_iff)
  let ?p = "set_generation (generation sample_task) (t'\<lparr>t_Status := t_Status sample_task\<rparr>)"
  have "exec sorted_order (REST_Update plain_k8s plain_validators plain_REST ''ns'' ''a'' (put t') None None False None) sample_store
      = (Ok (TaskObj (stamped_task sample_store ?p), False), written sample_store sample_key ?p)"
    unfolding REST_Update_def
    by (rule plain_put) (use same in \<open>simp_all add: strategy_rules set_generation_def validateTask_Nil_iff
        plain_validators_def same_identity_Tasks\<close>)
  with up t'(1) show ?thesis by fastforce
qed

end
