(* ===== verification/ApiServer.thy ===== *)
theory ApiServer
  imports Requests OpenApiDefinitions
begin

section \<open>Wiring: \<open>pkg/apiserver\<close>, \<open>install\<close> and the scheme\<close>

text \<open>
  How the pieces are put together: types are registered in the scheme, the two REST surfaces
  are made over one store and handed to the generic server. Values of the generic server's
  library that the code only passes on are of the type \<open>'v\<close>.
\<close>

subsection \<open>The scheme\<close>

record 's scheme_lib =
  sl_NewScheme :: 's
  sl_AddKnownTypes :: "GroupVersion \<Rightarrow> string list \<Rightarrow> 's \<Rightarrow> 's"
  sl_AddToGroupVersion :: "'s \<Rightarrow> GroupVersion \<Rightarrow> 's"
  sl_AddUnversionedTypes :: "GroupVersion \<Rightarrow> string list \<Rightarrow> 's \<Rightarrow> 's"
  sl_SetVersionPriority :: "GroupVersion list \<Rightarrow> 's \<Rightarrow> (go_error, 's) outcome"

definition addKnownTypes :: "'s scheme_lib \<Rightarrow> 's \<Rightarrow> (go_error, 's) outcome" where
  "addKnownTypes L scheme =
     (let scheme = sl_AddKnownTypes L SchemeGroupVersion [''Task'', ''TaskList''] scheme;
          scheme = sl_AddToGroupVersion L scheme SchemeGroupVersion
      in Ok scheme)"

text \<open>\<open>runtime.SchemeBuilder\<close> is a list of functions, \<open>AddToScheme\<close> calls them in order until one
fails.\<close>

definition SchemeBuilder :: "'s scheme_lib \<Rightarrow> ('s \<Rightarrow> (go_error, 's) outcome) list" where
  "SchemeBuilder L = [addKnownTypes L]"

definition AddToScheme :: "'s scheme_lib \<Rightarrow> 's \<Rightarrow> (go_error, 's) outcome" where
  "AddToScheme L scheme = fold (\<lambda>f r. and_then r f) (SchemeBuilder L) (Ok scheme)"

fun Must :: "(go_error, 'a) outcome \<Rightarrow> (go_error, 'a) outcome" where
  "Must (Err e) = Panic ''utilruntime.Must''"
| "Must r = r"

definition Install :: "'s scheme_lib \<Rightarrow> 's \<Rightarrow> (go_error, 's) outcome" where
  "Install L scheme =
     and_then (Must (AddToScheme L scheme)) (\<lambda>scheme.
     Must (sl_SetVersionPriority L [SchemeGroupVersion] scheme))"

text \<open>\<open>init\<close> of the package fills the global scheme.\<close>

definition init_Scheme :: "'s scheme_lib \<Rightarrow> (go_error, 's) outcome" where
  "init_Scheme L =
     and_then (Install L (sl_NewScheme L)) (\<lambda>scheme.
     let scheme = sl_AddToGroupVersion L scheme \<lparr>gv_Group = [], gv_Version = ''v1''\<rparr>;
         unversioned = \<lparr>gv_Group = [], gv_Version = ''v1''\<rparr>
     in Ok (sl_AddUnversionedTypes L unversioned
          [''Status'', ''APIVersions'', ''APIGroupList'', ''APIGroup'', ''APIResourceList''] scheme))"

subsection \<open>OpenAPI configuration\<close>

definition ServerName :: string where "ServerName = ''simple-apiserver''"

record ('r, 'v) openapi_config =
  oc_Definitions :: "(string \<Rightarrow> 'r) \<Rightarrow> (string \<times> 'r OpenAPIDefinition) list"
  oc_Title :: string
  oc_Version :: string
  oc_lib :: 'v

text \<open>\<open>base\<close> is the library's default for the definitions with the scheme's definition namer.\<close>

definition DefaultOpenAPIConfig ::
    "(((string \<Rightarrow> 'r) \<Rightarrow> (string \<times> 'r OpenAPIDefinition) list) \<Rightarrow> ('r, 'v) openapi_config)
       \<Rightarrow> 'r oa_lib \<Rightarrow> ('r, 'v) openapi_config" where
  "DefaultOpenAPIConfig base oal =
     (let cfg = base (GetOpenAPIDefinitions oal);
          cfg = cfg\<lparr>oc_Title := ServerName\<rparr>
      in cfg\<lparr>oc_Version := gv_Version SchemeGroupVersion\<rparr>)"

definition DefaultOpenAPIV3Config ::
    "(((string \<Rightarrow> 'r) \<Rightarrow> (string \<times> 'r OpenAPIDefinition) list) \<Rightarrow> ('r, 'v) openapi_config)
       \<Rightarrow> 'r oa_lib \<Rightarrow> ('r, 'v) openapi_config" where
  "DefaultOpenAPIV3Config base oal =
     (let cfg = base (GetOpenAPIDefinitions oal);
          cfg = cfg\<lparr>oc_Title := ServerName\<rparr>
      in cfg\<lparr>oc_Version := gv_Version SchemeGroupVersion\<rparr>)"

subsection \<open>The API group\<close>

text \<open>Stores by address: \<open>inmemory.New\<close> returns a pointer.\<close>

type_synonym store_ptr = nat

definition new_store :: "GroupResource \<Rightarrow> store list \<Rightarrow> store_ptr \<times> store list" where
  "new_store gr stores = (length stores, stores @ [Store_New gr])"

text \<open>A \<open>rest.Storage\<close> with the pointer it was made with.\<close>

datatype 'ctx storage =
    TaskStorage store_ptr "'ctx REST"
  | StatusStorage store_ptr StatusREST

record ('ctx, 'v) APIGroupInfo =
  gi_Group :: string
  gi_Versions :: "string \<rightharpoonup> (string \<rightharpoonup> 'ctx storage)"
  gi_lib :: 'v

record ('ctx, 'v) server_lib =
  gl_NewCodecFactory :: "ObjectTyper \<Rightarrow> 'v"
  gl_NewParameterCodec :: "ObjectTyper \<Rightarrow> 'v"
  gl_NewDefaultAPIGroupInfo :: "string \<Rightarrow> ObjectTyper \<Rightarrow> 'v \<Rightarrow> 'v \<Rightarrow> ('ctx, 'v) APIGroupInfo"
  gl_NewDefaultTableConvertor ::
    "GroupResource \<Rightarrow> 'ctx \<Rightarrow> runtime_object \<Rightarrow> runtime_object \<Rightarrow> (go_error, runtime_object) outcome"
  gl_SimpleNameGenerator :: NameGenerator
  gl_Scheme :: ObjectTyper
  gl_InstallAPIGroup :: "('ctx, 'v) APIGroupInfo \<Rightarrow> 'v \<Rightarrow> (go_error, 'v) outcome"
  gl_New :: "string \<Rightarrow> 'v \<Rightarrow> (go_error, 'v) outcome"

text \<open>The package's codecs, made of its scheme.\<close>

definition Codecs :: "('ctx, 'v) server_lib \<Rightarrow> 'v" where
  "Codecs G = gl_NewCodecFactory G (gl_Scheme G)"

definition ParameterCodec :: "('ctx, 'v) server_lib \<Rightarrow> 'v" where
  "ParameterCodec G = gl_NewParameterCodec G (gl_Scheme G)"

definition tasks_storage ::
    "('ctx, 'v) server_lib \<Rightarrow> store_ptr \<Rightarrow> GroupResource \<Rightarrow> (string \<rightharpoonup> 'ctx storage)" where
  "tasks_storage G store gr =
     (let strategy = NewStrategy (gl_SimpleNameGenerator G) (gl_Scheme G);
          statusStrategy = NewStatusStrategy (gl_SimpleNameGenerator G) (gl_Scheme G)
      in [''tasks'' \<mapsto> TaskStorage store (NewREST (gl_NewDefaultTableConvertor G) strategy gr),
          ''tasks/status'' \<mapsto> StatusStorage store (NewStatusREST statusStrategy gr)])"

definition tasks_group :: "('ctx, 'v) server_lib \<Rightarrow> store list \<Rightarrow> ('ctx, 'v) APIGroupInfo \<times> store list" where
  "tasks_group G stores =
     (let apiGroupInfo = gl_NewDefaultAPIGroupInfo G GroupName (gl_Scheme G) (ParameterCodec G) (Codecs G);
          gr = Resource ''tasks'';
          (store, stores) = new_store gr stores;
          storage = tasks_storage G store gr
      in (apiGroupInfo\<lparr>gi_Versions := (gi_Versions apiGroupInfo)(gv_Version SchemeGroupVersion \<mapsto> storage)\<rparr>, stores))"

definition installTasksGroup ::
    "('ctx, 'v) server_lib \<Rightarrow> 'v \<Rightarrow> store list \<Rightarrow> (go_error, 'v) outcome \<times> store list" where
  "installTasksGroup G server stores =
     (case tasks_group G stores of (info, stores) \<Rightarrow> (gl_InstallAPIGroup G info server, stores))"

record 'v APIServer =
  as_GenericAPIServer :: 'v

text \<open>\<open>CompletedConfig.New\<close>: the argument is the completed generic configuration.\<close>

definition CompletedConfig_New ::
    "('ctx, 'v) server_lib \<Rightarrow> 'v \<Rightarrow> store list \<Rightarrow> (go_error, 'v APIServer) outcome \<times> store list" where
  "CompletedConfig_New G config stores =
     (case gl_New G ServerName config of
        Err e \<Rightarrow> (Err e, stores)
      | Panic p \<Rightarrow> (Panic p, stores)
      | Ok genericServer \<Rightarrow>
          (case installTasksGroup G genericServer stores of
             (Ok genericServer, stores) \<Rightarrow> (Ok \<lparr>as_GenericAPIServer = genericServer\<rparr>, stores)
           | (Err e, stores) \<Rightarrow> (Err e, stores)
           | (Panic p, stores) \<Rightarrow> (Panic p, stores)))"

subsection \<open>What a new server serves\<close>

text \<open>The two surfaces of a group over one store, as the requests of theory Requests address them.\<close>

definition mounted :: "store_ptr \<Rightarrow> 'ctx api \<Rightarrow> (string \<rightharpoonup> 'ctx storage)" where
  "mounted p A = [''tasks'' \<mapsto> TaskStorage p (api_rest A), ''tasks/status'' \<mapsto> StatusStorage p (api_status A)]"

definition tasks_api :: "('ctx, 'v) server_lib \<Rightarrow> 'ctx api" where
  "tasks_api G =
     \<lparr>api_rest = NewREST (gl_NewDefaultTableConvertor G) (NewStrategy (gl_SimpleNameGenerator G) (gl_Scheme G)) (Resource ''tasks''),
      api_status = NewStatusREST (NewStatusStrategy (gl_SimpleNameGenerator G) (gl_Scheme G)) (Resource ''tasks'')\<rparr>"

lemma tasks_group_eq:
  "tasks_group G stores =
     ((gl_NewDefaultAPIGroupInfo G GroupName (gl_Scheme G) (ParameterCodec G) (Codecs G))\<lparr>gi_Versions :=
        (gi_Versions (gl_NewDefaultAPIGroupInfo G GroupName (gl_Scheme G) (ParameterCodec G) (Codecs G)))
          (''v1alpha1'' \<mapsto> mounted (length stores) (tasks_api G))\<rparr>,
      stores @ [Store_New (Resource ''tasks'')])"
  by (simp add: tasks_group_def new_store_def tasks_storage_def mounted_def tasks_api_def Let_def SchemeGroupVersion_def)

lemma serve_new_invariant:
  assumes "library_contract K" "list_all request_ok reqs" "length reqs < 2 ^ 63 - 1"
    and "s_items (serve ord K V A reqs (Store_New gr)) k = Some obj"
  shows "\<exists>t. obj = TaskObj t \<and> task_wf t \<and> om_Namespace (t_ObjectMeta t) = k_Namespace k \<and> om_Name (t_ObjectMeta t) = k_Name k"
proof -
  have "store_counter (Store_New gr) = 0" by (simp add: Store_New_def store_counter_def)
  then have "store_inv good_task (serve ord K V A reqs (Store_New gr))"
    using serve_inv [OF assms(1,2) store_inv_New, of gr ord V A] assms(3) by (simp add: request_bound_def)
  then show ?thesis using assms(4) by (auto simp: store_inv_def good_task_def)
qed

text \<open>C16. A server that \<open>New\<close> returns has the group \<open>tasks.example.com\<close> with version \<open>v1alpha1\<close> and
  exactly two resources in it, and both of them work on one and the same store, which is new and
  empty; stores made before are not touched. Whatever requests the two surfaces serve from
  then on, that store holds well-formed tasks at their own keys only. If the generic server
  cannot be made no store is made either, and if the group cannot be installed no server is
  returned.\<close>

theorem new_server_shares_one_store:
  assumes "library_contract K" "list_all request_ok reqs" "length reqs < 2 ^ 63 - 1"
  shows "(CompletedConfig_New G config stores = (Ok srv, stores') \<longrightarrow>
      (\<exists>server0 info p A.
         gl_New G ServerName config = Ok server0
         \<and> gl_InstallAPIGroup G info server0 = Ok (as_GenericAPIServer srv)
         \<and> gi_Versions info ''v1alpha1'' = Some (mounted p A)
         \<and> r_gr (api_rest A) = Resource ''tasks'' \<and> sr_gr (api_status A) = Resource ''tasks''
         \<and> stores' = stores @ [Store_New (Resource ''tasks'')] \<and> stores' ! p = Store_New (Resource ''tasks'')
         \<and> (\<forall>k obj. s_items (serve ord K V A reqs (stores' ! p)) k = Some obj \<longrightarrow>
              (\<exists>t. obj = TaskObj t \<and> task_wf t \<and> om_Namespace (t_ObjectMeta t) = k_Namespace k
                   \<and> om_Name (t_ObjectMeta t) = k_Name k))))
    \<and> (gl_New G ServerName config = Err e \<longrightarrow> CompletedConfig_New G config stores = (Err e, stores))
    \<and> (\<forall>server0. gl_New G ServerName config = Ok server0 \<longrightarrow>
         gl_InstallAPIGroup G (fst (tasks_group G stores)) server0 = Err e \<longrightarrow>
         fst (CompletedConfig_New G config stores) = Err e)"
proof (intro conjI impI allI)
  assume new: "CompletedConfig_New G config stores = (Ok srv, stores')"
  then obtain server0 where s0: "gl_New G ServerName config = Ok server0"
    "gl_InstallAPIGroup G (fst (tasks_group G stores)) server0 = Ok (as_GenericAPIServer srv)"
    "stores' = stores @ [Store_New (Resource ''tasks'')]"
    by (auto simp: CompletedConfig_New_def installTasksGroup_def tasks_group_eq split: outcome.splits)
  have v: "gi_Versions (fst (tasks_group G stores)) ''v1alpha1'' = Some (mounted (length stores) (tasks_api G))"
    by (simp add: tasks_group_eq)
  have gr: "r_gr (api_rest (tasks_api G)) = Resource ''tasks''" "sr_gr (api_status (tasks_api G)) = Resource ''tasks''"
    by (simp_all add: tasks_api_def NewREST_def NewStatusREST_def)
  have st: "stores' ! length stores = Store_New (Resource ''tasks'')" by (simp add: s0(3))
  show "\<exists>server0 info p A.
         gl_New G ServerName config = Ok server0
         \<and> gl_InstallAPIGroup G info server0 = Ok (as_GenericAPIServer srv)
         \<and> gi_Versions info ''v1alpha1'' = Some (mounted p A)
         \<and> r_gr (api_rest A) = Resource ''tasks'' \<and> sr_gr (api_status A) = Resource ''tasks''
         \<and> stores' = stores @ [Store_New (Resource ''tasks'')] \<and> stores' ! p = Store_New (Resource ''tasks'')
         \<and> (\<forall>k obj. s_items (serve ord K V A reqs (stores' ! p)) k = Some obj \<longrightarrow>
              (\<exists>t. obj = TaskObj t \<and> task_wf t \<and> om_Namespace (t_ObjectMeta t) = k_Namespace k
                   \<and> om_Name (t_ObjectMeta t) = k_Name k))"
    by (intro exI conjI, rule s0(1), rule s0(2), rule v, rule gr(1), rule gr(2), rule s0(3), rule st)
      (use serve_new_invariant [OF assms] st in \<open>simp only:, blast\<close>)
qed (auto simp: CompletedConfig_New_def installTasksGroup_def tasks_group_eq)

definition sample_server :: "(string, nat) server_lib" where
  "sample_server =
     \<lparr>gl_NewCodecFactory = (\<lambda>sch. 1), gl_NewParameterCodec = (\<lambda>sch. 2),
      gl_NewDefaultAPIGroupInfo = (\<lambda>g sch pc cf. \<lparr>gi_Group = g, gi_Versions = Map.empty, gi_lib = 0\<rparr>),
      gl_NewDefaultTableConvertor = (\<lambda>gr ctx obj opts. Ok obj),
      gl_SimpleNameGenerator = id, gl_Scheme = sg_ObjectTyper plain_strategy,
      gl_InstallAPIGroup = (\<lambda>info n. if gi_Versions info ''v1alpha1'' = None then Err NotAnObject else Ok (Suc n)),
      gl_New = (\<lambda>name n. Ok n)\<rparr>"

theorem new_server_shares_one_store_witness:
  "\<exists>p A. snd (CompletedConfig_New sample_server 7 []) ! p = Store_New (Resource ''tasks'')
     \<and> mounted p A ''tasks'' \<noteq> None \<and> (\<exists>s. fst (CompletedConfig_New sample_server 7 []) = Ok s)"
proof -
  let ?reqs = "[CreateReq ''ns'' (newTask ''ns'' ''b'' ''alpine'') None None]"
  have "list_all request_ok ?reqs" "length ?reqs < 2 ^ 63 - 1" by simp_all
  note T = new_server_shares_one_store [OF plain_library this]
  have n: "CompletedConfig_New sample_server 7 [] = (Ok \<lparr>as_GenericAPIServer = 8\<rparr>, [Store_New (Resource ''tasks'')])"
    by (simp add: CompletedConfig_New_def installTasksGroup_def tasks_group_eq sample_server_def)
  from T [THEN conjunct1, rule_format, OF n] obtain p where "[Store_New (Resource ''tasks'')] ! p = Store_New (Resource ''tasks'')"
    by blast
  then show ?thesis unfolding n by (auto simp: mounted_def)
qed

end
