(* ===== verification/Effects.thy ===== *)
theory Effects
  imports MetaTypes
begin

section \<open>Calls with effects\<close>

text \<open>
  Code that calls the operating system or a library with state is a function of the state of
  the world; it returns its outcome and the state after it. A sequence stops at the first call
  that fails. The command and the certificate generator are written with these.
\<close>

type_synonym ('w, 'a) io = "'w \<Rightarrow> (go_error, 'a) outcome \<times> 'w"

definition io_then :: "('w, 'a) io \<Rightarrow> ('a \<Rightarrow> ('w, 'b) io) \<Rightarrow> ('w, 'b) io" where
  "io_then m f w =
     (case m w of (Ok x, w) \<Rightarrow> f x w | (Err e, w) \<Rightarrow> (Err e, w) | (Panic p, w) \<Rightarrow> (Panic p, w))"

definition io_return :: "'a \<Rightarrow> ('w, 'a) io" where
  "io_return x w = (Ok x, w)"

definition io_pure :: "(go_error, 'a) outcome \<Rightarrow> ('w, 'a) io" where
  "io_pure r w = (r, w)"

text \<open>\<open>if err != nil { return nil, fmt.Errorf("...: %w", err) }\<close>\<close>

definition wrap_err :: "string \<Rightarrow> ('w, 'a) io \<Rightarrow> ('w, 'a) io" where
  "wrap_err msg m w = (case m w of (Err e, w) \<Rightarrow> (Err (ErrorfWrap msg e), w) | r \<Rightarrow> r)"

lemma io_simps [simp]:
  "m w = (Ok x, w') \<Longrightarrow> io_then m f w = f x w'"
  "m w = (Err e, w') \<Longrightarrow> io_then m f w = (Err e, w')"
  "m w = (Panic p, w') \<Longrightarrow> io_then m f w = (Panic p, w')"
  "m w = (Ok x, w') \<Longrightarrow> wrap_err msg m w = (Ok x, w')"
  "m w = (Err e, w') \<Longrightarrow> wrap_err msg m w = (Err (ErrorfWrap msg e), w')"
  "m w = (Panic p, w') \<Longrightarrow> wrap_err msg m w = (Panic p, w')"
  by (simp_all add: io_then_def wrap_err_def)

text \<open>A sequence that succeeds, call by call.\<close>

lemma io_then_Ok:
  "io_then m f w = (Ok y, w') \<longleftrightarrow> (\<exists>x w1. m w = (Ok x, w1) \<and> f x w1 = (Ok y, w'))"
  by (auto simp: io_then_def split: prod.split outcome.split)

lemma wrap_err_Ok: "wrap_err msg m w = (Ok y, w') \<longleftrightarrow> m w = (Ok y, w')"
  by (auto simp: wrap_err_def split: prod.split outcome.split)

end
