(* ===== verification/Options.thy ===== *)
theory Options
  imports ApiServer Effects
begin

section \<open>The command: \<open>cmd/simple-apiserver\<close>\<close>

text \<open>
  Options, their validation, and the way from them to a running server. The option groups come
  from \<open>k8s.io/apiserver\<close>; of each the record shows the fields that this program sets, the rest
  and all other library values are of the type \<open>'v\<close>. Library calls may have effects on the
  world \<open>'w\<close>.
\<close>

subsection \<open>Options\<close>

definition AuthorizationModeAlwaysAllow :: string where
  "AuthorizationModeAlwaysAllow = ''AlwaysAllow''"

record 'v SecureServingOptions =
  ss_BindPort :: int
  ss_lib :: 'v

record 'v DelegatingAuthenticationOptions =
  an_RemoteKubeConfigFileOptional :: bool
  an_TolerateInClusterLookupFailure :: bool
  an_lib :: 'v

record 'v DelegatingAuthorizationOptions =
  az_RemoteKubeConfigFileOptional :: bool
  az_lib :: 'v

record 'v FeatureOptions =
  fe_EnablePriorityAndFairness :: bool
  fe_lib :: 'v

record 'v Options =
  opt_SecureServing :: "'v SecureServingOptions"
  opt_Authentication :: "'v DelegatingAuthenticationOptions"
  opt_Authorization :: "'v DelegatingAuthorizationOptions"
  opt_Audit :: 'v
  opt_Features :: "'v FeatureOptions"
  opt_AuthorizationMode :: string
  opt_StdOut :: 'v
  opt_StdErr :: 'v

subsection \<open>The library\<close>

text \<open>The fields of the generic server's configuration that \<open>Config\<close> fills in.\<close>

record ('r, 'v) ServerConfig =
  cf_OpenAPIConfig :: "('r, 'v) openapi_config option"
  cf_OpenAPIV3Config :: "('r, 'v) openapi_config option"
  cf_EffectiveVersion :: "'v option"
  cf_SecureServing :: 'v
  cf_LoopbackClientConfig :: 'v
  cf_Authentication :: 'v
  cf_Authorizer :: "'v option"
  cf_lib :: 'v

record ('r, 'v, 'w) options_lib =
  op_NewSecureServing :: "'v SecureServingOptions"
  op_NewAuthentication :: "'v DelegatingAuthenticationOptions"
  op_NewAuthorization :: "'v DelegatingAuthorizationOptions"
  op_NewAudit :: 'v
  op_NewFeatures :: "'v FeatureOptions"
  op_FlagsSecureServing :: "string list"
  op_FlagsAuthentication :: "string list"
  op_FlagsAuthorization :: "string list"
  op_FlagsAudit :: "string list"
  op_FlagsFeatures :: "string list"
  op_ValidateSecureServing :: "'v SecureServingOptions \<Rightarrow> go_error list"
  op_ValidateAuthentication :: "'v DelegatingAuthenticationOptions \<Rightarrow> go_error list"
  op_ValidateAuthorization :: "'v DelegatingAuthorizationOptions \<Rightarrow> go_error list"
  op_ValidateAudit :: "'v \<Rightarrow> go_error list"
  op_ValidateFeatures :: "'v FeatureOptions \<Rightarrow> go_error list"
  op_MaybeDefaultWithSelfSignedCerts ::
    "string \<Rightarrow> string list \<Rightarrow> string list \<Rightarrow> 'v SecureServingOptions \<Rightarrow> ('w, 'v SecureServingOptions) io"
  op_NewRecommendedConfig :: "('r, 'v) ServerConfig"
  op_DefaultOpenAPIConfig :: "((string \<Rightarrow> 'r) \<Rightarrow> (string \<times> 'r OpenAPIDefinition) list) \<Rightarrow> ('r, 'v) openapi_config"
  op_DefaultOpenAPIV3Config :: "((string \<Rightarrow> 'r) \<Rightarrow> (string \<times> 'r OpenAPIDefinition) list) \<Rightarrow> ('r, 'v) openapi_config"
  op_DefaultBuildEffectiveVersion :: 'v
  op_ApplySecureServing :: "'v SecureServingOptions \<Rightarrow> 'v \<Rightarrow> 'v \<Rightarrow> ('w, 'v \<times> 'v) io"
  op_ApplyAuthentication ::
    "'v DelegatingAuthenticationOptions \<Rightarrow> 'v \<Rightarrow> 'v \<Rightarrow> ('r, 'v) openapi_config option
       \<Rightarrow> ('w, 'v \<times> ('r, 'v) openapi_config option) io"
  op_ApplyAuthorization :: "'v DelegatingAuthorizationOptions \<Rightarrow> 'v option \<Rightarrow> ('w, 'v option) io"
  op_NewAlwaysAllowAuthorizer :: 'v
  op_ApplyAudit :: "'v \<Rightarrow> ('r, 'v) ServerConfig \<Rightarrow> ('w, ('r, 'v) ServerConfig) io"
  op_ApplyFeatures :: "'v FeatureOptions \<Rightarrow> ('r, 'v) ServerConfig \<Rightarrow> ('w, ('r, 'v) ServerConfig) io"
  op_Complete :: "('r, 'v) ServerConfig \<Rightarrow> (go_error, 'v) outcome"
  op_SetupSignalContext :: 'v
  op_PrepareRunRun :: "'v \<Rightarrow> 'v \<Rightarrow> ('w, unit) io"

text \<open>\<open>apiserver.Config\<close> and \<open>CompletedConfig\<close>: the generic configuration and an \<open>ExtraConfig\<close> without
fields; the completed one points to that of the other.\<close>

type_synonym ExtraConfig = unit

record ('r, 'v) Config =
  ac_GenericConfig :: "('r, 'v) ServerConfig"
  ac_ExtraConfig :: ExtraConfig

record 'v completedConfig =
  cc_GenericConfig :: 'v
  cc_ExtraConfig :: ExtraConfig

type_synonym 'v CompletedConfig = "'v completedConfig"

subsection \<open>Operations\<close>

definition NewOptions :: "('r, 'v, 'w) options_lib \<Rightarrow> 'v \<Rightarrow> 'v \<Rightarrow> 'v Options" where
  "NewOptions L out errOut =
     (let opts = \<lparr>opt_SecureServing = op_NewSecureServing L, opt_Authentication = op_NewAuthentication L,
                  opt_Authorization = op_NewAuthorization L, opt_Audit = op_NewAudit L,
                  opt_Features = op_NewFeatures L, opt_AuthorizationMode = [],
                  opt_StdOut = out, opt_StdErr = errOut\<rparr>;
          opts = opts\<lparr>opt_SecureServing := (opt_SecureServing opts)\<lparr>ss_BindPort := 6443\<rparr>\<rparr>;
          opts = opts\<lparr>opt_Authentication := (opt_Authentication opts)\<lparr>an_RemoteKubeConfigFileOptional := True\<rparr>\<rparr>;
          opts = opts\<lparr>opt_Authentication := (opt_Authentication opts)\<lparr>an_TolerateInClusterLookupFailure := True\<rparr>\<rparr>;
          opts = opts\<lparr>opt_Authorization := (opt_Authorization opts)\<lparr>az_RemoteKubeConfigFileOptional := True\<rparr>\<rparr>;
          opts = opts\<lparr>opt_Features := (opt_Features opts)\<lparr>fe_EnablePriorityAndFairness := False\<rparr>\<rparr>
      in opts)"

text \<open>A flag set, by the names of its flags: defining a flag twice panics.\<close>

fun add_flags :: "string list \<Rightarrow> string list \<Rightarrow> (go_error, string list) outcome" where
  "add_flags [] fs = Ok fs"
| "add_flags (n # ns) fs = (if n \<in> set fs then Panic (''flag redefined: '' @ n) else add_flags ns (fs @ [n]))"

definition AddFlags :: "('r, 'v, 'w) options_lib \<Rightarrow> string list \<Rightarrow> (go_error, string list) outcome" where
  "AddFlags L fs =
     and_then (add_flags (op_FlagsSecureServing L) fs) (\<lambda>fs.
     and_then (add_flags (op_FlagsAuthentication L) fs) (\<lambda>fs.
     and_then (add_flags (op_FlagsAuthorization L) fs) (\<lambda>fs.
     and_then (add_flags (op_FlagsAudit L) fs) (\<lambda>fs.
     and_then (add_flags (op_FlagsFeatures L) fs) (\<lambda>fs.
     add_flags [''authorization-mode''] fs)))))"

text \<open>\<open>utilerrors.NewAggregate\<close>: nil for no errors.\<close>

definition NewAggregate :: "go_error list \<Rightarrow> (go_error, unit) outcome" where
  "NewAggregate errs = (if errs = [] then Ok () else Err (Aggregate errs))"

definition mode_error :: "string \<Rightarrow> go_error" where
  "mode_error mode = Errorf (Sprintf ''--authorization-mode=%q is not supported (allowed: \"\", %q)''
     [FStr mode, FStr AuthorizationModeAlwaysAllow])"

definition Options_Validate :: "('r, 'v, 'w) options_lib \<Rightarrow> 'v Options \<Rightarrow> (go_error, unit) outcome" where
  "Options_Validate L opts =
     (let errs = [];
          errs = errs @ op_ValidateSecureServing L (opt_SecureServing opts);
          errs = errs @ op_ValidateAuthentication L (opt_Authentication opts);
          errs = errs @ op_ValidateAuthorization L (opt_Authorization opts);
          errs = errs @ op_ValidateAudit L (opt_Audit opts);
          errs = errs @ op_ValidateFeatures L (opt_Features opts);
          errs = (if opt_AuthorizationMode opts = [] \<or> opt_AuthorizationMode opts = AuthorizationModeAlwaysAllow
                  then errs else errs @ [mode_error (opt_AuthorizationMode opts)])
      in NewAggregate errs)"

definition Options_Complete :: "('r, 'v, 'w) options_lib \<Rightarrow> 'v Options \<Rightarrow> ('w, 'v Options) io" where
  "Options_Complete L opts =
     (let loopback = [''127.0.0.1'']
      in io_then (op_MaybeDefaultWithSelfSignedCerts L ''localhost'' [] loopback (opt_SecureServing opts)) (\<lambda>ss.
         io_return (opts\<lparr>opt_SecureServing := ss\<rparr>)))"

definition apply_authorization ::
    "('r, 'v, 'w) options_lib \<Rightarrow> 'v Options \<Rightarrow> ('r, 'v) ServerConfig \<Rightarrow> ('w, ('r, 'v) ServerConfig) io" where
  "apply_authorization L opts cfg =
     (if opt_AuthorizationMode opts = AuthorizationModeAlwaysAllow
      then io_return (cfg\<lparr>cf_Authorizer := Some (op_NewAlwaysAllowAuthorizer L)\<rparr>)
      else io_then (wrap_err ''apply authorization: %w''
             (op_ApplyAuthorization L (opt_Authorization opts) (cf_Authorizer cfg))) (\<lambda>authorizer.
           io_return (cfg\<lparr>cf_Authorizer := authorizer\<rparr>)))"

definition Options_Config ::
    "('r, 'v, 'w) options_lib \<Rightarrow> 'r oa_lib \<Rightarrow> 'v Options \<Rightarrow> ('w, ('r, 'v) Config) io" where
  "Options_Config L oal opts =
     (let cfg = op_NewRecommendedConfig L;
          cfg = cfg\<lparr>cf_OpenAPIConfig := Some (DefaultOpenAPIConfig (op_DefaultOpenAPIConfig L) oal)\<rparr>;
          cfg = cfg\<lparr>cf_OpenAPIV3Config := Some (DefaultOpenAPIV3Config (op_DefaultOpenAPIV3Config L) oal)\<rparr>;
          cfg = cfg\<lparr>cf_EffectiveVersion := Some (op_DefaultBuildEffectiveVersion L)\<rparr>
      in io_then (wrap_err ''apply secure serving: %w'' (op_ApplySecureServing L (opt_SecureServing opts)
             (cf_SecureServing cfg) (cf_LoopbackClientConfig cfg))) (\<lambda>(serving, loopback).
         let cfg = cfg\<lparr>cf_SecureServing := serving, cf_LoopbackClientConfig := loopback\<rparr> in
         io_then (wrap_err ''apply authentication: %w'' (op_ApplyAuthentication L (opt_Authentication opts)
             (cf_Authentication cfg) (cf_SecureServing cfg) (cf_OpenAPIConfig cfg))) (\<lambda>(authentication, openapi).
         let cfg = cfg\<lparr>cf_Authentication := authentication, cf_OpenAPIConfig := openapi\<rparr> in
         io_then (apply_authorization L opts cfg) (\<lambda>cfg.
         io_then (wrap_err ''apply audit: %w'' (op_ApplyAudit L (opt_Audit opts) cfg)) (\<lambda>cfg.
         io_then (wrap_err ''apply features: %w'' (op_ApplyFeatures L (opt_Features opts) cfg)) (\<lambda>cfg.
         io_return \<lparr>ac_GenericConfig = cfg, ac_ExtraConfig = ()\<rparr>))))))"

text \<open>\<open>Complete\<close> of the configuration: the library's own, and \<open>ExtraConfig\<close> as it is.\<close>

definition Config_Complete ::
    "('r, 'v, 'w) options_lib \<Rightarrow> ('r, 'v) Config \<Rightarrow> (go_error, 'v CompletedConfig) outcome" where
  "Config_Complete L c =
     and_then (op_Complete L (ac_GenericConfig c)) (\<lambda>completed.
     Ok \<lparr>cc_GenericConfig = completed, cc_ExtraConfig = ac_ExtraConfig c\<rparr>)"

text \<open>The state of the process: the world and the stores made so far.\<close>

definition on_world :: "('w, 'a) io \<Rightarrow> ('w \<times> store list, 'a) io" where
  "on_world m = (\<lambda>(w, stores). case m w of (r, w) \<Rightarrow> (r, (w, stores)))"

definition on_stores :: "(store list \<Rightarrow> (go_error, 'a) outcome \<times> store list) \<Rightarrow> ('w \<times> store list, 'a) io" where
  "on_stores f = (\<lambda>(w, stores). case f stores of (r, stores) \<Rightarrow> (r, (w, stores)))"

definition Options_Run ::
    "('r, 'v, 'w) options_lib \<Rightarrow> ('ctx, 'v) server_lib \<Rightarrow> 'r oa_lib \<Rightarrow> 'v option \<Rightarrow> 'v Options
       \<Rightarrow> ('w \<times> store list, unit) io" where
  "Options_Run L G oal ctx opts =
     io_then (on_world (Options_Config L oal opts)) (\<lambda>config.
     io_then (io_pure (Config_Complete L config)) (\<lambda>completed.
     io_then (on_stores (CompletedConfig_New G (cc_GenericConfig completed))) (\<lambda>server.
     let ctx = (case ctx of None \<Rightarrow> op_SetupSignalContext L | Some ctx \<Rightarrow> ctx)
     in on_world (op_PrepareRunRun L (as_GenericAPIServer server) ctx))))"

text \<open>\<open>RunE\<close> of the command: the options are those of \<open>NewOptions\<close> with the parsed flags.\<close>

definition RunE ::
    "('r, 'v, 'w) options_lib \<Rightarrow> ('ctx, 'v) server_lib \<Rightarrow> 'r oa_lib \<Rightarrow> 'v option \<Rightarrow> 'v Options
       \<Rightarrow> ('w \<times> store list, unit) io" where
  "RunE L G oal ctx opts =
     io_then (on_world (Options_Complete L opts)) (\<lambda>opts.
     io_then (io_pure (Options_Validate L opts)) (\<lambda>_.
     Options_Run L G oal ctx opts))"

text \<open>
  \<open>NewCommand\<close>. A cobra command holds the options that its flags write to: \<open>cmd_Options\<close> are their
  values before the command line is parsed, \<open>cmd_RunE\<close> is run with the values after.
\<close>

record ('v, 'w) Command =
  cmd_Use :: string
  cmd_Short :: string
  cmd_Long :: string
  cmd_SilenceUsage :: bool
  cmd_RunE :: "'v option \<Rightarrow> 'v Options \<Rightarrow> ('w \<times> store list, unit) io"
  cmd_Out :: 'v
  cmd_Err :: 'v
  cmd_Flags :: "string list"
  cmd_Options :: "'v Options"

definition NewCommand ::
    "('r, 'v, 'w) options_lib \<Rightarrow> ('ctx, 'v) server_lib \<Rightarrow> 'r oa_lib \<Rightarrow> 'v \<Rightarrow> 'v
       \<Rightarrow> (go_error, ('v, 'w) Command) outcome" where
  "NewCommand L G oal out errOut =
     (let opts = NewOptions L out errOut in
      and_then (AddFlags L []) (\<lambda>fs.
      Ok \<lparr>cmd_Use = ''simple-apiserver'', cmd_Short = ''Aggregated apiserver serving tasks.example.com'',
          cmd_Long = ''Aggregated apiserver for the tasks.example.com/v1alpha1 API group.''
            @ [CHR 0x0A, CHR 0x0A] @ ''Storage is in-memory; server restart wipes all state. Watch is deferred''
            @ [CHR 0x0A] @ ''and returns HTTP 405.'',
          cmd_SilenceUsage = True, cmd_RunE = RunE L G oal, cmd_Out = out, cmd_Err = errOut,
          cmd_Flags = fs, cmd_Options = opts\<rparr>))"

text \<open>
  \<open>main\<close>: the library runs the command, with whatever effects, and the program exits with the
  code that it returns.
\<close>

definition server_main ::
    "('r, 'v, 'w) options_lib \<Rightarrow> ('ctx, 'v) server_lib \<Rightarrow> 'r oa_lib
       \<Rightarrow> (('v, 'w) Command \<Rightarrow> 'w \<times> store list \<Rightarrow> int \<times> ('w \<times> store list)) \<Rightarrow> 'v \<Rightarrow> 'v
       \<Rightarrow> ('w \<times> store list, int) io" where
  "server_main L G oal cli_Run Stdout Stderr =
     io_then (io_pure (NewCommand L G oal Stdout Stderr)) (\<lambda>cmd w.
     case cli_Run cmd w of (code, w) \<Rightarrow> (Ok code, w))"

end
