(* ===== verification/CommandProperties.thy ===== *)
theory CommandProperties
  imports Options OpenApiProperties
begin

section \<open>Properties of the command\<close>

text \<open>
  What a run of the command does, from its options to the server: the stages it goes through,
  what it calls the library with in each, and where it stops. Nothing is assumed of the
  library.
\<close>

subsection \<open>Sequences of calls\<close>

lemma io_then_assoc: "io_then (io_then m f) g = io_then m (\<lambda>x. io_then (f x) g)"
  by (rule ext) (simp add: io_then_def split: prod.split outcome.split)

lemma io_then_return [simp]: "io_then (io_return x) f = f x"
  by (rule ext) (simp add: io_then_def io_return_def)

lemma on_world_then: "on_world (io_then m f) = io_then (on_world m) (\<lambda>x. on_world (f x))"
  by (rule ext) (auto simp: on_world_def io_then_def split: prod.split outcome.split)

lemma on_world_return [simp]: "on_world (io_return x) = io_return x"
  by (rule ext) (simp add: on_world_def io_return_def split: prod.split)

lemma on_world_Ok: "on_world m (w, stores) = (Ok x, ws) \<longleftrightarrow> (\<exists>w'. m w = (Ok x, w') \<and> ws = (w', stores))"
  by (auto simp: on_world_def split: prod.split)

lemma io_return_Ok: "io_return x w = (Ok y, w') \<longleftrightarrow> y = x \<and> w' = w"
  by (auto simp: io_return_def)

lemma io_pure_Ok: "io_pure r w = (Ok y, w') \<longleftrightarrow> r = Ok y \<and> w' = w"
  by (auto simp: io_pure_def)

text \<open>What is left of stages that are run one after the other: the first that failed, or the last.\<close>

fun first_failure :: "((go_error, unit) outcome \<times> 's) list \<Rightarrow> (go_error, unit) outcome \<times> 's" where
  "first_failure ((r, s) # rest) = (if is_ok r \<and> rest \<noteq> [] then first_failure rest else (r, s))"

text \<open>The outcome of a stage without its value, its error wrapped by the caller.\<close>

fun ended :: "(go_error \<Rightarrow> go_error) \<Rightarrow> (go_error, 'a) outcome \<Rightarrow> (go_error, unit) outcome" where
  "ended wrap (Ok x) = Ok ()"
| "ended wrap (Err e) = Err (wrap e)"
| "ended wrap (Panic p) = Panic p"

lemma stage:
  assumes "m s = (r, s')" "\<And>x. r = Ok x \<Longrightarrow> f x s' = first_failure rest" "rest \<noteq> []"
  shows "io_then m f s = first_failure ((ended (\<lambda>e. e) r, s') # rest)"
  using assms by (cases r) (simp_all add: io_then_def)

lemma wrapped_stage:
  assumes "m w = (r, w')" "\<And>x. r = Ok x \<Longrightarrow> f x (w', stores) = first_failure rest" "rest \<noteq> []"
  shows "io_then (on_world (wrap_err msg m)) f (w, stores) = first_failure ((ended (ErrorfWrap msg) r, (w', stores)) # rest)"
  using assms by (cases r) (simp_all add: io_then_def on_world_def wrap_err_def)

subsection \<open>The stages of a run\<close>

definition validation_errors :: "('r, 'v, 'w) options_lib \<Rightarrow> 'v Options \<Rightarrow> go_error list" where
  "validation_errors L opts =
     op_ValidateSecureServing L (opt_SecureServing opts) @ op_ValidateAuthentication L (opt_Authentication opts)
     @ op_ValidateAuthorization L (opt_Authorization opts) @ op_ValidateAudit L (opt_Audit opts)
     @ op_ValidateFeatures L (opt_Features opts)
     @ (if opt_AuthorizationMode opts \<in> {[], ''AlwaysAllow''} then [] else [mode_error (opt_AuthorizationMode opts)])"

lemma Validate_eq:
  "Options_Validate L opts = (if validation_errors L opts = [] then Ok () else Err (Aggregate (validation_errors L opts)))"
  by (simp add: Options_Validate_def validation_errors_def NewAggregate_def AuthorizationModeAlwaysAllow_def)

text \<open>The configuration before the option groups are applied to it.\<close>

definition initial_config :: "('r, 'v, 'w) options_lib \<Rightarrow> 'r oa_lib \<Rightarrow> ('r, 'v) ServerConfig" where
  "initial_config L oal = (op_NewRecommendedConfig L)
     \<lparr>cf_OpenAPIConfig := Some (DefaultOpenAPIConfig (op_DefaultOpenAPIConfig L) oal),
      cf_OpenAPIV3Config := Some (DefaultOpenAPIV3Config (op_DefaultOpenAPIV3Config L) oal),
      cf_EffectiveVersion := Some (op_DefaultBuildEffectiveVersion L)\<rparr>"

lemma Config_stages:
  assumes "op_ApplySecureServing L (opt_SecureServing opts) (cf_SecureServing (initial_config L oal))
        (cf_LoopbackClientConfig (initial_config L oal)) w1 = (r2, w2)"
    and "cfg2 = (initial_config L oal)\<lparr>cf_SecureServing := fst (the_ok r2), cf_LoopbackClientConfig := snd (the_ok r2)\<rparr>"
    and "op_ApplyAuthentication L (opt_Authentication opts) (cf_Authentication cfg2) (cf_SecureServing cfg2)
        (cf_OpenAPIConfig cfg2) w2 = (r3, w3)"
    and "cfg3 = cfg2\<lparr>cf_Authentication := fst (the_ok r3), cf_OpenAPIConfig := snd (the_ok r3)\<rparr>"
    and "(if opt_AuthorizationMode opts = ''AlwaysAllow'' then (Ok (Some (op_NewAlwaysAllowAuthorizer L)), w3)
          else op_ApplyAuthorization L (opt_Authorization opts) (cf_Authorizer cfg3) w3) = (r4, w4)"
    and "op_ApplyAudit L (opt_Audit opts) (cfg3\<lparr>cf_Authorizer := the_ok r4\<rparr>) w4 = (r5, w5)"
    and "op_ApplyFeatures L (opt_Features opts) (the_ok r5) w5 = (r6, w6)"
    and go: "\<And>cfg. r6 = Ok cfg \<Longrightarrow> f \<lparr>ac_GenericConfig = cfg, ac_ExtraConfig = ()\<rparr> (w6, stores) = first_failure rest"
    and "rest \<noteq> []"
  shows "io_then (on_world (Options_Config L oal opts)) f (w1, stores) = first_failure
    ([(ended (ErrorfWrap ''apply secure serving: %w'') r2, (w2, stores)),
      (ended (ErrorfWrap ''apply authentication: %w'') r3, (w3, stores)),
      (ended (ErrorfWrap ''apply authorization: %w'') r4, (w4, stores)),
      (ended (ErrorfWrap ''apply audit: %w'') r5, (w5, stores)),
      (ended (ErrorfWrap ''apply features: %w'') r6, (w6, stores))] @ rest)"
proof -
  have audit: "io_then (on_world (io_then (wrap_err ''apply audit: %w'' (op_ApplyAudit L (opt_Audit opts) cfg)) (\<lambda>cfg.
      io_then (wrap_err ''apply features: %w'' (op_ApplyFeatures L (opt_Features opts) cfg)) (\<lambda>cfg.
      io_return \<lparr>ac_GenericConfig = cfg, ac_ExtraConfig = ()\<rparr>)))) f (w4, stores)
    = first_failure ((ended (ErrorfWrap ''apply audit: %w'') r5, (w5, stores))
        # (ended (ErrorfWrap ''apply features: %w'') r6, (w6, stores)) # rest)"
    if "cfg = cfg3\<lparr>cf_Authorizer := the_ok r4\<rparr>" for cfg
    unfolding on_world_then io_then_assoc that
  proof (rule wrapped_stage, rule assms(6))
    fix x assume "r5 = Ok x"
    then have "op_ApplyFeatures L (opt_Features opts) x w5 = (r6, w6)" using assms(7) by simp
    then show "io_then (on_world (wrap_err ''apply features: %w'' (op_ApplyFeatures L (opt_Features opts) x)))
        (\<lambda>x. io_then (on_world (io_return \<lparr>ac_GenericConfig = x, ac_ExtraConfig = ()\<rparr>)) f) (w5, stores)
      = first_failure ((ended (ErrorfWrap ''apply features: %w'') r6, (w6, stores)) # rest)"
      by (rule wrapped_stage) (simp_all add: go assms(9))
  qed simp
  have authz: "io_then (on_world (apply_authorization L opts cfg3)) g (w3, stores)
      = first_failure ((ended (ErrorfWrap ''apply authorization: %w'') r4, (w4, stores)) # rest')"
    if "g (cfg3\<lparr>cf_Authorizer := the_ok r4\<rparr>) (w4, stores) = first_failure rest'" "rest' \<noteq> []" for g rest'
  proof (cases "opt_AuthorizationMode opts = ''AlwaysAllow''")
    case True
    then have "r4 = Ok (Some (op_NewAlwaysAllowAuthorizer L))" "w4 = w3" using assms(5) by simp_all
    with True that show ?thesis by (simp add: apply_authorization_def AuthorizationModeAlwaysAllow_def)
  next
    case False
    then have "op_ApplyAuthorization L (opt_Authorization opts) (cf_Authorizer cfg3) w3 = (r4, w4)" using assms(5) by simp
    with False that show ?thesis
      by (simp only: apply_authorization_def AuthorizationModeAlwaysAllow_def if_False on_world_then io_then_assoc)
        (rule wrapped_stage, auto)
  qed
  have authn: "io_then (on_world (io_then (wrap_err ''apply authentication: %w''
        (op_ApplyAuthentication L (opt_Authentication opts) (cf_Authentication cfg2) (cf_SecureServing cfg2) (cf_OpenAPIConfig cfg2)))
      (\<lambda>(authentication, openapi). g (cfg2\<lparr>cf_Authentication := authentication, cf_OpenAPIConfig := openapi\<rparr>)))) f (w2, stores)
    = first_failure ((ended (ErrorfWrap ''apply authentication: %w'') r3, (w3, stores)) # rest')"
    if "io_then (on_world (g cfg3)) f (w3, stores) = first_failure rest'" "rest' \<noteq> []" for g rest'
    unfolding on_world_then io_then_assoc
  proof (rule wrapped_stage, rule assms(3))
    fix x assume "r3 = Ok x"
    with that assms(4) show "io_then (on_world (case x of (authentication, openapi) \<Rightarrow>
        g (cfg2\<lparr>cf_Authentication := authentication, cf_OpenAPIConfig := openapi\<rparr>))) f (w3, stores) = first_failure rest'"
      by (cases x) simp
  qed (fact that(2))
  have serving: "io_then (on_world (io_then (wrap_err ''apply secure serving: %w''
        (op_ApplySecureServing L (opt_SecureServing opts) (cf_SecureServing (initial_config L oal))
          (cf_LoopbackClientConfig (initial_config L oal))))
      (\<lambda>(serving, loopback). g ((initial_config L oal)\<lparr>cf_SecureServing := serving, cf_LoopbackClientConfig := loopback\<rparr>)))) f (w1, stores)
    = first_failure ((ended (ErrorfWrap ''apply secure serving: %w'') r2, (w2, stores)) # rest')"
    if "io_then (on_world (g cfg2)) f (w2, stores) = first_failure rest'" "rest' \<noteq> []" for g rest'
    unfolding on_world_then io_then_assoc
  proof (rule wrapped_stage, rule assms(1))
    fix x assume "r2 = Ok x"
    with that assms(2) show "io_then (on_world (case x of (serving, loopback) \<Rightarrow>
        g ((initial_config L oal)\<lparr>cf_SecureServing := serving, cf_LoopbackClientConfig := loopback\<rparr>))) f (w2, stores) = first_failure rest'"
      by (cases x) simp
  qed (fact that(2))
  show ?thesis
    unfolding Options_Config_def Let_def initial_config_def [symmetric] append_Cons append_Nil
    by (rule serving, rule authn, subst on_world_then, subst io_then_assoc, rule authz, rule audit)
      (simp_all add: assms(9))
qed

lemma Run_stages:
  assumes "r7 = op_Complete L (ac_GenericConfig config)" "r8 = gl_New G ''simple-apiserver'' (the_ok r7)"
    and "tasks_group G stores = (info, stores')" "r9 = gl_InstallAPIGroup G info (the_ok r8)"
    and "op_PrepareRunRun L (the_ok r9) (case ctx of None \<Rightarrow> op_SetupSignalContext L | Some c \<Rightarrow> c) w6 = (r10, w7)"
  shows "io_then (io_pure (Config_Complete L config)) (\<lambda>completed.
      io_then (on_stores (CompletedConfig_New G (cc_GenericConfig completed))) (\<lambda>server.
      let ctx = (case ctx of None \<Rightarrow> op_SetupSignalContext L | Some ctx \<Rightarrow> ctx)
      in on_world (op_PrepareRunRun L (as_GenericAPIServer server) ctx))) (w6, stores)
    = first_failure [(ended (\<lambda>e. e) r7, (w6, stores)), (ended (\<lambda>e. e) r8, (w6, stores)),
        (ended (\<lambda>e. e) r9, (w6, stores')), (r10, (w7, stores'))]"
proof (cases r7)
  case r7: (Ok completed)
  note complete = assms(1) [symmetric, unfolded r7]
  note defs = io_then_def io_pure_def Config_Complete_def on_stores_def on_world_def CompletedConfig_New_def
    installTasksGroup_def ServerName_def
  show ?thesis
  proof (cases r8)
    case r8: (Ok server)
    have new: "gl_New G ''simple-apiserver'' completed = Ok server" using assms(2) r7 r8 by simp
    have install: "installTasksGroup G server stores = (r9, stores')"
      using assms(3,4) r8 by (simp add: installTasksGroup_def)
    show ?thesis
      using assms(5) by (cases r9) (simp_all add: defs(1-6,8) complete new install r7 r8)
  next
    case (Err e)
    then have "gl_New G ''simple-apiserver'' completed = Err e" using assms(2) r7 by simp
    then show ?thesis by (simp add: defs complete r7 Err)
  next
    case (Panic e)
    then have "gl_New G ''simple-apiserver'' completed = Panic e" using assms(2) r7 by simp
    then show ?thesis by (simp add: defs complete r7 Panic)
  qed
next
  case (Err e)
  then show ?thesis using assms(1) [symmetric] by (simp add: io_then_def io_pure_def Config_Complete_def)
next
  case (Panic e)
  then show ?thesis using assms(1) [symmetric] by (simp add: io_then_def io_pure_def Config_Complete_def)
qed

text \<open>C35. A run of the command is eleven stages, in this order: certificates, validation, the five
  applications of the option groups to the configuration, its completion, the server, the API
  group, serving. It stops at the first stage that fails or panics, and answers with what that
  stage answered: an error of an application under the words of the caller, of validation the
  aggregate of the errors of all groups, an authorization mode other than empty and
  \<open>AlwaysAllow\<close> among them, and any other error as it is. No later stage has an effect: in
  particular no store exists before all that comes before the API group has succeeded, and then
  it is one new store of tasks. But certificates come first, so a command that is rejected may
  have written a key pair.\<close>

theorem command_stops_at_errors:
  assumes "op_MaybeDefaultWithSelfSignedCerts L ''localhost'' [] [''127.0.0.1''] (opt_SecureServing opts) w = (r1, w1)"
    and "errs = op_ValidateSecureServing L (the_ok r1) @ op_ValidateAuthentication L (opt_Authentication opts)
      @ op_ValidateAuthorization L (opt_Authorization opts) @ op_ValidateAudit L (opt_Audit opts)
      @ op_ValidateFeatures L (opt_Features opts)
      @ (if opt_AuthorizationMode opts \<in> {[], ''AlwaysAllow''} then [] else [mode_error (opt_AuthorizationMode opts)])"
    and "cfg1 = (op_NewRecommendedConfig L)
     \<lparr>cf_OpenAPIConfig := Some (DefaultOpenAPIConfig (op_DefaultOpenAPIConfig L) oal),
      cf_OpenAPIV3Config := Some (DefaultOpenAPIV3Config (op_DefaultOpenAPIV3Config L) oal),
      cf_EffectiveVersion := Some (op_DefaultBuildEffectiveVersion L)\<rparr>"
    and "op_ApplySecureServing L (the_ok r1) (cf_SecureServing cfg1) (cf_LoopbackClientConfig cfg1) w1 = (r2, w2)"
    and "cfg2 = cfg1\<lparr>cf_SecureServing := fst (the_ok r2), cf_LoopbackClientConfig := snd (the_ok r2)\<rparr>"
    and "op_ApplyAuthentication L (opt_Authentication opts) (cf_Authentication cfg2) (cf_SecureServing cfg2)
        (cf_OpenAPIConfig cfg2) w2 = (r3, w3)"
    and "cfg3 = cfg2\<lparr>cf_Authentication := fst (the_ok r3), cf_OpenAPIConfig := snd (the_ok r3)\<rparr>"
    and "(if opt_AuthorizationMode opts = ''AlwaysAllow'' then (Ok (Some (op_NewAlwaysAllowAuthorizer L)), w3)
          else op_ApplyAuthorization L (opt_Authorization opts) (cf_Authorizer cfg3) w3) = (r4, w4)"
    and "op_ApplyAudit L (opt_Audit opts) (cfg3\<lparr>cf_Authorizer := the_ok r4\<rparr>) w4 = (r5, w5)"
    and "op_ApplyFeatures L (opt_Features opts) (the_ok r5) w5 = (r6, w6)"
    and "r7 = op_Complete L (the_ok r6)" "r8 = gl_New G ''simple-apiserver'' (the_ok r7)"
    and "tasks_group G stores = (info, stores')" "r9 = gl_InstallAPIGroup G info (the_ok r8)"
    and "op_PrepareRunRun L (the_ok r9) (case ctx of None \<Rightarrow> op_SetupSignalContext L | Some c \<Rightarrow> c) w6 = (r10, w7)"
  shows "RunE L G oal ctx opts (w, stores) = first_failure
     [(ended (\<lambda>e. e) r1, (w1, stores)),
      (if errs = [] then Ok () else Err (Aggregate errs), (w1, stores)),
      (ended (ErrorfWrap ''apply secure serving: %w'') r2, (w2, stores)),
      (ended (ErrorfWrap ''apply authentication: %w'') r3, (w3, stores)),
      (ended (ErrorfWrap ''apply authorization: %w'') r4, (w4, stores)),
      (ended (ErrorfWrap ''apply audit: %w'') r5, (w5, stores)),
      (ended (ErrorfWrap ''apply features: %w'') r6, (w6, stores)),
      (ended (\<lambda>e. e) r7, (w6, stores)),
      (ended (\<lambda>e. e) r8, (w6, stores)),
      (ended (\<lambda>e. e) r9, (w6, stores')),
      (r10, (w7, stores'))]
    \<and> stores' = stores @ [Store_New (Resource ''tasks'')]"
proof (intro conjI)
  show "stores' = stores @ [Store_New (Resource ''tasks'')]"
    using assms(13) by (auto simp: tasks_group_def new_store_def Let_def)
  have certs: "on_world (Options_Complete L opts) (w, stores)
      = (case r1 of Ok ss \<Rightarrow> Ok (opts\<lparr>opt_SecureServing := ss\<rparr>) | Err e \<Rightarrow> Err e | Panic p \<Rightarrow> Panic p, (w1, stores))"
    using assms(1) by (cases r1) (simp_all add: on_world_def Options_Complete_def io_then_def io_return_def)
  have config: "initial_config L oal = cfg1" by (simp add: initial_config_def assms(3))
  show "RunE L G oal ctx opts (w, stores) = first_failure
     [(ended (\<lambda>e. e) r1, (w1, stores)),
      (if errs = [] then Ok () else Err (Aggregate errs), (w1, stores)),
      (ended (ErrorfWrap ''apply secure serving: %w'') r2, (w2, stores)),
      (ended (ErrorfWrap ''apply authentication: %w'') r3, (w3, stores)),
      (ended (ErrorfWrap ''apply authorization: %w'') r4, (w4, stores)),
      (ended (ErrorfWrap ''apply audit: %w'') r5, (w5, stores)),
      (ended (ErrorfWrap ''apply features: %w'') r6, (w6, stores)),
      (ended (\<lambda>e. e) r7, (w6, stores)),
      (ended (\<lambda>e. e) r8, (w6, stores)),
      (ended (\<lambda>e. e) r9, (w6, stores')),
      (r10, (w7, stores'))]"
  proof (cases r1)
    case (Ok ss)
    let ?o = "opts\<lparr>opt_SecureServing := ss\<rparr>"
    have errs: "validation_errors L ?o = errs" using Ok by (simp add: validation_errors_def assms(2))
    have run: "RunE L G oal ctx opts (w, stores)
        = (if errs = [] then Options_Run L G oal ctx ?o (w1, stores) else (Err (Aggregate errs), (w1, stores)))"
      by (simp add: RunE_def io_then_def certs Ok io_pure_def Validate_eq errs)
    have o: "opt_SecureServing ?o = the_ok r1" "opt_Authentication ?o = opt_Authentication opts"
      "opt_Authorization ?o = opt_Authorization opts" "opt_Audit ?o = opt_Audit opts" "opt_Features ?o = opt_Features opts"
      "opt_AuthorizationMode ?o = opt_AuthorizationMode opts" by (simp_all add: Ok)
    have "Options_Run L G oal ctx ?o (w1, stores) = first_failure
       ([(ended (ErrorfWrap ''apply secure serving: %w'') r2, (w2, stores)),
        (ended (ErrorfWrap ''apply authentication: %w'') r3, (w3, stores)),
        (ended (ErrorfWrap ''apply authorization: %w'') r4, (w4, stores)),
        (ended (ErrorfWrap ''apply audit: %w'') r5, (w5, stores)),
        (ended (ErrorfWrap ''apply features: %w'') r6, (w6, stores))]
       @ [(ended (\<lambda>e. e) r7, (w6, stores)), (ended (\<lambda>e. e) r8, (w6, stores)),
        (ended (\<lambda>e. e) r9, (w6, stores')), (r10, (w7, stores'))])"
      unfolding Options_Run_def
      by (rule Config_stages, unfold o config, rule assms(4), rule assms(5), rule assms(6), rule assms(7), rule assms(8),
          rule assms(9), rule assms(10), rule Run_stages, simp add: assms(11), rule assms(12), rule assms(13),
          rule assms(14), rule assms(15), simp)
    then show ?thesis by (simp add: run Ok)
  qed (simp_all add: RunE_def io_then_def certs)
qed

text \<open>A sample library, in which making certificates counts as one effect.\<close>

definition sample_options_lib :: "(string, nat, nat) options_lib" where
  "sample_options_lib =
     (let cfg = \<lparr>cf_OpenAPIConfig = None, cf_OpenAPIV3Config = None, cf_EffectiveVersion = None, cf_SecureServing = 0,
                 cf_LoopbackClientConfig = 0, cf_Authentication = 0, cf_Authorizer = None, cf_lib = 0\<rparr>;
          openapi = (\<lambda>defs. \<lparr>oc_Definitions = defs, oc_Title = [], oc_Version = [], oc_lib = 0\<rparr>)
      in \<lparr>op_NewSecureServing = \<lparr>ss_BindPort = 443, ss_lib = 0\<rparr>,
          op_NewAuthentication = \<lparr>an_RemoteKubeConfigFileOptional = False, an_TolerateInClusterLookupFailure = False, an_lib = 0\<rparr>,
          op_NewAuthorization = \<lparr>az_RemoteKubeConfigFileOptional = False, az_lib = 0\<rparr>, op_NewAudit = 0,
          op_NewFeatures = \<lparr>fe_EnablePriorityAndFairness = True, fe_lib = 0\<rparr>,
          op_FlagsSecureServing = [''secure-port''], op_FlagsAuthentication = [], op_FlagsAuthorization = [],
          op_FlagsAudit = [], op_FlagsFeatures = [],
          op_ValidateSecureServing = (\<lambda>ss. if ss_BindPort ss < 0 then [NotAnObject] else []),
          op_ValidateAuthentication = (\<lambda>_. []), op_ValidateAuthorization = (\<lambda>_. []),
          op_ValidateAudit = (\<lambda>_. []), op_ValidateFeatures = (\<lambda>_. []),
          op_MaybeDefaultWithSelfSignedCerts = (\<lambda>host dns ips ss w. (Ok ss, Suc w)),
          op_NewRecommendedConfig = cfg, op_DefaultOpenAPIConfig = openapi, op_DefaultOpenAPIV3Config = openapi,
          op_DefaultBuildEffectiveVersion = 1,
          op_ApplySecureServing = (\<lambda>ss a b w. (Ok (1, 1), w)),
          op_ApplyAuthentication = (\<lambda>an a s openapi w. (Ok (1, openapi), w)),
          op_ApplyAuthorization = (\<lambda>az a w. (Err NotAnObject, w)), op_NewAlwaysAllowAuthorizer = 7,
          op_ApplyAudit = (\<lambda>au cfg w. (Ok cfg, w)), op_ApplyFeatures = (\<lambda>fe cfg w. (Ok cfg, w)),
          op_Complete = (\<lambda>cfg. Ok (case cf_Authorizer cfg of None \<Rightarrow> 0 | Some a \<Rightarrow> a)), op_SetupSignalContext = 0,
          op_PrepareRunRun = (\<lambda>server ctx w. (Ok (), w))\<rparr>)"

lemma sample_options_simps:
  "op_NewSecureServing sample_options_lib = \<lparr>ss_BindPort = 443, ss_lib = 0\<rparr>"
  "op_ValidateSecureServing sample_options_lib ss = (if ss_BindPort ss < 0 then [NotAnObject] else [])"
  "op_ValidateAuthentication sample_options_lib an = []" "op_ValidateAuthorization sample_options_lib az = []"
  "op_ValidateAudit sample_options_lib au = []" "op_ValidateFeatures sample_options_lib fe = []"
  "op_MaybeDefaultWithSelfSignedCerts sample_options_lib host dns ips ss w = (Ok ss, Suc w)"
  "op_ApplySecureServing sample_options_lib ss v1 v2 w = (Ok (1, 1), w)"
  "op_ApplyAuthentication sample_options_lib an v1 v2 openapi w = (Ok (1, openapi), w)"
  "op_ApplyAuthorization sample_options_lib az a w = (Err NotAnObject, w)"
  "op_NewAlwaysAllowAuthorizer sample_options_lib = 7"
  "op_ApplyAudit sample_options_lib au cfg w = (Ok cfg, w)" "op_ApplyFeatures sample_options_lib fe cfg w = (Ok cfg, w)"
  "op_Complete sample_options_lib cfg = Ok (case cf_Authorizer cfg of None \<Rightarrow> 0 | Some a \<Rightarrow> a)"
  "op_PrepareRunRun sample_options_lib server c w = (Ok (), w)"
  by (simp_all add: sample_options_lib_def Let_def)

lemma sample_tasks_group:
  "\<exists>info. tasks_group sample_server [] = (info, [Store_New (Resource ''tasks'')])
     \<and> (\<forall>n. gl_InstallAPIGroup sample_server info n = Ok (Suc n))"
  by (simp add: tasks_group_def new_store_def sample_server_def SchemeGroupVersion_def Let_def)

text \<open>Without flags the sample delegates, and its authorizer is not there: nothing is served.\<close>

theorem command_stops_at_errors_witness:
  "RunE sample_options_lib sample_server sample_oa_lib None (NewOptions sample_options_lib 0 0) (0, [])
     = (Err (ErrorfWrap ''apply authorization: %w'' NotAnObject), (1, []))
   \<and> RunE sample_options_lib sample_server sample_oa_lib None
       ((NewOptions sample_options_lib 0 0)\<lparr>opt_AuthorizationMode := ''AlwaysAllow''\<rparr>) (0, [])
     = (Ok (), (1, [Store_New (Resource ''tasks'')]))"
proof -
  obtain info where i: "tasks_group sample_server [] = (info, [Store_New (Resource ''tasks'')])"
    "\<And>n. gl_InstallAPIGroup sample_server info n = Ok (Suc n)"
    using sample_tasks_group by blast
  have new: "gl_New sample_server name n = Ok n" for name n by (simp add: sample_server_def)
  have o: "opt_AuthorizationMode (NewOptions sample_options_lib 0 0) = []"
    "ss_BindPort (opt_SecureServing (NewOptions sample_options_lib 0 0)) = 6443"
    by (simp_all add: NewOptions_def Let_def)
  note run = command_stops_at_errors [where L = sample_options_lib and G = sample_server and oal = sample_oa_lib and ctx = None
      and stores = "[]" and w = 0, unfolded sample_options_simps i new]
  note run = run [OF refl refl refl refl refl refl refl _ refl refl refl refl refl refl refl, THEN conjunct1, THEN trans]
  show ?thesis
    by (rule conjI; rule run, simp add: o, simp add: o i)
qed

lemma RunE_cases:
  "RunE L G oal ctx opts (w, stores) =
     (case op_MaybeDefaultWithSelfSignedCerts L ''localhost'' [] [''127.0.0.1''] (opt_SecureServing opts) w of
        (Err e, w1) \<Rightarrow> (Err e, (w1, stores))
      | (Panic p, w1) \<Rightarrow> (Panic p, (w1, stores))
      | (Ok ss, w1) \<Rightarrow>
          let opts = opts\<lparr>opt_SecureServing := ss\<rparr>
          in if validation_errors L opts = [] then Options_Run L G oal ctx opts (w1, stores)
             else (Err (Aggregate (validation_errors L opts)), (w1, stores)))"
  by (auto simp: RunE_def Options_Complete_def io_then_def on_world_def io_return_def io_pure_def Validate_eq Let_def
      split: prod.split outcome.split)

text \<open>A run that succeeds, call by call up to the configuration.\<close>

lemma apply_authorization_Ok:
  "apply_authorization L opts cfg w = (Ok cfg', w') \<longleftrightarrow>
     (\<exists>authorizer. cfg' = cfg\<lparr>cf_Authorizer := authorizer\<rparr>
       \<and> (if opt_AuthorizationMode opts = ''AlwaysAllow''
          then authorizer = Some (op_NewAlwaysAllowAuthorizer L) \<and> w' = w
          else op_ApplyAuthorization L (opt_Authorization opts) (cf_Authorizer cfg) w = (Ok authorizer, w')))"
  by (auto simp: apply_authorization_def AuthorizationModeAlwaysAllow_def io_return_Ok io_then_Ok wrap_err_Ok)

lemma RunE_Ok:
  assumes "RunE L G oal ctx opts (w, stores) = (Ok u, ws)"
  shows "\<exists>ss w1 serving loopback w2 authentication openapi w3 authorizer w4 cfg4 cfg5 w5 cfg6 w6.
    op_MaybeDefaultWithSelfSignedCerts L ''localhost'' [] [''127.0.0.1''] (opt_SecureServing opts) w = (Ok ss, w1)
    \<and> validation_errors L (opts\<lparr>opt_SecureServing := ss\<rparr>) = []
    \<and> op_ApplySecureServing L ss (cf_SecureServing (initial_config L oal)) (cf_LoopbackClientConfig (initial_config L oal)) w1
        = (Ok (serving, loopback), w2)
    \<and> op_ApplyAuthentication L (opt_Authentication opts) (cf_Authentication (initial_config L oal)) serving
        (cf_OpenAPIConfig (initial_config L oal)) w2 = (Ok (authentication, openapi), w3)
    \<and> (if opt_AuthorizationMode opts = ''AlwaysAllow''
       then authorizer = Some (op_NewAlwaysAllowAuthorizer L) \<and> w4 = w3
       else op_ApplyAuthorization L (opt_Authorization opts) (cf_Authorizer (initial_config L oal)) w3 = (Ok authorizer, w4))
    \<and> cfg4 = (initial_config L oal)\<lparr>cf_SecureServing := serving, cf_LoopbackClientConfig := loopback,
        cf_Authentication := authentication, cf_OpenAPIConfig := openapi, cf_Authorizer := authorizer\<rparr>
    \<and> op_ApplyAudit L (opt_Audit opts) cfg4 w4 = (Ok cfg5, w5)
    \<and> op_ApplyFeatures L (opt_Features opts) cfg5 w5 = (Ok cfg6, w6)
    \<and> is_ok (op_Complete L cfg6)"
proof -
  from assms obtain ss w1 where ss: "op_MaybeDefaultWithSelfSignedCerts L ''localhost'' [] [''127.0.0.1''] (opt_SecureServing opts) w = (Ok ss, w1)"
    and v: "validation_errors L (opts\<lparr>opt_SecureServing := ss\<rparr>) = []"
    and run: "Options_Run L G oal ctx (opts\<lparr>opt_SecureServing := ss\<rparr>) (w1, stores) = (Ok u, ws)"
    by (auto simp: RunE_def Options_Complete_def io_then_Ok on_world_Ok io_return_Ok io_pure_Ok Validate_eq Let_def
        split: if_splits)
  from run obtain config w6 where c: "Options_Config L oal (opts\<lparr>opt_SecureServing := ss\<rparr>) w1 = (Ok config, w6)"
    and fin: "is_ok (op_Complete L (ac_GenericConfig config))"
    by (cases "op_Complete L (ac_GenericConfig (the_ok (fst (Options_Config L oal (opts\<lparr>opt_SecureServing := ss\<rparr>) w1))))")
      (auto simp: Options_Run_def io_then_Ok on_world_Ok io_pure_Ok Config_Complete_def Let_def is_ok_iff)
  let ?c = "initial_config L oal"
  from c obtain serving loopback w2 authentication openapi w3 cfg4 w4 cfg5 w5 where
    a: "op_ApplySecureServing L ss (cf_SecureServing ?c) (cf_LoopbackClientConfig ?c) w1 = (Ok (serving, loopback), w2)"
      "op_ApplyAuthentication L (opt_Authentication opts) (cf_Authentication ?c) serving (cf_OpenAPIConfig ?c) w2
        = (Ok (authentication, openapi), w3)"
      "apply_authorization L (opts\<lparr>opt_SecureServing := ss\<rparr>) (?c\<lparr>cf_SecureServing := serving,
        cf_LoopbackClientConfig := loopback, cf_Authentication := authentication, cf_OpenAPIConfig := openapi\<rparr>) w3 = (Ok cfg4, w4)"
      "op_ApplyAudit L (opt_Audit opts) cfg4 w4 = (Ok cfg5, w5)"
      "op_ApplyFeatures L (opt_Features opts) cfg5 w5 = (Ok (ac_GenericConfig config), w6)"
    by (auto simp: Options_Config_def initial_config_def Let_def io_then_Ok wrap_err_Ok io_return_Ok)
  from a(3) obtain authorizer where b: "cfg4 = ?c\<lparr>cf_SecureServing := serving, cf_LoopbackClientConfig := loopback,
      cf_Authentication := authentication, cf_OpenAPIConfig := openapi, cf_Authorizer := authorizer\<rparr>"
    "if opt_AuthorizationMode opts = ''AlwaysAllow'' then authorizer = Some (op_NewAlwaysAllowAuthorizer L) \<and> w4 = w3
     else op_ApplyAuthorization L (opt_Authorization opts) (cf_Authorizer ?c) w3 = (Ok authorizer, w4)"
    unfolding apply_authorization_Ok by (auto cong: if_cong)
  show ?thesis by (intro exI conjI) (fact ss v a(1,2,4,5) b fin)+
qed

text \<open>C17. Who may do what is decided by the mode alone. Only with the mode \<open>AlwaysAllow\<close>, letter by
  letter, can the permissive authorizer get into a configuration: with any other the command
  does not depend on it at all, and it serves only with the authorizer that the delegating
  authorization options, applied once, have answered with; if they cannot be applied, it does
  not serve. With \<open>AlwaysAllow\<close> the command never asks the delegating authorization options,
  and it serves with the permissive authorizer. The default is to delegate.\<close>

theorem authorization_is_decided_by_mode:
  assumes "base = (op_NewRecommendedConfig L)
     \<lparr>cf_OpenAPIConfig := Some (DefaultOpenAPIConfig (op_DefaultOpenAPIConfig L) oal),
      cf_OpenAPIV3Config := Some (DefaultOpenAPIV3Config (op_DefaultOpenAPIV3Config L) oal),
      cf_EffectiveVersion := Some (op_DefaultBuildEffectiveVersion L)\<rparr>"
  shows "(opt_AuthorizationMode opts \<noteq> ''AlwaysAllow'' \<longrightarrow>
      RunE (L\<lparr>op_NewAlwaysAllowAuthorizer := any\<rparr>) G oal ctx opts = RunE L G oal ctx opts)
   \<and> (opt_AuthorizationMode opts \<noteq> ''AlwaysAllow''
      \<and> (\<forall>a w'. \<not> is_ok (fst (op_ApplyAuthorization L (opt_Authorization opts) a w'))) \<longrightarrow>
      \<not> is_ok (fst (RunE L G oal ctx opts (w, stores))))
   \<and> (opt_AuthorizationMode opts = ''AlwaysAllow'' \<longrightarrow>
      RunE (L\<lparr>op_ApplyAuthorization := f\<rparr>) G oal ctx opts = RunE L G oal ctx opts)
   \<and> (is_ok (fst (RunE L G oal ctx opts (w, stores))) \<longrightarrow>
      (\<exists>ss w1 serving loopback w2 authentication openapi w3 authorizer w4.
         op_MaybeDefaultWithSelfSignedCerts L ''localhost'' [] [''127.0.0.1''] (opt_SecureServing opts) w = (Ok ss, w1)
         \<and> op_ApplySecureServing L ss (cf_SecureServing base) (cf_LoopbackClientConfig base) w1 = (Ok (serving, loopback), w2)
         \<and> op_ApplyAuthentication L (opt_Authentication opts) (cf_Authentication base) serving (cf_OpenAPIConfig base) w2
             = (Ok (authentication, openapi), w3)
         \<and> (if opt_AuthorizationMode opts = ''AlwaysAllow''
            then authorizer = Some (op_NewAlwaysAllowAuthorizer L) \<and> w4 = w3
            else op_ApplyAuthorization L (opt_Authorization opts) (cf_Authorizer base) w3 = (Ok authorizer, w4))
         \<and> is_ok (fst (op_ApplyAudit L (opt_Audit opts)
             (base\<lparr>cf_SecureServing := serving, cf_LoopbackClientConfig := loopback, cf_Authentication := authentication,
                   cf_OpenAPIConfig := openapi, cf_Authorizer := authorizer\<rparr>) w4))))
   \<and> opt_AuthorizationMode (NewOptions L out errOut) = []"
proof (intro conjI impI)
  assume m: "opt_AuthorizationMode opts \<noteq> ''AlwaysAllow''"
  let ?L = "L\<lparr>op_NewAlwaysAllowAuthorizer := any\<rparr>"
  have c: "Options_Config ?L oal opts' = Options_Config L oal opts'"
    if "opt_AuthorizationMode opts' \<noteq> ''AlwaysAllow''" for opts'
    using that by (simp add: Options_Config_def apply_authorization_def AuthorizationModeAlwaysAllow_def)
  show "RunE ?L G oal ctx opts = RunE L G oal ctx opts"
    using m by (intro ext; cases ctx) (auto simp: RunE_cases Options_Run_def c Config_Complete_def validation_errors_def
        Let_def split: prod.split outcome.split)
next
  assume m: "opt_AuthorizationMode opts = ''AlwaysAllow''"
  let ?L = "L\<lparr>op_ApplyAuthorization := f\<rparr>"
  have c: "Options_Config ?L oal opts' = Options_Config L oal opts'"
    if "opt_AuthorizationMode opts' = ''AlwaysAllow''" for opts'
    using that by (simp add: Options_Config_def apply_authorization_def AuthorizationModeAlwaysAllow_def)
  show "RunE ?L G oal ctx opts = RunE L G oal ctx opts"
    using m by (intro ext; cases ctx) (auto simp: RunE_cases Options_Run_def c Config_Complete_def validation_errors_def
        Let_def split: prod.split outcome.split)
next
  assume m: "opt_AuthorizationMode opts \<noteq> ''AlwaysAllow''
      \<and> (\<forall>a w'. \<not> is_ok (fst (op_ApplyAuthorization L (opt_Authorization opts) a w')))"
  show "\<not> is_ok (fst (RunE L G oal ctx opts (w, stores)))"
  proof
    assume "is_ok (fst (RunE L G oal ctx opts (w, stores)))"
    then obtain u ws where "RunE L G oal ctx opts (w, stores) = (Ok u, ws)" by (metis is_ok_iff prod.collapse)
    from RunE_Ok [OF this] m obtain a w3 authorizer w4 where
      "op_ApplyAuthorization L (opt_Authorization opts) a w3 = (Ok authorizer, w4)" by auto
    with m show False by (metis fst_conv is_ok_iff)
  qed
next
  assume "is_ok (fst (RunE L G oal ctx opts (w, stores)))"
  then obtain u ws where "RunE L G oal ctx opts (w, stores) = (Ok u, ws)" by (metis is_ok_iff prod.collapse)
  from RunE_Ok [OF this] obtain ss w1 serving loopback w2 authentication openapi w3 authorizer w4 cfg4 cfg5 w5 where
    c: "op_MaybeDefaultWithSelfSignedCerts L ''localhost'' [] [''127.0.0.1''] (opt_SecureServing opts) w = (Ok ss, w1)"
    "op_ApplySecureServing L ss (cf_SecureServing base) (cf_LoopbackClientConfig base) w1 = (Ok (serving, loopback), w2)"
    "op_ApplyAuthentication L (opt_Authentication opts) (cf_Authentication base) serving (cf_OpenAPIConfig base) w2
      = (Ok (authentication, openapi), w3)"
    "if opt_AuthorizationMode opts = ''AlwaysAllow'' then authorizer = Some (op_NewAlwaysAllowAuthorizer L) \<and> w4 = w3
     else op_ApplyAuthorization L (opt_Authorization opts) (cf_Authorizer base) w3 = (Ok authorizer, w4)"
    "op_ApplyAudit L (opt_Audit opts) (base\<lparr>cf_SecureServing := serving, cf_LoopbackClientConfig := loopback,
        cf_Authentication := authentication, cf_OpenAPIConfig := openapi, cf_Authorizer := authorizer\<rparr>) w4 = (Ok cfg5, w5)"
    unfolding initial_config_def assms [symmetric] by blast
  have "is_ok (fst (op_ApplyAudit L (opt_Audit opts) (base\<lparr>cf_SecureServing := serving, cf_LoopbackClientConfig := loopback,
      cf_Authentication := authentication, cf_OpenAPIConfig := openapi, cf_Authorizer := authorizer\<rparr>) w4))"
    by (simp add: c(5))
  with c(1-4) show "\<exists>ss w1 serving loopback w2 authentication openapi w3 authorizer w4.
      op_MaybeDefaultWithSelfSignedCerts L ''localhost'' [] [''127.0.0.1''] (opt_SecureServing opts) w = (Ok ss, w1)
      \<and> op_ApplySecureServing L ss (cf_SecureServing base) (cf_LoopbackClientConfig base) w1 = (Ok (serving, loopback), w2)
      \<and> op_ApplyAuthentication L (opt_Authentication opts) (cf_Authentication base) serving (cf_OpenAPIConfig base) w2
          = (Ok (authentication, openapi), w3)
      \<and> (if opt_AuthorizationMode opts = ''AlwaysAllow''
         then authorizer = Some (op_NewAlwaysAllowAuthorizer L) \<and> w4 = w3
         else op_ApplyAuthorization L (opt_Authorization opts) (cf_Authorizer base) w3 = (Ok authorizer, w4))
      \<and> is_ok (fst (op_ApplyAudit L (opt_Audit opts)
          (base\<lparr>cf_SecureServing := serving, cf_LoopbackClientConfig := loopback, cf_Authentication := authentication,
                cf_OpenAPIConfig := openapi, cf_Authorizer := authorizer\<rparr>) w4))"
    by (intro exI conjI)
qed (simp add: NewOptions_def Let_def)

theorem authorization_is_decided_by_mode_witness:
  "RunE (sample_options_lib\<lparr>op_NewAlwaysAllowAuthorizer := 9\<rparr>) sample_server sample_oa_lib None
      (NewOptions sample_options_lib 0 0) = RunE sample_options_lib sample_server sample_oa_lib None
      (NewOptions sample_options_lib 0 0)
   \<and> \<not> is_ok (fst (RunE sample_options_lib sample_server sample_oa_lib None (NewOptions sample_options_lib 0 0) (0, [])))"
proof -
  have "opt_AuthorizationMode (NewOptions sample_options_lib 0 0) \<noteq> ''AlwaysAllow''" by (simp add: NewOptions_def Let_def)
  moreover have "\<not> is_ok (fst (op_ApplyAuthorization sample_options_lib az a w))" for az a w by (simp add: sample_options_simps)
  ultimately show ?thesis
    using authorization_is_decided_by_mode [OF refl, where L = sample_options_lib and G = sample_server
        and oal = sample_oa_lib and ctx = None and opts = "NewOptions sample_options_lib 0 0" and any = 9 and w = 0 and stores = "[]"]
    by blast
qed










end
