(* ===== verification/GenCerts.thy ===== *)
theory GenCerts
  imports Effects "HOL-Library.Word"
begin

unbundle bit_operations_syntax

section \<open>The certificate generator: \<open>hack/gen-certs\<close>\<close>

text \<open>
  A tool that writes a CA and a serving certificate with their keys to four files, and does
  nothing if all four are there. The theory models files by their cleaned path, with contents
  and mode; every system call may fail as the environment decides. Cryptography is a
  parameter: it draws on the state \<open>'z\<close> of the random source and the clock.
\<close>

subsection \<open>Paths\<close>

text \<open>\<open>filepath.Clean\<close> and \<open>Join\<close>.\<close>

fun split_slash :: "string \<Rightarrow> string list" where
  "split_slash [] = [[]]"
| "split_slash (c # cs) =
     (if c = CHR ''/'' then [] # split_slash cs
      else case split_slash cs of [] \<Rightarrow> [[c]] | e # es \<Rightarrow> (c # e) # es)"

fun clean_step :: "bool \<Rightarrow> string list \<Rightarrow> string \<Rightarrow> string list" where
  "clean_step rooted stack e =
     (if e = [] \<or> e = ''.'' then stack
      else if e = ''..'' then
        (case stack of
           [] \<Rightarrow> if rooted then [] else [''..'']
         | x # xs \<Rightarrow> if x = ''..'' then ''..'' # stack else xs)
      else e # stack)"

fun join_slash :: "string list \<Rightarrow> string" where
  "join_slash [] = []"
| "join_slash [e] = e"
| "join_slash (e # es) = e @ ''/'' @ join_slash es"

definition Clean :: "string \<Rightarrow> string" where
  "Clean p =
     (let rooted = (p \<noteq> [] \<and> hd p = CHR ''/'');
          elems = rev (foldl (clean_step rooted) [] (split_slash p))
      in if rooted then CHR ''/'' # join_slash elems
         else if elems = [] then ''.'' else join_slash elems)"

definition Join :: "string \<Rightarrow> string \<Rightarrow> string" where
  "Join dir name = Clean (if dir = [] then name else dir @ ''/'' @ name)"

subsection \<open>Files\<close>

type_synonym mode = "32 word"

record file_entry =
  f_data :: string
  f_mode :: mode

datatype syscall = SMkdirAll string | SStat string | SOpen string | SWrite string

text \<open>Which calls fail, how much of a failed write gets to the file, and the process's umask.\<close>

record env =
  e_fails :: "syscall \<Rightarrow> go_error option"
  e_written :: "string \<Rightarrow> nat"
  e_umask :: mode

record 'z process =
  ps_files :: "string \<rightharpoonup> file_entry"
  ps_random :: 'z

definition MkdirAll :: "env \<Rightarrow> string \<Rightarrow> ('z process, unit) io" where
  "MkdirAll E dir w = (case e_fails E (SMkdirAll dir) of Some e \<Rightarrow> (Err e, w) | None \<Rightarrow> (Ok (), w))"

definition Stat_ok :: "env \<Rightarrow> string \<Rightarrow> 'z process \<Rightarrow> bool" where
  "Stat_ok E path w \<longleftrightarrow> e_fails E (SStat path) = None \<and> ps_files w path \<noteq> None"

text \<open>\<open>OpenFile\<close> with \<open>O_WRONLY|O_CREATE|O_TRUNC\<close>: the mode counts only for a file that is new.\<close>

definition OpenFile_trunc :: "env \<Rightarrow> string \<Rightarrow> mode \<Rightarrow> ('z process, unit) io" where
  "OpenFile_trunc E path mode w =
     (case e_fails E (SOpen path) of
        Some e \<Rightarrow> (Err e, w)
      | None \<Rightarrow>
          let f = (case ps_files w path of
                     None \<Rightarrow> \<lparr>f_data = [], f_mode = mode AND NOT (e_umask E)\<rparr>
                   | Some f \<Rightarrow> f\<lparr>f_data := []\<rparr>)
          in (Ok (), w\<lparr>ps_files := (ps_files w)(path \<mapsto> f)\<rparr>))"

text \<open>Writing to the file just opened; a write that fails has written a part.\<close>

definition write_file :: "env \<Rightarrow> string \<Rightarrow> string \<Rightarrow> ('z process, unit) io" where
  "write_file E path data w =
     (let append = (\<lambda>d. w\<lparr>ps_files := (ps_files w)(path := map_option (\<lambda>f. f\<lparr>f_data := f_data f @ d\<rparr>) (ps_files w path))\<rparr>)
      in case e_fails E (SWrite path) of
           Some e \<Rightarrow> (Err e, append (take (e_written E path) data))
         | None \<Rightarrow> (Ok (), append data))"

subsection \<open>Certificates and keys\<close>

record Certificate =
  ct_SerialNumber :: int
  ct_CommonName :: string
  ct_NotBefore :: int
  ct_NotAfter :: int
  ct_IsCA :: bool
  ct_KeyUsage :: "string list"
  ct_ExtKeyUsage :: "string list"
  ct_BasicConstraintsValid :: bool
  ct_DNSNames :: "string list"

text \<open>The file modes \<open>0o644\<close> and \<open>0o600\<close>.\<close>

definition mode_644 :: mode where "mode_644 = 6 * 64 + 4 * 8 + 4"
definition mode_600 :: mode where "mode_600 = 6 * 64"

record ('z, 'k, 'p) crypto =
  cr_GenerateKey :: "'z \<Rightarrow> (go_error, 'k) outcome \<times> 'z"
  cr_PublicKey :: "'k \<Rightarrow> 'p"
  cr_Int :: "int \<Rightarrow> 'z \<Rightarrow> (go_error, int) outcome \<times> 'z"
  cr_Now :: "'z \<Rightarrow> int \<times> 'z"
  cr_CreateCertificate :: "Certificate \<Rightarrow> Certificate \<Rightarrow> 'p \<Rightarrow> 'k \<Rightarrow> 'z \<Rightarrow> (go_error, string) outcome \<times> 'z"
  cr_ParseCertificate :: "string \<Rightarrow> (go_error, Certificate) outcome"
  cr_MarshalECPrivateKey :: "'k \<Rightarrow> (go_error, string) outcome"
  cr_PEM :: "string \<Rightarrow> string \<Rightarrow> string"

definition draw :: "('z \<Rightarrow> (go_error, 'a) outcome \<times> 'z) \<Rightarrow> ('z process, 'a) io" where
  "draw f w = (case f (ps_random w) of (r, z) \<Rightarrow> (r, w\<lparr>ps_random := z\<rparr>))"

definition Now :: "('z, 'k, 'p) crypto \<Rightarrow> ('z process, int) io" where
  "Now C = draw (\<lambda>z. case cr_Now C z of (t, z) \<Rightarrow> (Ok t, z))"

text \<open>\<open>log.Fatal\<close> ends the process; here that is \<open>Panic\<close>.\<close>

fun fatal :: "string \<Rightarrow> (go_error, 'a) outcome \<Rightarrow> (go_error, 'a) outcome" where
  "fatal msg (Err e) = Panic msg"
| "fatal msg r = r"

definition or_fatal :: "string \<Rightarrow> ('w, 'a) io \<Rightarrow> ('w, 'a) io" where
  "or_fatal msg m w = (case m w of (r, w) \<Rightarrow> (fatal msg r, w))"

definition serial :: "('z, 'k, 'p) crypto \<Rightarrow> ('z process, int) io" where
  "serial C = (let max = push_bit 128 1 in or_fatal ''serial: %v'' (draw (cr_Int C max)))"

record certFiles =
  caCrt :: string
  caKey :: string
  tlsCrt :: string
  tlsKey :: string

definition certPaths :: "string \<Rightarrow> certFiles" where
  "certPaths dir =
     \<lparr>caCrt = Join dir ''ca.crt'', caKey = Join dir ''ca.key'',
      tlsCrt = Join dir ''tls.crt'', tlsKey = Join dir ''tls.key''\<rparr>"

fun all_stat :: "env \<Rightarrow> string list \<Rightarrow> 'z process \<Rightarrow> bool" where
  "all_stat E [] w = True"
| "all_stat E (f # fs) w = (if \<not> Stat_ok E f w then False else all_stat E fs w)"

definition allExist :: "env \<Rightarrow> certFiles \<Rightarrow> 'z process \<Rightarrow> bool" where
  "allExist E p w = all_stat E [caCrt p, caKey p, tlsCrt p, tlsKey p] w"

text \<open>The deferred \<open>Close\<close> has no effect here.\<close>

definition writePEM :: "env \<Rightarrow> ('z, 'k, 'p) crypto \<Rightarrow> string \<Rightarrow> string \<Rightarrow> string \<Rightarrow> mode \<Rightarrow> ('z process, unit) io" where
  "writePEM E C path blockType bytes mode =
     io_then (wrap_err (''open '' @ path @ '': %w'') (OpenFile_trunc E path mode)) (\<lambda>_.
     io_then (wrap_err (''write '' @ path @ '': %w'') (write_file E path (cr_PEM C blockType bytes))) (\<lambda>_.
     io_return ()))"

definition writeCertPEM :: "env \<Rightarrow> ('z, 'k, 'p) crypto \<Rightarrow> string \<Rightarrow> string \<Rightarrow> ('z process, unit) io" where
  "writeCertPEM E C path der = writePEM E C path ''CERTIFICATE'' der mode_644"

definition writeECKeyPEM :: "env \<Rightarrow> ('z, 'k, 'p) crypto \<Rightarrow> string \<Rightarrow> 'k \<Rightarrow> ('z process, unit) io" where
  "writeECKeyPEM E C path key =
     io_then (wrap_err ''marshal ec key: %w'' (io_pure (cr_MarshalECPrivateKey C key))) (\<lambda>der.
     writePEM E C path ''EC PRIVATE KEY'' der mode_600)"

subsection \<open>The tool\<close>

definition Hour :: int where "Hour = 3600 * 10 ^ 9"

definition ca_template :: "int \<Rightarrow> int \<Rightarrow> int \<Rightarrow> Certificate" where
  "ca_template sn notBefore notAfter =
     \<lparr>ct_SerialNumber = sn, ct_CommonName = ''simple-apiserver-e2e-ca'', ct_NotBefore = notBefore,
      ct_NotAfter = notAfter, ct_IsCA = True, ct_KeyUsage = [''CertSign'', ''CRLSign'', ''DigitalSignature''],
      ct_ExtKeyUsage = [], ct_BasicConstraintsValid = True, ct_DNSNames = []\<rparr>"

definition leaf_template :: "int \<Rightarrow> string \<Rightarrow> string list \<Rightarrow> int \<Rightarrow> int \<Rightarrow> Certificate" where
  "leaf_template sn cn dnsSANs notBefore notAfter =
     \<lparr>ct_SerialNumber = sn, ct_CommonName = cn, ct_NotBefore = notBefore, ct_NotAfter = notAfter,
      ct_IsCA = False, ct_KeyUsage = [''DigitalSignature'', ''KeyEncipherment''],
      ct_ExtKeyUsage = [''ServerAuth''], ct_BasicConstraintsValid = False, ct_DNSNames = dnsSANs\<rparr>"

text \<open>\<open>generate\<close>, in two parts: making keys and certificates, and writing the files. \<open>dnsSANs[0]\<close>
panics for no names.\<close>

definition make_certs ::
    "('z, 'k, 'p) crypto \<Rightarrow> int \<Rightarrow> string list \<Rightarrow> ('z process, string \<times> 'k \<times> string \<times> 'k) io" where
  "make_certs C validFor dnsSANs =
     io_then (wrap_err ''gen ca key: %w'' (draw (cr_GenerateKey C))) (\<lambda>caKey.
     io_then (serial C) (\<lambda>caSerial.
     io_then (Now C) (\<lambda>t1.
     io_then (Now C) (\<lambda>t2.
     let caTmpl = ca_template caSerial (t1 + (- 1) * Hour) (t2 + validFor) in
     io_then (wrap_err ''sign ca: %w'' (draw (cr_CreateCertificate C caTmpl caTmpl (cr_PublicKey C caKey) caKey))) (\<lambda>caDER.
     io_then (wrap_err ''gen leaf key: %w'' (draw (cr_GenerateKey C))) (\<lambda>leafKey.
     io_then (serial C) (\<lambda>leafSerial.
     io_then (io_pure (if dnsSANs = [] then Panic ''index out of range'' else Ok (hd dnsSANs))) (\<lambda>cn.
     io_then (Now C) (\<lambda>t3.
     io_then (Now C) (\<lambda>t4.
     let leafTmpl = leaf_template leafSerial cn dnsSANs (t3 + (- 1) * Hour) (t4 + validFor) in
     io_then (wrap_err ''parse ca: %w'' (io_pure (cr_ParseCertificate C caDER))) (\<lambda>caCert.
     io_then (wrap_err ''sign leaf: %w'' (draw (cr_CreateCertificate C leafTmpl caCert (cr_PublicKey C leafKey) caKey))) (\<lambda>leafDER.
     io_return (caDER, caKey, leafDER, leafKey)))))))))))))"

definition write_certs ::
    "env \<Rightarrow> ('z, 'k, 'p) crypto \<Rightarrow> certFiles \<Rightarrow> string \<times> 'k \<times> string \<times> 'k \<Rightarrow> ('z process, unit) io" where
  "write_certs E C p = (\<lambda>(caDER, caK, leafDER, leafK).
     io_then (writeCertPEM E C (caCrt p) caDER) (\<lambda>_.
     io_then (writeECKeyPEM E C (caKey p) caK) (\<lambda>_.
     io_then (writeCertPEM E C (tlsCrt p) leafDER) (\<lambda>_.
     writeECKeyPEM E C (tlsKey p) leafK))))"

definition generate ::
    "env \<Rightarrow> ('z, 'k, 'p) crypto \<Rightarrow> certFiles \<Rightarrow> int \<Rightarrow> string list \<Rightarrow> ('z process, unit) io" where
  "generate E C p validFor dnsSANs = io_then (make_certs C validFor dnsSANs) (write_certs E C p)"

text \<open>The repeatable flag \<open>--dns-san\<close>: each use appends to the defaults. \<open>fmt.Sprint\<close> puts the elements
of a slice between brackets, with spaces in between.\<close>

definition default_SANs :: "string list" where
  "default_SANs =
     [''simple-apiserver'', ''simple-apiserver.simple-apiserver'', ''simple-apiserver.simple-apiserver.svc'',
      ''simple-apiserver.simple-apiserver.svc.cluster.local'']"

definition stringSlice_Set :: "string \<Rightarrow> string list \<Rightarrow> string list" where
  "stringSlice_Set v s = s @ [v]"

fun join_spaces :: "string list \<Rightarrow> string" where
  "join_spaces [] = []"
| "join_spaces [e] = e"
| "join_spaces (e # es) = e @ '' '' @ join_spaces es"

definition stringSlice_String :: "string list \<Rightarrow> string" where
  "stringSlice_String s = ''['' @ join_spaces s @ '']''"

definition gen_main ::
    "env \<Rightarrow> ('z, 'k, 'p) crypto \<Rightarrow> string \<Rightarrow> int \<Rightarrow> string list \<Rightarrow> ('z process, unit) io" where
  "gen_main E C outDir validFor sanFlags =
     (let dnsSANs = fold stringSlice_Set sanFlags default_SANs in
      if outDir = [] then io_pure (Panic ''--out is required'')
      else io_then (or_fatal ''mkdir %s: %v'' (MkdirAll E outDir)) (\<lambda>_.
        let paths = certPaths outDir in
        (\<lambda>w. if allExist E paths w then io_return () w
              else or_fatal ''generate: %v'' (generate E C paths validFor dnsSANs) w)))"

subsection \<open>The four files are different files\<close>

lemma split_slash_snoc:
  "CHR ''/'' \<notin> set name \<Longrightarrow> split_slash (dir @ CHR ''/'' # name) = split_slash dir @ [name]"
proof -
  assume n: "CHR ''/'' \<notin> set name"
  have name: "split_slash name = [name]" using n by (induction name) auto
  have "split_slash dir \<noteq> []" for dir by (induction dir) (auto split: list.split)
  then show ?thesis using name by (induction dir) (auto split: list.split)
qed

lemma join_slash_snoc: "join_slash (es @ [e]) = (if es = [] then e else join_slash es @ ''/'' @ e)"
  by (induction es rule: join_slash.induct) auto

lemma Join_name:
  assumes "dir \<noteq> []"
  obtains prefix where "\<And>n. n \<noteq> [] \<Longrightarrow> n \<noteq> ''.'' \<Longrightarrow> n \<noteq> ''..'' \<Longrightarrow> CHR ''/'' \<notin> set n \<Longrightarrow> Join dir n = prefix @ n"
proof -
  let ?r = "hd dir = CHR ''/''"
  let ?es = "rev (foldl (clean_step ?r) [] (split_slash dir))"
  define prefix where "prefix = (if ?r then ''/'' else []) @ (if ?es = [] then [] else join_slash ?es @ ''/'')"
  have "Join dir n = prefix @ n" if "n \<noteq> []" "n \<noteq> ''.''" "n \<noteq> ''..''" "CHR ''/'' \<notin> set n" for n
    using assms that by (simp add: Join_def Clean_def split_slash_snoc join_slash_snoc prefix_def Let_def)
  then show thesis by (rule that)
qed

lemma certPaths_distinct:
  assumes "dir \<noteq> []"
  shows "distinct [caCrt (certPaths dir), caKey (certPaths dir), tlsCrt (certPaths dir), tlsKey (certPaths dir)]"
proof -
  from Join_name [OF assms] obtain prefix where
    "\<And>n. n \<noteq> [] \<Longrightarrow> n \<noteq> ''.'' \<Longrightarrow> n \<noteq> ''..'' \<Longrightarrow> CHR ''/'' \<notin> set n \<Longrightarrow> Join dir n = prefix @ n" by blast
  then show ?thesis by (simp add: certPaths_def)
qed

subsection \<open>Making certificates touches no file\<close>

definition keeps_files :: "('z process, 'a) io \<Rightarrow> bool" where
  "keeps_files m \<longleftrightarrow> (\<forall>w. ps_files (snd (m w)) = ps_files w)"

lemma keeps_files_rules:
  "keeps_files m \<Longrightarrow> (\<And>x. keeps_files (f x)) \<Longrightarrow> keeps_files (io_then m f)"
  "keeps_files m \<Longrightarrow> keeps_files (wrap_err msg m)" "keeps_files m \<Longrightarrow> keeps_files (or_fatal msg m)"
  "keeps_files (draw g)" "keeps_files (io_pure r)" "keeps_files (io_return x)"
  by (auto simp: keeps_files_def io_then_def wrap_err_def or_fatal_def draw_def io_pure_def io_return_def
      split: prod.split outcome.split) (metis snd_conv)+

lemma make_certs_keeps_files: "keeps_files (make_certs C validFor dnsSANs)"
  unfolding make_certs_def serial_def Now_def Let_def by (intro keeps_files_rules)

subsection \<open>Writing the files\<close>

text \<open>The file that a successful write leaves, given the files before.\<close>

definition written_file :: "env \<Rightarrow> (string \<rightharpoonup> file_entry) \<Rightarrow> string \<Rightarrow> string \<Rightarrow> mode \<Rightarrow> file_entry" where
  "written_file E files path data mode =
     \<lparr>f_data = data, f_mode = (case files path of None \<Rightarrow> mode AND NOT (e_umask E) | Some f \<Rightarrow> f_mode f)\<rparr>"

lemma file_data_update: "f\<lparr>f_data := d\<rparr> = \<lparr>f_data = d, f_mode = f_mode f\<rparr>"
  by (cases f) simp

lemma writePEM_Ok:
  "writePEM E C path ty bytes mode w = (Ok u, w') \<longleftrightarrow>
     e_fails E (SOpen path) = None \<and> e_fails E (SWrite path) = None
     \<and> w' = w\<lparr>ps_files := (ps_files w)(path \<mapsto> written_file E (ps_files w) path (cr_PEM C ty bytes) mode)\<rparr>"
  by (auto simp: writePEM_def io_then_Ok wrap_err_Ok OpenFile_trunc_def write_file_def io_return_def written_file_def
      file_data_update Let_def split: option.splits)

lemma writePEM_write_fails:
  assumes "e_fails E (SOpen path) = None" "e_fails E (SWrite path) = Some e"
  shows "writePEM E C path ty bytes mode w = (Err (ErrorfWrap (''write '' @ path @ '': %w'') e),
    w\<lparr>ps_files := (ps_files w)(path \<mapsto> written_file E (ps_files w) path (take (e_written E path) (cr_PEM C ty bytes)) mode)\<rparr>)"
  using assms by (auto simp: writePEM_def io_then_def wrap_err_def OpenFile_trunc_def write_file_def written_file_def
      file_data_update Let_def split: option.splits)

lemma writeECKeyPEM_Ok:
  "writeECKeyPEM E C path key w = (Ok u, w') \<longleftrightarrow>
     (\<exists>der. cr_MarshalECPrivateKey C key = Ok der \<and> writePEM E C path ''EC PRIVATE KEY'' der mode_600 w = (Ok u, w'))"
  by (auto simp: writeECKeyPEM_def io_then_Ok wrap_err_Ok io_pure_def)

text \<open>The files after all four were written.\<close>

definition cert_files ::
    "env \<Rightarrow> ('z, 'k, 'p) crypto \<Rightarrow> certFiles \<Rightarrow> (string \<rightharpoonup> file_entry) \<Rightarrow> string \<Rightarrow> string \<Rightarrow> string \<Rightarrow> string
       \<Rightarrow> (string \<rightharpoonup> file_entry)" where
  "cert_files E C p files ca_der ca_key_der leaf_der leaf_key_der =
     files(caCrt p \<mapsto> written_file E files (caCrt p) (cr_PEM C ''CERTIFICATE'' ca_der) mode_644,
           caKey p \<mapsto> written_file E files (caKey p) (cr_PEM C ''EC PRIVATE KEY'' ca_key_der) mode_600,
           tlsCrt p \<mapsto> written_file E files (tlsCrt p) (cr_PEM C ''CERTIFICATE'' leaf_der) mode_644,
           tlsKey p \<mapsto> written_file E files (tlsKey p) (cr_PEM C ''EC PRIVATE KEY'' leaf_key_der) mode_600)"

lemma written_file_other: "path' \<noteq> path \<Longrightarrow> written_file E (files(path' \<mapsto> f)) path d m = written_file E files path d m"
  by (simp add: written_file_def)

lemma write_certs_Ok:
  assumes d: "distinct [caCrt p, caKey p, tlsCrt p, tlsKey p]"
  shows "write_certs E C p (caDER, caK, leafDER, leafK) w = (Ok u, w') \<longleftrightarrow>
    (\<forall>path \<in> {caCrt p, caKey p, tlsCrt p, tlsKey p}. e_fails E (SOpen path) = None \<and> e_fails E (SWrite path) = None)
    \<and> (\<exists>a b. cr_MarshalECPrivateKey C caK = Ok a \<and> cr_MarshalECPrivateKey C leafK = Ok b
        \<and> w' = w\<lparr>ps_files := cert_files E C p (ps_files w) caDER a leafDER b\<rparr>)"
  using d by (auto simp: write_certs_def io_then_Ok writeCertPEM_def writePEM_Ok writeECKeyPEM_Ok cert_files_def
      written_file_other)

lemma write_certs_last_fails:
  assumes d: "distinct [caCrt p, caKey p, tlsCrt p, tlsKey p]"
    and E: "\<And>c. c \<noteq> SWrite (tlsKey p) \<Longrightarrow> e_fails E c = None" "e_fails E (SWrite (tlsKey p)) = Some e"
    and keys: "cr_MarshalECPrivateKey C caK = Ok a" "cr_MarshalECPrivateKey C leafK = Ok b"
  shows "\<exists>w'. write_certs E C p (caDER, caK, leafDER, leafK) w = (Err (ErrorfWrap (''write '' @ tlsKey p @ '': %w'') e), w')
    \<and> {caCrt p, caKey p, tlsCrt p, tlsKey p} \<subseteq> dom (ps_files w')
    \<and> f_data (the (ps_files w' (tlsKey p))) = take (e_written E (tlsKey p)) (cr_PEM C ''EC PRIVATE KEY'' b)"
proof -
  have ok: "writePEM E C path ty bytes mode w = (Ok (), w\<lparr>ps_files := (ps_files w)
      (path \<mapsto> written_file E (ps_files w) path (cr_PEM C ty bytes) mode)\<rparr>)" if "path \<noteq> tlsKey p" for path ty bytes mode w
    using that E(1) by (subst writePEM_Ok) auto
  have bad: "writePEM E C (tlsKey p) ty bytes mode w = (Err (ErrorfWrap (''write '' @ tlsKey p @ '': %w'') e), w\<lparr>ps_files := (ps_files w)
      (tlsKey p \<mapsto> written_file E (ps_files w) (tlsKey p) (take (e_written E (tlsKey p)) (cr_PEM C ty bytes)) mode)\<rparr>)"
    for ty bytes mode w using writePEM_write_fails [OF _ E(2)] E(1) by simp
  show ?thesis
    using d keys
    by (auto simp: write_certs_def writeCertPEM_def writeECKeyPEM_def io_then_def wrap_err_def io_pure_def ok bad
        written_file_def)
qed

lemma gen_main_cases:
  assumes "outDir \<noteq> []" "e_fails E (SMkdirAll outDir) = None"
  shows "gen_main E C outDir validFor sanFlags w =
    (if allExist E (certPaths outDir) w then (Ok (), w)
     else or_fatal ''generate: %v'' (generate E C (certPaths outDir) validFor (fold stringSlice_Set sanFlags default_SANs)) w)"
  using assms by (simp add: gen_main_def io_then_def or_fatal_def MkdirAll_def io_return_def Let_def)

lemma fold_Set: "fold stringSlice_Set flags s = s @ flags"
  by (induction flags arbitrary: s) (simp_all add: stringSlice_Set_def)

lemma allExist_iff:
  "allExist E p w \<longleftrightarrow> (\<forall>path \<in> {caCrt p, caKey p, tlsCrt p, tlsKey p}. e_fails E (SStat path) = None \<and> path \<in> dom (ps_files w))"
  by (auto simp: allExist_def Stat_ok_def)

lemma or_fatal_Ok: "or_fatal msg m w = (Ok y, w') \<longleftrightarrow> m w = (Ok y, w')"
  by (auto simp: or_fatal_def split: prod.split elim!: fatal.elims)

lemma gen_main_Ok:
  assumes "gen_main E C outDir validFor sanFlags w = (Ok u, w')"
  shows "outDir \<noteq> [] \<and> e_fails E (SMkdirAll outDir) = None"
  using assms by (auto simp: gen_main_def io_then_Ok or_fatal_Ok MkdirAll_def io_pure_def Let_def split: if_splits option.splits)



text \<open>Nothing but a fault of the environment makes \<open>mkdir\<close> or \<open>stat\<close> fail.\<close>

definition quiet :: "env \<Rightarrow> bool" where
  "quiet E \<longleftrightarrow> (\<forall>path. e_fails E (SMkdirAll path) = None \<and> e_fails E (SStat path) = None)"

subsection \<open>Properties\<close>


text \<open>A sample: keys and serial numbers count up, a certificate is its common name.\<close>

definition sample_crypto :: "(nat, nat, nat) crypto" where
  "sample_crypto =
     \<lparr>cr_GenerateKey = (\<lambda>z. (Ok z, Suc z)), cr_PublicKey = id, cr_Int = (\<lambda>max z. (Ok (int z), Suc z)),
      cr_Now = (\<lambda>z. (0, z)), cr_CreateCertificate = (\<lambda>t parent pub key z. (Ok (ct_CommonName t), z)),
      cr_ParseCertificate = (\<lambda>der. Ok (ca_template 0 0 0)), cr_MarshalECPrivateKey = (\<lambda>k. Ok (replicate k CHR ''k'')),
      cr_PEM = (\<lambda>ty d. ty @ d)\<rparr>"

definition calm :: env where
  "calm = \<lparr>e_fails = (\<lambda>_. None), e_written = (\<lambda>_. 0), e_umask = 18\<rparr>"

definition empty_disk :: "nat process" where
  "empty_disk = \<lparr>ps_files = Map.empty, ps_random = 1\<rparr>"

lemma sample_make:
  "make_certs sample_crypto v (default_SANs @ sans) empty_disk
     = (Ok (''simple-apiserver-e2e-ca'', 1, ''simple-apiserver'', 3), empty_disk\<lparr>ps_random := 5\<rparr>)"
  by (simp add: make_certs_def serial_def Now_def Let_def io_then_def wrap_err_def or_fatal_def draw_def io_pure_def
      io_return_def sample_crypto_def empty_disk_def default_SANs_def ca_template_def leaf_template_def)

lemma sample_not_all: "\<not> allExist E p empty_disk"
  by (simp add: allExist_def Stat_ok_def empty_disk_def)

lemma sample_run:
  "\<exists>w'. gen_main calm sample_crypto ''certs'' v sans empty_disk = (Ok (), w')"
proof -
  let ?p = "certPaths ''certs''"
  have d: "distinct [caCrt ?p, caKey ?p, tlsCrt ?p, tlsKey ?p]" by (rule certPaths_distinct) simp
  have "write_certs calm sample_crypto ?p (''simple-apiserver-e2e-ca'', 1, ''simple-apiserver'', 3) (empty_disk\<lparr>ps_random := 5\<rparr>)
      = (Ok (), empty_disk\<lparr>ps_random := 5, ps_files := cert_files calm sample_crypto ?p (ps_files empty_disk)
          ''simple-apiserver-e2e-ca'' ''k'' ''simple-apiserver'' ''kkk''\<rparr>)"
    unfolding write_certs_Ok [OF d] by (auto simp: calm_def sample_crypto_def numeral_3_eq_3)
  then show ?thesis
    using gen_main_cases [of "''certs''" calm sample_crypto v sans empty_disk] sample_not_all sample_make [of v sans]
    by (simp add: generate_def io_then_def fold_Set or_fatal_def calm_def)
qed


text \<open>C37. Running the tool again changes nothing: after a successful run, a second run in the same
  directory, with any flags and any source of randomness, succeeds and leaves every file as
  it is, so certificates that are in use are not invalidated.\<close>

theorem gen_certs_idempotent:
  assumes "gen_main E C outDir validFor sanFlags w = (Ok (), w')" "quiet E'"
  shows "gen_main E' C' outDir validFor' sanFlags' w' = (Ok (), w')"
proof -
  let ?p = "certPaths outDir"
  have dir: "outDir \<noteq> []" "e_fails E (SMkdirAll outDir) = None" using gen_main_Ok [OF assms(1)] by auto
  have d: "distinct [caCrt ?p, caKey ?p, tlsCrt ?p, tlsKey ?p]" by (rule certPaths_distinct [OF dir(1)])
  have "{caCrt ?p, caKey ?p, tlsCrt ?p, tlsKey ?p} \<subseteq> dom (ps_files w')"
  proof (cases "allExist E ?p w")
    case True
    then show ?thesis using assms(1) by (auto simp: gen_main_cases [OF dir] allExist_iff)
  next
    case False
    with assms(1) obtain caDER caK leafDER leafK w1 where
      "write_certs E C ?p (caDER, caK, leafDER, leafK) w1 = (Ok (), w')"
      by (auto simp: gen_main_cases [OF dir] or_fatal_Ok generate_def io_then_Ok)
    then show ?thesis unfolding write_certs_Ok [OF d] by (auto simp: cert_files_def)
  qed
  then show ?thesis
    using assms(2) by (subst gen_main_cases [OF dir(1)]) (auto simp: quiet_def allExist_iff)
qed

theorem gen_certs_idempotent_witness:
  "\<exists>w'. gen_main calm sample_crypto ''certs'' 0 [] empty_disk = (Ok (), w')
     \<and> gen_main calm sample_crypto ''certs'' 99 [''other''] w' = (Ok (), w')"
proof -
  obtain w' where r: "gen_main calm sample_crypto ''certs'' 0 [] empty_disk = (Ok (), w')" using sample_run by blast
  have "quiet calm" by (simp add: quiet_def calm_def)
  from gen_certs_idempotent [OF r this] r show ?thesis by blast
qed

text \<open>C19. A run that fails can pass for one that succeeded. If everything works but the last write, of
  the serving key, the tool reports an error and leaves a file with a part of the key; every
  run after that finds four files, succeeds and does nothing, so the broken key stays.\<close>

theorem gen_certs_failure_sticks:
  assumes "outDir \<noteq> []" "p = certPaths outDir" "\<not> allExist E p w"
    and "\<And>c. c \<noteq> SWrite (tlsKey p) \<Longrightarrow> e_fails E c = None" "e_fails E (SWrite (tlsKey p)) = Some e"
    and "make_certs C validFor (default_SANs @ sanFlags) w = (Ok (caDER, caK, leafDER, leafK), w1)"
    and "cr_MarshalECPrivateKey C caK = Ok a" "cr_MarshalECPrivateKey C leafK = Ok b"
  shows "\<exists>w'. gen_main E C outDir validFor sanFlags w = (Panic ''generate: %v'', w')
    \<and> f_data (the (ps_files w' (tlsKey p))) = take (e_written E (tlsKey p)) (cr_PEM C ''EC PRIVATE KEY'' b)
    \<and> (\<forall>E' C' validFor' sanFlags'. quiet E' \<longrightarrow> gen_main E' C' outDir validFor' sanFlags' w' = (Ok (), w'))"
proof -
  have d: "distinct [caCrt p, caKey p, tlsCrt p, tlsKey p]" unfolding assms(2) by (rule certPaths_distinct [OF assms(1)])
  obtain w' where w': "write_certs E C p (caDER, caK, leafDER, leafK) w1 = (Err (ErrorfWrap (''write '' @ tlsKey p @ '': %w'') e), w')"
    "{caCrt p, caKey p, tlsCrt p, tlsKey p} \<subseteq> dom (ps_files w')"
    "f_data (the (ps_files w' (tlsKey p))) = take (e_written E (tlsKey p)) (cr_PEM C ''EC PRIVATE KEY'' b)"
    using write_certs_last_fails [OF d assms(4,5,7,8)] by blast
  have "e_fails E (SMkdirAll outDir) = None" using assms(4) by simp
  then have "gen_main E C outDir validFor sanFlags w = (Panic ''generate: %v'', w')"
    using assms(3) by (simp add: gen_main_cases [OF assms(1)] fold_Set or_fatal_def generate_def io_then_def assms(6) w'(1)
        flip: assms(2))
  moreover have "gen_main E' C' outDir validFor' sanFlags' w' = (Ok (), w')" if "quiet E'" for E' C' validFor' sanFlags'
    using that w'(2) by (subst gen_main_cases [OF assms(1)]) (auto simp: quiet_def allExist_iff assms(2))
  ultimately show ?thesis using w'(3) by blast
qed

definition full_disk :: env where
  "full_disk = calm\<lparr>e_fails := (\<lambda>c. if c = SWrite (tlsKey (certPaths ''certs'')) then Some NotAnObject else None)\<rparr>"

theorem gen_certs_failure_sticks_witness:
  "\<exists>w'. gen_main full_disk sample_crypto ''certs'' 0 [] empty_disk = (Panic ''generate: %v'', w')
     \<and> f_data (the (ps_files w' (tlsKey (certPaths ''certs'')))) = []
     \<and> gen_main calm sample_crypto ''certs'' 0 [] w' = (Ok (), w')"
proof -
  have "''certs'' \<noteq> []" by simp
  have E: "c \<noteq> SWrite (tlsKey (certPaths ''certs'')) \<Longrightarrow> e_fails full_disk c = None"
    "e_fails full_disk (SWrite (tlsKey (certPaths ''certs''))) = Some NotAnObject"
    "e_written full_disk x = 0" for c x by (simp_all add: full_disk_def calm_def)
  have k: "cr_MarshalECPrivateKey sample_crypto 1 = Ok ''k''" "cr_MarshalECPrivateKey sample_crypto 3 = Ok ''kkk''"
    by (simp_all add: sample_crypto_def numeral_3_eq_3)
  have q: "quiet calm" by (simp add: quiet_def calm_def)
  from gen_certs_failure_sticks [OF \<open>''certs'' \<noteq> []\<close> refl sample_not_all E(1,2) sample_make k, of 0 "[]"] q
  show ?thesis unfolding E(3) take_0 by blast
qed

end
