(* ===== verification/Spec2Isabelle.thy ===== *)
theory Spec2Isabelle
  imports Snapshots HeapProperties JsonProperties CommandProperties GenCerts
begin

text \<open>
  A model of \<open>simple-api-server\<close>, an aggregated Kubernetes API server that serves the resource
  \<open>tasks.example.com/v1alpha1\<close> Task from memory, and the proofs that it does what it promises.
  All paths are below \<open>src/\<close>.

  \<^bold>\<open>The program.\<close> A request for a task arrives, through the generic server of
  \<open>k8s.io/apiserver\<close>, at one of two REST surfaces: the main resource (\<open>REST\<close>) or its status
  (\<open>StatusREST\<close>), both in \<open>pkg/registry/tasks/task/storage.go\<close>. A surface finds the key of the
  task from the request's context, has the library shape and check the object by means of a
  strategy (\<open>strategy.go\<close>), and reads and writes a store (\<open>pkg/storage/inmemory/store.go\<close>): a map
  under a lock, with a 64-bit counter of writes whose value each write stamps on the object as
  its resource version. The store copies objects on the way in and out with generated code
  (\<open>zz_generated.deepcopy.go\<close>). \<open>pkg/apiserver\<close> registers the types and puts both surfaces over
  one store; \<open>cmd/simple-apiserver\<close> turns flags into a configuration and runs the server.
  \<open>pkg/generated/openapi\<close> describes the types to clients, and \<open>hack/gen-certs\<close> is a tool that
  makes the serving certificates.

  \<^bold>\<open>Conventions.\<close> A Go function that returns an error is a function to \<open>outcome\<close> with
  \<open>Ok\<close>, \<open>Err\<close> and \<open>Panic\<close>. A slice is an optional list, \<open>None\<close> being nil. \<open>int64\<close> and
  \<open>uint64\<close> are 64-bit words. A hook that mutates its argument returns it. An interface value is
  a record of its methods. Code that is not in the repository is a parameter: a field of the
  records \<open>k8s\<close>, \<open>validators\<close>, \<open>meta_lib\<close>, \<open>oa_lib\<close>, \<open>json_lib\<close>, \<open>json_dec\<close>, \<open>scheme_lib\<close>,
  \<open>server_lib\<close>, \<open>options_lib\<close>, \<open>env\<close> and \<open>crypto\<close>. Where a property needs to know what such code does, it has
  a named hypothesis (\<open>library_contract\<close>, \<open>meta_lib_ok\<close>, \<open>oa_lib_ok\<close>, \<open>json_lib_ok\<close>, \<open>json_codec_ok\<close>), and
  a sample library for which the hypothesis is proved (\<open>plain_k8s\<close>, \<open>sample_lib\<close>,
  \<open>sample_oa_lib\<close>, \<open>sample_json\<close>, \<open>wire_json\<close> with \<open>wire_dec\<close>).

  \<^bold>\<open>The theories and what they model.\<close>
  \<^item> \<open>Prelude\<close>: words, slices, maps, outcomes, lemma collections. \<open>MetaTypes\<close>: the fields of the
    library's metadata and error types that the code uses. \<open>TaskTypes\<close>: \<open>types.go\<close> and the names
    of \<open>register.go\<close>. \<open>Strconv\<close>: \<open>helpers.go\<close> and the two functions of \<open>strconv\<close> below it.
  \<^item> \<open>Store\<close>: every method of \<open>store.go\<close>, over objects as values. \<open>Versioned\<close>: the interface
    \<open>versioned_store\<close>, what the users of a store rely on. \<open>StoreSpec\<close>: the store as an event log,
    and the proof that it refines that.
  \<^item> \<open>Strategy\<close>: all of \<open>strategy.go\<close>, with the locale \<open>task_update_strategy\<close> for what the two
    update strategies have in common.
  \<^item> \<open>Registry\<close>: all of \<open>storage.go\<close>. A handler is a program over the store (\<open>prog\<close>), whose nodes
    are store calls. \<open>LibraryContract\<close>: what \<open>rest.BeforeCreate\<close>, \<open>BeforeUpdate\<close> and
    \<open>FillObjectMetaSystemFields\<close> promise. \<open>Handlers\<close>, \<open>RestProperties\<close>: what each handler does
    when it runs alone.
  \<^item> \<open>Guarantee\<close>, \<open>Requests\<close>, \<open>Concurrency\<close>, \<open>Liveness\<close>: many requests, one after the other and
    interleaved at their store calls. The locale \<open>object_invariant\<close> carries an invariant from
    the handlers' texts to all runs. \<open>Serializability\<close>: which requests are served as if one after
    the other, by a simulation, and that a list beside a create is not. \<open>Acknowledged\<close>: what an
    answer is worth afterwards, by a ledger of the acknowledged writes. \<open>Snapshots\<close>: what a list
    shows of a store that others write.
  \<^item> \<open>GoHeap\<close>, \<open>DeepCopy\<close>, \<open>StoreHeap\<close>, \<open>StoreAlias\<close>, \<open>HeapProperties\<close>: objects in memory, the
    generated copy functions, the store on pointers, and clients that write to everything they
    can reach. The locales \<open>heap_value\<close> and \<open>deep_copier\<close> say what a copy function is.
  \<^item> \<open>Schema\<close>, \<open>OpenApiTexts\<close>, \<open>OpenApiDefinitions\<close>, \<open>OpenApiProperties\<close>: JSON, schemas and what it
    is to conform to one, the 61 definitions of \<open>zz_generated.openapi.go\<close> with their description
    texts. \<open>TaskJson\<close>, \<open>JsonProperties\<close>: encoding and decoding of the types of \<open>types.go\<close> by their
    field tags.
  \<^item> \<open>ApiServer\<close>: \<open>apiserver.go\<close>, \<open>install.go\<close> and the registration of \<open>register.go\<close>.
    \<open>Effects\<close>, \<open>Options\<close>, \<open>CommandProperties\<close>: \<open>server.go\<close> and \<open>main.go\<close>. \<open>GenCerts\<close>: \<open>hack/gen-certs/main.go\<close>.

  \<^bold>\<open>What is shown.\<close>
  \<^item> The store: it refines the event log; a version names one write; its deep copies isolate it from
    every client; the counter wraps at \<open>2 ^ 64\<close>.
  \<^item> Each handler alone: which requests succeed, what a success writes and that it writes
    nothing else, which error a failure answers, that failures and panics change nothing.
  \<^item> All requests: stored objects are well-formed tasks at their own keys, with observed generation
    at most generation at most version, in every sequence and in every interleaving; serving ends,
    with every request answered; creates do not overwrite each other. An acknowledged write keeps its
    place until a newer one of its key or a delete comes. Requests that do not write what another
    one updates or deletes are served as in some order. A list shows the store of one moment.
  \<^item> What concurrency breaks: an update can be lost, and a delete can remove an object that does not
    meet its preconditions, since check and write are separate critical sections; and an empty list can
    carry the version of a create that it does not show, since it asks for its version later.
  \<^item> What the options of a write do not do: dry run, finalizers and delete options other than
    preconditions hold nothing back, every acknowledged write takes effect; \<open>forceAllowCreate\<close>
    creates, also through the status surface.
  \<^item> The document is closed and well formed; a task as served conforms to it as far as its metadata
    and its conditions do, which the library encodes (a zero time is null there, and does not), and
    every list the handler answers with conforms if its tasks do; a task that a client fetched and
    sends back is taken for the same task.
  \<^item> The server has one store behind both surfaces; a run of the command is a sequence of stages that
    stops at the first error; the permissive authorizer comes in by the mode \<open>AlwaysAllow\<close> only, and
    without it the server has the authorizer that the delegating options made.
  \<^item> The certificate tool: the keys, certificates and files a run leaves, that it is idempotent, and
    that a failed write of the last file is never repaired.

  \<^bold>\<open>Bounds.\<close> Generations are \<open>int64\<close> and grow at most by one with a write, so the invariant of the API
  is stated for fewer than \<open>2 ^ 63 - 1\<close> requests (\<open>request_bound\<close>); versions stay distinct for
  \<open>2 ^ 64 - 1\<close> writes (\<open>max_rv\<close>). A handler makes at most two store calls. References between
  schemas may be cyclic, so \<open>conforms\<close> has fuel; beyond the fuel that the library's own types
  need, 6 is enough for a Task and 9 for a TaskList, the depth of their schemas. All other
  functions are total without fuel.

  \<^bold>\<open>Not modelled.\<close> The HTTP layer, authentication and the routing of requests are the library's, and so
  is the JSON form of the types it defines. JSON is modelled as values, not as characters. Data races
  inside a store method are excluded by its lock; the model takes a method as one step. Contexts
  carry a namespace and nothing else; cancellation is not looked at by this code. Stored objects in
  memory are Tasks, whereas over values they are any object. The file system of the certificate
  tool has no directories, permissions to check or links. Tests, scripts, manifests and package
  comments are not part of the program.

  \<^bold>\<open>Extensions in view.\<close> The handlers over the store on pointers, so that what a request makes of the
  objects it reads is seen together with their sharing; what server-side apply makes of
  \<open>updateOnStore\<close> with a managed base object.
\<close>

end
